(* ===== verification/Domux_Prelude.thy ===== *)
theory Domux_Prelude
  imports
    Main
    "HOL-Library.AList"
    "HOL-Library.Char_ord"
    "HOL-Library.List_Lexorder"
    "HOL-Library.Product_Lexorder"
    "HOL-Library.Multiset"
    "HOL-Library.Sublist"
begin

text \<open>
  What every component of the development shares: Go errors as values, Go maps as
  association lists, \<open>sort.Slice\<close>, and the collections of rewrite rules.

  A Go map is modelled together with one iteration order, as an association list with
  distinct keys (\<open>gm_ok\<close>). \<open>range\<close> visits the entries in list order. Go leaves the
  order open, so a theorem about a listing is stated for every list that represents the
  map. \<open>sort.Slice\<close> is not stable in general; the model uses the stable sort, which
  \<open>is_sort_of_unique\<close> shows to be the only possible outcome when the keys differ.
\<close>

named_theorems go_simps \<open>equations that evaluate the Go string and map primitives\<close>
named_theorems store_simps \<open>effect of a store operation on each table of the store\<close>

section \<open>Errors\<close>

text \<open>
  \<open>Errorf fmt args\<close> is \<open>fmt.Errorf\<close> or \<open>errors.New\<close>: the format with its
  arguments kept apart, \<open>Wrapf\<close> is \<open>fmt.Errorf\<close> with a final \<open>%w\<close>, \<open>ErrJoin\<close> is
  \<open>errors.Join\<close>. \<open>ErrNotExist\<close>, \<open>ErrCanceled\<close> are the sentinels the code tests with
  \<open>errors.Is\<close>, and \<open>ErrIO\<close> is any other failure of the operating system or network.
\<close>

datatype go_error =
    Errorf string "string list"
  | Wrapf string "string list" go_error
  | ErrJoin "go_error list"
  | RequestError go_error
  | ConflictError string "string list"
  | NotFoundError string "string list"
  | ValidationError go_error
  | ErrNotExist
  | ErrCanceled
  | ErrIO string

type_synonym 'a result = "go_error + 'a"

definition errors_Join :: "go_error list \<Rightarrow> go_error option" where
  "errors_Join es = (if es = [] then None else Some (ErrJoin es))"

text \<open>\<open>errors.Join\<close> on a list of possibly nil errors drops the nil ones.\<close>

definition errors_Join_opt :: "go_error option list \<Rightarrow> go_error option" where
  "errors_Join_opt es = errors_Join (List.map_filter id es)"

definition opt_to_list :: "'a option \<Rightarrow> 'a list" where
  "opt_to_list x = (case x of None \<Rightarrow> [] | Some y \<Rightarrow> [y])"

lemma opt_to_list_simps [simp]:
  "opt_to_list None = []" "opt_to_list (Some x) = [x]"
  by (simp_all add: opt_to_list_def)

lemma opt_to_list_Nil [simp]: "opt_to_list x = [] \<longleftrightarrow> x = None"
  by (cases x) simp_all

lemma errors_Join_None [simp]: "errors_Join es = None \<longleftrightarrow> es = []"
  by (simp add: errors_Join_def)

lemma errors_Join_Nil [simp]: "errors_Join [] = None"
  by (simp add: errors_Join_def)

lemma errors_Join_opt_None: "errors_Join_opt es = None \<longleftrightarrow> (\<forall>e \<in> set es. e = None)"
proof -
  have "List.map_filter id es = [] \<longleftrightarrow> (\<forall>e \<in> set es. e = None)"
    by (induction es) (auto simp: List.map_filter_simps split: option.splits)
  then show ?thesis by (simp add: errors_Join_opt_def)
qed

text \<open>
  \<open>errors.Is\<close> and \<open>errors.As\<close> look through every wrapping; \<open>RequestError\<close> keeps only the text of the
  error it was made from and wraps nothing.
\<close>

fun errors_Is :: "go_error \<Rightarrow> go_error \<Rightarrow> bool" where
  "errors_Is (Wrapf f a e) t \<longleftrightarrow> Wrapf f a e = t \<or> errors_Is e t"
| "errors_Is (ValidationError e) t \<longleftrightarrow> ValidationError e = t \<or> errors_Is e t"
| "errors_Is (ErrJoin es) t \<longleftrightarrow> ErrJoin es = t \<or> list_ex (\<lambda>e. errors_Is e t) es"
| "errors_Is e t \<longleftrightarrow> e = t"

fun errors_As :: "(go_error \<Rightarrow> bool) \<Rightarrow> go_error \<Rightarrow> go_error option" where
  "errors_As P (Wrapf f a e) = (if P (Wrapf f a e) then Some (Wrapf f a e) else errors_As P e)"
| "errors_As P (ValidationError e) = (if P (ValidationError e) then Some (ValidationError e) else errors_As P e)"
| "errors_As P (ErrJoin es) =
     (if P (ErrJoin es) then Some (ErrJoin es)
      else (case concat (map (\<lambda>e. opt_to_list (errors_As P e)) es) of [] \<Rightarrow> None | e # _ \<Rightarrow> Some e))"
| "errors_As P e = (if P e then Some e else None)"

section \<open>Go maps\<close>

type_synonym 'v gomap = "(string \<times> 'v) list"

abbreviation gm_get :: "'v gomap \<Rightarrow> string \<Rightarrow> 'v option" where
  "gm_get m k \<equiv> map_of m k"

abbreviation gm_put :: "string \<Rightarrow> 'v \<Rightarrow> 'v gomap \<Rightarrow> 'v gomap" where
  "gm_put k v m \<equiv> AList.update k v m"

abbreviation gm_del :: "string \<Rightarrow> 'v gomap \<Rightarrow> 'v gomap" where
  "gm_del k m \<equiv> AList.delete k m"

definition gm_values :: "'v gomap \<Rightarrow> 'v list" where
  "gm_values m = map snd m"

definition gm_ok :: "'v gomap \<Rightarrow> bool" where
  "gm_ok m \<longleftrightarrow> distinct (map fst m)"

text \<open>A read of an absent key of a \<open>map[string]string\<close> is the empty string.\<close>

definition gm_str :: "string gomap \<Rightarrow> string \<Rightarrow> string" where
  "gm_str m k = (case gm_get m k of None \<Rightarrow> [] | Some v \<Rightarrow> v)"

lemma gm_ok_Nil [simp]: "gm_ok []"
  by (simp add: gm_ok_def)

lemma gm_ok_put [simp]: "gm_ok m \<Longrightarrow> gm_ok (gm_put k v m)"
  by (simp add: gm_ok_def distinct_update)

lemma gm_ok_del [simp]: "gm_ok m \<Longrightarrow> gm_ok (gm_del k m)"
  by (simp add: gm_ok_def distinct_delete)

lemma gm_get_put [simp]: "gm_get (gm_put k v m) k' = (if k' = k then Some v else gm_get m k')"
  by (simp add: update_conv')

lemma gm_get_del [simp]: "gm_get (gm_del k m) k' = (if k' = k then None else gm_get m k')"
  by (simp add: delete_conv')

lemma gm_get_Some_iff: "gm_ok m \<Longrightarrow> gm_get m k = Some v \<longleftrightarrow> (k, v) \<in> set m"
  by (simp add: gm_ok_def)

lemma in_gm_values: "gm_ok m \<Longrightarrow> v \<in> set (gm_values m) \<longleftrightarrow> (\<exists>k. gm_get m k = Some v)"
  by (force simp: gm_values_def gm_ok_def)

text \<open>Two lists represent the same map when they are permutations of each other.\<close>

lemma gm_same_map_mset:
  assumes "gm_ok m" and "gm_ok m'" and "gm_get m = gm_get m'"
  shows "mset m = mset m'"
proof -
  have "set m = set m'" using assms by (auto simp: gm_get_Some_iff [symmetric])
  moreover have "distinct m" and "distinct m'"
    using assms(1,2) by (simp_all add: gm_ok_def distinct_map)
  ultimately show ?thesis by (simp add: set_eq_iff_mset_eq_distinct)
qed

lemma gm_values_same_map:
  "gm_ok m \<Longrightarrow> gm_ok m' \<Longrightarrow> gm_get m = gm_get m' \<Longrightarrow> mset (gm_values m) = mset (gm_values m')"
  using gm_same_map_mset [of m m'] by (simp add: gm_values_def del: mset_map) (metis mset_map)

text \<open>Entries of a table whose keys are computed from the values.\<close>

definition gm_keyed :: "('v \<Rightarrow> string) \<Rightarrow> 'v gomap \<Rightarrow> bool" where
  "gm_keyed key m \<longleftrightarrow> gm_ok m \<and> list_all (\<lambda>(k, v). k = key v) m"

lemma gm_keyed_iff:
  "gm_keyed key m \<longleftrightarrow> gm_ok m \<and> (\<forall>k v. gm_get m k = Some v \<longrightarrow> k = key v)"
  by (auto simp: gm_keyed_def gm_get_Some_iff list_all_iff)

lemma gm_keyed_ok [simp]: "gm_keyed key m \<Longrightarrow> gm_ok m"
  by (simp add: gm_keyed_def)

lemma gm_keyed_Nil [simp]: "gm_keyed key []"
  by (simp add: gm_keyed_def)

lemma gm_keyed_put: "gm_keyed key m \<Longrightarrow> k = key v \<Longrightarrow> gm_keyed key (gm_put k v m)"
  by (auto simp: gm_keyed_iff)

lemma gm_keyed_del: "gm_keyed key m \<Longrightarrow> gm_keyed key (gm_del k m)"
  by (auto simp: gm_keyed_iff)

lemma gm_keyed_get: "gm_keyed key m \<Longrightarrow> gm_get m k = Some v \<Longrightarrow> key v = k"
  by (auto simp: gm_keyed_iff)

lemma gm_keyed_values_distinct: "gm_keyed key m \<Longrightarrow> distinct (map key (gm_values m))"
proof -
  assume k: "gm_keyed key m"
  then have "map key (gm_values m) = map fst m"
    by (auto simp: gm_keyed_def gm_values_def list_all_iff)
  with k show ?thesis by (simp only: gm_keyed_def gm_ok_def)
qed

text \<open>\<open>keyedMap\<close> fills an empty map; a later value of the same key replaces an earlier one.\<close>

fun gm_put_all :: "('v \<Rightarrow> string) \<Rightarrow> 'v list \<Rightarrow> 'v gomap \<Rightarrow> 'v gomap" where
  "gm_put_all key [] m = m"
| "gm_put_all key (v # vs) m = gm_put_all key vs (gm_put (key v) v m)"

lemma gm_put_all_keyed: "gm_keyed key m \<Longrightarrow> gm_keyed key (gm_put_all key vs m)"
  by (induction vs arbitrary: m) (simp_all add: gm_keyed_put)

lemma gm_put_all_append: "gm_put_all key (xs @ ys) m = gm_put_all key ys (gm_put_all key xs m)"
  by (induction xs arbitrary: m) simp_all

lemma gm_put_all_get:
  "gm_get (gm_put_all key vs m) k =
     (case find (\<lambda>v. key v = k) (rev vs) of None \<Rightarrow> gm_get m k | Some v \<Rightarrow> Some v)"
  by (induction vs rule: rev_induct) (simp_all add: gm_put_all_append)

lemma find_SomeI_ex: "x \<in> set xs \<Longrightarrow> P x \<Longrightarrow> \<exists>y. find P xs = Some y"
  by (induction xs) auto

lemma find_rev_distinct:
  "distinct (map key vs) \<Longrightarrow> v \<in> set vs \<Longrightarrow> find (\<lambda>u. key u = key v) (rev vs) = Some v"
proof (induction vs rule: rev_induct)
  case (snoc u vs)
  then show ?case by (cases "u = v") (auto simp: image_iff)
qed simp

lemma gm_put_all_get_member:
  "distinct (map key vs) \<Longrightarrow> v \<in> set vs \<Longrightarrow> gm_get (gm_put_all key vs m) (key v) = Some v"
  by (simp add: gm_put_all_get find_rev_distinct)

lemma find_Some_mem: "find P xs = Some x \<Longrightarrow> x \<in> set xs \<and> P x"
  by (induction xs) (auto split: if_splits)

lemma gm_put_all_absent:
  "k \<notin> key ` set vs \<Longrightarrow> gm_get (gm_put_all key vs m) k = gm_get m k"
  by (auto simp: gm_put_all_get split: option.splits dest!: find_Some_mem)

section \<open>Sorting slices\<close>

text \<open>
  \<open>sort.Slice(xs, less)\<close> where \<open>less\<close> compares a key. \<open>is_sort_of\<close> is what Go
  promises: the result is a permutation of the slice in ascending key order.
\<close>

definition sort_slice :: "('a \<Rightarrow> 'k::linorder) \<Rightarrow> 'a list \<Rightarrow> 'a list" where
  "sort_slice key xs = sort_key key xs"

definition is_sort_of :: "('a \<Rightarrow> 'k::linorder) \<Rightarrow> 'a list \<Rightarrow> 'a list \<Rightarrow> bool" where
  "is_sort_of key xs ys \<longleftrightarrow> mset ys = mset xs \<and> sorted (map key ys)"

lemma sort_slice_ok: "is_sort_of key xs (sort_slice key xs)"
  by (simp add: is_sort_of_def sort_slice_def)

lemma set_sort_slice [simp]: "set (sort_slice key xs) = set xs"
  by (simp add: sort_slice_def)

lemma mset_sort_slice [simp]: "mset (sort_slice key xs) = mset xs"
  by (simp add: sort_slice_def)

lemma length_sort_slice [simp]: "length (sort_slice key xs) = length xs"
  by (simp add: sort_slice_def)

lemma sort_slice_Nil [simp]: "sort_slice key [] = []"
  by (simp add: sort_slice_def)

lemma sort_slice_Nil_iff [simp]: "sort_slice key xs = [] \<longleftrightarrow> xs = []"
  by (metis length_0_conv length_sort_slice)

lemma sorted_sort_slice [simp]: "sorted (map key (sort_slice key xs))"
  by (simp add: sort_slice_def)

lemma distinct_sort_slice [simp]: "distinct (map f (sort_slice key xs)) \<longleftrightarrow> distinct (map f xs)"
  using mset_sort_slice [of key xs] by (metis mset_eq_imp_distinct_iff mset_map)

lemma is_sort_of_unique:
  assumes "distinct (map key xs)" and "is_sort_of key xs ys"
  shows "ys = sort_slice key xs"
proof -
  have m: "mset ys = mset (sort_slice key xs)" and s: "sorted (map key ys)"
    using assms(2) by (simp_all add: is_sort_of_def)
  have d: "distinct (map key ys)"
    using assms(1) m by (metis mset_eq_imp_distinct_iff mset_map mset_sort_slice)
  then have "inj_on key (set ys)" by (simp add: distinct_map)
  moreover have "set ys = set (sort_slice key xs)" using m by (rule mset_eq_setD)
  moreover have "map key ys = map key (sort_slice key xs)"
    using m s d sorted_sort_slice [of key xs]
    by (metis mset_map properties_for_sort sorted_sort_id)
  ultimately show ?thesis by (metis map_inj_on Un_absorb)
qed

lemma sort_slice_perm:
  "distinct (map key xs) \<Longrightarrow> mset xs = mset ys \<Longrightarrow> sort_slice key xs = sort_slice key ys"
  by (rule is_sort_of_unique [symmetric]) (simp_all add: is_sort_of_def)

text \<open>Grouping a slice by a key loses and duplicates nothing.\<close>

lemma mset_filter_or:
  "\<forall>x \<in> set xs. \<not> (P x \<and> Q x) \<Longrightarrow>
     mset (filter P xs) + mset (filter Q xs) = mset (filter (\<lambda>x. P x \<or> Q x) xs)"
  by (induction xs) auto

lemma mset_concat_groups:
  assumes "distinct ks"
  shows "mset (concat (map (\<lambda>k. filter (\<lambda>x. f x = k) xs) ks)) = mset (filter (\<lambda>x. f x \<in> set ks) xs)"
  using assms
proof (induction ks)
  case (Cons k ks)
  then have "mset (filter (\<lambda>x. f x = k) xs) + mset (filter (\<lambda>x. f x \<in> set ks) xs)
      = mset (filter (\<lambda>x. f x = k \<or> f x \<in> set ks) xs)"
    by (intro mset_filter_or) auto
  with Cons show ?case by simp
qed simp

text \<open>Loops that append to a slice under a condition.\<close>

lemma map_filter_Nil_iff: "List.map_filter f xs = [] \<longleftrightarrow> (\<forall>x \<in> set xs. f x = None)"
  by (induction xs) (auto simp: List.map_filter_simps split: option.splits)

lemma length_map_filter: "length (List.map_filter f xs) = length (filter (\<lambda>x. f x \<noteq> None) xs)"
  by (induction xs) (auto simp: List.map_filter_simps split: option.splits)

lemma set_map_filter_iff: "y \<in> set (List.map_filter f xs) \<longleftrightarrow> (\<exists>x \<in> set xs. f x = Some y)"
  by (induction xs) (auto simp: List.map_filter_simps split: option.splits)

lemma map_filter_Cons_split:
  "List.map_filter f xs = y # ys \<Longrightarrow>
     \<exists>pre x post. xs = pre @ x # post \<and> f x = Some y \<and> (\<forall>p \<in> set pre. f p = None)"
proof (induction xs)
  case (Cons x xs)
  show ?case
  proof (cases "f x")
    case None
    with Cons obtain pre z post where "xs = pre @ z # post" "f z = Some y" "\<forall>p \<in> set pre. f p = None"
      by (auto simp: List.map_filter_simps)
    with None show ?thesis by (intro exI [of _ "x # pre"] exI [of _ z] exI [of _ post]) simp
  next
    case (Some z)
    with Cons.prems show ?thesis by (intro exI [of _ "[]"] exI [of _ x] exI [of _ xs]) (simp add: List.map_filter_simps)
  qed
qed (simp add: List.map_filter_simps)

section \<open>Searching a slice\<close>

text \<open>The loop \<open>for i, x := range xs { if P(x) { index = i; break } }\<close>.\<close>

fun find_index_from :: "nat \<Rightarrow> ('a \<Rightarrow> bool) \<Rightarrow> 'a list \<Rightarrow> nat option" where
  "find_index_from i P [] = None"
| "find_index_from i P (x # xs) = (if P x then Some i else find_index_from (Suc i) P xs)"

abbreviation find_index :: "('a \<Rightarrow> bool) \<Rightarrow> 'a list \<Rightarrow> nat option" where
  "find_index P xs \<equiv> find_index_from 0 P xs"

definition remove_at :: "nat \<Rightarrow> 'a list \<Rightarrow> 'a list" where
  "remove_at i xs = take i xs @ drop (Suc i) xs"

lemma find_index_from_Some:
  "find_index_from i P xs = Some j \<Longrightarrow>
     i \<le> j \<and> j - i < length xs \<and> P (xs ! (j - i)) \<and> (\<forall>k < j - i. \<not> P (xs ! k))"
proof (induction xs arbitrary: i)
  case (Cons x xs)
  show ?case
  proof (cases "P x")
    case False
    with Cons.prems have "find_index_from (Suc i) P xs = Some j" by simp
    note IH = Cons.IH [OF this]
    then obtain d where "j = Suc i + d" using le_Suc_ex by blast
    with IH False show ?thesis by (auto simp: nth_Cons split: nat.splits)
  qed (use Cons.prems in auto)
qed simp

lemma find_index_Some:
  "find_index P xs = Some j \<Longrightarrow> j < length xs \<and> P (xs ! j) \<and> (\<forall>k < j. \<not> P (xs ! k))"
  using find_index_from_Some [of 0 P xs j] by simp

lemma find_index_None: "find_index_from i P xs = None \<longleftrightarrow> (\<forall>x \<in> set xs. \<not> P x)"
  by (induction xs arbitrary: i) auto

end
