(* ===== verification/Go_Strings.thy ===== *)
theory Go_Strings
  imports Domux_Prelude
begin

text \<open>
  The functions of Go's packages \<open>strings\<close> and \<open>strconv\<close> that domux uses. A Go string
  is a sequence of bytes, which is what \<open>string = char list\<close> is. \<open>TrimSpace\<close> strips the
  UTF-8 encodings of every code point of Unicode's White\_Space property. \<open>ToLower\<close> and
  \<open>EqualFold\<close> fold the ASCII letters and leave bytes above 127 alone: the strings that
  domux folds are host names, DNS record fields and URL schemes.
\<close>

section \<open>Characters\<close>

definition bytes :: "nat list \<Rightarrow> string" where
  "bytes ns = map char_of ns"

definition is_upper :: "char \<Rightarrow> bool" where
  "is_upper c \<longleftrightarrow> CHR ''A'' \<le> c \<and> c \<le> CHR ''Z''"

definition is_lower :: "char \<Rightarrow> bool" where
  "is_lower c \<longleftrightarrow> CHR ''a'' \<le> c \<and> c \<le> CHR ''z''"

definition is_digit :: "char \<Rightarrow> bool" where
  "is_digit c \<longleftrightarrow> CHR ''0'' \<le> c \<and> c \<le> CHR ''9''"

text \<open>A graphic ASCII character: it neither starts nor ends the encoding of a space.\<close>

definition is_graph :: "char \<Rightarrow> bool" where
  "is_graph c \<longleftrightarrow> CHR ''!'' \<le> c \<and> c \<le> CHR ''~''"

definition lower_char :: "char \<Rightarrow> char" where
  "lower_char c = (if is_upper c then char_of (of_char c + (32::nat)) else c)"

definition ToLower :: "string \<Rightarrow> string" where
  "ToLower s = map lower_char s"

definition EqualFold :: "string \<Rightarrow> string \<Rightarrow> bool" where
  "EqualFold s t \<longleftrightarrow> ToLower s = ToLower t"

lemma lower_char_not_upper: "\<not> is_upper (lower_char c)"
proof (cases "is_upper c")
  case True
  then have "of_char c \<le> (90::nat)" and "(65::nat) \<le> of_char c"
    by (simp_all add: is_upper_def less_eq_char_def)
  then have "of_char (char_of (of_char c + (32::nat))) = of_char c + (32::nat)"
    by (simp add: of_char_of)
  with True \<open>65 \<le> of_char c\<close> show ?thesis
    by (simp add: lower_char_def is_upper_def less_eq_char_def)
qed (simp add: lower_char_def)

lemma lower_char_idem [simp]: "lower_char (lower_char c) = lower_char c"
  using lower_char_not_upper [of c] by (simp add: lower_char_def [of "lower_char c"])

lemma ToLower_idem [simp]: "ToLower (ToLower s) = ToLower s"
  by (simp add: ToLower_def)

lemma ToLower_append: "ToLower (s @ t) = ToLower s @ ToLower t"
  by (simp add: ToLower_def)

lemma ToLower_Nil [simp]: "ToLower [] = []"
  by (simp add: ToLower_def)

section \<open>Prefixes, suffixes, cutting\<close>

definition HasPrefix :: "string \<Rightarrow> string \<Rightarrow> bool" where
  "HasPrefix s p \<longleftrightarrow> prefix p s"

definition HasSuffix :: "string \<Rightarrow> string \<Rightarrow> bool" where
  "HasSuffix s p \<longleftrightarrow> suffix p s"

definition Contains :: "string \<Rightarrow> string \<Rightarrow> bool" where
  "Contains s t \<longleftrightarrow> sublist t s"

definition TrimPrefix :: "string \<Rightarrow> string \<Rightarrow> string" where
  "TrimPrefix s p = (if HasPrefix s p then drop (length p) s else s)"

definition TrimSuffix :: "string \<Rightarrow> string \<Rightarrow> string" where
  "TrimSuffix s p = (if HasSuffix s p then take (length s - length p) s else s)"

lemma TrimPrefix_append [simp]: "TrimPrefix (p @ s) p = s"
  by (simp add: TrimPrefix_def HasPrefix_def)

lemma TrimSuffix_append [simp]: "TrimSuffix (s @ p) p = s"
  by (auto simp: TrimSuffix_def HasSuffix_def suffix_def)

text \<open>\<open>strings.Cut\<close>, \<open>Split\<close> and \<open>Join\<close>; every separator in domux is one byte.\<close>

fun Cut :: "string \<Rightarrow> char \<Rightarrow> (string \<times> string) option" where
  "Cut [] c = None"
| "Cut (x # s) c =
     (if x = c then Some ([], s)
      else (case Cut s c of None \<Rightarrow> None | Some (b, a) \<Rightarrow> Some (x # b, a)))"

lemma Cut_append: "c \<notin> set b \<Longrightarrow> Cut (b @ c # a) c = Some (b, a)"
  by (induction b) auto

lemma Cut_SomeD: "Cut s c = Some (b, a) \<Longrightarrow> s = b @ c # a \<and> c \<notin> set b"
  by (induction s arbitrary: b) (auto split: if_splits option.splits)

lemma Cut_None: "Cut s c = None \<longleftrightarrow> c \<notin> set s"
  by (induction s) (auto split: option.splits)

fun Split :: "string \<Rightarrow> char \<Rightarrow> string list" where
  "Split [] c = [[]]"
| "Split (x # s) c =
     (if x = c then [] # Split s c
      else (case Split s c of [] \<Rightarrow> [[x]] | p # ps \<Rightarrow> (x # p) # ps))"

fun Join :: "string list \<Rightarrow> string \<Rightarrow> string" where
  "Join [] sep = []"
| "Join [s] sep = s"
| "Join (s # t # ss) sep = s @ sep @ Join (t # ss) sep"

lemma Split_not_Nil [simp]: "Split s c \<noteq> []"
  by (cases s) (auto split: list.splits)

lemma Join_Cons: "ss \<noteq> [] \<Longrightarrow> Join (s # ss) sep = s @ sep @ Join ss sep"
  by (cases ss) simp_all

lemma Join_Split: "Join (Split s c) [c] = s"
proof (induction s)
  case (Cons x s)
  obtain p ps where ps: "Split s c = p # ps" by (cases "Split s c") simp_all
  show ?case
  proof (cases ps)
    case Nil
    with ps Cons show ?thesis by simp
  next
    case (Cons q qs)
    with ps Cons.IH show ?thesis by simp
  qed
qed simp

lemma Split_no_sep: "p \<in> set (Split s c) \<Longrightarrow> c \<notin> set p"
  by (induction s arbitrary: p) (auto split: if_splits list.splits)

lemma Split_single: "c \<notin> set s \<Longrightarrow> Split s c = [s]"
  by (induction s) auto

lemma Split_sep: "c \<notin> set s \<Longrightarrow> Split (s @ c # t) c = s # Split t c"
  by (induction s) auto

lemma Split_Join:
  "ss \<noteq> [] \<Longrightarrow> \<forall>s \<in> set ss. c \<notin> set s \<Longrightarrow> Split (Join ss [c]) c = ss"
  by (induction ss "[c]" rule: Join.induct) (simp_all add: Split_single Split_sep)

lemma Split_append: "Split (s @ c # t) c = Split s c @ Split t c"
  by (induction s) (auto split: list.splits)

section \<open>Trimming\<close>

text \<open>\<open>strings.Trim(s, cutset)\<close> and \<open>TrimRight\<close> for an ASCII cutset.\<close>

definition TrimRight :: "string \<Rightarrow> string \<Rightarrow> string" where
  "TrimRight s cs = rev (dropWhile (\<lambda>c. c \<in> set cs) (rev s))"

definition Trim :: "string \<Rightarrow> string \<Rightarrow> string" where
  "Trim s cs = TrimRight (dropWhile (\<lambda>c. c \<in> set cs) s) cs"

text \<open>The UTF-8 encodings of the code points with property White\_Space.\<close>

definition space_runes :: "string list" where
  "space_runes = map bytes
     ([[9], [10], [11], [12], [13], [32], [194, 133], [194, 160], [225, 154, 128],
       [226, 128, 168], [226, 128, 169], [226, 128, 175], [226, 129, 159], [227, 128, 128]]
      @ map (\<lambda>n. [226, 128, n]) [128, 129, 130, 131, 132, 133, 134, 135, 136, 137, 138])"

function trim_pats :: "string list \<Rightarrow> string \<Rightarrow> string" where
  "trim_pats ps s =
     (case find (\<lambda>p. p \<noteq> [] \<and> prefix p s) ps of
        None \<Rightarrow> s
      | Some p \<Rightarrow> trim_pats ps (drop (length p) s))"
  by pat_completeness auto
termination
proof (relation "measure (\<lambda>(ps, s). length s)")
  fix ps s p
  assume "find (\<lambda>p. p \<noteq> [] \<and> prefix p s) ps = Some p"
  then have "p \<noteq> []" and "prefix p s" by (auto dest!: find_Some_mem)
  then show "((ps, drop (length p) s), (ps, s)) \<in> measure (\<lambda>(ps, s). length s)"
    by (cases s) auto
qed simp

declare trim_pats.simps [simp del]

definition TrimSpace :: "string \<Rightarrow> string" where
  "TrimSpace s = rev (trim_pats (map rev space_runes) (rev (trim_pats space_runes s)))"

abbreviation stuck :: "string list \<Rightarrow> string \<Rightarrow> bool" where
  "stuck ps s \<equiv> find (\<lambda>p. p \<noteq> [] \<and> prefix p s) ps = None"

lemma trim_pats_stuck: "stuck ps (trim_pats ps s)"
proof (induction ps s rule: trim_pats.induct)
  case (1 ps s)
  then show ?case by (subst trim_pats.simps) (auto split: option.splits)
qed

lemma trim_pats_id: "stuck ps s \<Longrightarrow> trim_pats ps s = s"
  by (subst trim_pats.simps) simp

lemma trim_pats_suffix: "suffix (trim_pats ps s) s"
proof (induction ps s rule: trim_pats.induct)
  case (1 ps s)
  show ?case
  proof (cases "find (\<lambda>p. p \<noteq> [] \<and> prefix p s) ps")
    case None
    then show ?thesis by (simp add: trim_pats_id)
  next
    case (Some p)
    with 1 have "suffix (trim_pats ps (drop (length p) s)) (drop (length p) s)" by simp
    with Some show ?thesis
      by (subst trim_pats.simps) (auto intro: suffix_order.trans suffix_drop)
  qed
qed

lemma stuck_prefix: "stuck ps t \<Longrightarrow> prefix s t \<Longrightarrow> stuck ps s"
  by (auto simp: find_None_iff dest: prefix_order.trans)

lemma TrimSpace_idem [simp]: "TrimSpace (TrimSpace s) = TrimSpace s"
proof -
  let ?l = "trim_pats space_runes s"
  let ?t = "trim_pats (map rev space_runes) (rev ?l)"
  have "suffix ?t (rev ?l)" by (rule trim_pats_suffix)
  then have "prefix (rev ?t) ?l" by (simp add: suffix_to_prefix)
  with trim_pats_stuck have "stuck space_runes (rev ?t)" by (rule stuck_prefix)
  then have "trim_pats space_runes (rev ?t) = rev ?t" by (rule trim_pats_id)
  then show ?thesis
    by (simp add: TrimSpace_def trim_pats_id [OF trim_pats_stuck])
qed

lemma sublist_TrimSpace: "sublist (TrimSpace s) s"
proof -
  let ?l = "trim_pats space_runes s"
  have "prefix (TrimSpace s) ?l"
    using trim_pats_suffix [of "map rev space_runes" "rev ?l"]
    by (simp add: TrimSpace_def suffix_to_prefix)
  moreover have "suffix ?l s" by (rule trim_pats_suffix)
  ultimately show ?thesis by (auto simp: sublist_altdef')
qed

lemma set_TrimSpace: "set (TrimSpace s) \<subseteq> set s"
  by (rule set_mono_sublist [OF sublist_TrimSpace])

lemma TrimSpace_Nil [simp]: "TrimSpace [] = []"
  using set_TrimSpace [of "[]"] by simp

text \<open>A string with a graphic character at both ends is left alone.\<close>

lemma space_runes_not_graph:
  "p \<in> set space_runes \<Longrightarrow> p \<noteq> [] \<and> \<not> is_graph (hd p) \<and> \<not> is_graph (last p)"
  by (auto simp: space_runes_def bytes_def is_graph_def less_eq_char_def)

lemma stuck_graph: "s = [] \<or> is_graph (hd s) \<Longrightarrow> stuck space_runes s"
  using space_runes_not_graph by (fastforce simp: find_None_iff prefix_def)

lemma stuck_graph_rev: "s = [] \<or> is_graph (hd s) \<Longrightarrow> stuck (map rev space_runes) s"
  using space_runes_not_graph
  by (fastforce simp: find_None_iff prefix_def hd_append hd_rev)

lemma TrimSpace_graph:
  "is_graph (hd s) \<Longrightarrow> is_graph (last s) \<Longrightarrow> TrimSpace s = s"
  by (cases "s = []", simp)
    (simp add: TrimSpace_def trim_pats_id stuck_graph stuck_graph_rev hd_rev)

lemma TrimSpace_literal [go_simps]:
  "is_graph c \<Longrightarrow> is_graph (last (c # s)) \<Longrightarrow> TrimSpace (c # s) = c # s"
  by (rule TrimSpace_graph) simp_all

text \<open>Text on both sides of a graphic character is trimmed on its own side only.\<close>

definition trimmed :: "string \<Rightarrow> bool" where
  "trimmed s \<longleftrightarrow> TrimSpace s = s"

lemma trimmed_TrimSpace [simp]: "trimmed (TrimSpace s)"
  by (simp add: trimmed_def)

lemma trimmed_Nil [simp]: "trimmed []"
  by (simp add: trimmed_def)

lemma trimmed_iff: "trimmed s \<longleftrightarrow> stuck space_runes s \<and> stuck (map rev space_runes) (rev s)"
proof
  assume t: "trimmed s"
  let ?l = "trim_pats space_runes s"
  have "prefix (TrimSpace s) ?l"
    using trim_pats_suffix [of "map rev space_runes" "rev ?l"]
    by (simp add: TrimSpace_def suffix_to_prefix)
  then have "length s \<le> length ?l"
    using t prefix_length_le by (fastforce simp: trimmed_def)
  moreover obtain zs where zs: "s = zs @ ?l"
    using trim_pats_suffix [of space_runes s] by (auto simp: suffix_def)
  moreover have "length s = length zs + length ?l" using arg_cong [OF zs, of length] by simp
  ultimately have l: "?l = s" by simp
  have "stuck (map rev space_runes) (rev (TrimSpace s))"
    by (simp add: TrimSpace_def trim_pats_stuck)
  with l t show "stuck space_runes s \<and> stuck (map rev space_runes) (rev s)"
    using trim_pats_stuck [of space_runes s] by (simp add: trimmed_def)
qed (simp add: trimmed_def TrimSpace_def trim_pats_id)

lemma space_runes_no_graph: "p \<in> set space_runes \<Longrightarrow> c \<in> set p \<Longrightarrow> \<not> is_graph c"
  by (auto simp: space_runes_def bytes_def is_graph_def less_eq_char_def)

lemma prefix_through:
  assumes "prefix p (s @ c # t)"
  shows "prefix p s \<or> c \<in> set p"
proof (cases "length p \<le> length s")
  case True
  then show ?thesis using assms prefix_length_prefix [of p "s @ c # t" s] by simp
next
  case False
  have "p ! length s = c"
    using assms False by (auto simp: prefix_def nth_append dest!: arg_cong [where f = "\<lambda>xs. xs ! length s"])
  then show ?thesis using False by (metis not_le nth_mem)
qed

lemma stuck_through:
  assumes "stuck ps s" and "\<And>p. p \<in> set ps \<Longrightarrow> c \<notin> set p"
  shows "stuck ps (s @ c # t)"
  using assms by (auto simp: find_None_iff dest: prefix_through)

text \<open>Two trimmed strings joined by a graphic character are trimmed.\<close>

lemma trimmed_join:
  assumes "trimmed s" and "trimmed t" and "is_graph c"
  shows "trimmed (s @ c # t)"
proof -
  have "stuck space_runes (s @ c # t)"
    using assms space_runes_no_graph by (intro stuck_through) (auto simp: trimmed_iff)
  moreover have "stuck (map rev space_runes) (rev t @ c # rev s)"
    using assms space_runes_no_graph by (intro stuck_through) (auto simp: trimmed_iff)
  ultimately show ?thesis by (simp add: trimmed_iff)
qed

section \<open>Numbers\<close>

definition digit_val :: "char \<Rightarrow> nat" where
  "digit_val c = of_char c - 48"

fun digits_val :: "nat \<Rightarrow> string \<Rightarrow> nat option" where
  "digits_val n [] = Some n"
| "digits_val n (c # s) = (if is_digit c then digits_val (10 * n + digit_val c) s else None)"

text \<open>\<open>strconv.Atoi\<close>: an optional sign, at least one digit, and a value that fits in 64 bits.\<close>

definition Atoi :: "string \<Rightarrow> int option" where
  "Atoi s =
     (let (neg, ds) = (case s of [] \<Rightarrow> (False, [])
                       | c # t \<Rightarrow> if c = CHR ''-'' then (True, t)
                                  else if c = CHR ''+'' then (False, t) else (False, s))
      in if ds = [] then None
         else (case digits_val 0 ds of
                 None \<Rightarrow> None
               | Some n \<Rightarrow>
                   let v = (if neg then - int n else int n)
                   in if - (2 ^ 63) \<le> v \<and> v < 2 ^ 63 then Some v else None))"

fun nat_digits :: "nat \<Rightarrow> string" where
  "nat_digits n = (if n < 10 then [char_of (48 + n)]
                   else nat_digits (n div 10) @ [char_of (48 + n mod 10)])"

declare nat_digits.simps [simp del]

definition Itoa :: "int \<Rightarrow> string" where
  "Itoa i = (if i < 0 then CHR ''-'' # nat_digits (nat (- i)) else nat_digits (nat i))"

lemma digit_char: "d < 10 \<Longrightarrow> is_digit (char_of (48 + d)) \<and> digit_val (char_of (48 + d)) = d"
  by (simp add: is_digit_def digit_val_def less_eq_char_def of_char_of)

lemma digits_val_append:
  "digits_val n (s @ t) = (case digits_val n s of None \<Rightarrow> None | Some m \<Rightarrow> digits_val m t)"
  by (induction s arbitrary: n) auto

lemma digits_val_nat_digits: "digits_val 0 (nat_digits n) = Some n"
proof (induction n rule: nat_digits.induct)
  case (1 n)
  show ?case
  proof (cases "n < 10")
    case True
    then show ?thesis by (simp add: nat_digits.simps [of n] digit_char)
  next
    case False
    with 1 have "digits_val 0 (nat_digits (n div 10)) = Some (n div 10)" by simp
    with False show ?thesis
      by (simp add: nat_digits.simps [of n] digits_val_append digit_char)
  qed
qed

lemma nat_digits_hd: "nat_digits n \<noteq> [] \<and> is_digit (hd (nat_digits n))"
proof (induction n rule: nat_digits.induct)
  case (1 n)
  then show ?case
    by (cases "n < 10") (simp_all add: nat_digits.simps [of n] digit_char)
qed

lemma Atoi_Itoa: "- (2 ^ 63) \<le> i \<Longrightarrow> i < 2 ^ 63 \<Longrightarrow> Atoi (Itoa i) = Some i"
proof (cases "i < 0")
  case True
  assume "- (2 ^ 63) \<le> i"
  with True show ?thesis
    using nat_digits_hd [of "nat (- i)"] by (simp add: Atoi_def Itoa_def digits_val_nat_digits)
next
  case False
  assume "i < 2 ^ 63"
  moreover obtain c s where cs: "nat_digits (nat i) = c # s"
    using nat_digits_hd [of "nat i"] by (cases "nat_digits (nat i)") auto
  moreover have "is_digit c" using nat_digits_hd [of "nat i"] cs by simp
  then have "c \<noteq> CHR ''-''" and "c \<noteq> CHR ''+''"
    by (auto simp: is_digit_def less_eq_char_def)
  ultimately show ?thesis
    using False digits_val_nat_digits [of "nat i"] by (simp add: Atoi_def Itoa_def)
qed

text \<open>Rules that evaluate the functions above on literals.\<close>

lemmas literal_simps = TrimSpace_literal is_graph_def less_eq_char_def less_char_def

end
