(* ===== verification/Go_Path.thy ===== *)
theory Go_Path
  imports Go_Strings
begin

text \<open>
  The lexical functions of Go's package \<open>path/filepath\<close> on Unix: \<open>Clean\<close>, \<open>Join\<close>,
  \<open>Base\<close>, \<open>Dir\<close> and \<open>IsAbs\<close>. A path is processed as the list of its components, the
  stack holding the components kept so far, last one first.
\<close>

definition clean_step :: "bool \<Rightarrow> string \<Rightarrow> string list \<Rightarrow> string list" where
  "clean_step rooted c st =
     (if c = [] \<or> c = ''.'' then st
      else if c = ''..'' then
        (case st of
           [] \<Rightarrow> if rooted then [] else [''..'']
         | t # ts \<Rightarrow> if t \<noteq> ''..'' then ts else if rooted then st else ''..'' # st)
      else c # st)"

definition IsAbs :: "string \<Rightarrow> bool" where
  "IsAbs p \<longleftrightarrow> HasPrefix p ''/''"

definition Clean :: "string \<Rightarrow> string" where
  "Clean p =
     (if p = [] then ''.''
      else
        (let body = Join (rev (fold (clean_step (IsAbs p)) (Split p (CHR ''/'')) [])) ''/''
         in if IsAbs p then CHR ''/'' # body else if body = [] then ''.'' else body))"

definition PathJoin :: "string list \<Rightarrow> string" where
  "PathJoin elems =
     (case dropWhile (\<lambda>e. e = []) elems of
        [] \<Rightarrow> []
      | es \<Rightarrow> Clean (Join es ''/''))"

definition Base :: "string \<Rightarrow> string" where
  "Base p =
     (if p = [] then ''.''
      else
        (let stripped = TrimRight p ''/'';
             b = last (Split stripped (CHR ''/''))
         in if b = [] then ''/'' else b))"

definition Dir :: "string \<Rightarrow> string" where
  "Dir p = Clean (rev (dropWhile (\<lambda>c. c \<noteq> CHR ''/'') (rev p)))"

text \<open>A base name contains no separator, except when it is the root itself.\<close>

lemma Base_no_sep: "Base p \<noteq> ''/'' \<Longrightarrow> CHR ''/'' \<notin> set (Base p)"
proof -
  have "CHR ''/'' \<notin> set (last (Split s (CHR ''/'')))" for s
    by (rule Split_no_sep [where s = s]) simp
  then show "Base p \<noteq> ''/'' \<Longrightarrow> CHR ''/'' \<notin> set (Base p)"
    by (auto simp: Base_def Let_def split: if_splits)
qed

lemma Base_not_Nil [simp]: "Base p \<noteq> []"
  by (simp add: Base_def Let_def)

text \<open>A component that \<open>Clean\<close> keeps is neither empty nor a dot, and has no separator.\<close>

definition clean_comp :: "string \<Rightarrow> bool" where
  "clean_comp t \<longleftrightarrow> CHR ''/'' \<notin> set t \<and> t \<noteq> [] \<and> t \<noteq> ''.''"

lemma clean_step_comp:
  "list_all clean_comp st \<Longrightarrow> CHR ''/'' \<notin> set c \<Longrightarrow> list_all clean_comp (clean_step r c st)"
  by (auto simp: clean_step_def clean_comp_def split: list.splits)

lemma clean_fold_comp:
  "list_all (\<lambda>c. CHR ''/'' \<notin> set c) cs \<Longrightarrow> list_all clean_comp st \<Longrightarrow>
     list_all clean_comp (fold (clean_step r) cs st)"
  by (induction cs arbitrary: st) (simp_all add: clean_step_comp)

section \<open>Joining twice\<close>

text \<open>The stacks that cleaning produces: parent references only at the bottom of a relative path.\<close>

fun stack_nf :: "bool \<Rightarrow> string list \<Rightarrow> bool" where
  "stack_nf r [] = True"
| "stack_nf r (t # ts) \<longleftrightarrow> clean_comp t \<and> stack_nf r ts \<and> (t = ''..'' \<longrightarrow> \<not> r \<and> (ts = [] \<or> hd ts = ''..''))"

lemma stack_nf_step: "stack_nf r st \<Longrightarrow> CHR ''/'' \<notin> set c \<Longrightarrow> stack_nf r (clean_step r c st)"
  by (cases st) (auto simp: clean_step_def clean_comp_def)

lemma stack_nf_fold:
  "list_all (\<lambda>c. CHR ''/'' \<notin> set c) cs \<Longrightarrow> stack_nf r st \<Longrightarrow> stack_nf r (fold (clean_step r) cs st)"
  by (induction cs arbitrary: st) (simp_all add: stack_nf_step)

lemma clean_nf: "stack_nf r st \<Longrightarrow> fold (clean_step r) (rev st) [] = st"
proof (induction st)
  case (Cons t ts)
  from Cons.prems have "clean_step r t ts = t # ts"
    by (cases ts) (auto simp: clean_step_def clean_comp_def)
  with Cons show ?case by simp
qed simp

lemma stack_nf_comps: "stack_nf r st \<Longrightarrow> t \<in> set st \<Longrightarrow> clean_comp t"
  by (induction st) auto

abbreviation path_stack :: "string \<Rightarrow> string list" where
  "path_stack p \<equiv> fold (clean_step (IsAbs p)) (Split p (CHR ''/'')) []"

lemma path_stack_nf: "stack_nf (IsAbs p) (path_stack p)"
  by (rule stack_nf_fold) (auto simp: list_all_iff dest: Split_no_sep)

lemma Join_hd:
  assumes "t # ts \<noteq> []" and "clean_comp t"
  shows "Join (t # ts) ''/'' \<noteq> [] \<and> hd (Join (t # ts) ''/'') \<noteq> CHR ''/''"
  using assms(2) by (cases ts; cases t) (auto simp: clean_comp_def)

lemma Clean_stack:
  assumes "p \<noteq> []"
  shows "Clean p \<noteq> [] \<and> IsAbs (Clean p) = IsAbs p
    \<and> fold (clean_step (IsAbs p)) (Split (Clean p) (CHR ''/'')) [] = path_stack p"
proof -
  let ?st = "path_stack p" and ?body = "Join (rev (path_stack p)) ''/''"
  note nf = path_stack_nf [of p]
  have sp: "fold (clean_step (IsAbs p)) (Split ?body (CHR ''/'')) [] = ?st"
  proof (cases "?st = []")
    case False
    then have "Split ?body (CHR ''/'') = rev ?st"
      using stack_nf_comps [OF nf] by (intro Split_Join) (auto simp: clean_comp_def)
    then show ?thesis by (simp add: clean_nf [OF nf])
  qed (simp add: clean_step_def)
  have hd: "?body \<noteq> [] \<and> hd ?body \<noteq> CHR ''/''" if ne: "?st \<noteq> []"
  proof -
    obtain t ts where "rev ?st = t # ts" using ne by (cases "rev ?st") auto
    moreover have "clean_comp t" using stack_nf_comps [OF nf] calculation by (metis list.set_intros(1) set_rev)
    ultimately show ?thesis using Join_hd [of t ts] by simp
  qed
  show ?thesis
  proof (cases "IsAbs p")
    case True
    then have "Clean p = CHR ''/'' # ?body" using assms by (simp add: Clean_def Let_def)
    with sp True show ?thesis by (simp add: IsAbs_def HasPrefix_def clean_step_def)
  next
    case False
    show ?thesis
    proof (cases "?st = []")
      case True
      with False assms have "Clean p = ''.''" by (simp add: Clean_def Let_def)
      with True False show ?thesis by (simp add: IsAbs_def HasPrefix_def clean_step_def)
    next
      case ne: False
      with False assms hd have "Clean p = ?body" by (simp add: Clean_def Let_def)
      with sp hd [OF ne] False show ?thesis
        by (cases ?body) (simp_all add: IsAbs_def HasPrefix_def)
    qed
  qed
qed

lemma Clean_Clean_append:
  assumes "p \<noteq> []"
  shows "Clean (Clean p @ ''/'' @ q) = Clean (p @ ''/'' @ q)"
proof -
  have ab: "IsAbs (x @ ''/'' @ q) = IsAbs x" if "x \<noteq> []" for x
    using that by (cases x) (simp_all add: IsAbs_def HasPrefix_def)
  note c = Clean_stack [OF assms]
  have "path_stack (Clean p @ ''/'' @ q) = path_stack (p @ ''/'' @ q)"
    using c ab assms by (simp add: Split_append)
  with c ab assms show ?thesis by (simp add: Clean_def)
qed

lemma PathJoin_two: "a \<noteq> [] \<Longrightarrow> PathJoin [a, b] = Clean (a @ ''/'' @ b)"
  by (simp add: PathJoin_def)

lemma PathJoin_PathJoin:
  assumes "a \<noteq> []"
  shows "PathJoin [PathJoin [a, b], c] = Clean (a @ ''/'' @ b @ ''/'' @ c)"
proof -
  have "Clean (a @ ''/'' @ b) \<noteq> []" using Clean_stack [of "a @ ''/'' @ b"] by simp
  then have "PathJoin [PathJoin [a, b], c] = Clean (Clean (a @ ''/'' @ b) @ ''/'' @ c)"
    using assms by (simp add: PathJoin_two)
  also have "\<dots> = Clean ((a @ ''/'' @ b) @ ''/'' @ c)" by (rule Clean_Clean_append) simp
  finally show ?thesis by simp
qed

text \<open>A joined path ends in the last component.\<close>

lemma Join_snoc: "ss \<noteq> [] \<Longrightarrow> Join (ss @ [t]) sep = Join ss sep @ sep @ t"
  by (induction ss sep rule: Join.induct) simp_all

lemma Clean_append_comp:
  assumes "p \<noteq> []" and "clean_comp f" and "f \<noteq> ''..''"
  shows "\<exists>pre. Clean (p @ ''/'' @ f) = pre @ f"
proof -
  have "IsAbs (p @ ''/'' @ f) = IsAbs p"
    using assms(1) by (cases p) (simp_all add: IsAbs_def HasPrefix_def)
  then have st: "path_stack (p @ ''/'' @ f) = f # path_stack p"
    using assms(2,3) by (simp add: Split_append Split_single clean_comp_def clean_step_def)
  have "\<exists>pre. Join (rev (f # path_stack p)) ''/'' = pre @ f"
  proof (cases "path_stack p = []")
    case False
    then show ?thesis by (simp add: Join_snoc)
  qed simp
  then obtain pre where j: "Join (rev (f # path_stack p)) ''/'' = pre @ f" by blast
  show ?thesis
  proof (cases "IsAbs (p @ ''/'' @ f)")
    case True
    then have "Clean (p @ ''/'' @ f) = (CHR ''/'' # pre) @ f" using st j by (simp add: Clean_def Let_def)
    then show ?thesis by blast
  next
    case False
    then have "Clean (p @ ''/'' @ f) = pre @ f"
      using st j assms(2) by (simp add: Clean_def Let_def clean_comp_def)
    then show ?thesis by blast
  qed
qed

end
