(* ===== verification/Go_Url.thy ===== *)
theory Go_Url
  imports Go_Strings
begin

text \<open>
  The part of Go's package \<open>net/url\<close> (Go 1.25.0) that domux uses: \<open>Parse\<close>, \<open>String\<close>,
  \<open>PathEscape\<close>, \<open>QueryEscape\<close>, \<open>QueryUnescape\<close>, \<open>ParseQuery\<close> and \<open>Values.Encode\<close>. The escaping rules
  are those of \<open>shouldEscape\<close>, one predicate per encoding mode.
\<close>

section \<open>Percent encoding\<close>

definition is_alnum :: "char \<Rightarrow> bool" where
  "is_alnum c \<longleftrightarrow> is_lower c \<or> is_upper c \<or> is_digit c"

definition is_hex :: "char \<Rightarrow> bool" where
  "is_hex c \<longleftrightarrow> is_digit c \<or> (CHR ''a'' \<le> c \<and> c \<le> CHR ''f'') \<or> (CHR ''A'' \<le> c \<and> c \<le> CHR ''F'')"

definition unhex :: "char \<Rightarrow> nat" where
  "unhex c = (if is_digit c then of_char c - 48
              else if is_lower c then of_char c - 87 else of_char c - 55)"

definition upperhex :: "nat \<Rightarrow> char" where
  "upperhex n = (if n < 10 then char_of (48 + n) else char_of (55 + n))"

definition pct :: "char \<Rightarrow> string" where
  "pct c = [CHR ''%'', upperhex (of_char c div 16), upperhex (of_char c mod 16)]"

definition unpct :: "char \<Rightarrow> char \<Rightarrow> char" where
  "unpct a b = char_of (16 * unhex a + unhex b)"

definition unreserved :: "char \<Rightarrow> bool" where
  "unreserved c \<longleftrightarrow> is_alnum c \<or> c \<in> set ''-_.~''"

definition escape_host_char :: "char \<Rightarrow> bool" where
  "escape_host_char c \<longleftrightarrow>
     \<not> (unreserved c \<or> c \<in> set ''!$&()*+,;=:[]<>'' \<or> c = CHR 0x27 \<or> c = CHR 0x22)"

definition escape_path_char :: "char \<Rightarrow> bool" where
  "escape_path_char c \<longleftrightarrow> \<not> (unreserved c \<or> c \<in> set ''$&+,/:;=@'')"

definition escape_segment_char :: "char \<Rightarrow> bool" where
  "escape_segment_char c \<longleftrightarrow> \<not> (unreserved c \<or> c \<in> set ''$&+:=@'')"

definition escape_user_char :: "char \<Rightarrow> bool" where
  "escape_user_char c \<longleftrightarrow> \<not> (unreserved c \<or> c \<in> set ''$&+,;='')"

definition escape :: "(char \<Rightarrow> bool) \<Rightarrow> string \<Rightarrow> string" where
  "escape esc s = concat (map (\<lambda>c. if esc c then pct c else [c]) s)"

definition PathEscape :: "string \<Rightarrow> string" where
  "PathEscape s = escape escape_segment_char s"

text \<open>
  \<open>unescape ok sp s\<close> decodes \<open>%XX\<close>; \<open>ok\<close> says which escapes and which plain bytes the
  mode admits, \<open>sp\<close> turns \<open>+\<close> into a space.
\<close>

fun unescape :: "(char \<Rightarrow> char \<Rightarrow> bool) \<Rightarrow> (char \<Rightarrow> bool) \<Rightarrow> bool \<Rightarrow> string \<Rightarrow> string option" where
  "unescape okp okc sp [] = Some []"
| "unescape okp okc sp (c # s) =
     (if c = CHR ''%'' then
        (case s of
           a # b # t \<Rightarrow>
             if is_hex a \<and> is_hex b \<and> okp a b
             then map_option (Cons (unpct a b)) (unescape okp okc sp t) else None
         | _ \<Rightarrow> None)
      else if c = CHR ''+'' \<and> sp then map_option (Cons (CHR '' '')) (unescape okp okc sp s)
      else if okc c then map_option (Cons c) (unescape okp okc sp s)
      else None)"

definition QueryEscape :: "string \<Rightarrow> string" where
  "QueryEscape s =
     concat (map (\<lambda>c. if c = CHR '' '' then ''+'' else if unreserved c then [c] else pct c) s)"

definition QueryUnescape :: "string \<Rightarrow> string option" where
  "QueryUnescape s = unescape (\<lambda>_ _. True) (\<lambda>_. True) True s"

definition unescape_path :: "string \<Rightarrow> string option" where
  "unescape_path s = unescape (\<lambda>_ _. True) (\<lambda>_. True) False s"

definition unescape_host :: "string \<Rightarrow> string option" where
  "unescape_host s =
     unescape (\<lambda>a b. 8 \<le> unhex a \<or> [a, b] = ''25'')
              (\<lambda>c. (128::nat) \<le> of_char c \<or> \<not> escape_host_char c) False s"

definition unescape_zone :: "string \<Rightarrow> string option" where
  "unescape_zone s =
     unescape (\<lambda>a b. [a, b] = ''25'' \<or> unpct a b = CHR '' '' \<or> \<not> escape_host_char (unpct a b))
              (\<lambda>c. (128::nat) \<le> of_char c \<or> \<not> escape_host_char c) False s"

section \<open>Parsing\<close>

record go_url =
  u_Scheme :: string
  u_Opaque :: string
  u_User :: "(string \<times> string option) option"
  u_Host :: string
  u_Path :: string
  u_RawPath :: string
  u_OmitHost :: bool
  u_ForceQuery :: bool
  u_RawQuery :: string
  u_Fragment :: string

definition empty_url :: go_url where
  "empty_url = \<lparr>u_Scheme = [], u_Opaque = [], u_User = None, u_Host = [], u_Path = [],
     u_RawPath = [], u_OmitHost = False, u_ForceQuery = False, u_RawQuery = [], u_Fragment = []\<rparr>"

definition url_error :: "string \<Rightarrow> go_error" where
  "url_error m = Errorf m []"

text \<open>\<open>getScheme\<close>: the bytes before the first colon when they form a scheme.\<close>

fun getScheme_from :: "string \<Rightarrow> string \<Rightarrow> string \<Rightarrow> (string \<times> string) result" where
  "getScheme_from raw acc [] = Inr ([], raw)"
| "getScheme_from raw acc (c # s) =
     (if is_lower c \<or> is_upper c then getScheme_from raw (acc @ [c]) s
      else if is_digit c \<or> c \<in> set ''+-.'' then
        (if acc = [] then Inr ([], raw) else getScheme_from raw (acc @ [c]) s)
      else if c = CHR '':'' then
        (if acc = [] then Inl (url_error ''missing protocol scheme'') else Inr (acc, s))
      else Inr ([], raw))"

definition getScheme :: "string \<Rightarrow> (string \<times> string) result" where
  "getScheme raw = getScheme_from raw [] raw"

definition validOptionalPort :: "string \<Rightarrow> bool" where
  "validOptionalPort p \<longleftrightarrow> (case p of [] \<Rightarrow> True | c # ds \<Rightarrow> c = CHR '':'' \<and> list_all is_digit ds)"

text \<open>Split a string at the last occurrence of a byte: the part before it and the part after.\<close>

definition cut_last :: "string \<Rightarrow> char \<Rightarrow> (string \<times> string) option" where
  "cut_last s c = (case Cut (rev s) c of None \<Rightarrow> None | Some (b, a) \<Rightarrow> Some (rev a, rev b))"

fun cut_str :: "string \<Rightarrow> string \<Rightarrow> (string \<times> string) option" where
  "cut_str [] p = (if p = [] then Some ([], []) else None)"
| "cut_str (x # s) p =
     (if prefix p (x # s) then Some ([], x # s)
      else map_option (\<lambda>(b, a). (x # b, a)) (cut_str s p))"

definition host_err :: "string option \<Rightarrow> string result" where
  "host_err h = (case h of None \<Rightarrow> Inl (url_error ''invalid host'') | Some s \<Rightarrow> Inr s)"

definition parseHost :: "string \<Rightarrow> string result" where
  "parseHost h =
     (if HasPrefix h ''['' then
        (case cut_last h (CHR '']'') of
           None \<Rightarrow> Inl (url_error ''missing ']' in host'')
         | Some (b, a) \<Rightarrow>
             if \<not> validOptionalPort a then Inl (url_error ''invalid port after host'')
             else
               (case cut_str b ''%25'' of
                  None \<Rightarrow> host_err (unescape_host h)
                | Some (b1, z) \<Rightarrow>
                    (case (unescape_host b1, unescape_zone z, unescape_host (CHR '']'' # a)) of
                       (Some x, Some y, Some w) \<Rightarrow> Inr (x @ y @ w)
                     | _ \<Rightarrow> Inl (url_error ''invalid host''))))
      else
        (case cut_last h (CHR '':'') of
           Some (b, a) \<Rightarrow>
             if validOptionalPort (CHR '':'' # a) then host_err (unescape_host h)
             else Inl (url_error ''invalid port after host'')
         | None \<Rightarrow> host_err (unescape_host h)))"

definition validUserinfo :: "string \<Rightarrow> bool" where
  "validUserinfo s \<longleftrightarrow> list_all (\<lambda>c. is_alnum c \<or> c \<in> set ''-._:~!$&()*+,;=%@'' \<or> c = CHR 0x27) s"

definition parseAuthority :: "string \<Rightarrow> ((string \<times> string option) option \<times> string) result" where
  "parseAuthority a =
     (case cut_last a (CHR ''@'') of
        None \<Rightarrow> (case parseHost a of Inl e \<Rightarrow> Inl e | Inr h \<Rightarrow> Inr (None, h))
      | Some (ui, hs) \<Rightarrow>
          (case parseHost hs of
             Inl e \<Rightarrow> Inl e
           | Inr h \<Rightarrow>
               if \<not> validUserinfo ui then Inl (url_error ''net/url: invalid userinfo'')
               else
                 (case Cut ui (CHR '':'') of
                    None \<Rightarrow>
                      (case unescape_path ui of
                         None \<Rightarrow> Inl (url_error ''invalid URL escape'')
                       | Some n \<Rightarrow> Inr (Some (n, None), h))
                  | Some (n, p) \<Rightarrow>
                      (case (unescape_path n, unescape_path p) of
                         (Some n', Some p') \<Rightarrow> Inr (Some (n', Some p'), h)
                       | _ \<Rightarrow> Inl (url_error ''invalid URL escape'')))))"

definition is_ctl :: "char \<Rightarrow> bool" where
  "is_ctl c \<longleftrightarrow> c < CHR 0x20 \<or> c = CHR 0x7F"

definition setPath :: "string \<Rightarrow> go_url \<Rightarrow> go_url result" where
  "setPath p u =
     (case unescape_path p of
        None \<Rightarrow> Inl (url_error ''invalid URL escape'')
      | Some d \<Rightarrow>
          Inr (u\<lparr>u_Path := d, u_RawPath := (if p = escape escape_path_char d then [] else p)\<rparr>))"

definition split_query :: "string \<Rightarrow> string \<times> string \<times> bool" where
  "split_query rest =
     (if HasSuffix rest ''?'' \<and> length (filter (\<lambda>c. c = CHR ''?'') rest) = 1
      then (butlast rest, [], True)
      else (case Cut rest (CHR ''?'') of None \<Rightarrow> (rest, [], False) | Some (b, q) \<Rightarrow> (b, q, False)))"

definition split_authority :: "string \<Rightarrow> string \<times> string" where
  "split_authority s =
     (case Cut s (CHR ''/'') of None \<Rightarrow> (s, []) | Some (b, a) \<Rightarrow> (b, CHR ''/'' # a))"

definition first_segment :: "string \<Rightarrow> string" where
  "first_segment s = (case Cut s (CHR ''/'') of None \<Rightarrow> s | Some (b, a) \<Rightarrow> b)"

text \<open>\<open>parse(rawURL, false)\<close>.\<close>

definition parse_url :: "string \<Rightarrow> go_url result" where
  "parse_url raw =
     (if list_ex is_ctl raw then Inl (url_error ''net/url: invalid control character in URL'')
      else if raw = ''*'' then Inr (empty_url\<lparr>u_Path := ''*''\<rparr>)
      else
        (case getScheme raw of
           Inl e \<Rightarrow> Inl e
         | Inr (scheme, after) \<Rightarrow>
             (let (rest, query, force) = split_query after;
                  u = empty_url\<lparr>u_Scheme := ToLower scheme, u_RawQuery := query,
                                u_ForceQuery := force\<rparr>
              in if \<not> HasPrefix rest ''/'' \<and> scheme \<noteq> [] then Inr (u\<lparr>u_Opaque := rest\<rparr>)
                 else if \<not> HasPrefix rest ''/'' \<and> Contains (first_segment rest) '':'' then
                   Inl (url_error ''first path segment in URL cannot contain colon'')
                 else if (scheme \<noteq> [] \<or> \<not> HasPrefix rest ''///'') \<and> HasPrefix rest ''//'' then
                   (let (auth, path) = split_authority (drop 2 rest)
                    in case parseAuthority auth of
                         Inl e \<Rightarrow> Inl e
                       | Inr (user, host) \<Rightarrow> setPath path (u\<lparr>u_User := user, u_Host := host\<rparr>))
                 else
                   setPath rest
                     (u\<lparr>u_OmitHost := (scheme \<noteq> [] \<and> HasPrefix rest ''/'')\<rparr>))))"

definition url_Parse :: "string \<Rightarrow> go_url result" where
  "url_Parse raw =
     (case Cut raw (CHR ''#'') of
        None \<Rightarrow> parse_url raw
      | Some (b, frag) \<Rightarrow>
          (case parse_url b of
             Inl e \<Rightarrow> Inl e
           | Inr u \<Rightarrow>
               if frag = [] then Inr u
               else (case unescape_path frag of
                       None \<Rightarrow> Inl (url_error ''invalid URL escape'')
                     | Some f \<Rightarrow> Inr (u\<lparr>u_Fragment := f\<rparr>))))"

section \<open>Queries\<close>

type_synonym url_values = "(string \<times> string) list"

text \<open>\<open>ParseQuery\<close> as \<open>URL.Query\<close> uses it: malformed pairs are dropped.\<close>

definition query_pair :: "string \<Rightarrow> (string \<times> string) list" where
  "query_pair s =
     (if Contains s '';'' \<or> s = [] then []
      else
        (let (k, v) = (case Cut s (CHR ''='') of None \<Rightarrow> (s, []) | Some kv \<Rightarrow> kv)
         in case (QueryUnescape k, QueryUnescape v) of
              (Some k', Some v') \<Rightarrow> [(k', v')]
            | _ \<Rightarrow> []))"

definition url_Query :: "string \<Rightarrow> url_values" where
  "url_Query raw = concat (map query_pair (Split raw (CHR ''&'')))"

definition values_Get :: "url_values \<Rightarrow> string \<Rightarrow> string" where
  "values_Get vs k = (case map_of vs k of None \<Rightarrow> [] | Some v \<Rightarrow> v)"

definition values_Del :: "string \<Rightarrow> url_values \<Rightarrow> url_values" where
  "values_Del k vs = filter (\<lambda>(k', v). k' \<noteq> k) vs"

definition values_Set :: "string \<Rightarrow> string \<Rightarrow> url_values \<Rightarrow> url_values" where
  "values_Set k v vs = values_Del k vs @ [(k, v)]"

text \<open>\<open>Values.Encode\<close>: sorted by key, the values of one key in their order.\<close>

definition values_Encode :: "url_values \<Rightarrow> string" where
  "values_Encode vs =
     Join (map (\<lambda>(k, v). QueryEscape k @ ''='' @ QueryEscape v) (sort_slice fst vs)) ''&''"

section \<open>Printing\<close>

definition valid_encoded_path :: "string \<Rightarrow> bool" where
  "valid_encoded_path s \<longleftrightarrow>
     list_all (\<lambda>c. c \<in> set ''!$&()*+,;=:@[]%'' \<or> c = CHR 0x27 \<or> \<not> escape_path_char c) s"

definition EscapedPath :: "go_url \<Rightarrow> string" where
  "EscapedPath u =
     (if u_RawPath u \<noteq> [] \<and> valid_encoded_path (u_RawPath u)
         \<and> unescape_path (u_RawPath u) = Some (u_Path u)
      then u_RawPath u
      else if u_Path u = ''*'' then ''*'' else escape escape_path_char (u_Path u))"

definition escape_fragment_char :: "char \<Rightarrow> bool" where
  "escape_fragment_char c \<longleftrightarrow> \<not> (unreserved c \<or> c \<in> set ''$&+,/:;=?@!()*'')"

definition user_string :: "string \<times> string option \<Rightarrow> string" where
  "user_string u =
     escape escape_user_char (fst u)
     @ (case snd u of None \<Rightarrow> [] | Some p \<Rightarrow> '':'' @ escape escape_user_char p)"

definition url_authority :: "go_url \<Rightarrow> string" where
  "url_authority u =
     (if u_Scheme u = [] \<and> u_Host u = [] \<and> u_User u = None then []
      else if u_OmitHost u \<and> u_Host u = [] \<and> u_User u = None then []
      else
        (if u_Host u \<noteq> [] \<or> u_Path u \<noteq> [] \<or> u_User u \<noteq> None then ''//'' else [])
        @ (case u_User u of None \<Rightarrow> [] | Some ui \<Rightarrow> user_string ui @ ''@'')
        @ escape escape_host_char (u_Host u))"

definition url_String :: "go_url \<Rightarrow> string" where
  "url_String u =
     (let scheme = (if u_Scheme u = [] then [] else u_Scheme u @ '':'');
          body = (if u_Opaque u \<noteq> [] then scheme @ u_Opaque u
                  else
                    (let auth = scheme @ url_authority u;
                         path = EscapedPath u;
                         slash = (if path \<noteq> [] \<and> hd path \<noteq> CHR ''/'' \<and> u_Host u \<noteq> []
                                  then ''/'' else []);
                         dot = (if auth = [] \<and> slash = [] \<and> Contains (first_segment path) '':''
                                then ''./'' else [])
                     in auth @ slash @ dot @ path))
      in body @ (if u_ForceQuery u \<or> u_RawQuery u \<noteq> [] then ''?'' @ u_RawQuery u else [])
         @ (if u_Fragment u \<noteq> [] then ''#'' @ escape escape_fragment_char (u_Fragment u) else []))"

section \<open>The query encoding is lossless\<close>

lemma upperhex_unhex: "n < 16 \<Longrightarrow> is_hex (upperhex n) \<and> unhex (upperhex n) = n"
  by (auto simp: upperhex_def is_hex_def unhex_def is_digit_def is_lower_def less_eq_char_def
      of_char_of)

lemma of_char_div_16: "of_char c div 16 < (16::nat)"
  by (rule less_mult_imp_div_less) (use nat_of_char_less_256 [of c] in simp)

lemma unpct_pct: "unpct (upperhex (of_char c div 16)) (upperhex (of_char c mod 16)) = c"
proof -
  show ?thesis using of_char_div_16 [of c] by (simp add: unpct_def upperhex_unhex)
qed

lemma unescape_pct:
  "unescape (\<lambda>_ _. True) okc sp (pct c @ s) = map_option (Cons c) (unescape (\<lambda>_ _. True) okc sp s)"
proof -
  show ?thesis using of_char_div_16 [of c] by (simp add: pct_def upperhex_unhex unpct_pct)
qed

lemma QueryUnescape_QueryEscape: "QueryUnescape (QueryEscape s) = Some s"
proof (induction s)
  case (Cons c s)
  let ?e = "if c = CHR '' '' then ''+'' else if unreserved c then [c] else pct c"
  have "QueryUnescape (?e @ t) = map_option (Cons c) (QueryUnescape t)" for t
    by (auto simp: QueryUnescape_def unescape_pct)
      (auto simp: unreserved_def is_alnum_def is_lower_def is_upper_def is_digit_def less_eq_char_def)
  with Cons show ?case by (simp add: QueryEscape_def)
qed (simp add: QueryUnescape_def QueryEscape_def)

lemma upperhex_unreserved: "n < 16 \<Longrightarrow> unreserved (upperhex n)"
  by (auto simp: upperhex_def unreserved_def is_alnum_def is_digit_def is_upper_def
      less_eq_char_def of_char_of)

lemma pct_chars: "x \<in> set (pct c) \<Longrightarrow> unreserved x \<or> x = CHR ''%''"
  by (auto simp: pct_def upperhex_unreserved of_char_div_16)

lemma QueryEscape_chars: "x \<in> set (QueryEscape s) \<Longrightarrow> unreserved x \<or> x = CHR ''%'' \<or> x = CHR ''+''"
  by (auto simp: QueryEscape_def split: if_splits dest: pct_chars)

lemma QueryEscape_plain:
  "CHR ''='' \<notin> set (QueryEscape s)" "CHR ''&'' \<notin> set (QueryEscape s)" "CHR '';'' \<notin> set (QueryEscape s)"
  by (auto dest!: QueryEscape_chars simp: unreserved_def is_alnum_def is_lower_def is_upper_def
      is_digit_def less_eq_char_def)

lemma query_pair_encoded: "query_pair (QueryEscape k @ ''='' @ QueryEscape v) = [(k, v)]"
proof -
  have "CHR '';'' \<notin> set (QueryEscape k @ ''='' @ QueryEscape v)"
    by (simp add: QueryEscape_plain)
  then have "\<not> Contains (QueryEscape k @ ''='' @ QueryEscape v) '';''"
    unfolding Contains_def by (metis in_set_conv_decomp list.set_intros(1) set_mono_sublist subset_iff)
  then show ?thesis
    using QueryEscape_plain(1) [of k]
    by (simp add: query_pair_def Cut_append QueryUnescape_QueryEscape)
qed

lemma url_Query_Encode: "url_Query (values_Encode vs) = sort_slice fst vs"
proof (cases "vs = []")
  case True
  then show ?thesis by (simp add: url_Query_def values_Encode_def query_pair_def)
next
  case False
  let ?pairs = "map (\<lambda>(k, v). QueryEscape k @ ''='' @ QueryEscape v) (sort_slice fst vs)"
  have "\<forall>s \<in> set ?pairs. CHR ''&'' \<notin> set s" by (auto simp: QueryEscape_plain)
  moreover have "?pairs \<noteq> []" using False by simp
  ultimately have "Split (values_Encode vs) (CHR ''&'') = ?pairs"
    unfolding values_Encode_def by (intro Split_Join)
  then have "url_Query (values_Encode vs) = concat (map query_pair ?pairs)" by (simp add: url_Query_def)
  also have "\<dots> = sort_slice fst vs"
    by (simp add: case_prod_unfold comp_def query_pair_encoded [simplified])
  finally show ?thesis .
qed

text \<open>Rules that evaluate the parser on a literal.\<close>

lemmas url_simps = url_Parse_def parse_url_def getScheme_def parseAuthority_def parseHost_def
  split_authority_def split_query_def setPath_def unescape_path_def unescape_host_def host_err_def
  validOptionalPort_def cut_last_def empty_url_def is_ctl_def HasPrefix_def HasSuffix_def Contains_def
  is_lower_def is_upper_def is_digit_def is_alnum_def first_segment_def EscapedPath_def escape_def
  escape_host_char_def escape_path_char_def unreserved_def ToLower_def lower_char_def
  less_eq_char_def less_char_def

end
