(* ===== verification/Domux_Types.thy ===== *)
theory Domux_Types
  imports Go_Path Go_Url "HOL-Library.Word"
begin

text \<open>
  The data model of domux, the structs of \<open>internal/core/types.go\<close>. Every struct is a
  record with the source's fields under a short prefix. Times are
  integers counting nanoseconds from Go's zero time, so \<open>0\<close> is \<open>time.Time{}\<close>; durations are
  nanoseconds; a \<open>float64\<close> is carried as its 64 bits. A method with a pointer receiver returns
  the updated receiver next to its error.
\<close>

type_synonym time = int
type_synonym duration = int
type_synonym float64 = "64 word"
type_synonym container_runtime = string
type_synonym route_origin = string
type_synonym deploy_transport = string

abbreviation ContainerRuntimeDocker :: container_runtime where
  "ContainerRuntimeDocker \<equiv> ''docker''"
abbreviation ContainerRuntimePodman :: container_runtime where
  "ContainerRuntimePodman \<equiv> ''podman''"
abbreviation RouteOriginLocalDocker :: route_origin where
  "RouteOriginLocalDocker \<equiv> ''local_docker''"
abbreviation RouteOriginRemoteAgent :: route_origin where
  "RouteOriginRemoteAgent \<equiv> ''remote_agent''"
abbreviation RouteOriginCustomApp :: route_origin where
  "RouteOriginCustomApp \<equiv> ''custom_app''"
abbreviation DeployTransportLocal :: deploy_transport where
  "DeployTransportLocal \<equiv> ''local''"
abbreviation DeployTransportAgent :: deploy_transport where
  "DeployTransportAgent \<equiv> ''agent''"
abbreviation DeployTransportSSH :: deploy_transport where
  "DeployTransportSSH \<equiv> ''ssh''"

definition DefaultDDNSTTL :: int where
  "DefaultDDNSTTL = 300"

definition DefaultCertificateRenewBefore :: duration where
  "DefaultCertificateRenewBefore = 20 * 24 * 3600 * 1000000000"

section \<open>Structs\<close>

record bundle_policy =
  bp_Name :: string
  bp_Domains :: "string list"
  bp_RenewBefore :: duration
  bp_DeployTargets :: "string list"

record certificate_policy =
  cp_Enabled :: bool
  cp_Email :: string
  cp_DNSProvider :: string
  cp_RenewBefore :: duration
  cp_DeployTargets :: "string list"
  cp_Bundles :: "bundle_policy list"

record ddns_zone_config =
  dz_Enabled :: bool
  dz_ProviderRefs :: "string list"
  dz_IPv4 :: bool
  dz_IPv6 :: bool
  dz_Wildcard :: bool
  dz_TTL :: int

record managed_zone =
  z_Name :: string
  z_Domain :: string
  z_Default :: bool
  z_Wildcard :: bool
  z_DDNS :: ddns_zone_config
  z_Certificate :: certificate_policy

record certificate_plan =
  pl_Name :: string
  pl_Domains :: "string list"
  pl_RenewBefore :: duration
  pl_DeployTargets :: "string list"

record provider_config =
  pc_Ref :: string
  pc_Type :: string
  pc_Options :: "string gomap"

record custom_app =
  app_Name :: string
  app_Icon :: string
  app_Domain :: string
  app_Zone :: string
  app_Subdomain :: string
  app_ExitNode :: string
  app_TargetURL :: string

record runtime_source =
  rs_DisplayName :: string
  rs_Runtime :: container_runtime
  rs_Endpoint :: string
  rs_Network :: string

record system_resources =
  sr_CPUPercent :: float64
  sr_MemoryPercent :: float64
  sr_DiskPercent :: float64
  sr_CheckedAt :: time

record agent_node =
  ag_Name :: string
  ag_DisplayName :: string
  ag_Addr :: string
  ag_Runtime :: container_runtime
  ag_SocketPath :: string
  ag_Version :: string
  ag_Status :: string
  ag_LastError :: string
  ag_LastCheckedAt :: time
  ag_Resources :: system_resources

record container_snapshot =
  cs_ID :: string
  cs_Name :: string
  cs_Image :: string
  cs_Runtime :: container_runtime
  cs_Running :: bool
  cs_State :: string
  cs_HostNetwork :: bool
  cs_Labels :: "string gomap"
  cs_Networks :: "string gomap"
  cs_ExposedPorts :: "int list"
  cs_PublishedPorts :: "(int \<times> int) list"

record container_ref =
  cr_ID :: string
  cr_Name :: string
  cr_Image :: string
  cr_Source :: string
  cr_Runtime :: container_runtime

record discovered_route =
  rt_ID :: string
  rt_Name :: string
  rt_Icon :: string
  rt_Domain :: string
  rt_Zone :: string
  rt_Subdomain :: string
  rt_Host :: string
  rt_Source :: string
  rt_ExitNode :: string
  rt_Origin :: route_origin
  rt_Runtime :: container_runtime
  rt_TargetURL :: string
  rt_ProxyURL :: string
  rt_Network :: string
  rt_Container :: container_ref

record application =
  ap_ID :: string
  ap_Name :: string
  ap_Icon :: string
  ap_Domain :: string
  ap_Zone :: string
  ap_Subdomain :: string
  ap_Host :: string
  ap_EntryURL :: string
  ap_Source :: string
  ap_ExitNode :: string
  ap_Origin :: route_origin
  ap_Runtime :: container_runtime
  ap_TargetURL :: string
  ap_Status :: string
  ap_Reason :: string
  ap_Container :: container_ref

record ddns_sync_state =
  ds_Domain :: string
  ds_Zone :: string
  ds_Provider :: string
  ds_Host :: string
  ds_RecordType :: string
  ds_Value :: string
  ds_Status :: string
  ds_Error :: "go_error option"
  ds_SyncedAt :: time

record certificate_bundle =
  cb_Name :: string
  cb_Domain :: string
  cb_Zone :: string
  cb_Domains :: "string list"
  cb_DeployTargets :: "string list"
  cb_CertPath :: string
  cb_KeyPath :: string
  cb_NotAfter :: time

record ssh_config =
  ssh_Addr :: string
  ssh_User :: string
  ssh_Port :: int
  ssh_PrivateKeyPath :: string

record deploy_target =
  dt_Name :: string
  dt_Transport :: deploy_transport
  dt_AgentNode :: string
  dt_SSH :: ssh_config
  dt_CertPath :: string
  dt_KeyPath :: string
  dt_ReloadCommand :: string

record deploy_run =
  dr_Target :: string
  dr_Bundle :: string
  dr_Status :: string
  dr_Message :: string
  dr_StartedAt :: time
  dr_FinishedAt :: time

record job_run =
  jr_Name :: string
  jr_Status :: string
  jr_Message :: "go_error option"
  jr_StartedAt :: time
  jr_FinishedAt :: time

text \<open>What the code reads of the operating system.\<close>

record os_env =
  os_Getenv :: "string \<Rightarrow> string"
  os_Getuid :: int
  os_EvalSymlinks :: "string \<Rightarrow> string result"
  os_Exists :: "string \<Rightarrow> bool"

end
