(* ===== verification/Domux_Core.thy ===== *)
theory Domux_Core
  imports Domux_Types
begin

text \<open>
  The pure rules of \<open>internal/core/types.go\<close>: validation and normalisation of zones, apps,
  agents, targets and runtime sources, the certificate plans of a zone, and the test that a
  domain lies inside a managed domain. A method with a pointer receiver returns the updated
  receiver next to its error.
\<close>

section \<open>Names and domains\<close>

text \<open>\<open>compactNames\<close>: trimmed, without empty names, first occurrence of each kept.\<close>

fun compactNames_from :: "string list \<Rightarrow> string list \<Rightarrow> string list" where
  "compactNames_from seen [] = []"
| "compactNames_from seen (v # vs) =
     (let t = TrimSpace v
      in if t = [] \<or> t \<in> set seen then compactNames_from seen vs
         else t # compactNames_from (t # seen) vs)"

definition compactNames :: "string list \<Rightarrow> string list" where
  "compactNames vs = compactNames_from [] vs"

definition DomainWithinManagedDomain :: "string \<Rightarrow> string \<Rightarrow> bool" where
  "DomainWithinManagedDomain managedDomain domain =
     (let m = TrimSuffix (TrimSpace managedDomain) ''.'';
          d = TrimPrefix (TrimSuffix (TrimSpace domain) ''.'') ''*.''
      in d = m \<or> HasSuffix d (''.'' @ m))"

definition domainBelongsToZone :: "string \<Rightarrow> string \<Rightarrow> bool" where
  "domainBelongsToZone zoneDomain domain = DomainWithinManagedDomain zoneDomain domain"

section \<open>Managed zones\<close>

definition Hostname :: "managed_zone \<Rightarrow> string \<Rightarrow> string" where
  "Hostname z subdomain =
     (let s = TrimSpace subdomain in if s = [] then z_Domain z else s @ ''.'' @ z_Domain z)"

definition DefaultManagedZone :: "managed_zone list \<Rightarrow> managed_zone option" where
  "DefaultManagedZone zones =
     (case find z_Default zones of
        Some z \<Rightarrow> Some z
      | None \<Rightarrow> (case zones of [z] \<Rightarrow> Some z | _ \<Rightarrow> None))"

definition DefaultManagedZoneName :: "managed_zone list \<Rightarrow> string" where
  "DefaultManagedZoneName zones =
     (case DefaultManagedZone zones of None \<Rightarrow> [] | Some z \<Rightarrow> z_Domain z)"

definition QualifiedBundleName :: "string \<Rightarrow> string \<Rightarrow> string" where
  "QualifiedBundleName zoneName bundleName =
     (let b = TrimSpace bundleName
      in if b = [] \<or> b = zoneName then zoneName else zoneName @ '':'' @ b)"

definition domainsForManagedZone :: "managed_zone \<Rightarrow> string list" where
  "domainsForManagedZone z =
     compactNames ([z_Domain z] @ (if z_Wildcard z then [''*.'' @ z_Domain z] else []))"

text \<open>The loop of \<open>CertificatePlans\<close> over the configured bundles.\<close>

fun bundle_plans :: "managed_zone \<Rightarrow> string list \<Rightarrow> string list \<Rightarrow> duration \<Rightarrow> string list \<Rightarrow>
    bundle_policy list \<Rightarrow> certificate_plan list result" where
  "bundle_plans z defaultDomains defaultTargets defaultRenew seen [] = Inr []"
| "bundle_plans z defaultDomains defaultTargets defaultRenew seen (b # bs) =
     (let name = QualifiedBundleName (z_Name z) (bp_Name b);
          compacted = compactNames (bp_Domains b);
          domains = (if compacted = [] then defaultDomains else compacted);
          renewBefore = (if bp_RenewBefore b = 0 then defaultRenew else bp_RenewBefore b);
          own = compactNames (bp_DeployTargets b);
          targets = (if own = [] then defaultTargets else own)
      in if name = z_Name z \<and> TrimSpace (bp_Name b) = [] then
           Inl (Errorf ''zone %q certificate bundle name is required when bundles are explicitly configured'' [z_Name z])
         else if name \<in> set seen then
           Inl (Errorf ''zone %q has duplicate certificate bundle %q'' [z_Name z, name])
         else
           (case find (\<lambda>d. \<not> domainBelongsToZone (z_Domain z) d) domains of
              Some d \<Rightarrow>
                Inl (Errorf ''zone %q certificate bundle %q domain %q is outside the managed zone''
                       [z_Name z, name, d])
            | None \<Rightarrow>
                (case bundle_plans z defaultDomains defaultTargets defaultRenew (name # seen) bs of
                   Inl e \<Rightarrow> Inl e
                 | Inr ps \<Rightarrow>
                     Inr (\<lparr>pl_Name = name, pl_Domains = domains, pl_RenewBefore = renewBefore,
                           pl_DeployTargets = targets\<rparr> # ps))))"

definition CertificatePlans :: "managed_zone \<Rightarrow> certificate_plan list result" where
  "CertificatePlans z =
     (let cert = z_Certificate z
      in if \<not> cp_Enabled cert then Inr []
         else
           (let defaultRenew = (if cp_RenewBefore cert = 0 then DefaultCertificateRenewBefore
                                else cp_RenewBefore cert);
                defaultDomains = domainsForManagedZone z;
                defaultTargets = compactNames (cp_DeployTargets cert)
            in if cp_Bundles cert = [] then
                 Inr [\<lparr>pl_Name = z_Name z, pl_Domains = defaultDomains,
                       pl_RenewBefore = defaultRenew, pl_DeployTargets = defaultTargets\<rparr>]
               else bundle_plans z defaultDomains defaultTargets defaultRenew [] (cp_Bundles cert)))"

text \<open>
  \<open>ManagedZone.Validate\<close>: the error, and the zone with the defaults filled in up to the
  point where validation stopped.
\<close>

definition fill_zone_name :: "managed_zone \<Rightarrow> managed_zone" where
  "fill_zone_name z = (if z_Name z = [] then z\<lparr>z_Name := TrimSpace (z_Domain z)\<rparr> else z)"

definition fill_zone_ttl :: "managed_zone \<Rightarrow> managed_zone" where
  "fill_zone_ttl z =
     (if dz_Enabled (z_DDNS z) \<and> dz_TTL (z_DDNS z) = 0
      then z\<lparr>z_DDNS := (z_DDNS z)\<lparr>dz_TTL := DefaultDDNSTTL\<rparr>\<rparr> else z)"

definition fill_zone_renew :: "managed_zone \<Rightarrow> managed_zone" where
  "fill_zone_renew z =
     (if cp_RenewBefore (z_Certificate z) = 0
      then z\<lparr>z_Certificate := (z_Certificate z)\<lparr>cp_RenewBefore := DefaultCertificateRenewBefore\<rparr>\<rparr>
      else z)"

definition validate_zone_certificate :: "managed_zone \<Rightarrow> go_error option \<times> managed_zone" where
  "validate_zone_certificate z =
     (if \<not> cp_Enabled (z_Certificate z) then (None, z)
      else if cp_Email (z_Certificate z) = [] then
        (Some (Errorf ''domain %q certificate email is required'' [z_Domain z]), z)
      else if cp_DNSProvider (z_Certificate z) = [] then
        (Some (Errorf ''domain %q certificate dns_provider is required'' [z_Domain z]), z)
      else
        (let z' = fill_zone_renew z
         in case CertificatePlans z' of Inl e \<Rightarrow> (Some e, z') | Inr _ \<Rightarrow> (None, z')))"

definition ManagedZone_Validate :: "managed_zone \<Rightarrow> go_error option \<times> managed_zone" where
  "ManagedZone_Validate z =
     (if z_Domain z = [] then (Some (Errorf ''domain is required'' []), z)
      else
        (let z1 = fill_zone_name z
         in if dz_Enabled (z_DDNS z1) \<and> dz_ProviderRefs (z_DDNS z1) = [] then
              (Some (Errorf ''domain %q ddns provider_refs is required'' [z_Domain z1]), z1)
            else validate_zone_certificate (fill_zone_ttl z1)))"

section \<open>Bundles and plans\<close>

definition certificatePlanTargets :: "managed_zone list \<Rightarrow> string list gomap" where
  "certificatePlanTargets zones =
     fold (\<lambda>z m.
        if \<not> cp_Enabled (z_Certificate z) then m
        else (case CertificatePlans z of
                Inl _ \<Rightarrow> m
              | Inr plans \<Rightarrow> fold (\<lambda>p m. gm_put (pl_Name p) (pl_DeployTargets p) m) plans m))
       zones []"

definition ApplyCertificatePlanTargets ::
    "managed_zone list \<Rightarrow> certificate_bundle list \<Rightarrow> certificate_bundle list" where
  "ApplyCertificatePlanTargets zones bundles =
     (let targetsByBundle = certificatePlanTargets zones
      in map (\<lambda>b. case gm_get targetsByBundle (cb_Name b) of
                    Some ts \<Rightarrow> b\<lparr>cb_DeployTargets := ts\<rparr> | None \<Rightarrow> b) bundles)"

definition CurrentCertificateBundles ::
    "managed_zone list \<Rightarrow> certificate_bundle list \<Rightarrow> certificate_bundle list" where
  "CurrentCertificateBundles zones bundles =
     (let targetsByBundle = certificatePlanTargets zones
      in List.map_filter (\<lambda>b. case gm_get targetsByBundle (cb_Name b) of
                    None \<Rightarrow> None | Some ts \<Rightarrow> Some (b\<lparr>cb_DeployTargets := ts\<rparr>)) bundles)"

definition CertificateBundle_Validate :: "certificate_bundle \<Rightarrow> go_error option" where
  "CertificateBundle_Validate b0 =
     (let b = (if TrimSpace (cb_Domain b0) = [] then b0\<lparr>cb_Domain := TrimSpace (cb_Zone b0)\<rparr> else b0)
      in if cb_Name b = [] then Some (Errorf ''certificate bundle name is required'' [])
         else if cb_Domain b = [] then
           Some (Errorf ''certificate bundle %q domain is required'' [cb_Name b])
         else if cb_CertPath b = [] \<or> cb_KeyPath b = [] then
           Some (Errorf ''certificate bundle %q paths are required'' [cb_Name b])
         else if cb_Domains b = [] then
           Some (Errorf ''certificate bundle %q domains are required'' [cb_Name b])
         else None)"

section \<open>Runtime sources\<close>

definition ContainerRuntime_Validate :: "container_runtime \<Rightarrow> go_error option" where
  "ContainerRuntime_Validate r =
     (if r = ContainerRuntimeDocker \<or> r = ContainerRuntimePodman then None
      else Some (Errorf ''unsupported runtime %q'' [r]))"

definition defaultRuntime :: "container_runtime \<Rightarrow> container_runtime" where
  "defaultRuntime r = (if r = [] then ContainerRuntimeDocker else r)"

definition normalizeEndpoint :: "string \<Rightarrow> string" where
  "normalizeEndpoint endpoint =
     (let e = TrimSpace endpoint
      in if e = [] then []
         else if HasPrefix e ''unix://'' \<or> Contains e ''://'' then e
         else if HasPrefix e ''/'' then ''unix://'' @ e
         else e)"

definition inferRuntimeFromPath :: "string \<Rightarrow> container_runtime" where
  "inferRuntimeFromPath value =
     (let v = ToLower (TrimSpace value)
      in if v = [] then []
         else if Contains v ''podman.sock'' \<or> Contains v ''/podman/'' then ContainerRuntimePodman
         else [])"

definition inferRuntimeFromEndpoint :: "os_env \<Rightarrow> string \<Rightarrow> container_runtime" where
  "inferRuntimeFromEndpoint os endpoint0 =
     (let endpoint = normalizeEndpoint endpoint0;
          linked = (if HasPrefix endpoint ''unix://''
                    then (case os_EvalSymlinks os (TrimPrefix endpoint ''unix://'') of
                            Inl _ \<Rightarrow> [] | Inr resolved \<Rightarrow> inferRuntimeFromPath resolved)
                    else [])
      in if linked \<noteq> [] then linked
         else inferRuntimeFromPath (ToLower (TrimSpace endpoint)))"

definition podmanUserSocketPath :: "os_env \<Rightarrow> string" where
  "podmanUserSocketPath os =
     (let runtimeDir = TrimSpace (os_Getenv os ''XDG_RUNTIME_DIR'')
      in if runtimeDir \<noteq> [] then PathJoin [runtimeDir, ''podman'', ''podman.sock'']
         else if os_Getuid os > 0
              then PathJoin [''/run/user'', Itoa (os_Getuid os), ''podman'', ''podman.sock'']
              else [])"

definition runtimeEndpointCandidates :: "os_env \<Rightarrow> container_runtime \<Rightarrow> string list" where
  "runtimeEndpointCandidates os runtime =
     (if defaultRuntime runtime = ContainerRuntimePodman then
        compactNames [
          TrimSpace (os_Getenv os ''PODMAN_SOCKET''),
          TrimSpace (os_Getenv os ''CONTAINER_HOST''),
          TrimSpace (os_Getenv os ''DOCKER_HOST''),
          TrimSpace (os_Getenv os ''DOCKER_SOCKET''),
          podmanUserSocketPath os,
          ''/run/podman/podman.sock'',
          ''/var/run/docker.sock'']
      else
        compactNames [
          TrimSpace (os_Getenv os ''DOCKER_HOST''),
          TrimSpace (os_Getenv os ''DOCKER_SOCKET''),
          ''/var/run/docker.sock''])"

definition DefaultRuntimeEndpoint :: "os_env \<Rightarrow> container_runtime \<Rightarrow> string" where
  "DefaultRuntimeEndpoint os runtime =
     (case find (\<lambda>e. e \<noteq> []) (map normalizeEndpoint
             (runtimeEndpointCandidates os (defaultRuntime runtime))) of
        None \<Rightarrow> [] | Some e \<Rightarrow> e)"

definition DefaultRuntimeSocketPath :: "os_env \<Rightarrow> container_runtime \<Rightarrow> string" where
  "DefaultRuntimeSocketPath os runtime =
     (let endpoint = DefaultRuntimeEndpoint os runtime
      in if HasPrefix endpoint ''unix://'' then TrimPrefix endpoint ''unix://'' else [])"

definition RuntimeOrDefault :: "os_env \<Rightarrow> runtime_source \<Rightarrow> container_runtime" where
  "RuntimeOrDefault os s =
     (let runtime = TrimSpace (rs_Runtime s);
          fromEndpoint = inferRuntimeFromEndpoint os (rs_Endpoint s);
          fromContainerHost = inferRuntimeFromEndpoint os (os_Getenv os ''CONTAINER_HOST'');
          fromDockerHost = inferRuntimeFromEndpoint os (os_Getenv os ''DOCKER_HOST'')
      in if runtime \<noteq> [] then runtime
         else if fromEndpoint \<noteq> [] then fromEndpoint
         else if os_Getenv os ''PODMAN_SOCKET'' \<noteq> [] then ContainerRuntimePodman
         else if fromContainerHost \<noteq> [] then fromContainerHost
         else if fromDockerHost \<noteq> [] then fromDockerHost
         else ContainerRuntimeDocker)"

definition EndpointOrDefault :: "os_env \<Rightarrow> runtime_source \<Rightarrow> string" where
  "EndpointOrDefault os s =
     (let endpoint = normalizeEndpoint (TrimSpace (rs_Endpoint s))
      in if endpoint \<noteq> [] then endpoint else DefaultRuntimeEndpoint os (RuntimeOrDefault os s))"

definition Normalized :: "os_env \<Rightarrow> runtime_source \<Rightarrow> runtime_source" where
  "Normalized os s0 =
     (let s1 = s0\<lparr>rs_Runtime := RuntimeOrDefault os s0\<rparr>;
          s2 = s1\<lparr>rs_Endpoint := EndpointOrDefault os s1\<rparr>;
          s3 = s2\<lparr>rs_DisplayName := TrimSpace (rs_DisplayName s2)\<rparr>
      in s3\<lparr>rs_Network := TrimSpace (rs_Network s3)\<rparr>)"

definition RuntimeSource_Validate :: "os_env \<Rightarrow> runtime_source \<Rightarrow> go_error option" where
  "RuntimeSource_Validate os s =
     (case ContainerRuntime_Validate (RuntimeOrDefault os s) of
        Some e \<Rightarrow> Some (Wrapf ''runtime: %w'' [] e)
      | None \<Rightarrow>
          if EndpointOrDefault os s = [] then Some (Errorf ''runtime endpoint is required'' [])
          else None)"

section \<open>Providers, apps, agents, targets, snapshots\<close>

definition DDNSProviderConfig_Validate :: "provider_config \<Rightarrow> go_error option" where
  "DDNSProviderConfig_Validate p =
     (if pc_Ref p = [] then Some (Errorf ''ddns provider ref is required'' [])
      else if pc_Type p = [] then Some (Errorf ''ddns provider %q type is required'' [pc_Ref p])
      else None)"

definition CustomApp_Validate :: "custom_app \<Rightarrow> go_error option" where
  "CustomApp_Validate a0 =
     (let a = (if TrimSpace (app_Domain a0) = [] then a0\<lparr>app_Domain := TrimSpace (app_Zone a0)\<rparr> else a0)
      in if TrimSpace (app_Name a) = [] then Some (Errorf ''custom app name is required'' [])
         else if TrimSpace (app_Domain a) = [] then
           Some (Errorf ''custom app %q domain is required'' [app_Name a])
         else if TrimSpace (app_Subdomain a) = [] then
           Some (Errorf ''custom app %q subdomain is required'' [app_Name a])
         else if TrimSpace (app_TargetURL a) = [] then
           Some (Errorf ''custom app %q target_url is required'' [app_Name a])
         else
           (case url_Parse (TrimSpace (app_TargetURL a)) of
              Inl e \<Rightarrow> Some (Wrapf ''custom app %q target_url is invalid: %w'' [app_Name a] e)
            | Inr target \<Rightarrow>
                if u_Scheme target = [] \<or> u_Host target = [] then
                  Some (Errorf ''custom app %q target_url must include scheme and host'' [app_Name a])
                else None))"

definition CustomApp_Host :: "custom_app \<Rightarrow> managed_zone \<Rightarrow> string" where
  "CustomApp_Host a zone = Hostname zone (app_Subdomain a)"

definition AgentNode_Validate :: "agent_node \<Rightarrow> go_error option" where
  "AgentNode_Validate n =
     (if ag_Name n = [] then Some (Errorf ''agent node name is required'' [])
      else if ag_Addr n = [] then Some (Errorf ''agent node %q addr is required'' [ag_Name n])
      else (case ContainerRuntime_Validate (ag_Runtime n) of
              Some e \<Rightarrow> Some (Wrapf ''agent node %q: %w'' [ag_Name n] e)
            | None \<Rightarrow> None))"

definition DefaultSubdomain :: "container_snapshot \<Rightarrow> string" where
  "DefaultSubdomain c = TrimPrefix (TrimSpace (cs_Name c)) ''/''"

definition DeployTarget_Validate :: "deploy_target \<Rightarrow> go_error option" where
  "DeployTarget_Validate t =
     (if dt_Name t = [] then Some (Errorf ''deploy target name is required'' [])
      else if dt_CertPath t = [] \<or> dt_KeyPath t = [] then
        Some (Errorf ''deploy target %q cert_path and key_path are required'' [dt_Name t])
      else if dt_Transport t = DeployTransportLocal then None
      else if dt_Transport t = DeployTransportAgent then
        (if dt_AgentNode t = [] then
           Some (Errorf ''deploy target %q agent node is required'' [dt_Name t]) else None)
      else if dt_Transport t = DeployTransportSSH then
        (if ssh_Addr (dt_SSH t) = [] \<or> ssh_User (dt_SSH t) = [] then
           Some (Errorf ''deploy target %q ssh addr and user are required'' [dt_Name t]) else None)
      else Some (Errorf ''deploy target %q has unsupported transport %q'' [dt_Name t, dt_Transport t]))"


section \<open>Facts about names and domains\<close>

lemma set_compactNames_from:
  "set (compactNames_from seen vs) = {t \<in> TrimSpace ` set vs. t \<noteq> [] \<and> t \<notin> set seen}"
  by (induction vs arbitrary: seen) (auto simp: Let_def)

lemma distinct_compactNames_from: "distinct (compactNames_from seen vs)"
  by (induction vs arbitrary: seen) (auto simp: Let_def set_compactNames_from)

lemma compactNames_from_id:
  "\<forall>v \<in> set vs. trimmed v \<and> v \<noteq> [] \<and> v \<notin> set seen \<Longrightarrow> distinct vs \<Longrightarrow>
     compactNames_from seen vs = vs"
proof (induction vs arbitrary: seen)
  case (Cons v vs)
  then have "compactNames_from (v # seen) vs = vs" by (intro Cons.IH) auto
  with Cons.prems show ?case by (simp add: Let_def trimmed_def)
qed simp

lemma set_compactNames: "set (compactNames vs) = {t \<in> TrimSpace ` set vs. t \<noteq> []}"
  by (simp add: compactNames_def set_compactNames_from)

lemma distinct_compactNames [simp]: "distinct (compactNames vs)"
  by (simp add: compactNames_def distinct_compactNames_from)

lemma compactNames_id:
  "\<forall>v \<in> set vs. trimmed v \<and> v \<noteq> [] \<Longrightarrow> distinct vs \<Longrightarrow> compactNames vs = vs"
  by (simp add: compactNames_def compactNames_from_id)

lemma compactNames_idem [simp]: "compactNames (compactNames vs) = compactNames vs"
  by (rule compactNames_id) (auto simp: set_compactNames)

lemma Join_append: "ss \<noteq> [] \<Longrightarrow> ts \<noteq> [] \<Longrightarrow> Join (ss @ ts) sep = Join ss sep @ sep @ Join ts sep"
  by (induction ss sep rule: Join.induct) (simp_all add: Join_Cons)

text \<open>A domain ends in a dot and another domain exactly when its labels end in the other's.\<close>

lemma domain_suffix_labels:
  "d = m \<or> HasSuffix d (''.'' @ m) \<longleftrightarrow> suffix (Split m (CHR ''.'')) (Split d (CHR ''.''))"
proof
  assume "d = m \<or> HasSuffix d (''.'' @ m)"
  then show "suffix (Split m (CHR ''.'')) (Split d (CHR ''.''))"
    by (auto simp: HasSuffix_def suffix_def Split_append)
next
  assume "suffix (Split m (CHR ''.'')) (Split d (CHR ''.''))"
  then obtain ls where ls: "Split d (CHR ''.'') = ls @ Split m (CHR ''.'')"
    by (auto simp: suffix_def)
  have d: "d = Join (ls @ Split m (CHR ''.'')) ''.''" using Join_Split [of d "CHR ''.''"] ls by simp
  show "d = m \<or> HasSuffix d (''.'' @ m)"
  proof (cases "ls = []")
    case True
    with d show ?thesis by (simp add: Join_Split)
  next
    case False
    with d have "d = Join ls ''.'' @ ''.'' @ m" by (simp add: Join_append Join_Split)
    then show ?thesis by (auto simp: HasSuffix_def suffix_def)
  qed
qed

text \<open>The labels of a managed domain and of a domain that is tested against it.\<close>

definition managed_labels :: "string \<Rightarrow> string list" where
  "managed_labels m = Split (TrimSuffix (TrimSpace m) ''.'') (CHR ''.'')"

definition domain_labels :: "string \<Rightarrow> string list" where
  "domain_labels d = Split (TrimPrefix (TrimSuffix (TrimSpace d) ''.'') ''*.'') (CHR ''.'')"

lemma DomainWithin_labels:
  "DomainWithinManagedDomain m d \<longleftrightarrow> suffix (managed_labels m) (domain_labels d)"
  unfolding DomainWithinManagedDomain_def Let_def domain_suffix_labels
  by (simp add: managed_labels_def domain_labels_def)

text \<open>The apex and the wildcard of a domain lie inside it.\<close>

definition plain_domain :: "string \<Rightarrow> bool" where
  "plain_domain d \<longleftrightarrow> trimmed d \<and> d \<noteq> [] \<and> \<not> HasPrefix d ''*.''"

lemma TrimPrefix_TrimSuffix_plain:
  "\<not> HasPrefix d ''*.'' \<Longrightarrow> TrimPrefix (TrimSuffix d ''.'') ''*.'' = TrimSuffix d ''.''"
  by (auto simp: TrimPrefix_def HasPrefix_def TrimSuffix_def HasSuffix_def
      dest: prefix_order.trans [OF _ take_is_prefix])

lemma apex_within: "plain_domain d \<Longrightarrow> DomainWithinManagedDomain d d"
  by (simp add: DomainWithinManagedDomain_def plain_domain_def trimmed_def
      TrimPrefix_TrimSuffix_plain)

lemma wildcard_TrimSpace: "trimmed d \<Longrightarrow> TrimSpace (''*.'' @ d) = ''*.'' @ d"
  using trimmed_join [of "''*''" d "CHR ''.''"]
  by (simp add: trimmed_def TrimSpace_literal is_graph_def less_eq_char_def)

lemma TrimSuffix_wildcard:
  "d \<noteq> [] \<Longrightarrow> TrimSuffix (''*.'' @ d) ''.'' = ''*.'' @ TrimSuffix d ''.''"
  by (cases d rule: rev_cases) (auto simp: TrimSuffix_def HasSuffix_def suffix_def)

lemma wildcard_within: "plain_domain d \<Longrightarrow> DomainWithinManagedDomain d (''*.'' @ d)"
  unfolding DomainWithinManagedDomain_def Let_def plain_domain_def
  by (metis TrimPrefix_append TrimSuffix_wildcard trimmed_def wildcard_TrimSpace)

lemma set_domainsForManagedZone:
  "plain_domain (z_Domain z) \<Longrightarrow>
     set (domainsForManagedZone z) = insert (z_Domain z) (if z_Wildcard z then {''*.'' @ z_Domain z} else {})"
  using wildcard_TrimSpace [of "z_Domain z"]
  by (auto simp: domainsForManagedZone_def set_compactNames plain_domain_def trimmed_def)

section \<open>Facts about certificate plans\<close>

lemma bundle_plans_names:
  "bundle_plans z dd dt dr seen bs = Inr ps \<Longrightarrow>
     map pl_Name ps = map (\<lambda>b. QualifiedBundleName (z_Name z) (bp_Name b)) bs"
  by (induction bs arbitrary: seen ps) (auto simp: Let_def split: if_splits option.splits sum.splits)

lemma bundle_plans_distinct:
  "bundle_plans z dd dt dr seen bs = Inr ps \<Longrightarrow>
     distinct (map pl_Name ps) \<and> set (map pl_Name ps) \<inter> set seen = {}"
proof (induction bs arbitrary: seen ps)
  case (Cons b bs)
  let ?n = "QualifiedBundleName (z_Name z) (bp_Name b)"
  from Cons.prems obtain p qs where qs: "bundle_plans z dd dt dr (?n # seen) bs = Inr qs"
      and ps: "ps = p # qs" and p: "pl_Name p = ?n" and n: "?n \<notin> set seen"
    by (auto simp: Let_def split: if_splits option.splits sum.splits)
  from Cons.IH [OF qs] ps p n show ?case by auto
qed simp

lemma bundle_plans_domains:
  "bundle_plans z dd dt dr seen bs = Inr ps \<Longrightarrow> p \<in> set ps \<Longrightarrow> d \<in> set (pl_Domains p) \<Longrightarrow>
     DomainWithinManagedDomain (z_Domain z) d"
proof (induction bs arbitrary: seen ps)
  case (Cons b bs)
  let ?n = "QualifiedBundleName (z_Name z) (bp_Name b)"
  from Cons.prems(1) obtain q qs where qs: "bundle_plans z dd dt dr (?n # seen) bs = Inr qs"
      and ps: "ps = q # qs"
      and q: "find (\<lambda>d. \<not> domainBelongsToZone (z_Domain z) d) (pl_Domains q) = None"
    by (auto simp: Let_def split: if_splits option.splits sum.splits)
  show ?case
  proof (cases "p = q")
    case True
    with q Cons.prems(3) show ?thesis by (auto simp: find_None_iff domainBelongsToZone_def)
  next
    case False
    with ps Cons.prems(2) have "p \<in> set qs" by simp
    from Cons.IH [OF qs this Cons.prems(3)] show ?thesis .
  qed
qed simp

lemma bundle_plans_renew:
  "bundle_plans z dd dt dr seen bs = Inr ps \<Longrightarrow> dr \<noteq> 0 \<Longrightarrow> p \<in> set ps \<Longrightarrow> pl_RenewBefore p \<noteq> 0"
proof (induction bs arbitrary: seen ps)
  case (Cons b bs)
  let ?n = "QualifiedBundleName (z_Name z) (bp_Name b)"
  from Cons.prems(1,2) obtain q qs where qs: "bundle_plans z dd dt dr (?n # seen) bs = Inr qs"
      and ps: "ps = q # qs" and q: "pl_RenewBefore q \<noteq> 0"
    by (auto simp: Let_def split: if_splits option.splits sum.splits)
  from Cons.IH [OF qs Cons.prems(2)] ps q Cons.prems(3) show ?case by auto
qed simp

lemma DefaultCertificateRenewBefore_pos: "0 < DefaultCertificateRenewBefore"
  by (simp add: DefaultCertificateRenewBefore_def)

text \<open>The names under which a zone plans certificates.\<close>

definition plan_names :: "managed_zone \<Rightarrow> string list" where
  "plan_names z =
     (if cp_Bundles (z_Certificate z) = [] then [z_Name z]
      else map (\<lambda>b. QualifiedBundleName (z_Name z) (bp_Name b)) (cp_Bundles (z_Certificate z)))"

lemma CertificatePlans_names:
  "CertificatePlans z = Inr ps \<Longrightarrow> cp_Enabled (z_Certificate z) \<Longrightarrow> map pl_Name ps = plan_names z"
  by (auto simp: CertificatePlans_def plan_names_def Let_def bundle_plans_names split: if_splits)

lemma CertificatePlans_distinct: "CertificatePlans z = Inr ps \<Longrightarrow> distinct (map pl_Name ps)"
  by (auto simp: CertificatePlans_def Let_def split: if_splits dest: bundle_plans_distinct)

lemma CertificatePlans_within:
  assumes "CertificatePlans z = Inr ps" and "plain_domain (z_Domain z)"
    and "p \<in> set ps" and "d \<in> set (pl_Domains p)"
  shows "DomainWithinManagedDomain (z_Domain z) d"
proof (cases "cp_Bundles (z_Certificate z) = []")
  case True
  with assms have "d \<in> set (domainsForManagedZone z)"
    by (auto simp: CertificatePlans_def Let_def split: if_splits)
  with assms(2) wildcard_within [OF assms(2)] show ?thesis
    by (auto simp: set_domainsForManagedZone apex_within split: if_splits)
next
  case False
  with assms show ?thesis
    by (auto simp: CertificatePlans_def Let_def split: if_splits intro: bundle_plans_domains)
qed

lemma CertificatePlans_renew:
  "CertificatePlans z = Inr ps \<Longrightarrow> p \<in> set ps \<Longrightarrow> pl_RenewBefore p \<noteq> 0"
  using DefaultCertificateRenewBefore_pos
  by (auto simp: CertificatePlans_def Let_def split: if_splits dest: bundle_plans_renew)

section \<open>Facts about zone validation\<close>

text \<open>What \<open>Validate\<close> establishes: a well-formedness invariant of zones.\<close>

definition zone_ok :: "managed_zone \<Rightarrow> bool" where
  "zone_ok z \<longleftrightarrow>
     z_Domain z \<noteq> [] \<and> (z_Name z = [] \<longrightarrow> TrimSpace (z_Domain z) = [])
     \<and> (dz_Enabled (z_DDNS z) \<longrightarrow> dz_ProviderRefs (z_DDNS z) \<noteq> [] \<and> dz_TTL (z_DDNS z) \<noteq> 0)
     \<and> (cp_Enabled (z_Certificate z) \<longrightarrow>
          cp_Email (z_Certificate z) \<noteq> [] \<and> cp_DNSProvider (z_Certificate z) \<noteq> []
          \<and> cp_RenewBefore (z_Certificate z) \<noteq> 0 \<and> \<not> isl (CertificatePlans z))"

lemma fill_zone_simps [simp]:
  "z_Domain (fill_zone_name z) = z_Domain z" "z_DDNS (fill_zone_name z) = z_DDNS z"
  "z_Certificate (fill_zone_name z) = z_Certificate z"
  "z_Domain (fill_zone_ttl z) = z_Domain z" "z_Name (fill_zone_ttl z) = z_Name z"
  "z_Certificate (fill_zone_ttl z) = z_Certificate z"
  "dz_Enabled (z_DDNS (fill_zone_ttl z)) = dz_Enabled (z_DDNS z)"
  "dz_ProviderRefs (z_DDNS (fill_zone_ttl z)) = dz_ProviderRefs (z_DDNS z)"
  "z_Domain (fill_zone_renew z) = z_Domain z" "z_Name (fill_zone_renew z) = z_Name z"
  "z_DDNS (fill_zone_renew z) = z_DDNS z"
  "cp_Enabled (z_Certificate (fill_zone_renew z)) = cp_Enabled (z_Certificate z)"
  "cp_Email (z_Certificate (fill_zone_renew z)) = cp_Email (z_Certificate z)"
  "cp_DNSProvider (z_Certificate (fill_zone_renew z)) = cp_DNSProvider (z_Certificate z)"
  by (simp_all add: fill_zone_name_def fill_zone_ttl_def fill_zone_renew_def)

lemma fill_zone_values [simp]:
  "z_Name (fill_zone_name z) = (if z_Name z = [] then TrimSpace (z_Domain z) else z_Name z)"
  "dz_Enabled (z_DDNS z) \<Longrightarrow> dz_TTL (z_DDNS (fill_zone_ttl z)) \<noteq> 0"
  "cp_RenewBefore (z_Certificate (fill_zone_renew z)) \<noteq> 0"
  using DefaultCertificateRenewBefore_pos
  by (simp_all add: fill_zone_name_def fill_zone_ttl_def fill_zone_renew_def DefaultDDNSTTL_def)

lemma ManagedZone_Validate_ok: "ManagedZone_Validate z = (None, z') \<Longrightarrow> zone_ok z'"
  by (auto simp: ManagedZone_Validate_def validate_zone_certificate_def zone_ok_def Let_def
      split: if_splits sum.splits)

lemma zone_ok_fill:
  "zone_ok z \<Longrightarrow> fill_zone_name z = z" "zone_ok z \<Longrightarrow> fill_zone_ttl z = z"
  "zone_ok z \<Longrightarrow> cp_Enabled (z_Certificate z) \<Longrightarrow> fill_zone_renew z = z"
  by (auto simp: zone_ok_def fill_zone_name_def fill_zone_ttl_def fill_zone_renew_def)

lemma zone_ok_Validate: "zone_ok z \<Longrightarrow> ManagedZone_Validate z = (None, z)"
  by (auto simp: ManagedZone_Validate_def validate_zone_certificate_def zone_ok_fill Let_def
      split: sum.splits) (auto simp: zone_ok_def)

lemma ManagedZone_Validate_frame:
  "z_Domain (snd (ManagedZone_Validate z)) = z_Domain z"
  "z_Default (snd (ManagedZone_Validate z)) = z_Default z"
  "z_Wildcard (snd (ManagedZone_Validate z)) = z_Wildcard z"
  by (auto simp: ManagedZone_Validate_def validate_zone_certificate_def Let_def fill_zone_name_def
      fill_zone_ttl_def fill_zone_renew_def split: sum.splits)

section \<open>Facts about runtime sources\<close>

lemma normalizeEndpoint_Nil [simp]: "normalizeEndpoint [] = []"
  by (simp add: normalizeEndpoint_def)

lemma unix_prefix_TrimSpace: "trimmed e \<Longrightarrow> e \<noteq> [] \<Longrightarrow> TrimSpace (''unix://'' @ e) = ''unix://'' @ e"
  using trimmed_join [of "''unix:/''" e "CHR ''/''"]
  by (simp add: trimmed_def TrimSpace_literal is_graph_def less_eq_char_def)

lemma unix_TrimSpace: "TrimSpace ''unix://'' = ''unix://''"
  by (simp add: TrimSpace_literal is_graph_def less_eq_char_def)

lemma normalizeEndpoint_trimmed: "trimmed (normalizeEndpoint e)"
  using unix_prefix_TrimSpace [of "TrimSpace e"]
  by (auto simp: normalizeEndpoint_def Let_def trimmed_def)

lemma normalizeEndpoint_idem [simp]: "normalizeEndpoint (normalizeEndpoint e) = normalizeEndpoint e"
proof -
  let ?n = "normalizeEndpoint e"
  have t: "TrimSpace ?n = ?n" using normalizeEndpoint_trimmed [of e] by (simp add: trimmed_def)
  have "?n = [] \<or> HasPrefix ?n ''unix://'' \<or> Contains ?n ''://'' \<or> \<not> HasPrefix ?n ''/''"
    by (auto simp: normalizeEndpoint_def Let_def HasPrefix_def)
  then show ?thesis by (subst normalizeEndpoint_def) (auto simp: Let_def t)
qed

lemma normalizeEndpoint_TrimSpace [simp]: "normalizeEndpoint (TrimSpace e) = normalizeEndpoint e"
  by (simp add: normalizeEndpoint_def)

lemma docker_sock_candidate: "''/var/run/docker.sock'' \<in> set (runtimeEndpointCandidates os r)"
proof -
  have "TrimSpace ''/var/run/docker.sock'' = ''/var/run/docker.sock''"
    by (simp add: TrimSpace_literal is_graph_def less_eq_char_def)
  then show ?thesis
    by (simp add: runtimeEndpointCandidates_def set_compactNames)
qed

lemma normalizeEndpoint_docker_sock: "normalizeEndpoint ''/var/run/docker.sock'' \<noteq> []"
  by (simp add: normalizeEndpoint_def TrimSpace_literal is_graph_def less_eq_char_def Let_def)

lemma DefaultRuntimeEndpoint_ne: "DefaultRuntimeEndpoint os r \<noteq> []"
proof -
  have "normalizeEndpoint ''/var/run/docker.sock''
      \<in> set (map normalizeEndpoint (runtimeEndpointCandidates os (defaultRuntime r)))"
    by (simp only: set_map imageI docker_sock_candidate)
  then have "find (\<lambda>e. e \<noteq> []) (map normalizeEndpoint (runtimeEndpointCandidates os (defaultRuntime r))) \<noteq> None"
    using normalizeEndpoint_docker_sock unfolding find_None_iff by blast
  then show ?thesis
    by (auto simp: DefaultRuntimeEndpoint_def split: option.splits dest: find_Some_mem)
qed

lemma DefaultRuntimeEndpoint_normal:
  "normalizeEndpoint (DefaultRuntimeEndpoint os r) = DefaultRuntimeEndpoint os r"
  by (auto simp: DefaultRuntimeEndpoint_def split: option.splits dest!: find_Some_mem)

lemma EndpointOrDefault_ne: "EndpointOrDefault os s \<noteq> []"
  by (simp add: EndpointOrDefault_def Let_def DefaultRuntimeEndpoint_ne)

lemma EndpointOrDefault_normal:
  "normalizeEndpoint (EndpointOrDefault os s) = EndpointOrDefault os s"
  by (simp add: EndpointOrDefault_def Let_def DefaultRuntimeEndpoint_normal)

lemma inferRuntime_cases:
  "inferRuntimeFromEndpoint os e \<in> {[], ContainerRuntimePodman}"
  by (auto simp: inferRuntimeFromEndpoint_def inferRuntimeFromPath_def Let_def split: sum.splits)

lemma RuntimeOrDefault_trimmed: "trimmed (RuntimeOrDefault os s) \<and> RuntimeOrDefault os s \<noteq> []"
proof -
  have "trimmed ''podman''" and "trimmed ''docker''"
    by (simp_all add: trimmed_def TrimSpace_literal is_graph_def less_eq_char_def)
  then show ?thesis
    using inferRuntime_cases [of os "rs_Endpoint s"]
      inferRuntime_cases [of os "os_Getenv os ''CONTAINER_HOST''"]
      inferRuntime_cases [of os "os_Getenv os ''DOCKER_HOST''"]
    by (auto simp: RuntimeOrDefault_def Let_def)
qed

lemma RuntimeOrDefault_given:
  "trimmed (rs_Runtime s) \<Longrightarrow> rs_Runtime s \<noteq> [] \<Longrightarrow> RuntimeOrDefault os s = rs_Runtime s"
  by (simp add: RuntimeOrDefault_def trimmed_def Let_def)

lemma Normalized_fields:
  "rs_Runtime (Normalized os s) = RuntimeOrDefault os s"
  "rs_Endpoint (Normalized os s) = EndpointOrDefault os (s\<lparr>rs_Runtime := RuntimeOrDefault os s\<rparr>)"
  "rs_DisplayName (Normalized os s) = TrimSpace (rs_DisplayName s)"
  "rs_Network (Normalized os s) = TrimSpace (rs_Network s)"
  by (simp_all add: Normalized_def Let_def)

lemma EndpointOrDefault_given:
  "normalizeEndpoint (rs_Endpoint s) = rs_Endpoint s \<Longrightarrow> rs_Endpoint s \<noteq> [] \<Longrightarrow>
     EndpointOrDefault os s = rs_Endpoint s"
  by (simp add: EndpointOrDefault_def Let_def)

lemma Normalized_id:
  "RuntimeOrDefault os t = rs_Runtime t \<Longrightarrow> EndpointOrDefault os t = rs_Endpoint t \<Longrightarrow>
   TrimSpace (rs_DisplayName t) = rs_DisplayName t \<Longrightarrow> TrimSpace (rs_Network t) = rs_Network t \<Longrightarrow>
     Normalized os t = t"
  by (simp add: Normalized_def)

lemma Normalized_idem: "Normalized os (Normalized os s) = Normalized os s"
proof -
  have "RuntimeOrDefault os (Normalized os s) = rs_Runtime (Normalized os s)"
    using RuntimeOrDefault_trimmed [of os s]
    by (intro RuntimeOrDefault_given) (simp_all add: Normalized_fields)
  moreover have "EndpointOrDefault os (Normalized os s) = rs_Endpoint (Normalized os s)"
    by (rule EndpointOrDefault_given)
      (simp_all add: Normalized_fields EndpointOrDefault_normal EndpointOrDefault_ne)
  ultimately show ?thesis by (rule Normalized_id) (simp_all add: Normalized_fields)
qed

section \<open>Facts about the current bundles\<close>

text \<open>The deploy targets the zones plan for a bundle name: the last plan of that name wins.\<close>

definition planned :: "managed_zone list \<Rightarrow> certificate_plan list" where
  "planned zones = concat (map (\<lambda>z. case CertificatePlans z of Inl _ \<Rightarrow> [] | Inr ps \<Rightarrow> ps)
                             (filter (\<lambda>z. cp_Enabled (z_Certificate z)) zones))"

lemma fold_put_plans:
  "gm_get (fold (\<lambda>p m. gm_put (pl_Name p) (pl_DeployTargets p) m) ps m) n =
     (case find (\<lambda>p. pl_Name p = n) (rev ps) of
        None \<Rightarrow> gm_get m n | Some p \<Rightarrow> Some (pl_DeployTargets p))"
  by (induction ps rule: rev_induct) simp_all

lemma certificatePlanTargets_fold:
  "fold (\<lambda>z m. if \<not> cp_Enabled (z_Certificate z) then m
        else (case CertificatePlans z of Inl _ \<Rightarrow> m
              | Inr plans \<Rightarrow> fold (\<lambda>p m. gm_put (pl_Name p) (pl_DeployTargets p) m) plans m)) zones m
   = fold (\<lambda>p m. gm_put (pl_Name p) (pl_DeployTargets p) m) (planned zones) m"
  by (induction zones arbitrary: m) (auto simp: planned_def split: sum.splits)

lemma certificatePlanTargets_get:
  "gm_get (certificatePlanTargets zones) n =
     map_option pl_DeployTargets (find (\<lambda>p. pl_Name p = n) (rev (planned zones)))"
  unfolding certificatePlanTargets_def certificatePlanTargets_fold fold_put_plans
  by (auto split: option.splits)

end
