(* ===== verification/Domux_Providers.thy ===== *)
theory Domux_Providers
  imports Domux_Core
begin

text \<open>
  The DNS provider registry of \<open>internal/ddns/provider\<close>: option validation, the built-in
  definitions, the constructors of the updaters, the configuration each challenge factory
  hands to the lego library, TTL defaults and record names. The HTTP calls of the updaters
  are in \<open>Domux_Upsert\<close>.
\<close>

type_synonym record_type = string

abbreviation RecordTypeA :: record_type where "RecordTypeA \<equiv> ''A''"
abbreviation RecordTypeAAAA :: record_type where "RecordTypeAAAA \<equiv> ''AAAA''"

section \<open>Provider options\<close>

definition option_error :: "string \<Rightarrow> string list \<Rightarrow> string \<times> string \<Rightarrow> go_error option" where
  "option_error provider allowed kv =
     (let key = fst kv; trimmedKey = TrimSpace key
      in if trimmedKey = [] then Some (Errorf ''%s has unsupported option %q'' [provider, key])
         else if trimmedKey \<notin> set allowed then
           Some (Errorf ''%s has unsupported option %q'' [provider, trimmedKey])
         else if TrimSpace (snd kv) = [] then
           Some (Errorf ''%s option %q is required'' [provider, trimmedKey])
         else None)"

fun first_error :: "('a \<Rightarrow> go_error option) \<Rightarrow> 'a list \<Rightarrow> go_error option" where
  "first_error f [] = None"
| "first_error f (x # xs) = (case f x of Some e \<Rightarrow> Some e | None \<Rightarrow> first_error f xs)"

definition validateProviderOptions ::
    "string \<Rightarrow> string gomap \<Rightarrow> string list \<Rightarrow> string list \<Rightarrow> go_error option" where
  "validateProviderOptions provider cfg required allowed =
     (case first_error (option_error provider allowed) cfg of
        Some e \<Rightarrow> Some e
      | None \<Rightarrow>
          (let missing = sort_slice id (filter (\<lambda>k. TrimSpace (gm_str cfg k) = []) required)
           in case missing of
                [] \<Rightarrow> None
              | [m] \<Rightarrow> Some (Errorf ''%s %s is required'' [provider, m])
              | _ \<Rightarrow> Some (Errorf ''%s %s are required'' [provider, Join missing '' and ''])))"

definition validateCloudflareConfig :: "string gomap \<Rightarrow> go_error option" where
  "validateCloudflareConfig cfg =
     validateProviderOptions ''cloudflare'' cfg [''api_token''] [''api_token'']"

definition validateAliDNSConfig :: "string gomap \<Rightarrow> go_error option" where
  "validateAliDNSConfig cfg =
     validateProviderOptions ''alidns'' cfg [''access_key_id'', ''access_key_secret'']
       [''access_key_id'', ''access_key_secret'']"

definition validateGoDaddyConfig :: "string gomap \<Rightarrow> go_error option" where
  "validateGoDaddyConfig cfg =
     validateProviderOptions ''godaddy'' cfg [''api_key'', ''api_secret''] [''api_key'', ''api_secret'']"

definition validateSpaceshipConfig :: "string gomap \<Rightarrow> go_error option" where
  "validateSpaceshipConfig cfg =
     validateProviderOptions ''spaceship'' cfg [''api_key'', ''api_secret''] [''api_key'', ''api_secret'']"

definition validateCloudflareChallengeConfig :: "string gomap \<Rightarrow> go_error option" where
  "validateCloudflareChallengeConfig cfg =
     validateProviderOptions ''cloudflare'' cfg [''api_token''] [''api_token'']"

definition validateAliDNSChallengeConfig :: "string gomap \<Rightarrow> go_error option" where
  "validateAliDNSChallengeConfig cfg =
     validateProviderOptions ''alidns'' cfg [''access_key_id'', ''access_key_secret'']
       [''access_key_id'', ''access_key_secret'']"

definition validateGoDaddyChallengeConfig :: "string gomap \<Rightarrow> go_error option" where
  "validateGoDaddyChallengeConfig cfg =
     validateProviderOptions ''godaddy'' cfg [''api_key'', ''api_secret''] [''api_key'', ''api_secret'']"

definition validateSpaceshipChallengeConfig :: "string gomap \<Rightarrow> go_error option" where
  "validateSpaceshipChallengeConfig cfg =
     validateProviderOptions ''spaceship'' cfg [''api_key'', ''api_secret''] [''api_key'', ''api_secret'']"

section \<open>Updaters and challenge providers\<close>

datatype updater =
    Cloudflare string string
  | AliDNS string string string
  | GoDaddy string string string
  | Spaceship string string string

definition NewCloudflare :: "string gomap \<Rightarrow> updater result" where
  "NewCloudflare cfg =
     (let token = TrimSpace (gm_str cfg ''api_token'');
          given = TrimSpace (gm_str cfg ''api_base_url'');
          baseURL = (if given = [] then ''https://api.cloudflare.com/client/v4'' else given)
      in if token = [] then Inl (Errorf ''cloudflare api_token is required'' [])
         else Inr (Cloudflare token (TrimRight baseURL ''/'')))"

definition NewAliDNS :: "string gomap \<Rightarrow> updater result" where
  "NewAliDNS cfg =
     (let accessKeyID = TrimSpace (gm_str cfg ''access_key_id'');
          accessKeySecret = TrimSpace (gm_str cfg ''access_key_secret'');
          given = TrimSpace (gm_str cfg ''endpoint'');
          endpoint = (if given = [] then ''https://alidns.aliyuncs.com/'' else given)
      in if accessKeyID = [] \<or> accessKeySecret = [] then
           Inl (Errorf ''alidns access_key_id and access_key_secret are required'' [])
         else Inr (AliDNS accessKeyID accessKeySecret endpoint))"

definition NewGoDaddy :: "string gomap \<Rightarrow> updater result" where
  "NewGoDaddy cfg =
     (let apiKey = TrimSpace (gm_str cfg ''api_key'');
          apiSecret = TrimSpace (gm_str cfg ''api_secret'');
          given = TrimSpace (gm_str cfg ''api_base_url'');
          baseURL = (if given = [] then ''https://api.godaddy.com/v1'' else given)
      in if apiKey = [] \<or> apiSecret = [] then
           Inl (Errorf ''godaddy api_key and api_secret are required'' [])
         else Inr (GoDaddy apiKey apiSecret (TrimRight baseURL ''/'')))"

definition NewSpaceship :: "string gomap \<Rightarrow> updater result" where
  "NewSpaceship cfg =
     (let apiKey = TrimSpace (gm_str cfg ''api_key'');
          apiSecret = TrimSpace (gm_str cfg ''api_secret'')
      in if apiKey = [] \<or> apiSecret = [] then
           Inl (Errorf ''spaceship api_key and api_secret are required'' [])
         else Inr (Spaceship apiKey apiSecret ''https://spaceship.dev/api/v1''))"

text \<open>The lego configuration that a challenge factory builds before it calls the library.\<close>

datatype lego_config =
    LegoCloudflare string
  | LegoAliDNS string string
  | LegoGoDaddy string string
  | LegoSpaceship string string

definition NewCloudflareChallenge :: "string gomap \<Rightarrow> lego_config result" where
  "NewCloudflareChallenge cfg =
     (case validateCloudflareChallengeConfig cfg of
        Some e \<Rightarrow> Inl e | None \<Rightarrow> Inr (LegoCloudflare (gm_str cfg ''api_token'')))"

definition NewAliDNSChallenge :: "string gomap \<Rightarrow> lego_config result" where
  "NewAliDNSChallenge cfg =
     (case validateAliDNSChallengeConfig cfg of
        Some e \<Rightarrow> Inl e
      | None \<Rightarrow> Inr (LegoAliDNS (gm_str cfg ''access_key_id'') (gm_str cfg ''access_key_secret'')))"

definition NewGoDaddyChallenge :: "string gomap \<Rightarrow> lego_config result" where
  "NewGoDaddyChallenge cfg =
     (case validateGoDaddyChallengeConfig cfg of
        Some e \<Rightarrow> Inl e
      | None \<Rightarrow> Inr (LegoGoDaddy (gm_str cfg ''api_key'') (gm_str cfg ''api_secret'')))"

definition NewSpaceshipChallenge :: "string gomap \<Rightarrow> lego_config result" where
  "NewSpaceshipChallenge cfg =
     (case validateSpaceshipChallengeConfig cfg of
        Some e \<Rightarrow> Inl e
      | None \<Rightarrow> Inr (LegoSpaceship (gm_str cfg ''api_key'') (gm_str cfg ''api_secret'')))"

section \<open>The registry\<close>

record provider_definition =
  pd_UpdaterFactory :: "(string gomap \<Rightarrow> updater result) option"
  pd_ChallengeFactory :: "(string gomap \<Rightarrow> lego_config result) option"
  pd_ValidateUpdater :: "(string gomap \<Rightarrow> go_error option) option"
  pd_ValidateChallenge :: "(string gomap \<Rightarrow> go_error option) option"
  pd_SupportedRecordTypes :: "record_type list"

type_synonym registry = "provider_definition gomap"

definition NewRegistry :: registry where
  "NewRegistry = []"

definition Register :: "string \<Rightarrow> provider_definition \<Rightarrow> registry \<Rightarrow> registry result" where
  "Register name d r =
     (if gm_get r name \<noteq> None then Inl (Errorf ''provider %q is already registered'' [name])
      else if pd_UpdaterFactory d = None then
        Inl (Errorf ''provider %q is missing updater capability'' [name])
      else if pd_ChallengeFactory d = None then
        Inl (Errorf ''provider %q is missing challenge capability'' [name])
      else Inr (gm_put name d r))"

definition registry_Exists :: "registry \<Rightarrow> string \<Rightarrow> bool" where
  "registry_Exists r name \<longleftrightarrow> gm_get r name \<noteq> None"

definition SupportsRecordType :: "registry \<Rightarrow> string \<Rightarrow> record_type \<Rightarrow> bool" where
  "SupportsRecordType r name rt =
     (case gm_get r name of
        None \<Rightarrow> False
      | Some d \<Rightarrow> pd_SupportedRecordTypes d = [] \<or> rt \<in> set (pd_SupportedRecordTypes d))"

definition Catalog :: "registry \<Rightarrow> (string \<times> record_type list) list" where
  "Catalog r = sort_slice fst (map (\<lambda>(n, d). (n, pd_SupportedRecordTypes d)) r)"

definition result_error :: "'a result \<Rightarrow> go_error option" where
  "result_error x = (case x of Inl e \<Rightarrow> Some e | Inr _ \<Rightarrow> None)"

definition not_registered :: "string \<Rightarrow> go_error" where
  "not_registered name = Errorf ''provider %q is not registered'' [name]"

text \<open>Calling a nil factory panics in Go; \<open>Register\<close> admits none (\<open>registry_ok\<close> below).\<close>

definition nil_call :: go_error where
  "nil_call = Errorf ''panic: nil function call'' []"

definition call_factory :: "(string gomap \<Rightarrow> 'a result) option \<Rightarrow> string gomap \<Rightarrow> 'a result" where
  "call_factory f cfg = (case f of None \<Rightarrow> Inl nil_call | Some g \<Rightarrow> g cfg)"

definition ValidateUpdater :: "registry \<Rightarrow> string \<Rightarrow> string gomap \<Rightarrow> go_error option" where
  "ValidateUpdater r name cfg =
     (case gm_get r name of
        None \<Rightarrow> Some (not_registered name)
      | Some d \<Rightarrow> (case pd_ValidateUpdater d of
                    Some v \<Rightarrow> v cfg
                  | None \<Rightarrow> result_error (call_factory (pd_UpdaterFactory d) cfg)))"

definition ValidateChallenge :: "registry \<Rightarrow> string \<Rightarrow> string gomap \<Rightarrow> go_error option" where
  "ValidateChallenge r name cfg =
     (case gm_get r name of
        None \<Rightarrow> Some (not_registered name)
      | Some d \<Rightarrow> (case pd_ValidateChallenge d of
                    Some v \<Rightarrow> v cfg
                  | None \<Rightarrow> result_error (call_factory (pd_ChallengeFactory d) cfg)))"

definition registry_New :: "registry \<Rightarrow> string \<Rightarrow> string gomap \<Rightarrow> updater result" where
  "registry_New r name cfg =
     (case gm_get r name of
        None \<Rightarrow> Inl (not_registered name)
      | Some d \<Rightarrow> call_factory (pd_UpdaterFactory d) cfg)"

definition registry_NewChallenge :: "registry \<Rightarrow> string \<Rightarrow> string gomap \<Rightarrow> lego_config result" where
  "registry_NewChallenge r name cfg =
     (case gm_get r name of
        None \<Rightarrow> Inl (not_registered name)
      | Some d \<Rightarrow> call_factory (pd_ChallengeFactory d) cfg)"

definition builtin_definition ::
    "(string gomap \<Rightarrow> updater result) \<Rightarrow> (string gomap \<Rightarrow> lego_config result) \<Rightarrow>
     (string gomap \<Rightarrow> go_error option) \<Rightarrow> (string gomap \<Rightarrow> go_error option) \<Rightarrow> provider_definition" where
  "builtin_definition u c vu vc =
     \<lparr>pd_UpdaterFactory = Some u, pd_ChallengeFactory = Some c, pd_ValidateUpdater = Some vu,
      pd_ValidateChallenge = Some vc, pd_SupportedRecordTypes = [RecordTypeA, RecordTypeAAAA]\<rparr>"

definition builtins :: "(string \<times> provider_definition) list" where
  "builtins =
     [(''cloudflare'', builtin_definition NewCloudflare NewCloudflareChallenge
         validateCloudflareConfig validateCloudflareChallengeConfig),
      (''alidns'', builtin_definition NewAliDNS NewAliDNSChallenge
         validateAliDNSConfig validateAliDNSChallengeConfig),
      (''godaddy'', builtin_definition NewGoDaddy NewGoDaddyChallenge
         validateGoDaddyConfig validateGoDaddyChallengeConfig),
      (''spaceship'', builtin_definition NewSpaceship NewSpaceshipChallenge
         validateSpaceshipConfig validateSpaceshipChallengeConfig)]"

fun register_all :: "(string \<times> provider_definition) list \<Rightarrow> registry \<Rightarrow> registry result" where
  "register_all [] r = Inr r"
| "register_all ((n, d) # ds) r =
     (case Register n d r of Inl e \<Rightarrow> Inl e | Inr r' \<Rightarrow> register_all ds r')"

definition RegisterBuiltins :: "registry \<Rightarrow> registry result" where
  "RegisterBuiltins r = register_all builtins r"

definition NewBuiltinRegistry :: "registry result" where
  "NewBuiltinRegistry = RegisterBuiltins NewRegistry"

section \<open>TTL defaults\<close>

definition parseCloudflareTTL :: "string \<Rightarrow> int" where
  "parseCloudflareTTL raw =
     (if raw = [] then 1
      else (case Atoi raw of None \<Rightarrow> 1 | Some ttl \<Rightarrow> if ttl \<le> 0 then 1 else ttl))"

definition defaultAliDNSTTL :: "int \<Rightarrow> int" where
  "defaultAliDNSTTL ttl = (if ttl \<le> 0 then 600 else ttl)"

definition defaultGoDaddyTTL :: "int \<Rightarrow> int" where
  "defaultGoDaddyTTL ttl = (if ttl < 600 then 600 else ttl)"

definition parseGoDaddyTTL :: "string \<Rightarrow> int" where
  "parseGoDaddyTTL raw =
     (if raw = [] then 600
      else (case Atoi raw of None \<Rightarrow> 600 | Some ttl \<Rightarrow> defaultGoDaddyTTL ttl))"

definition defaultSpaceshipTTL :: "int \<Rightarrow> int" where
  "defaultSpaceshipTTL ttl = (if ttl \<le> 0 then 3600 else ttl)"

section \<open>Record names\<close>

record record_name =
  rn_Domain :: string
  rn_Zone :: string
  rn_FQDN :: string
  rn_Relative :: string

definition trimDot :: "string \<Rightarrow> string" where
  "trimDot value = TrimSuffix value ''.''"

definition ResolveRecordName :: "string \<Rightarrow> string \<Rightarrow> record_name result" where
  "ResolveRecordName zone0 fqdn0 =
     (let zone = trimDot (TrimSpace zone0); fqdn = trimDot (TrimSpace fqdn0); suf = ''.'' @ zone
      in if zone = [] then Inl (Errorf ''zone is required'' [])
         else if fqdn = [] then Inl (Errorf ''record name is required'' [])
         else if fqdn = zone then
           Inr \<lparr>rn_Domain = zone, rn_Zone = zone, rn_FQDN = fqdn, rn_Relative = ''@''\<rparr>
         else if \<not> HasSuffix fqdn suf then
           Inl (Errorf ''record %q does not belong to zone %q'' [fqdn, zone])
         else
           (let r = TrimSuffix (TrimSuffix fqdn suf) ''.'';
                relative = (if r = [] then ''@'' else r)
            in Inr \<lparr>rn_Domain = zone, rn_Zone = zone, rn_FQDN = fqdn, rn_Relative = relative\<rparr>))"

definition AliDNSSubDomain :: "record_name \<Rightarrow> string" where
  "AliDNSSubDomain r = (if rn_Relative r = ''@'' then ''@.'' @ rn_Zone r else rn_FQDN r)"

section \<open>Facts\<close>

lemma first_error_None: "first_error f xs = None \<longleftrightarrow> (\<forall>x \<in> set xs. f x = None)"
  by (induction xs) (auto split: option.splits)

lemma validateProviderOptions_None:
  "validateProviderOptions provider cfg required allowed = None \<longleftrightarrow>
     (\<forall>(k, v) \<in> set cfg. TrimSpace k \<noteq> [] \<and> TrimSpace k \<in> set allowed \<and> TrimSpace v \<noteq> [])
     \<and> (\<forall>k \<in> set required. TrimSpace (gm_str cfg k) \<noteq> [])"
proof -
  let ?missing = "sort_slice id (filter (\<lambda>k. TrimSpace (gm_str cfg k) = []) required)"
  have "(case ?missing of [] \<Rightarrow> None
              | [m] \<Rightarrow> Some (Errorf ''%s %s is required'' [provider, m])
              | _ \<Rightarrow> Some (Errorf ''%s %s are required'' [provider, Join ?missing '' and ''])) = None
        \<longleftrightarrow> ?missing = []"
    by (auto split: list.splits)
  moreover have "?missing = [] \<longleftrightarrow> (\<forall>k \<in> set required. TrimSpace (gm_str cfg k) \<noteq> [])"
    by (simp add: filter_empty_conv)
  moreover have "first_error (option_error provider allowed) cfg = None \<longleftrightarrow>
     (\<forall>(k, v) \<in> set cfg. TrimSpace k \<noteq> [] \<and> TrimSpace k \<in> set allowed \<and> TrimSpace v \<noteq> [])"
    unfolding first_error_None by (auto simp: option_error_def Let_def split: if_splits)
  ultimately show ?thesis
    unfolding validateProviderOptions_def by (auto simp: Let_def split: option.splits)
qed

text \<open>Every definition a registry holds can build an updater and a challenge.\<close>

definition registry_ok :: "registry \<Rightarrow> bool" where
  "registry_ok r \<longleftrightarrow>
     gm_ok r \<and> list_all (\<lambda>(n, d). pd_UpdaterFactory d \<noteq> None \<and> pd_ChallengeFactory d \<noteq> None) r"

lemma registry_ok_iff:
  "registry_ok r \<longleftrightarrow> gm_ok r \<and> (\<forall>n d. gm_get r n = Some d \<longrightarrow>
      pd_UpdaterFactory d \<noteq> None \<and> pd_ChallengeFactory d \<noteq> None)"
  unfolding registry_ok_def list_all_iff by (auto simp: gm_get_Some_iff)

lemma Register_ok: "registry_ok r \<Longrightarrow> Register n d r = Inr r' \<Longrightarrow> registry_ok r'"
  by (auto simp: Register_def registry_ok_iff split: if_splits)

lemma builtin_registry_eq: "NewBuiltinRegistry = Inr builtins"
  by (simp add: NewBuiltinRegistry_def RegisterBuiltins_def NewRegistry_def builtins_def
      Register_def builtin_definition_def)

lemma builtins_Exists:
  "registry_Exists builtins t \<longleftrightarrow> t \<in> {''cloudflare'', ''alidns'', ''godaddy'', ''spaceship''}"
  by (auto simp: registry_Exists_def builtins_def)

lemma ResolveRecordName_FQDN:
  assumes "ResolveRecordName z f = Inr r"
  shows "rn_FQDN r = rn_Zone r \<or> (\<exists>p. rn_FQDN r = p @ ''.'' @ rn_Zone r)"
  using assms
  by (auto simp: ResolveRecordName_def Let_def HasSuffix_def suffix_def split: if_splits)

end
