(* ===== verification/Domux_Store.thy ===== *)
theory Domux_Store
  imports Domux_Core
begin

text \<open>
  The in-memory state of the server, \<open>internal/platform/store/store.go\<close>: one Go map per
  kind of object, two logs, and the list of applications. Every method of \<open>MemoryStore\<close> is a
  function on the record \<open>memory_store\<close>; the methods hold the lock of the store for their whole
  body, so each is one step. Methods that can only return \<open>nil\<close> return the store alone.
  The locales below are the contract of a table: what a lookup and a listing return after a
  put, a delete or a replacement. They are interpreted on every table of the store.
\<close>

record memory_store =
  ms_zones :: "managed_zone gomap"
  ms_providers :: "provider_config gomap"
  ms_apps :: "custom_app gomap"
  ms_sources :: "runtime_source gomap"
  ms_agents :: "agent_node gomap"
  ms_pendingAgents :: "agent_node gomap"
  ms_applicationList :: "application list"
  ms_routes :: "discovered_route gomap"
  ms_ddns :: "ddns_sync_state gomap"
  ms_targets :: "deploy_target gomap"
  ms_bundles :: "certificate_bundle gomap"
  ms_deploys :: "deploy_run list"
  ms_jobs :: "job_run list"

definition NewMemoryStore :: memory_store where
  "NewMemoryStore =
     \<lparr>ms_zones = [], ms_providers = [], ms_apps = [], ms_sources = [], ms_agents = [],
      ms_pendingAgents = [], ms_applicationList = [], ms_routes = [], ms_ddns = [],
      ms_targets = [], ms_bundles = [], ms_deploys = [], ms_jobs = []\<rparr>"

definition keyedMap :: "('v \<Rightarrow> string) \<Rightarrow> 'v list \<Rightarrow> 'v gomap" where
  "keyedMap idFn values = gm_put_all idFn values []"

section \<open>Operations\<close>

definition ReplaceCustomApps :: "custom_app list \<Rightarrow> memory_store \<Rightarrow> memory_store" where
  "ReplaceCustomApps xs s = s\<lparr>ms_apps := keyedMap app_Name xs\<rparr>"

definition PutCustomApp :: "custom_app \<Rightarrow> memory_store \<Rightarrow> memory_store" where
  "PutCustomApp x s = s\<lparr>ms_apps := gm_put (app_Name x) x (ms_apps s)\<rparr>"

definition GetCustomApp :: "memory_store \<Rightarrow> string \<Rightarrow> custom_app option" where
  "GetCustomApp s name = gm_get (ms_apps s) name"

definition DeleteCustomApp :: "string \<Rightarrow> memory_store \<Rightarrow> memory_store" where
  "DeleteCustomApp name s = s\<lparr>ms_apps := gm_del name (ms_apps s)\<rparr>"

definition ListCustomApps :: "memory_store \<Rightarrow> custom_app list" where
  "ListCustomApps s = sort_slice app_Name (gm_values (ms_apps s))"

definition ReplaceApplications :: "application list \<Rightarrow> memory_store \<Rightarrow> memory_store" where
  "ReplaceApplications apps s = s\<lparr>ms_applicationList := apps\<rparr>"

definition ListApplications :: "memory_store \<Rightarrow> application list" where
  "ListApplications s = ms_applicationList s"

definition domain_key :: "managed_zone \<Rightarrow> string" where
  "domain_key z = (if z_Domain z \<noteq> [] then z_Domain z else z_Name z)"

definition ReplaceDomains :: "managed_zone list \<Rightarrow> memory_store \<Rightarrow> memory_store" where
  "ReplaceDomains xs s = s\<lparr>ms_zones := keyedMap domain_key xs\<rparr>"

definition PutDomain :: "managed_zone \<Rightarrow> memory_store \<Rightarrow> memory_store" where
  "PutDomain x s = s\<lparr>ms_zones := gm_put (domain_key x) x (ms_zones s)\<rparr>"

definition GetDomain :: "memory_store \<Rightarrow> string \<Rightarrow> managed_zone option" where
  "GetDomain s name = gm_get (ms_zones s) name"

definition DeleteDomain :: "string \<Rightarrow> memory_store \<Rightarrow> memory_store" where
  "DeleteDomain name s = s\<lparr>ms_zones := gm_del name (ms_zones s)\<rparr>"

definition ListDomains :: "memory_store \<Rightarrow> managed_zone list" where
  "ListDomains s = sort_slice z_Name (gm_values (ms_zones s))"

definition ReplaceDDNSProviders :: "provider_config list \<Rightarrow> memory_store \<Rightarrow> memory_store" where
  "ReplaceDDNSProviders xs s = s\<lparr>ms_providers := keyedMap pc_Ref xs\<rparr>"

definition PutDDNSProvider :: "provider_config \<Rightarrow> memory_store \<Rightarrow> memory_store" where
  "PutDDNSProvider x s = s\<lparr>ms_providers := gm_put (pc_Ref x) x (ms_providers s)\<rparr>"

definition GetDDNSProvider :: "memory_store \<Rightarrow> string \<Rightarrow> provider_config option" where
  "GetDDNSProvider s name = gm_get (ms_providers s) name"

definition ListDDNSProviders :: "memory_store \<Rightarrow> provider_config list" where
  "ListDDNSProviders s = sort_slice pc_Ref (gm_values (ms_providers s))"

text \<open>A runtime source is filed under the runtime it resolves to in the environment.\<close>

definition ReplaceRuntimes :: "os_env \<Rightarrow> runtime_source list \<Rightarrow> memory_store \<Rightarrow> memory_store" where
  "ReplaceRuntimes os xs s = s\<lparr>ms_sources := keyedMap (RuntimeOrDefault os) xs\<rparr>"

definition PutRuntimeSource :: "os_env \<Rightarrow> runtime_source \<Rightarrow> memory_store \<Rightarrow> memory_store" where
  "PutRuntimeSource os x s = s\<lparr>ms_sources := gm_put (RuntimeOrDefault os x) x (ms_sources s)\<rparr>"

definition ListRuntimes :: "os_env \<Rightarrow> memory_store \<Rightarrow> runtime_source list" where
  "ListRuntimes os s = sort_slice (RuntimeOrDefault os) (gm_values (ms_sources s))"

definition ReplaceAgents :: "agent_node list \<Rightarrow> memory_store \<Rightarrow> memory_store" where
  "ReplaceAgents xs s = s\<lparr>ms_agents := keyedMap ag_Name xs\<rparr>"

definition PutAgent :: "agent_node \<Rightarrow> memory_store \<Rightarrow> memory_store" where
  "PutAgent x s = s\<lparr>ms_agents := gm_put (ag_Name x) x (ms_agents s)\<rparr>"

definition ListAgents :: "memory_store \<Rightarrow> agent_node list" where
  "ListAgents s = sort_slice ag_Name (gm_values (ms_agents s))"

definition PutPendingAgent :: "agent_node \<Rightarrow> memory_store \<Rightarrow> memory_store" where
  "PutPendingAgent x s = s\<lparr>ms_pendingAgents := gm_put (ag_Name x) x (ms_pendingAgents s)\<rparr>"

definition DeletePendingAgent :: "string \<Rightarrow> memory_store \<Rightarrow> memory_store" where
  "DeletePendingAgent name s = s\<lparr>ms_pendingAgents := gm_del name (ms_pendingAgents s)\<rparr>"

definition ListPendingAgents :: "memory_store \<Rightarrow> agent_node list" where
  "ListPendingAgents s = sort_slice ag_Name (gm_values (ms_pendingAgents s))"

definition ReplaceRoutes :: "discovered_route list \<Rightarrow> memory_store \<Rightarrow> memory_store" where
  "ReplaceRoutes xs s = s\<lparr>ms_routes := keyedMap rt_ID xs\<rparr>"

definition ListRoutes :: "memory_store \<Rightarrow> discovered_route list" where
  "ListRoutes s = sort_slice rt_Host (gm_values (ms_routes s))"

definition ddnsStateKey :: "string \<Rightarrow> string \<Rightarrow> string \<Rightarrow> string \<Rightarrow> string" where
  "ddnsStateKey zone provider host recordType =
     zone @ '':'' @ provider @ '':'' @ recordType @ '':'' @ host"

definition state_key :: "ddns_sync_state \<Rightarrow> string" where
  "state_key st = ddnsStateKey (ds_Domain st) (ds_Provider st) (ds_Host st) (ds_RecordType st)"

text \<open>\<open>PutDDNSSyncState\<close> first fills the domain from the zone, then the zone from the domain.\<close>

definition fill_domain :: "ddns_sync_state \<Rightarrow> ddns_sync_state" where
  "fill_domain st0 =
     (let st = (if ds_Domain st0 = [] then st0\<lparr>ds_Domain := ds_Zone st0\<rparr> else st0)
      in if ds_Zone st = [] then st\<lparr>ds_Zone := ds_Domain st\<rparr> else st)"

definition PutDDNSSyncState :: "ddns_sync_state \<Rightarrow> memory_store \<Rightarrow> memory_store" where
  "PutDDNSSyncState st0 s =
     (let st = fill_domain st0 in s\<lparr>ms_ddns := gm_put (state_key st) st (ms_ddns s)\<rparr>)"

definition GetDDNSSyncState :: "memory_store \<Rightarrow> string \<Rightarrow> string \<Rightarrow> string \<Rightarrow> string \<Rightarrow> ddns_sync_state option" where
  "GetDDNSSyncState s zone provider host recordType =
     gm_get (ms_ddns s) (ddnsStateKey zone provider host recordType)"

definition state_order :: "ddns_sync_state \<Rightarrow> string \<times> string \<times> string \<times> string" where
  "state_order st = (if ds_Domain st = [] then ds_Zone st else ds_Domain st,
                     ds_Provider st, ds_Host st, ds_RecordType st)"

definition ListDDNSSyncStates :: "memory_store \<Rightarrow> ddns_sync_state list" where
  "ListDDNSSyncStates s = sort_slice state_order (gm_values (ms_ddns s))"

definition ReplaceDeployTargets :: "deploy_target list \<Rightarrow> memory_store \<Rightarrow> memory_store" where
  "ReplaceDeployTargets xs s = s\<lparr>ms_targets := keyedMap dt_Name xs\<rparr>"

definition PutDeployTarget :: "deploy_target \<Rightarrow> memory_store \<Rightarrow> memory_store" where
  "PutDeployTarget x s = s\<lparr>ms_targets := gm_put (dt_Name x) x (ms_targets s)\<rparr>"

definition GetDeployTarget :: "memory_store \<Rightarrow> string \<Rightarrow> deploy_target option" where
  "GetDeployTarget s name = gm_get (ms_targets s) name"

definition DeleteDeployTarget :: "string \<Rightarrow> memory_store \<Rightarrow> memory_store" where
  "DeleteDeployTarget name s = s\<lparr>ms_targets := gm_del name (ms_targets s)\<rparr>"

definition ListDeployTargets :: "memory_store \<Rightarrow> deploy_target list" where
  "ListDeployTargets s = sort_slice dt_Name (gm_values (ms_targets s))"

definition PutBundle :: "certificate_bundle \<Rightarrow> memory_store \<Rightarrow> memory_store" where
  "PutBundle x s = s\<lparr>ms_bundles := gm_put (cb_Name x) x (ms_bundles s)\<rparr>"

definition GetBundle :: "memory_store \<Rightarrow> string \<Rightarrow> certificate_bundle option" where
  "GetBundle s name = gm_get (ms_bundles s) name"

definition DeleteBundle :: "string \<Rightarrow> memory_store \<Rightarrow> memory_store" where
  "DeleteBundle name s = s\<lparr>ms_bundles := gm_del name (ms_bundles s)\<rparr>"

definition ListBundles :: "memory_store \<Rightarrow> certificate_bundle list" where
  "ListBundles s = sort_slice cb_Name (gm_values (ms_bundles s))"

definition AppendDeployRun :: "deploy_run \<Rightarrow> memory_store \<Rightarrow> memory_store" where
  "AppendDeployRun run s = s\<lparr>ms_deploys := ms_deploys s @ [run]\<rparr>"

definition ListDeployRuns :: "memory_store \<Rightarrow> deploy_run list" where
  "ListDeployRuns s = ms_deploys s"

definition AppendJobRun :: "job_run \<Rightarrow> memory_store \<Rightarrow> memory_store" where
  "AppendJobRun run s = s\<lparr>ms_jobs := ms_jobs s @ [run]\<rparr>"

definition ListJobRuns :: "memory_store \<Rightarrow> job_run list" where
  "ListJobRuns s = ms_jobs s"

lemmas store_defs =
  ReplaceCustomApps_def PutCustomApp_def GetCustomApp_def DeleteCustomApp_def ListCustomApps_def
  ReplaceApplications_def ListApplications_def
  ReplaceDomains_def PutDomain_def GetDomain_def DeleteDomain_def ListDomains_def
  ReplaceDDNSProviders_def PutDDNSProvider_def GetDDNSProvider_def ListDDNSProviders_def
  ReplaceRuntimes_def PutRuntimeSource_def ListRuntimes_def
  ReplaceAgents_def PutAgent_def ListAgents_def
  PutPendingAgent_def DeletePendingAgent_def ListPendingAgents_def
  ReplaceRoutes_def ListRoutes_def PutDDNSSyncState_def ListDDNSSyncStates_def
  ReplaceDeployTargets_def PutDeployTarget_def GetDeployTarget_def DeleteDeployTarget_def
  ListDeployTargets_def PutBundle_def GetBundle_def DeleteBundle_def ListBundles_def
  AppendDeployRun_def ListDeployRuns_def AppendJobRun_def ListJobRuns_def

section \<open>The invariant of the store\<close>

text \<open>Every table is a map whose keys are computed from its values.\<close>

definition store_ok :: "os_env \<Rightarrow> memory_store \<Rightarrow> bool" where
  "store_ok os s \<longleftrightarrow>
     gm_keyed domain_key (ms_zones s) \<and> gm_keyed pc_Ref (ms_providers s)
     \<and> gm_keyed app_Name (ms_apps s) \<and> gm_keyed (RuntimeOrDefault os) (ms_sources s)
     \<and> gm_keyed ag_Name (ms_agents s) \<and> gm_keyed ag_Name (ms_pendingAgents s)
     \<and> gm_keyed rt_ID (ms_routes s) \<and> gm_keyed state_key (ms_ddns s)
     \<and> gm_keyed dt_Name (ms_targets s) \<and> gm_keyed cb_Name (ms_bundles s)"

lemma keyedMap_keyed [simp]: "gm_keyed key (keyedMap key xs)"
  by (simp add: keyedMap_def gm_put_all_keyed)

lemma keyedMap_get:
  "gm_get (keyedMap key xs) k = find (\<lambda>x. key x = k) (rev xs)"
  by (simp add: keyedMap_def gm_put_all_get split: option.splits)

lemma NewMemoryStore_ok [simp]: "store_ok os NewMemoryStore"
  by (simp add: store_ok_def NewMemoryStore_def)

text \<open>One step of the store: any of its writing methods.\<close>

inductive store_step :: "os_env \<Rightarrow> memory_store \<Rightarrow> memory_store \<Rightarrow> bool" for os where
  "store_step os s (ReplaceCustomApps xs s)"
| "store_step os s (PutCustomApp x s)"
| "store_step os s (DeleteCustomApp n s)"
| "store_step os s (ReplaceApplications aps s)"
| "store_step os s (ReplaceDomains zs s)"
| "store_step os s (PutDomain z s)"
| "store_step os s (DeleteDomain n s)"
| "store_step os s (ReplaceDDNSProviders ps s)"
| "store_step os s (PutDDNSProvider p s)"
| "store_step os s (ReplaceRuntimes os rs s)"
| "store_step os s (PutRuntimeSource os r s)"
| "store_step os s (ReplaceAgents as s)"
| "store_step os s (PutAgent a s)"
| "store_step os s (PutPendingAgent a s)"
| "store_step os s (DeletePendingAgent n s)"
| "store_step os s (ReplaceRoutes rts s)"
| "store_step os s (PutDDNSSyncState st s)"
| "store_step os s (ReplaceDeployTargets ts s)"
| "store_step os s (PutDeployTarget t s)"
| "store_step os s (DeleteDeployTarget n s)"
| "store_step os s (PutBundle b s)"
| "store_step os s (DeleteBundle n s)"
| "store_step os s (AppendDeployRun dr s)"
| "store_step os s (AppendJobRun jr s)"

lemma store_step_ok: "store_step os s s' \<Longrightarrow> store_ok os s \<Longrightarrow> store_ok os s'"
  by (induction rule: store_step.induct)
    (simp_all add: store_ok_def store_defs gm_keyed_put gm_keyed_del Let_def)

lemma store_steps_ok: "(store_step os)\<^sup>*\<^sup>* s s' \<Longrightarrow> store_ok os s \<Longrightarrow> store_ok os s'"
  by (induction rule: rtranclp_induct) (blast intro: store_step_ok)+

section \<open>The contract of a table\<close>

text \<open>
  A table of a state: what is filed under a name, and the listing. The state may hold more
  than the table; \<open>inv\<close> is its invariant.
\<close>

locale store_table =
  fixes key :: "'v \<Rightarrow> string"
    and look :: "'s \<Rightarrow> string \<Rightarrow> 'v option"
    and listing :: "'s \<Rightarrow> 'v list"
    and inv :: "'s \<Rightarrow> bool"
  assumes look_key: "inv s \<Longrightarrow> look s k = Some v \<Longrightarrow> key v = k"
    and listing_look: "inv s \<Longrightarrow> v \<in> set (listing s) \<longleftrightarrow> look s (key v) = Some v"
    and listing_distinct: "inv s \<Longrightarrow> distinct (map key (listing s))"
begin

lemma listed_unique:
  "inv s \<Longrightarrow> v \<in> set (listing s) \<Longrightarrow> w \<in> set (listing s) \<Longrightarrow> key v = key w \<Longrightarrow> v = w"
  by (simp add: listing_look)

lemma look_listed: "inv s \<Longrightarrow> look s k = Some v \<longleftrightarrow> v \<in> set (listing s) \<and> key v = k"
  by (metis listing_look look_key)

lemma look_None_listed: "inv s \<Longrightarrow> look s k = None \<longleftrightarrow> k \<notin> key ` set (listing s)"
  by (metis (no_types, lifting) image_iff look_listed not_None_eq)

end

locale put_table = store_table key look listing inv
  for key :: "'v \<Rightarrow> string" and look :: "'s \<Rightarrow> string \<Rightarrow> 'v option"
    and listing :: "'s \<Rightarrow> 'v list" and inv :: "'s \<Rightarrow> bool" +
  fixes put :: "'v \<Rightarrow> 's \<Rightarrow> 's"
  assumes look_put: "inv s \<Longrightarrow> look (put v s) k = (if k = key v then Some v else look s k)"
    and inv_put: "inv s \<Longrightarrow> inv (put v s)"
begin

lemma listing_put:
  "inv s \<Longrightarrow> set (listing (put v s)) = insert v {u \<in> set (listing s). key u \<noteq> key v}"
  by (auto simp: listing_look inv_put look_put split: if_splits)

lemma put_put_same: "inv s \<Longrightarrow> look (put v (put u s)) (key v) = Some v"
  by (simp add: look_put inv_put)

lemma put_commute:
  "inv s \<Longrightarrow> key u \<noteq> key v \<Longrightarrow> look (put u (put v s)) k = look (put v (put u s)) k"
  by (auto simp: look_put inv_put)

end

locale del_table = store_table key look listing inv
  for key :: "'v \<Rightarrow> string" and look :: "'s \<Rightarrow> string \<Rightarrow> 'v option"
    and listing :: "'s \<Rightarrow> 'v list" and inv :: "'s \<Rightarrow> bool" +
  fixes del :: "string \<Rightarrow> 's \<Rightarrow> 's"
  assumes look_del: "inv s \<Longrightarrow> look (del n s) k = (if k = n then None else look s k)"
    and inv_del: "inv s \<Longrightarrow> inv (del n s)"
begin

lemma listing_del: "inv s \<Longrightarrow> set (listing (del n s)) = {u \<in> set (listing s). key u \<noteq> n}"
  by (auto simp: listing_look inv_del look_del split: if_splits)

lemma del_absent: "inv s \<Longrightarrow> look s n = None \<Longrightarrow> set (listing (del n s)) = set (listing s)"
  by (auto simp: listing_del listing_look)

end

locale replace_table = store_table key look listing inv
  for key :: "'v \<Rightarrow> string" and look :: "'s \<Rightarrow> string \<Rightarrow> 'v option"
    and listing :: "'s \<Rightarrow> 'v list" and inv :: "'s \<Rightarrow> bool" +
  fixes replace :: "'v list \<Rightarrow> 's \<Rightarrow> 's"
  assumes look_replace: "inv s \<Longrightarrow> look (replace vs s) k = find (\<lambda>v. key v = k) (rev vs)"
    and inv_replace: "inv s \<Longrightarrow> inv (replace vs s)"
begin

text \<open>Of two values with one key the later stays.\<close>

lemma listing_replace_last:
  "inv s \<Longrightarrow> v \<in> set (listing (replace vs s)) \<longleftrightarrow> find (\<lambda>u. key u = key v) (rev vs) = Some v"
  by (simp add: listing_look inv_replace look_replace)

lemma listing_replace:
  "inv s \<Longrightarrow> distinct (map key vs) \<Longrightarrow> mset (listing (replace vs s)) = mset vs"
proof -
  assume i: "inv s" and d: "distinct (map key vs)"
  have "set (listing (replace vs s)) = set vs"
    using i d find_rev_distinct [OF d]
    by (auto simp: listing_replace_last dest!: find_Some_mem)
  moreover have "distinct (listing (replace vs s))" and "distinct vs"
    using listing_distinct [OF inv_replace [OF i]] d by (simp_all add: distinct_map)
  ultimately show "mset (listing (replace vs s)) = mset vs"
    by (simp add: set_eq_iff_mset_eq_distinct)
qed

lemma replace_replace: "inv s \<Longrightarrow> look (replace vs (replace us s)) = look (replace vs s)"
  by (simp add: fun_eq_iff look_replace inv_replace)

end

locale upsert_table = put_table key look listing inv put + del_table key look listing inv del
  for key :: "'v \<Rightarrow> string" and look :: "'s \<Rightarrow> string \<Rightarrow> 'v option"
    and listing :: "'s \<Rightarrow> 'v list" and inv :: "'s \<Rightarrow> bool"
    and put :: "'v \<Rightarrow> 's \<Rightarrow> 's" and del :: "string \<Rightarrow> 's \<Rightarrow> 's"
begin

lemma del_put: "inv s \<Longrightarrow> look s (key v) = None \<Longrightarrow> set (listing (del (key v) (put v s))) = set (listing s)"
  by (auto simp: listing_del inv_put listing_put listing_look)

lemma rename_entry:
  "inv s \<Longrightarrow> key v \<noteq> n \<Longrightarrow>
     set (listing (put v (del n s))) = insert v {u \<in> set (listing s). key u \<noteq> n \<and> key u \<noteq> key v}"
  by (auto simp: listing_put inv_del listing_del)

end

section \<open>The tables of the store\<close>

lemma keyed_table_listing: "gm_keyed key m \<Longrightarrow> v \<in> set (gm_values m) \<longleftrightarrow> gm_get m (key v) = Some v"
  by (auto simp: in_gm_values gm_keyed_iff)

lemmas table_simps = store_ok_def store_defs keyed_table_listing gm_keyed_values_distinct gm_keyed_get
  gm_keyed_put gm_keyed_del keyedMap_get

interpretation st_apps: upsert_table app_Name GetCustomApp ListCustomApps "store_ok os" PutCustomApp DeleteCustomApp for os
  by unfold_locales (auto simp: table_simps)

interpretation st_domains: upsert_table domain_key GetDomain ListDomains "store_ok os" PutDomain DeleteDomain for os
  by unfold_locales (auto simp: table_simps)

interpretation st_targets: upsert_table dt_Name GetDeployTarget ListDeployTargets "store_ok os" PutDeployTarget DeleteDeployTarget for os
  by unfold_locales (auto simp: table_simps)

interpretation st_bundles: upsert_table cb_Name GetBundle ListBundles "store_ok os" PutBundle DeleteBundle for os
  by unfold_locales (auto simp: table_simps)

interpretation st_pending: upsert_table ag_Name "\<lambda>s. gm_get (ms_pendingAgents s)" ListPendingAgents "store_ok os" PutPendingAgent DeletePendingAgent for os
  by unfold_locales (auto simp: table_simps)

interpretation st_apps_all: replace_table app_Name GetCustomApp ListCustomApps "store_ok os" ReplaceCustomApps for os
  by unfold_locales (auto simp: table_simps)

interpretation st_domains_all: replace_table domain_key GetDomain ListDomains "store_ok os" ReplaceDomains for os
  by unfold_locales (auto simp: table_simps)

interpretation st_targets_all: replace_table dt_Name GetDeployTarget ListDeployTargets "store_ok os" ReplaceDeployTargets for os
  by unfold_locales (auto simp: table_simps)

interpretation st_providers: put_table pc_Ref GetDDNSProvider ListDDNSProviders "store_ok os" PutDDNSProvider for os
  by unfold_locales (auto simp: table_simps)

interpretation st_providers_all: replace_table pc_Ref GetDDNSProvider ListDDNSProviders "store_ok os" ReplaceDDNSProviders for os
  by unfold_locales (auto simp: table_simps)

interpretation st_agents: put_table ag_Name "\<lambda>s. gm_get (ms_agents s)" ListAgents "store_ok os" PutAgent for os
  by unfold_locales (auto simp: table_simps)

interpretation st_agents_all: replace_table ag_Name "\<lambda>s. gm_get (ms_agents s)" ListAgents "store_ok os" ReplaceAgents for os
  by unfold_locales (auto simp: table_simps)

interpretation st_routes_all: replace_table rt_ID "\<lambda>s. gm_get (ms_routes s)" ListRoutes "store_ok os" ReplaceRoutes for os
  by unfold_locales (auto simp: table_simps)

interpretation st_runtimes: put_table "RuntimeOrDefault os" "\<lambda>s. gm_get (ms_sources s)" "ListRuntimes os"
    "store_ok os" "PutRuntimeSource os" for os
  by unfold_locales (auto simp: table_simps)

interpretation st_runtimes_all: replace_table "RuntimeOrDefault os" "\<lambda>s. gm_get (ms_sources s)"
    "ListRuntimes os" "store_ok os" "ReplaceRuntimes os" for os
  by unfold_locales (auto simp: table_simps)

interpretation st_ddns: store_table state_key "\<lambda>s. gm_get (ms_ddns s)" ListDDNSSyncStates "store_ok os" for os
  by unfold_locales (auto simp: table_simps)

section \<open>Listings do not depend on the iteration order\<close>

lemma listing_unique:
  assumes "gm_keyed key m" and "is_sort_of key (gm_values m') ys" and "mset m' = mset m"
  shows "ys = sort_slice key (gm_values m)"
proof (rule is_sort_of_unique)
  show "distinct (map key (gm_values m))" using assms(1) by (rule gm_keyed_values_distinct)
  have "mset (gm_values m') = mset (gm_values m)" using assms(3) by (metis gm_values_def mset_map)
  with assms(2) show "is_sort_of key (gm_values m) ys" by (simp add: is_sort_of_def)
qed

lemma state_order_distinct:
  assumes "gm_keyed state_key m" and "\<forall>st \<in> set (gm_values m). ds_Domain st \<noteq> []"
  shows "distinct (map state_order (gm_values m))"
proof -
  have "distinct (map state_key (gm_values m))" using assms(1) by (rule gm_keyed_values_distinct)
  moreover have "state_key st = state_key st'"
    if "st \<in> set (gm_values m)" "st' \<in> set (gm_values m)" "state_order st = state_order st'" for st st'
    using that assms(2) by (auto simp: state_order_def state_key_def split: if_splits)
  ultimately show ?thesis unfolding distinct_map inj_on_def by metis
qed

section \<open>Properties\<close>

definition demo_store :: memory_store where
  "demo_store = PutCustomApp \<lparr>app_Name = ''b'', app_Icon = [], app_Domain = ''x'', app_Zone = ''x'',
     app_Subdomain = ''b'', app_ExitNode = [], app_TargetURL = ''http://b''\<rparr> NewMemoryStore"

definition no_env :: os_env where
  "no_env = \<lparr>os_Getenv = (\<lambda>_. []), os_Getuid = 0, os_EvalSymlinks = (\<lambda>_. Inl ErrNotExist), os_Exists = (\<lambda>_. False)\<rparr>"

lemma demo_store_reachable: "(store_step no_env)\<^sup>*\<^sup>* NewMemoryStore demo_store"
  unfolding demo_store_def by (intro r_into_rtranclp store_step.intros)



text \<open>
  Claim C35. In every reachable store a put replaces the entry of the same name and nothing
  else, a delete removes exactly the named entry, and a replacement by uniquely named values
  leaves exactly those, for the custom apps, the domains, the deploy targets and the bundles.
\<close>

theorem store_operations_listed:
  assumes "(store_step os)\<^sup>*\<^sup>* NewMemoryStore s"
  shows "set (ListCustomApps (PutCustomApp a s)) = insert a {x \<in> set (ListCustomApps s). app_Name x \<noteq> app_Name a}
    \<and> set (ListCustomApps (DeleteCustomApp n s)) = {x \<in> set (ListCustomApps s). app_Name x \<noteq> n}
    \<and> (distinct (map app_Name as) \<longrightarrow> mset (ListCustomApps (ReplaceCustomApps as s)) = mset as)
    \<and> set (ListDomains (PutDomain z s)) = insert z {x \<in> set (ListDomains s). domain_key x \<noteq> domain_key z}
    \<and> set (ListDomains (DeleteDomain n s)) = {x \<in> set (ListDomains s). domain_key x \<noteq> n}
    \<and> (distinct (map domain_key zs) \<longrightarrow> mset (ListDomains (ReplaceDomains zs s)) = mset zs)
    \<and> set (ListDeployTargets (PutDeployTarget t s)) = insert t {x \<in> set (ListDeployTargets s). dt_Name x \<noteq> dt_Name t}
    \<and> set (ListDeployTargets (DeleteDeployTarget n s)) = {x \<in> set (ListDeployTargets s). dt_Name x \<noteq> n}
    \<and> set (ListBundles (PutBundle b s)) = insert b {x \<in> set (ListBundles s). cb_Name x \<noteq> cb_Name b}
    \<and> set (ListBundles (DeleteBundle n s)) = {x \<in> set (ListBundles s). cb_Name x \<noteq> n}"
proof -
  have ok: "store_ok os s" using assms by (rule store_steps_ok) simp
  show ?thesis
    by (intro conjI impI st_apps.listing_put [OF ok] st_apps.listing_del [OF ok] st_apps_all.listing_replace [OF ok]
      st_domains.listing_put [OF ok] st_domains.listing_del [OF ok] st_domains_all.listing_replace [OF ok]
      st_targets.listing_put [OF ok] st_targets.listing_del [OF ok] st_bundles.listing_put [OF ok]
      st_bundles.listing_del [OF ok])
qed

theorem store_operations_listed_witness:
  "set (ListCustomApps (DeleteCustomApp ''b'' demo_store)) = {}"
  using store_operations_listed [OF demo_store_reachable, where n = "''b''"]
  by (auto simp: demo_store_def NewMemoryStore_def PutCustomApp_def ListCustomApps_def gm_values_def)

text \<open>
  The listings of apps, providers, agents, targets and bundles are determined by
  the contents of the store: whatever order the map is iterated in and whichever way
  \<open>sort.Slice\<close> arranges equal elements, the result is the one the model computes.
\<close>

theorem store_listing_deterministic:
  assumes "(store_step os)\<^sup>*\<^sup>* NewMemoryStore s"
  shows "(mset m = mset (ms_apps s) \<and> is_sort_of app_Name (gm_values m) as \<longrightarrow> as = ListCustomApps s)
    \<and> (mset ms = mset (ms_agents s) \<and> is_sort_of ag_Name (gm_values ms) nodes \<longrightarrow> nodes = ListAgents s)
    \<and> (mset mt = mset (ms_targets s) \<and> is_sort_of dt_Name (gm_values mt) ts \<longrightarrow> ts = ListDeployTargets s)
    \<and> (mset mb = mset (ms_bundles s) \<and> is_sort_of cb_Name (gm_values mb) bs \<longrightarrow> bs = ListBundles s)"
proof -
  have "store_ok os s" using assms by (rule store_steps_ok) simp
  then have k: "gm_keyed app_Name (ms_apps s)" "gm_keyed ag_Name (ms_agents s)" "gm_keyed dt_Name (ms_targets s)"
    "gm_keyed cb_Name (ms_bundles s)" by (simp_all add: store_ok_def)
  show ?thesis unfolding ListCustomApps_def ListAgents_def ListDeployTargets_def ListBundles_def
    by (intro conjI impI; elim conjE) (rule listing_unique, rule k, assumption, assumption)+
qed

theorem store_listing_deterministic_witness:
  "is_sort_of app_Name (gm_values (ms_apps demo_store)) (map snd (ms_apps demo_store))
   \<and> map snd (ms_apps demo_store) = ListCustomApps demo_store"
proof -
  have s: "is_sort_of app_Name (gm_values (ms_apps demo_store)) (map snd (ms_apps demo_store))"
    by (simp add: demo_store_def NewMemoryStore_def PutCustomApp_def is_sort_of_def gm_values_def)
  with store_listing_deterministic [OF demo_store_reachable, where m = "ms_apps demo_store" and as = "map snd (ms_apps demo_store)"]
  show ?thesis by blast
qed

text \<open>
  A synchronisation state is found again under the domain, provider, host and
  record type it was stored with, and storing it leaves the states of other keys alone.
\<close>

theorem ddns_state_put_get:
  assumes "ds_Domain st \<noteq> []"
  shows "GetDDNSSyncState (PutDDNSSyncState st s) (ds_Domain st) (ds_Provider st) (ds_Host st) (ds_RecordType st)
      = Some (fill_domain st)
    \<and> (ddnsStateKey d p h r \<noteq> state_key st \<longrightarrow>
         GetDDNSSyncState (PutDDNSSyncState st s) d p h r = GetDDNSSyncState s d p h r)"
  using assms by (auto simp: GetDDNSSyncState_def PutDDNSSyncState_def fill_domain_def state_key_def Let_def)

theorem ddns_state_put_get_witness:
  "let st = \<lparr>ds_Domain = ''x.io'', ds_Zone = [], ds_Provider = ''cf'', ds_Host = ''x.io'', ds_RecordType = ''A'',
             ds_Value = ''1.2.3.4'', ds_Status = ''success'', ds_Error = None, ds_SyncedAt = 1\<rparr>
   in GetDDNSSyncState (PutDDNSSyncState st NewMemoryStore) ''x.io'' ''cf'' ''x.io'' ''A'' = Some (st\<lparr>ds_Zone := ''x.io''\<rparr>)"
  using ddns_state_put_get [of "\<lparr>ds_Domain = ''x.io'', ds_Zone = [], ds_Provider = ''cf'', ds_Host = ''x.io'', ds_RecordType = ''A'',
             ds_Value = ''1.2.3.4'', ds_Status = ''success'', ds_Error = None, ds_SyncedAt = 1\<rparr>" NewMemoryStore]
  by (simp add: fill_domain_def)

end
