(* ===== verification/Domux_Ddns.thy ===== *)
theory Domux_Ddns
  imports Domux_Providers Domux_Store
begin

text \<open>
  Dynamic DNS: the authoritative zone of a name (\<open>internal/dns/authzone\<close>), the errors of
  \<open>internal/ddns/provider/errors.go\<close>, the detection of the public address
  (\<open>internal/ddns/ipdetect\<close>) and the synchronisation of a zone
  (\<open>internal/ddns/service\<close>). NS lookups, HTTP answers and the outcome of a provider's
  \<open>Upsert\<close> are parameters; every \<open>Upsert\<close> that is attempted is recorded in a log.
\<close>

section \<open>Authoritative zones\<close>

definition normalizeDNSName :: "string \<Rightarrow> string" where
  "normalizeDNSName value = TrimPrefix (TrimSuffix (TrimSpace value) ''.'') ''*.''"

definition candidateZones :: "string \<Rightarrow> string list" where
  "candidateZones fqdn =
     (let labels = Split fqdn (CHR ''.'')
      in filter (\<lambda>c. c \<noteq> []) (map (\<lambda>i. Join (drop i labels) ''.'') [0..<length labels]))"

type_synonym ns_lookup = "string \<Rightarrow> string list result"

definition ResolveAuthZone :: "ns_lookup \<Rightarrow> string \<Rightarrow> string result" where
  "ResolveAuthZone lookupNS fqdn0 =
     (let fqdn = normalizeDNSName fqdn0
      in if fqdn = [] then Inl (Errorf ''fqdn is required'' [])
         else
           (case find (\<lambda>c. case lookupNS c of Inl _ \<Rightarrow> False | Inr ns \<Rightarrow> ns \<noteq> []) (candidateZones fqdn) of
              Some c \<Rightarrow> Inr c
            | None \<Rightarrow> Inl (Errorf ''no authoritative dns zone found for %q'' [fqdn])))"

section \<open>Errors of the providers\<close>

definition ErrDNSZoneResolutionFailed :: go_error where
  "ErrDNSZoneResolutionFailed = Errorf ''dns zone resolution failed'' []"
definition ErrDNSZoneAccessDenied :: go_error where
  "ErrDNSZoneAccessDenied = Errorf ''dns zone access denied'' []"
definition ErrTargetOutsideManagedDomain :: go_error where
  "ErrTargetOutsideManagedDomain = Errorf ''target outside managed domain'' []"

text \<open>The text of an error is a parameter: \<open>err_text\<close>.\<close>

definition WrapZoneResolutionFailed :: "(go_error \<Rightarrow> string) \<Rightarrow> string \<Rightarrow> go_error \<Rightarrow> go_error" where
  "WrapZoneResolutionFailed err_text fqdn e =
     Wrapf ''%w: %s: %v'' [fqdn, err_text e] ErrDNSZoneResolutionFailed"

definition WrapZoneAccessDenied :: "(go_error \<Rightarrow> string) \<Rightarrow> string \<Rightarrow> go_error \<Rightarrow> go_error" where
  "WrapZoneAccessDenied err_text zone e = Wrapf ''%w: %s: %v'' [zone, err_text e] ErrDNSZoneAccessDenied"

definition WrapTargetOutsideManagedDomain :: "string \<Rightarrow> string \<Rightarrow> go_error" where
  "WrapTargetOutsideManagedDomain managedDomain fqdn =
     Wrapf ''%w: %s is outside %s'' [fqdn, managedDomain] ErrTargetOutsideManagedDomain"

definition IsAccessDenied :: "(go_error \<Rightarrow> string) \<Rightarrow> go_error option \<Rightarrow> bool" where
  "IsAccessDenied err_text err =
     (case err of
        None \<Rightarrow> False
      | Some e \<Rightarrow>
          errors_Is e ErrDNSZoneAccessDenied
          \<or> (let message = ToLower (err_text e)
             in Contains message ''access denied'' \<or> Contains message ''permission denied''
                \<or> Contains message ''forbidden'' \<or> Contains message ''unauthorized''))"

section \<open>Detecting the public address\<close>

record ip_snapshot =
  ip_IPv4 :: string
  ip_IPv6 :: string
  ip_ObservedAt :: time

record ip_request =
  ipr_IPv4 :: bool
  ipr_IPv6 :: bool

record http_detector =
  hd_IPv4URL :: string
  hd_IPv6URL :: string
  hd_IPv4URLs :: "string list"
  hd_IPv6URLs :: "string list"
  hd_Timeout :: duration

definition defaultIPv4URLs :: "string list" where
  "defaultIPv4URLs = [''https://api.ipify.org'', ''https://ipv4.icanhazip.com'']"
definition defaultIPv6URLs :: "string list" where
  "defaultIPv6URLs = [''https://api64.ipify.org'', ''https://ipv6.icanhazip.com'']"

definition DefaultHTTPDetector :: http_detector where
  "DefaultHTTPDetector =
     \<lparr>hd_IPv4URL = [], hd_IPv6URL = [], hd_IPv4URLs = defaultIPv4URLs, hd_IPv6URLs = defaultIPv6URLs,
      hd_Timeout = 10 * 1000000000\<rparr>"

text \<open>An HTTP answer: the status code and the body. \<open>detectOne\<close> reads the body only.\<close>

type_synonym http_get = "string \<Rightarrow> (nat \<times> string) result"

definition detectOne :: "http_get \<Rightarrow> string \<Rightarrow> string result" where
  "detectOne get url = (case get url of Inl e \<Rightarrow> Inl e | Inr (status, body) \<Rightarrow> Inr (TrimSpace body))"

fun detectFamily_from :: "http_get \<Rightarrow> string \<Rightarrow> go_error list \<Rightarrow> string list \<Rightarrow> string \<times> go_error option" where
  "detectFamily_from get label errs [] = ([], errors_Join errs)"
| "detectFamily_from get label errs (url # urls) =
     (case detectOne get url of
        Inr value \<Rightarrow>
          if value \<noteq> [] then (value, None)
          else detectFamily_from get label
                 (errs @ [Errorf ''detect %s via %s returned empty result'' [label, url]]) urls
      | Inl e \<Rightarrow> detectFamily_from get label (errs @ [Wrapf ''detect %s via %s: %w'' [label, url] e]) urls)"

definition detectFamily :: "http_get \<Rightarrow> string \<Rightarrow> string list \<Rightarrow> string \<times> go_error option" where
  "detectFamily get label urls = detectFamily_from get label [] urls"

definition familyURLs :: "string \<Rightarrow> string list \<Rightarrow> string list \<Rightarrow> string list" where
  "familyURLs single many defaults =
     (if many \<noteq> [] then many else if TrimSpace single \<noteq> [] then [single] else defaults)"

definition Detect :: "http_get \<Rightarrow> time \<Rightarrow> http_detector \<Rightarrow> ip_request \<Rightarrow> ip_snapshot \<times> go_error option" where
  "Detect get now d request0 =
     (let request = (if \<not> ipr_IPv4 request0 \<and> \<not> ipr_IPv6 request0 then \<lparr>ipr_IPv4 = True, ipr_IPv6 = True\<rparr> else request0);
          r4 = (if ipr_IPv4 request
                then detectFamily get ''IPv4'' (familyURLs (hd_IPv4URL d) (hd_IPv4URLs d) defaultIPv4URLs)
                else ([], None));
          r6 = (if ipr_IPv6 request
                then detectFamily get ''IPv6'' (familyURLs (hd_IPv6URL d) (hd_IPv6URLs d) defaultIPv6URLs)
                else ([], None));
          ipv4 = (if snd r4 = None then fst r4 else []);
          ipv6 = (if snd r6 = None then fst r6 else [])
      in (\<lparr>ip_IPv4 = ipv4, ip_IPv6 = ipv6, ip_ObservedAt = (if ipv4 \<noteq> [] \<or> ipv6 \<noteq> [] then now else 0)\<rparr>,
          errors_Join_opt [snd r4, snd r6]))"

section \<open>Synchronising a zone\<close>

record dns_record =
  rec_Domain :: string
  rec_Zone :: string
  rec_Name :: string
  rec_Type :: record_type
  rec_Value :: string
  rec_TTL :: int

text \<open>The state a synchronisation changes: the store, if there is one, and the calls made.\<close>

record ddns_world =
  dw_store :: "memory_store option"
  dw_log :: "(updater \<times> dns_record) list"

text \<open>What a synchronisation depends on; the outcome of an \<open>Upsert\<close> may depend on earlier ones.\<close>

record ddns_service =
  sv_detect :: "(ip_request \<Rightarrow> ip_snapshot \<times> go_error option) option"
  sv_Providers :: "updater gomap"
  sv_lookupNS :: ns_lookup
  sv_upsert :: "(updater \<times> dns_record) list \<Rightarrow> updater \<Rightarrow> dns_record \<Rightarrow> go_error option"
  sv_err_text :: "go_error \<Rightarrow> string"

definition ddns_Register :: "string \<Rightarrow> updater \<Rightarrow> ddns_service \<Rightarrow> ddns_service" where
  "ddns_Register ref u sv = sv\<lparr>sv_Providers := gm_put ref u (sv_Providers sv)\<rparr>"

definition stateDomain :: "managed_zone \<Rightarrow> string" where
  "stateDomain z = (if z_Domain z \<noteq> [] then z_Domain z else z_Name z)"

definition zero_sync_state :: ddns_sync_state where
  "zero_sync_state = \<lparr>ds_Domain = [], ds_Zone = [], ds_Provider = [], ds_Host = [], ds_RecordType = [],
     ds_Value = [], ds_Status = [], ds_Error = None, ds_SyncedAt = 0\<rparr>"

definition put_state :: "ddns_sync_state \<Rightarrow> ddns_world \<Rightarrow> ddns_world" where
  "put_state st w = w\<lparr>dw_store := map_option (PutDDNSSyncState st) (dw_store w)\<rparr>"

text \<open>A stored state makes the update unnecessary.\<close>

definition up_to_date :: "ddns_world \<Rightarrow> ddns_sync_state \<Rightarrow> bool" where
  "up_to_date w st =
     (case dw_store w of
        None \<Rightarrow> False
      | Some s \<Rightarrow>
          (case GetDDNSSyncState s (ds_Domain st) (ds_Provider st) (ds_Host st) (ds_RecordType st) of
             None \<Rightarrow> False
           | Some prev \<Rightarrow> ds_Value prev = ds_Value st \<and> ds_Status prev \<noteq> ''failed''))"

definition syncRecord :: "ddns_service \<Rightarrow> time \<Rightarrow> string \<Rightarrow> updater \<Rightarrow> managed_zone \<Rightarrow> string \<Rightarrow> record_type \<Rightarrow>
    string \<Rightarrow> ddns_world \<Rightarrow> (ddns_sync_state \<times> go_error option) \<times> ddns_world" where
  "syncRecord sv now providerRef u zone host recordType value w =
     (if \<not> DomainWithinManagedDomain (z_Domain zone) host then
        ((zero_sync_state, Some (WrapTargetOutsideManagedDomain (z_Domain zone) host)), w)
      else
        (case ResolveAuthZone (sv_lookupNS sv) host of
           Inl e \<Rightarrow> ((zero_sync_state, Some (WrapZoneResolutionFailed (sv_err_text sv) host e)), w)
         | Inr authZone \<Rightarrow>
             (let state = \<lparr>ds_Domain = stateDomain zone, ds_Zone = authZone, ds_Provider = providerRef,
                           ds_Host = host, ds_RecordType = recordType, ds_Value = value, ds_Status = [],
                           ds_Error = None, ds_SyncedAt = now\<rparr>;
                  rec = \<lparr>rec_Domain = z_Domain zone, rec_Zone = authZone, rec_Name = host,
                         rec_Type = recordType, rec_Value = value, rec_TTL = dz_TTL (z_DDNS zone)\<rparr>
              in if up_to_date w state then
                   (let st = state\<lparr>ds_Status := ''noop''\<rparr> in ((st, None), put_state st w))
                 else
                   (let w1 = w\<lparr>dw_log := dw_log w @ [(u, rec)]\<rparr>
                    in case sv_upsert sv (dw_log w) u rec of
                         Some e0 \<Rightarrow>
                           (let e = (if IsAccessDenied (sv_err_text sv) (Some e0)
                                     then WrapZoneAccessDenied (sv_err_text sv) authZone e0 else e0);
                                st = state\<lparr>ds_Status := ''failed'', ds_Error := Some e\<rparr>
                            in ((st, Some e), put_state st w1))
                       | None \<Rightarrow>
                           (let st = state\<lparr>ds_Status := ''success''\<rparr> in ((st, None), put_state st w1))))))"

text \<open>
  The records a provider is asked for: apex and wildcard for each enabled family whose
  address is known.
\<close>

definition zone_hosts :: "managed_zone \<Rightarrow> string list" where
  "zone_hosts zone = z_Domain zone # (if dz_Wildcard (z_DDNS zone) then [''*.'' @ z_Domain zone] else [])"

definition zone_records :: "managed_zone \<Rightarrow> ip_snapshot \<Rightarrow> (string \<times> record_type \<times> string) list" where
  "zone_records zone snap =
     (if dz_IPv4 (z_DDNS zone) \<and> ip_IPv4 snap \<noteq> []
      then map (\<lambda>h. (h, RecordTypeA, ip_IPv4 snap)) (zone_hosts zone) else [])
     @ (if dz_IPv6 (z_DDNS zone) \<and> ip_IPv6 snap \<noteq> []
        then map (\<lambda>h. (h, RecordTypeAAAA, ip_IPv6 snap)) (zone_hosts zone) else [])"

fun sync_records :: "ddns_service \<Rightarrow> time \<Rightarrow> string \<Rightarrow> updater \<Rightarrow> managed_zone \<Rightarrow>
    (string \<times> record_type \<times> string) list \<Rightarrow> ddns_world \<Rightarrow> (ddns_sync_state list \<times> go_error list) \<times> ddns_world" where
  "sync_records sv now ref u zone [] w = (([], []), w)"
| "sync_records sv now ref u zone ((host, rt, v) # rs) w =
     (let ((st, err), w1) = syncRecord sv now ref u zone host rt v w;
          ((sts, errs), w2) = sync_records sv now ref u zone rs w1
      in (((if ds_Host st \<noteq> [] then [st] else []) @ sts, opt_to_list err @ errs), w2))"

fun sync_refs :: "ddns_service \<Rightarrow> time \<Rightarrow> managed_zone \<Rightarrow> ip_snapshot \<Rightarrow> string list \<Rightarrow> ddns_world \<Rightarrow>
    (ddns_sync_state list \<times> go_error list) \<times> ddns_world" where
  "sync_refs sv now zone snap [] w = (([], []), w)"
| "sync_refs sv now zone snap (ref # refs) w =
     (case gm_get (sv_Providers sv) ref of
        None \<Rightarrow>
          (let ((sts, errs), w') = sync_refs sv now zone snap refs w
           in ((sts, Errorf ''ddns provider not registered: %s'' [ref] # errs), w'))
      | Some u \<Rightarrow>
          (let ((sts1, errs1), w1) = sync_records sv now ref u zone (zone_records zone snap) w;
               ((sts2, errs2), w2) = sync_refs sv now zone snap refs w1
           in ((sts1 @ sts2, errs1 @ errs2), w2)))"

definition detect_errors :: "managed_zone \<Rightarrow> ip_snapshot \<Rightarrow> go_error option \<Rightarrow> go_error list" where
  "detect_errors zone snap detectErr =
     (case detectErr of
        Some e \<Rightarrow> [e]
      | None \<Rightarrow>
          (if dz_IPv4 (z_DDNS zone) \<and> ip_IPv4 snap = []
           then [Errorf ''public IPv4 address detection returned no result'' []] else [])
          @ (if dz_IPv6 (z_DDNS zone) \<and> ip_IPv6 snap = []
             then [Errorf ''public IPv6 address detection returned no result'' []] else []))"

text \<open>\<open>SyncZone\<close>; the clock is read once.\<close>

definition SyncZone :: "ddns_service \<Rightarrow> time \<Rightarrow> managed_zone \<Rightarrow> ddns_world \<Rightarrow>
    (ddns_sync_state list \<times> go_error option) \<times> ddns_world" where
  "SyncZone sv now zone w =
     (if \<not> dz_Enabled (z_DDNS zone) then (([], None), w)
      else
        (case sv_detect sv of
           None \<Rightarrow> (([], Some (Errorf ''ddns detector is not configured'' [])), w)
         | Some detect \<Rightarrow>
             (let (snap, detectErr) = detect \<lparr>ipr_IPv4 = dz_IPv4 (z_DDNS zone), ipr_IPv6 = dz_IPv6 (z_DDNS zone)\<rparr>
              in if detectErr \<noteq> None \<and> ip_IPv4 snap = [] \<and> ip_IPv6 snap = [] then (([], detectErr), w)
                 else
                   (let ((sts, errs), w') = sync_refs sv now zone snap (dz_ProviderRefs (z_DDNS zone)) w
                    in ((sts, errors_Join (detect_errors zone snap detectErr @ errs)), w')))))"

section \<open>Facts about authoritative zones\<close>

lemma candidateZones_labels:
  "c \<in> set (candidateZones fqdn) \<Longrightarrow> c \<noteq> [] \<and> suffix (Split c (CHR ''.'')) (Split fqdn (CHR ''.''))"
proof -
  assume "c \<in> set (candidateZones fqdn)"
  then obtain i where i: "i < length (Split fqdn (CHR ''.''))"
      and c: "c = Join (drop i (Split fqdn (CHR ''.''))) ''.''" and "c \<noteq> []"
    by (auto simp: candidateZones_def Let_def)
  have "Split c (CHR ''.'') = drop i (Split fqdn (CHR ''.''))"
    unfolding c using i by (intro Split_Join) (auto dest: in_set_dropD Split_no_sep)
  then show ?thesis using \<open>c \<noteq> []\<close> by (simp add: suffix_drop)
qed

lemma ResolveAuthZone_ok:
  "ResolveAuthZone lookup f = Inr z \<Longrightarrow>
     z \<in> set (candidateZones (normalizeDNSName f)) \<and> (\<exists>ns. lookup z = Inr ns \<and> ns \<noteq> [])"
  by (cases "lookup z")
    (auto simp: ResolveAuthZone_def Let_def split: if_splits option.splits dest!: find_Some_mem)

section \<open>Facts about detection\<close>

lemma detectFamily_from_value:
  "detectFamily_from get label errs urls = (v, None) \<Longrightarrow>
     v = [] \<and> urls = [] \<and> errs = []
     \<or> (\<exists>pre u post. urls = pre @ u # post \<and> detectOne get u = Inr v \<and> v \<noteq> []
          \<and> (\<forall>x \<in> set pre. \<forall>y. detectOne get x = Inr y \<longrightarrow> y = []))"
proof (induction get label errs urls rule: detectFamily_from.induct)
  case (2 get label errs url urls)
  have step: "\<exists>pre u post. url # urls = pre @ u # post \<and> detectOne get u = Inr v \<and> v \<noteq> []
          \<and> (\<forall>x \<in> set pre. \<forall>y. detectOne get x = Inr y \<longrightarrow> y = [])"
    if "\<exists>pre u post. urls = pre @ u # post \<and> detectOne get u = Inr v \<and> v \<noteq> []
          \<and> (\<forall>x \<in> set pre. \<forall>y. detectOne get x = Inr y \<longrightarrow> y = [])"
      and "\<forall>y. detectOne get url = Inr y \<longrightarrow> y = []"
  proof -
    from that(1) obtain pre u post where "urls = pre @ u # post" "detectOne get u = Inr v" "v \<noteq> []"
        "\<forall>x \<in> set pre. \<forall>y. detectOne get x = Inr y \<longrightarrow> y = []" by blast
    with that(2) show ?thesis by (intro exI [of _ "url # pre"] exI [of _ u] exI [of _ post]) auto
  qed
  show ?case
  proof (cases "detectOne get url")
    case (Inl e)
    with 2 step show ?thesis by (auto simp: errors_Join_def)
  next
    case (Inr x)
    show ?thesis
    proof (cases "x = []")
      case True
      with Inr 2 step show ?thesis by auto
    next
      case False
      with Inr 2(3) have "url # urls = [] @ url # urls" "detectOne get url = Inr v" "v \<noteq> []" by auto
      then show ?thesis by (metis empty_iff list.set(1))
    qed
  qed
qed simp

section \<open>Facts about synchronisation\<close>

text \<open>Within one zone the key of a stored state determines the record.\<close>

lemma zone_key_inj:
  assumes "ddnsStateKey d p h rt = ddnsStateKey d p' h' rt'"
    and "h \<in> {z, ''*.'' @ z}" and "h' \<in> {z, ''*.'' @ z}"
    and "rt \<in> {RecordTypeA, RecordTypeAAAA}" and "rt' \<in> {RecordTypeA, RecordTypeAAAA}"
  shows "p = p' \<and> h = h' \<and> rt = rt'"
proof -
  have e: "p @ '':'' @ rt @ '':'' @ h = p' @ '':'' @ rt' @ '':'' @ h'"
    using assms(1) by (simp add: ddnsStateKey_def)
  have hh: "h = h'"
  proof (rule ccontr)
    assume "h \<noteq> h'"
    with assms(2,3) have "h = z \<and> h' = ''*.'' @ z \<or> h = ''*.'' @ z \<and> h' = z" by auto
    then have "(p @ '':'' @ rt @ '':'') = p' @ '':'' @ rt' @ '':*.''
        \<or> (p @ '':'' @ rt @ '':*.'') = p' @ '':'' @ rt' @ '':''" using e by auto
    then show False by (auto dest: arg_cong [where f = last])
  qed
  with e have r: "(p @ '':'') @ rt = (p' @ '':'') @ rt'" by simp
  have "rt = rt'"
  proof (rule ccontr)
    assume "rt \<noteq> rt'"
    with assms(4,5) r have "p @ '':'' = p' @ '':AAA'' \<or> p @ '':AAA'' = p' @ '':''" by auto
    then show False by (auto dest: arg_cong [where f = last])
  qed
  with r hh show ?thesis by simp
qed

text \<open>The stored state of a record shows the value, and the last attempt did not fail.\<close>

definition current :: "ddns_world \<Rightarrow> string \<Rightarrow> string \<Rightarrow> string \<times> record_type \<times> string \<Rightarrow> bool" where
  "current w d ref rec =
     (case (dw_store w, rec) of
        (Some s, (host, rt, v)) \<Rightarrow>
          (\<exists>prev. GetDDNSSyncState s d ref host rt = Some prev \<and> ds_Value prev = v \<and> ds_Status prev \<noteq> ''failed'')
      | _ \<Rightarrow> False)"

definition resolvable :: "ddns_service \<Rightarrow> managed_zone \<Rightarrow> string \<Rightarrow> bool" where
  "resolvable sv zone host \<longleftrightarrow>
     DomainWithinManagedDomain (z_Domain zone) host \<and> (\<exists>a. ResolveAuthZone (sv_lookupNS sv) host = Inr a)"

lemma put_state_simps [simp]:
  "dw_log (put_state st w) = dw_log w" "dw_store (put_state st w) = map_option (PutDDNSSyncState st) (dw_store w)"
  by (simp_all add: put_state_def)

lemma get_put_state:
  "ds_Domain st \<noteq> [] \<Longrightarrow> GetDDNSSyncState (PutDDNSSyncState st s) d p h rt =
     (if ddnsStateKey d p h rt = state_key st then Some (fill_domain st) else GetDDNSSyncState s d p h rt)"
  by (simp add: GetDDNSSyncState_def PutDDNSSyncState_def Let_def fill_domain_def state_key_def)

text \<open>What one record does to the world.\<close>

lemma syncRecord_cases:
  assumes "syncRecord sv now ref u zone host rt v w = ((st, err), w')" and d: "z_Domain zone \<noteq> []"
  obtains (unresolved) "\<not> resolvable sv zone host" and "err \<noteq> None" and "w' = w"
  | (noop) "resolvable sv zone host" and "current w (z_Domain zone) ref (host, rt, v)" and "err = None"
      and "w' = put_state st w" and "ds_Status st = ''noop''" and "ds_Value st = v" and "state_key st = ddnsStateKey (z_Domain zone) ref host rt"
      and "ds_Domain st = z_Domain zone" and "ds_Host st = host"
  | (attempted) rec where "resolvable sv zone host" and "\<not> current w (z_Domain zone) ref (host, rt, v)"
      and "w' = put_state st (w\<lparr>dw_log := dw_log w @ [(u, rec)]\<rparr>)"
      and "rec_Name rec = host" and "rec_Type rec = rt" and "rec_Value rec = v" and "rec_Domain rec = z_Domain zone"
      and "err = None \<longleftrightarrow> ds_Status st \<noteq> ''failed''"
      and "ds_Value st = v" and "state_key st = ddnsStateKey (z_Domain zone) ref host rt" and "ds_Domain st = z_Domain zone"
      and "ds_Host st = host" and "ResolveAuthZone (sv_lookupNS sv) host = Inr (rec_Zone rec)"
proof (cases "resolvable sv zone host")
  case False
  with assms(1) have "err \<noteq> None" "w' = w"
    by (auto simp: syncRecord_def resolvable_def split: if_splits sum.splits)
  with False show ?thesis by (rule unresolved)
next
  case True
  then obtain a where a: "ResolveAuthZone (sv_lookupNS sv) host = Inr a"
    and dm: "DomainWithinManagedDomain (z_Domain zone) host" by (auto simp: resolvable_def)
  let ?st = "\<lparr>ds_Domain = stateDomain zone, ds_Zone = a, ds_Provider = ref, ds_Host = host,
       ds_RecordType = rt, ds_Value = v, ds_Status = [], ds_Error = None, ds_SyncedAt = now\<rparr>"
  have sd: "stateDomain zone = z_Domain zone" using d by (simp add: stateDomain_def)
  have utd: "up_to_date w ?st \<longleftrightarrow> current w (z_Domain zone) ref (host, rt, v)"
    by (auto simp: up_to_date_def current_def sd split: option.splits)
  show ?thesis
  proof (cases "up_to_date w ?st")
    case True
    with assms(1) a dm have "st = ?st\<lparr>ds_Status := ''noop''\<rparr>" "err = None" "w' = put_state st w"
      by (auto simp: syncRecord_def Let_def)
    with \<open>resolvable sv zone host\<close> True utd sd show ?thesis by (intro noop) (simp_all add: state_key_def)
  next
    case False
    let ?rec = "\<lparr>rec_Domain = z_Domain zone, rec_Zone = a, rec_Name = host, rec_Type = rt, rec_Value = v,
       rec_TTL = dz_TTL (z_DDNS zone)\<rparr>"
    from False assms(1) a dm have "w' = put_state st (w\<lparr>dw_log := dw_log w @ [(u, ?rec)]\<rparr>)"
      "err = None \<longleftrightarrow> ds_Status st \<noteq> ''failed''" "ds_Value st = v" "ds_Domain st = stateDomain zone"
      "state_key st = ddnsStateKey (stateDomain zone) ref host rt" "ds_Host st = host"
      by (auto simp: syncRecord_def Let_def state_key_def split: option.splits)
    with \<open>resolvable sv zone host\<close> False utd sd a show ?thesis by (intro attempted [of ?rec]) simp_all
  qed
qed

text \<open>A record synchronised without error is current afterwards, and others stay current.\<close>

lemma current_put_state:
  assumes "ds_Domain st = d" and "d \<noteq> []" and "state_key st = ddnsStateKey d ref h rt" and "ds_Value st = v"
    and "ds_Status st \<noteq> ''failed''" and "dw_store w \<noteq> None"
  shows "current (put_state st w) d ref (h, rt, v)"
  using assms by (auto simp: current_def get_put_state fill_domain_def Let_def)

lemma current_log [simp]: "current (w\<lparr>dw_log := l\<rparr>) d ref r = current w d ref r"
  by (simp add: current_def)

lemma syncRecord_current:
  assumes "syncRecord sv now ref u zone host rt v w = ((st, None), w')" and "z_Domain zone \<noteq> []"
    and "dw_store w \<noteq> None"
  shows "current w' (z_Domain zone) ref (host, rt, v)"
  using assms(1,2)
proof (cases rule: syncRecord_cases)
  case noop
  with assms show ?thesis by (auto intro!: current_put_state)
next
  case (attempted rec)
  with assms show ?thesis by (auto intro!: current_put_state)
qed simp

definition zone_record :: "managed_zone \<Rightarrow> ip_snapshot \<Rightarrow> string \<times> record_type \<times> string \<Rightarrow> bool" where
  "zone_record zone snap r \<longleftrightarrow> r \<in> set (zone_records zone snap)"

lemma zone_record_shape:
  "zone_record zone snap (h, rt, v) \<Longrightarrow>
     h \<in> {z_Domain zone, ''*.'' @ z_Domain zone} \<and> rt \<in> {RecordTypeA, RecordTypeAAAA}
     \<and> v = (if rt = RecordTypeA then ip_IPv4 snap else ip_IPv6 snap) \<and> v \<noteq> []"
  by (auto simp: zone_record_def zone_records_def zone_hosts_def split: if_splits)

lemma syncRecord_store: "syncRecord sv now ref u zone host rt v w = (r, w') \<Longrightarrow> dw_store w \<noteq> None \<Longrightarrow> dw_store w' \<noteq> None"
  by (auto simp: syncRecord_def Let_def split: if_splits sum.splits option.splits)

lemma current_put_other:
  assumes "state_key st \<noteq> ddnsStateKey d ref h rt" and "ds_Domain st \<noteq> []"
  shows "current (put_state st w) d ref (h, rt, v) = current w d ref (h, rt, v)"
  using assms by (auto simp: current_def get_put_state split: option.splits)

lemma syncRecord_keeps_current:
  assumes run: "syncRecord sv now ref u zone h rt v w = ((st, None), w')" and d: "z_Domain zone \<noteq> []"
    and r: "zone_record zone snap (h, rt, v)" and r': "zone_record zone snap (h', rt', v')"
    and cur: "current w (z_Domain zone) ref' (h', rt', v')"
  shows "current w' (z_Domain zone) ref' (h', rt', v')"
proof -
  have store: "dw_store w \<noteq> None" using cur by (auto simp: current_def split: option.splits)
  show ?thesis
  proof (cases "ddnsStateKey (z_Domain zone) ref h rt = ddnsStateKey (z_Domain zone) ref' h' rt'")
    case True
    have "ref = ref' \<and> h = h' \<and> rt = rt'"
      using zone_key_inj [OF True, of "z_Domain zone"] zone_record_shape [OF r] zone_record_shape [OF r'] by blast
    with zone_record_shape [OF r] zone_record_shape [OF r'] syncRecord_current [OF run d store]
    show ?thesis by simp
  next
    case False
    from run d show ?thesis
      by (cases rule: syncRecord_cases) (use cur d False in \<open>simp_all add: current_put_other\<close>)
  qed
qed

lemma sync_records_current:
  assumes "sync_records sv now ref u zone rs w = ((sts, []), w')" and d: "z_Domain zone \<noteq> []"
    and "\<forall>r \<in> set rs. zone_record zone snap r" and "dw_store w \<noteq> None"
  shows "dw_store w' \<noteq> None \<and> (\<forall>r \<in> set rs. current w' (z_Domain zone) ref r)
    \<and> (\<forall>ref' r. zone_record zone snap r \<longrightarrow> current w (z_Domain zone) ref' r \<longrightarrow> current w' (z_Domain zone) ref' r)"
  using assms
proof (induction rs arbitrary: w sts)
  case (Cons r rs)
  obtain h rt v where r: "r = (h, rt, v)" by (cases r)
  from Cons.prems(1) obtain st w1 sts' where one: "syncRecord sv now ref u zone h rt v w = ((st, None), w1)"
      and rest: "sync_records sv now ref u zone rs w1 = ((sts', []), w')"
    unfolding r by (auto simp: Let_def split: prod.splits)
  have s1: "dw_store w1 \<noteq> None" using syncRecord_store [OF one Cons.prems(4)] .
  have zr: "zone_record zone snap (h, rt, v)" using Cons.prems(3) r by simp
  note IH = Cons.IH [OF rest d _ s1]
  have c1: "current w1 (z_Domain zone) ref r" using syncRecord_current [OF one d Cons.prems(4)] r by simp
  have keep: "current w1 (z_Domain zone) ref' x" if "zone_record zone snap x" "current w (z_Domain zone) ref' x" for ref' x
    using that syncRecord_keeps_current [OF one d zr] by (cases x) blast
  show ?case using IH Cons.prems(3) c1 keep zr r by auto
qed simp

lemma sync_refs_current:
  assumes "sync_refs sv now zone snap refs w = ((sts, []), w')" and d: "z_Domain zone \<noteq> []" and "dw_store w \<noteq> None"
  shows "dw_store w' \<noteq> None \<and> (\<forall>ref \<in> set refs. \<forall>r \<in> set (zone_records zone snap). current w' (z_Domain zone) ref r)
    \<and> (\<forall>ref' r. zone_record zone snap r \<longrightarrow> current w (z_Domain zone) ref' r \<longrightarrow> current w' (z_Domain zone) ref' r)"
  using assms
proof (induction refs arbitrary: w sts)
  case (Cons ref refs)
  from Cons.prems(1) obtain u sts1 w1 sts2 where
      one: "sync_records sv now ref u zone (zone_records zone snap) w = ((sts1, []), w1)"
      and rest: "sync_refs sv now zone snap refs w1 = ((sts2, []), w')"
    by (auto simp: Let_def split: prod.splits option.splits)
  have a: "\<forall>r \<in> set (zone_records zone snap). zone_record zone snap r" by (simp add: zone_record_def)
  note c1 = sync_records_current [OF one d a Cons.prems(3)]
  note IH = Cons.IH [OF rest d conjunct1 [OF c1]]
  show ?case using c1 IH by (auto simp: zone_record_def)
qed simp

text \<open>When every record is current, a synchronisation updates nothing at the provider.\<close>

lemma sync_records_noop:
  assumes d: "z_Domain zone \<noteq> []" and "\<forall>r \<in> set rs. zone_record zone snap r"
    and "\<forall>r \<in> set rs. current w (z_Domain zone) ref r" and "\<forall>(h, rt, v) \<in> set rs. resolvable sv zone h"
  shows "\<exists>sts w'. sync_records sv now ref u zone rs w = ((sts, []), w') \<and> dw_log w' = dw_log w
    \<and> (\<forall>st \<in> set sts. ds_Status st = ''noop'')"
  using assms(2-)
proof (induction rs arbitrary: w)
  case (Cons r rs)
  obtain h rt v where r: "r = (h, rt, v)" by (cases r)
  obtain st err w1 where one: "syncRecord sv now ref u zone h rt v w = ((st, err), w1)" by (metis prod.collapse)
  have st: "err = None" "dw_log w1 = dw_log w" "ds_Status st = ''noop''"
    using one d by (cases rule: syncRecord_cases; use Cons.prems(2,3) r in simp)+
  have "current w1 (z_Domain zone) ref x" if "x \<in> set rs" for x
    using syncRecord_keeps_current [OF one [unfolded st(1)] d, of snap] that Cons.prems(1,2) r
    by (cases x) simp
  with Cons.IH [of w1] Cons.prems obtain sts w' where
    "sync_records sv now ref u zone rs w1 = ((sts, []), w')" "dw_log w' = dw_log w1"
    "\<forall>st \<in> set sts. ds_Status st = ''noop''" by auto
  with one st show ?case unfolding r by auto
qed simp

lemma sync_records_resolvable:
  assumes "sync_records sv now ref u zone rs w = ((sts, []), w')" and d: "z_Domain zone \<noteq> []"
  shows "\<forall>(h, rt, v) \<in> set rs. resolvable sv zone h"
  using assms(1)
proof (induction rs arbitrary: w sts)
  case (Cons r rs)
  obtain h rt v where r: "r = (h, rt, v)" by (cases r)
  from Cons.prems(1) obtain st w1 sts' where one: "syncRecord sv now ref u zone h rt v w = ((st, None), w1)"
      and rest: "sync_records sv now ref u zone rs w1 = ((sts', []), w')"
    unfolding r by (auto simp: Let_def split: prod.splits)
  from one d have "resolvable sv zone h" by (cases rule: syncRecord_cases) simp_all
  with Cons.IH [OF rest] r show ?case by simp
qed simp

lemma sync_refs_noop:
  assumes "sync_refs sv now0 zone snap refs w0 = ((sts0, []), w1)" and d: "z_Domain zone \<noteq> []"
    and "\<forall>ref \<in> set refs. \<forall>r \<in> set (zone_records zone snap). current w (z_Domain zone) ref r" and "dw_store w \<noteq> None"
  shows "\<exists>sts w'. sync_refs sv now zone snap refs w = ((sts, []), w') \<and> dw_log w' = dw_log w
    \<and> (\<forall>st \<in> set sts. ds_Status st = ''noop'')"
  using assms(1,3,4)
proof (induction refs arbitrary: w w0 sts0)
  case (Cons ref refs)
  from Cons.prems(1) obtain u sts1 w0' sts2 where u: "gm_get (sv_Providers sv) ref = Some u"
      and first: "sync_records sv now0 ref u zone (zone_records zone snap) w0 = ((sts1, []), w0')"
      and rest: "sync_refs sv now0 zone snap refs w0' = ((sts2, []), w1)"
    by (auto simp: Let_def split: prod.splits option.splits)
  have a: "\<forall>r \<in> set (zone_records zone snap). zone_record zone snap r" by (simp add: zone_record_def)
  have cur: "\<forall>r \<in> set (zone_records zone snap). current w (z_Domain zone) ref r" using Cons.prems(2) by simp
  from sync_records_noop [OF d a cur sync_records_resolvable [OF first d], of now u] obtain sts w' where
    now1: "sync_records sv now ref u zone (zone_records zone snap) w = ((sts, []), w')"
      and log: "dw_log w' = dw_log w" and sts: "\<forall>st \<in> set sts. ds_Status st = ''noop''" by blast
  note c = sync_records_current [OF now1 d a Cons.prems(3)]
  have "\<forall>ref \<in> set refs. \<forall>r \<in> set (zone_records zone snap). current w' (z_Domain zone) ref r"
    using c Cons.prems(2) by (auto simp: zone_record_def)
  from Cons.IH [OF rest this conjunct1 [OF c]] obtain sts' w'' where
    "sync_refs sv now zone snap refs w' = ((sts', []), w'')" "dw_log w'' = dw_log w'"
    "\<forall>st \<in> set sts'. ds_Status st = ''noop''" by blast
  with u now1 log sts show ?case by auto
qed simp

text \<open>What is asked of the providers.\<close>

definition upsert_ok :: "ddns_service \<Rightarrow> managed_zone \<Rightarrow> ip_snapshot \<Rightarrow> updater \<times> dns_record \<Rightarrow> bool" where
  "upsert_ok sv zone snap = (\<lambda>(u, rec).
     DomainWithinManagedDomain (z_Domain zone) (rec_Name rec)
     \<and> (rec_Name rec, rec_Type rec, rec_Value rec) \<in> set (zone_records zone snap)
     \<and> ResolveAuthZone (sv_lookupNS sv) (rec_Name rec) = Inr (rec_Zone rec)
     \<and> (\<exists>ref \<in> set (dz_ProviderRefs (z_DDNS zone)). gm_get (sv_Providers sv) ref = Some u))"

definition zone_request :: "managed_zone \<Rightarrow> ip_request" where
  "zone_request zone = \<lparr>ipr_IPv4 = dz_IPv4 (z_DDNS zone), ipr_IPv6 = dz_IPv6 (z_DDNS zone)\<rparr>"

lemma syncRecord_log:
  assumes "syncRecord sv now ref u zone h rt v w = (r, w')" and "z_Domain zone \<noteq> []"
    and "(h, rt, v) \<in> set (zone_records zone snap)" and "ref \<in> set (dz_ProviderRefs (z_DDNS zone))"
    and "gm_get (sv_Providers sv) ref = Some u"
  shows "\<exists>new. dw_log w' = dw_log w @ new \<and> list_all (upsert_ok sv zone snap) new"
proof -
  obtain st err where r: "r = (st, err)" by fastforce
  from assms(1)[unfolded r] assms(2) show ?thesis
  proof (cases rule: syncRecord_cases)
    case (attempted rec)
    with assms(3-) show ?thesis
      by (intro exI [of _ "[(u, rec)]"]) (auto simp: upsert_ok_def resolvable_def)
  qed simp_all
qed

lemma sync_records_log:
  assumes "sync_records sv now ref u zone rs w = (r, w')" and "z_Domain zone \<noteq> []"
    and "set rs \<subseteq> set (zone_records zone snap)" and "ref \<in> set (dz_ProviderRefs (z_DDNS zone))"
    and "gm_get (sv_Providers sv) ref = Some u"
  shows "\<exists>new. dw_log w' = dw_log w @ new \<and> list_all (upsert_ok sv zone snap) new"
  using assms(1,3)
proof (induction rs arbitrary: w r)
  case (Cons x rs)
  obtain h rt v where x: "x = (h, rt, v)" by (cases x)
  from Cons.prems(1) obtain r1 w1 r2 where one: "syncRecord sv now ref u zone h rt v w = (r1, w1)"
      and rest: "sync_records sv now ref u zone rs w1 = (r2, w')"
    unfolding x by (auto simp: Let_def split: prod.splits)
  from syncRecord_log [OF one assms(2) _ assms(4,5)] Cons.prems(2) x obtain n1 where
    "dw_log w1 = dw_log w @ n1" "list_all (upsert_ok sv zone snap) n1" by auto
  moreover from Cons.IH [OF rest] Cons.prems(2) obtain n2 where
    "dw_log w' = dw_log w1 @ n2" "list_all (upsert_ok sv zone snap) n2" by auto
  ultimately show ?case by (intro exI [of _ "n1 @ n2"]) simp
qed simp

lemma sync_refs_log:
  assumes "sync_refs sv now zone snap refs w = (r, w')" and "z_Domain zone \<noteq> []"
    and "set refs \<subseteq> set (dz_ProviderRefs (z_DDNS zone))"
  shows "\<exists>new. dw_log w' = dw_log w @ new \<and> list_all (upsert_ok sv zone snap) new"
  using assms(1,3)
proof (induction refs arbitrary: w r)
  case (Cons ref refs)
  show ?case
  proof (cases "gm_get (sv_Providers sv) ref")
    case None
    with Cons.prems(1) obtain r2 where "sync_refs sv now zone snap refs w = (r2, w')"
      by (auto simp: Let_def split: prod.splits)
    with Cons.IH Cons.prems(2) show ?thesis by auto
  next
    case (Some u)
    with Cons.prems(1) obtain r1 w1 r2 where
        one: "sync_records sv now ref u zone (zone_records zone snap) w = (r1, w1)"
        and rest: "sync_refs sv now zone snap refs w1 = (r2, w')"
      by (auto simp: Let_def split: prod.splits)
    from sync_records_log [OF one assms(2) subset_refl _ Some] Cons.prems(2) obtain n1 where
      "dw_log w1 = dw_log w @ n1" "list_all (upsert_ok sv zone snap) n1" by auto
    moreover from Cons.IH [OF rest] Cons.prems(2) obtain n2 where
      "dw_log w' = dw_log w1 @ n2" "list_all (upsert_ok sv zone snap) n2" by auto
    ultimately show ?thesis by (intro exI [of _ "n1 @ n2"]) simp
  qed
qed simp

section \<open>Properties\<close>

lemma SyncZone_log:
  assumes "SyncZone sv now zone w = (r, w')" and "z_Domain zone \<noteq> []"
  shows "\<exists>new. dw_log w' = dw_log w @ new
    \<and> (new \<noteq> [] \<longrightarrow> dz_Enabled (z_DDNS zone) \<and> (\<exists>detect. sv_detect sv = Some detect
         \<and> list_all (upsert_ok sv zone (fst (detect (zone_request zone)))) new))"
proof (cases "dz_Enabled (z_DDNS zone) \<and> sv_detect sv \<noteq> None")
  case True
  then obtain detect where d: "sv_detect sv = Some detect" by auto
  obtain snap derr where s: "detect \<lparr>ipr_IPv4 = dz_IPv4 (z_DDNS zone), ipr_IPv6 = dz_IPv6 (z_DDNS zone)\<rparr> = (snap, derr)"
    by fastforce
  obtain sts errs w1 where y: "sync_refs sv now zone snap (dz_ProviderRefs (z_DDNS zone)) w = ((sts, errs), w1)"
    by (metis prod.collapse)
  from sync_refs_log [OF y assms(2) subset_refl] have "\<exists>new. dw_log w1 = dw_log w @ new \<and> list_all (upsert_ok sv zone snap) new" .
  moreover have "w' = w \<or> w' = w1" using assms(1) True d s y by (auto simp: SyncZone_def split: if_splits)
  ultimately show ?thesis using True d s by (auto simp: zone_request_def)
next
  case False
  with assms(1) have "w' = w" by (auto simp: SyncZone_def split: if_splits option.splits)
  then show ?thesis by simp
qed

text \<open>
  Claim C3. Dynamic DNS never touches a foreign name: every record that a synchronisation
  asks a provider to update lies inside the zone's managed domain, is one of the zone's own
  records (apex or wildcard, A with the IPv4 or AAAA with the IPv6 address just detected),
  is filed under the authoritative zone found for its name, and goes to a provider the zone
  references; nothing is removed from the log of earlier calls.
\<close>

theorem ddns_updates_inside_zone:
  assumes "SyncZone sv now zone w = (r, w')" and "z_Domain zone \<noteq> []"
  shows "\<exists>new. dw_log w' = dw_log w @ new
    \<and> (new \<noteq> [] \<longrightarrow> dz_Enabled (z_DDNS zone) \<and> (\<exists>detect. sv_detect sv = Some detect
         \<and> list_all (upsert_ok sv zone (fst (detect (zone_request zone)))) new))"
  using assms by (rule SyncZone_log)

definition demo_ddns_zone :: managed_zone where
  "demo_ddns_zone = \<lparr>z_Name = ''home'', z_Domain = ''x.io'', z_Default = True, z_Wildcard = False,
     z_DDNS = \<lparr>dz_Enabled = True, dz_ProviderRefs = [''cf''], dz_IPv4 = True, dz_IPv6 = False, dz_Wildcard = False, dz_TTL = 60\<rparr>,
     z_Certificate = \<lparr>cp_Enabled = False, cp_Email = [], cp_DNSProvider = [], cp_RenewBefore = 0,
       cp_DeployTargets = [], cp_Bundles = []\<rparr>\<rparr>"

definition demo_ddns :: ddns_service where
  "demo_ddns = \<lparr>sv_detect = Some (\<lambda>_. (\<lparr>ip_IPv4 = ''1.2.3.4'', ip_IPv6 = [], ip_ObservedAt = 1\<rparr>, None)),
     sv_Providers = [(''cf'', Cloudflare ''t'' ''u'')], sv_lookupNS = (\<lambda>_. Inr [''ns1'']),
     sv_upsert = (\<lambda>_ _ _. None), sv_err_text = (\<lambda>_. [])\<rparr>"

definition demo_world :: ddns_world where
  "demo_world = \<lparr>dw_store = Some NewMemoryStore, dw_log = []\<rparr>"

lemma demo_resolve: "ResolveAuthZone (sv_lookupNS demo_ddns) ''x.io'' = Inr ''x.io''"
  by (simp add: ResolveAuthZone_def normalizeDNSName_def candidateZones_def demo_ddns_def literal_simps TrimSuffix_def
      HasSuffix_def TrimPrefix_def HasPrefix_def suffix_def Let_def)

lemma demo_within: "DomainWithinManagedDomain ''x.io'' ''x.io''"
  by (rule apex_within) (simp add: plain_domain_def trimmed_def literal_simps HasPrefix_def)

lemma demo_first_sync:
  "\<exists>sts w'. SyncZone demo_ddns 5 demo_ddns_zone demo_world = ((sts, None), w') \<and> length (dw_log w') = 1"
proof -
  have d: "sv_detect demo_ddns = Some (\<lambda>_. (\<lparr>ip_IPv4 = ''1.2.3.4'', ip_IPv6 = [], ip_ObservedAt = 1\<rparr>, None))"
    "sv_Providers demo_ddns = [(''cf'', Cloudflare ''t'' ''u'')]" "sv_upsert demo_ddns = (\<lambda>_ _ _. None)"
    by (simp_all add: demo_ddns_def)
  show ?thesis
    by (simp add: SyncZone_def d demo_ddns_zone_def detect_errors_def zone_records_def zone_hosts_def syncRecord_def
        demo_within demo_resolve up_to_date_def demo_world_def NewMemoryStore_def GetDDNSSyncState_def stateDomain_def Let_def)
qed

theorem ddns_updates_inside_zone_witness:
  "\<exists>r w' u rec. SyncZone demo_ddns 5 demo_ddns_zone demo_world = (r, w') \<and> dw_log w' = [(u, rec)]
     \<and> DomainWithinManagedDomain ''x.io'' (rec_Name rec)"
proof -
  obtain sts w' where s: "SyncZone demo_ddns 5 demo_ddns_zone demo_world = ((sts, None), w')" and l: "length (dw_log w') = 1"
    using demo_first_sync by blast
  have "z_Domain demo_ddns_zone \<noteq> []" by (simp add: demo_ddns_zone_def)
  moreover from l obtain u rec where "dw_log w' = [(u, rec)]" by (auto simp: length_Suc_conv)
  ultimately show ?thesis using ddns_updates_inside_zone [OF s] s
    by (auto simp: demo_world_def upsert_ok_def demo_ddns_zone_def)
qed

text \<open>
  Claim C4. Synchronisation is idempotent: after a run without error against a state store
  every record of the zone is up to date, and running again with the same detected addresses
  reports no error, marks every record as unchanged and asks no provider for anything.
\<close>

theorem ddns_sync_idempotent:
  assumes "SyncZone sv now zone w = ((sts, None), w1)" and "z_Domain zone \<noteq> []" and "dw_store w \<noteq> None"
  shows "\<exists>sts' w2. SyncZone sv now' zone w1 = ((sts', None), w2) \<and> dw_log w2 = dw_log w1
    \<and> (\<forall>st \<in> set sts'. ds_Status st = ''noop'')"
proof (cases "dz_Enabled (z_DDNS zone)")
  case True
  with assms(1) obtain detect where d: "sv_detect sv = Some detect" by (auto simp: SyncZone_def split: option.splits)
  obtain snap derr where s: "detect \<lparr>ipr_IPv4 = dz_IPv4 (z_DDNS zone), ipr_IPv6 = dz_IPv6 (z_DDNS zone)\<rparr> = (snap, derr)"
    by fastforce
  obtain sts0 errs w0 where y: "sync_refs sv now zone snap (dz_ProviderRefs (z_DDNS zone)) w = ((sts0, errs), w0)"
    by (metis prod.collapse)
  have none: "derr = None" "detect_errors zone snap derr = []" "errs = []" "w0 = w1"
    using assms(1) True d s y by (auto simp: SyncZone_def detect_errors_def split: if_splits option.splits)
  note y' = y [unfolded none(3,4)]
  from sync_refs_current [OF y' assms(2,3)] have
    "\<forall>ref \<in> set (dz_ProviderRefs (z_DDNS zone)). \<forall>r \<in> set (zone_records zone snap). current w1 (z_Domain zone) ref r"
    and "dw_store w1 \<noteq> None" by blast+
  from sync_refs_noop [OF y' assms(2) this] obtain sts' w2 where
    "sync_refs sv now' zone snap (dz_ProviderRefs (z_DDNS zone)) w1 = ((sts', []), w2)" "dw_log w2 = dw_log w1"
    "\<forall>st \<in> set sts'. ds_Status st = ''noop''" by blast
  with True d s none show ?thesis by (simp add: SyncZone_def)
next
  case False
  with assms(1) show ?thesis by (simp add: SyncZone_def)
qed

theorem ddns_sync_idempotent_witness:
  "\<exists>sts w1 sts' w2. SyncZone demo_ddns 5 demo_ddns_zone demo_world = ((sts, None), w1)
     \<and> SyncZone demo_ddns 9 demo_ddns_zone w1 = ((sts', None), w2) \<and> length (dw_log w1) = 1 \<and> dw_log w2 = dw_log w1"
proof -
  obtain sts w1 where s: "SyncZone demo_ddns 5 demo_ddns_zone demo_world = ((sts, None), w1)" and l: "length (dw_log w1) = 1"
    using demo_first_sync by blast
  have "z_Domain demo_ddns_zone \<noteq> []" "dw_store demo_world \<noteq> None" by (simp_all add: demo_ddns_zone_def demo_world_def)
  from ddns_sync_idempotent [OF s this, of 9] s l show ?thesis by blast
qed

text \<open>
  The authoritative zone of a name is the name itself or a parent of it, label by
  label, that answers an NS query, and no closer parent does.
\<close>

theorem auth_zone_is_closest_parent:
  assumes "ResolveAuthZone lookup fqdn = Inr z"
  shows "suffix (Split z (CHR ''.'')) (Split (normalizeDNSName fqdn) (CHR ''.''))
    \<and> (\<exists>ns. lookup z = Inr ns \<and> ns \<noteq> [])
    \<and> (\<exists>pre post. candidateZones (normalizeDNSName fqdn) = pre @ z # post
         \<and> (\<forall>c \<in> set pre. \<forall>ns. lookup c = Inr ns \<longrightarrow> ns = []))"
proof -
  let ?P = "\<lambda>c. case lookup c of Inl _ \<Rightarrow> False | Inr ns \<Rightarrow> ns \<noteq> []"
  from assms have f: "find ?P (candidateZones (normalizeDNSName fqdn)) = Some z"
    by (auto simp: ResolveAuthZone_def Let_def split: if_splits option.splits)
  from f obtain i where i: "i < length (candidateZones (normalizeDNSName fqdn))" "z = candidateZones (normalizeDNSName fqdn) ! i"
    "\<forall>j < i. \<not> ?P (candidateZones (normalizeDNSName fqdn) ! j)" unfolding find_Some_iff by blast
  let ?cs = "candidateZones (normalizeDNSName fqdn)"
  have "?cs = take i ?cs @ z # drop (Suc i) ?cs" using i by (simp add: id_take_nth_drop)
  moreover have "\<forall>c \<in> set (take i ?cs). \<forall>ns. lookup c = Inr ns \<longrightarrow> ns = []"
    using i by (auto simp: in_set_conv_nth split: sum.splits)
  ultimately show ?thesis
    using ResolveAuthZone_ok [OF assms] candidateZones_labels [of z "normalizeDNSName fqdn"] by blast
qed

theorem auth_zone_is_closest_parent_witness:
  "ResolveAuthZone (sv_lookupNS demo_ddns) ''x.io'' = Inr ''x.io'' \<and> suffix (Split ''x.io'' (CHR ''.'')) (Split (normalizeDNSName ''x.io'') (CHR ''.''))"
  using auth_zone_is_closest_parent [OF demo_resolve] demo_resolve by blast

text \<open>
  The address detector does not look at the HTTP status: the body of an error page
  is taken for the public address.
\<close>

theorem detector_ignores_status:
  assumes "TrimSpace body \<noteq> []"
  shows "detectFamily (\<lambda>_. Inr (503, body)) label (url # urls) = (TrimSpace body, None)"
  using assms by (simp add: detectFamily_def detectOne_def)

theorem detector_ignores_status_witness:
  "detectFamily (\<lambda>_. Inr (503, ''<html>'')) ''IPv4'' [''https://api.ipify.org''] = (''<html>'', None)"
  using detector_ignores_status [of "''<html>''"] by (simp add: literal_simps)

end
