(* ===== verification/Domux_Upsert.thy ===== *)
theory Domux_Upsert
  imports Domux_Ddns
begin

text \<open>
  The \<open>Upsert\<close> methods of the four providers of \<open>internal/ddns/provider\<close> (Cloudflare, AliDNS,
  GoDaddy, Spaceship) with the request signer of AliDNS and the HTTP helpers. A run of a method
  extends a log of the HTTP requests sent so far. What a vendor answers may depend on all earlier
  requests and is a parameter, as are the clock, the HMAC function and what \<open>encoding/json\<close> makes of
  a response body; a request carries the value its body is the JSON text of. The paging loop of
  Spaceship is a partial function: not returning is the value \<open>None\<close>.
\<close>

section \<open>Payloads\<close>

record cloudflare_record =
  cf_ID :: string
  cf_Type :: string
  cf_Name :: string
  cf_Content :: string
  cf_TTL :: int
  cf_Proxied :: bool

record cloudflare_status =
  cf_Success :: bool
  cf_Errors :: "string list"
  cf_Message :: "string list"

record cloudflare_zones_response = cloudflare_status +
  cfz_Result :: "string list"

record cloudflare_records_response = cloudflare_status +
  cfr_Result :: "cloudflare_record list"

record ali_record =
  ar_DomainName :: string
  ar_RecordID :: string
  ar_Value :: string

record ali_records_response =
  ars_TotalCount :: int
  ars_Record :: "ali_record list"

record ali_response =
  ali_RecordID :: string

record godaddy_record =
  gd_Data :: string
  gd_Name :: string
  gd_TTL :: int
  gd_Type :: string

record spaceship_record =
  ss_Type :: string
  ss_Name :: string
  ss_TTL :: int
  ss_Address :: string
  ss_GroupType :: string

record spaceship_records_response =
  ssr_Items :: "spaceship_record list"
  ssr_Total :: int

record spaceship_save_request =
  sss_Force :: bool
  sss_Items :: "spaceship_record list"

record spaceship_delete_record =
  ssd_Type :: string
  ssd_Name :: string
  ssd_Address :: string

datatype vendor_body =
    NoBody
  | CloudflareBody cloudflare_record
  | GoDaddyBody "godaddy_record list"
  | SpaceshipSaveBody spaceship_save_request
  | SpaceshipDeleteBody "spaceship_delete_record list"

section \<open>HTTP\<close>

record vendor_request =
  vr_Method :: string
  vr_URL :: go_url
  vr_Header :: "(string \<times> string) list"
  vr_Body :: vendor_body

text \<open>A response: its status, and the bytes of its body up to the end or an error.\<close>

record vendor_response =
  vp_StatusCode :: int
  vp_Body :: string
  vp_BodyErr :: "go_error option"

type_synonym request_log = "vendor_request list"

record vendor_env =
  ve_Do :: "request_log \<Rightarrow> vendor_request \<Rightarrow> vendor_response result"
  ve_UnixNano :: "request_log \<Rightarrow> int"
  ve_Timestamp :: "request_log \<Rightarrow> string"
  ve_Hmac :: "string \<Rightarrow> string \<Rightarrow> string \<Rightarrow> string"
  ve_CloudflareZones :: "string \<Rightarrow> cloudflare_zones_response result"
  ve_CloudflareRecords :: "string \<Rightarrow> cloudflare_records_response result"
  ve_AliRecords :: "string \<Rightarrow> ali_records_response result"
  ve_AliResponse :: "string \<Rightarrow> ali_response result"
  ve_SpaceshipRecords :: "string \<Rightarrow> spaceship_records_response result"

text \<open>\<open>http.NewRequestWithContext\<close>: the URL has to parse; an empty port is removed from the host.\<close>

definition NewRequest :: "string \<Rightarrow> string \<Rightarrow> (string \<times> string) list \<Rightarrow> vendor_body \<Rightarrow> vendor_request result" where
  "NewRequest meth requestURL header body =
     (case url_Parse requestURL of
        Inl e \<Rightarrow> Inl e
      | Inr u \<Rightarrow> Inr \<lparr>vr_Method = meth, vr_URL = u\<lparr>u_Host := TrimSuffix (u_Host u) '':''\<rparr>,
                      vr_Header = header, vr_Body = body\<rparr>)"

definition readAllLimited :: "nat \<Rightarrow> vendor_response \<Rightarrow> string result" where
  "readAllLimited n resp =
     (if n \<le> length (vp_Body resp) then Inr (take n (vp_Body resp))
      else case vp_BodyErr resp of Some e \<Rightarrow> Inl e | None \<Rightarrow> Inr (vp_Body resp))"

definition readResponseBody :: "vendor_response result \<Rightarrow> string result" where
  "readResponseBody r =
     (case r of
        Inl e \<Rightarrow> Inl e
      | Inr resp \<Rightarrow>
          (case readAllLimited 1048576 resp of
             Inl e \<Rightarrow> Inl e
           | Inr body \<Rightarrow>
               if 300 \<le> vp_StatusCode resp then
                 Inl (Errorf ''http %d: %s'' [Itoa (vp_StatusCode resp), body])
               else Inr body))"

text \<open>An empty body leaves the destination at its initial value.\<close>

definition decodeJSONResponse :: "(string \<Rightarrow> 'a result) \<Rightarrow> 'a \<Rightarrow> vendor_response result \<Rightarrow> 'a result" where
  "decodeJSONResponse unmarshal out r =
     (case readResponseBody r of
        Inl e \<Rightarrow> Inl e
      | Inr body \<Rightarrow> if body = [] then Inr out else unmarshal body)"

definition client_Do :: "vendor_env \<Rightarrow> vendor_request \<Rightarrow> request_log \<Rightarrow> vendor_response result \<times> request_log" where
  "client_Do env req log = (ve_Do env log req, log @ [req])"

definition send_request :: "vendor_env \<Rightarrow> vendor_request result \<Rightarrow> request_log \<Rightarrow> string result \<times> request_log" where
  "send_request env r log =
     (case r of
        Inl e \<Rightarrow> (Inl e, log)
      | Inr req \<Rightarrow> (let (resp, log') = client_Do env req log in (readResponseBody resp, log')))"

text \<open>The record an \<open>Upsert\<close> is about: every provider starts by resolving its name.\<close>

definition record_target :: "dns_record \<Rightarrow> record_name result" where
  "record_target rec = ResolveRecordName (if rec_Zone rec = [] then rec_Domain rec else rec_Zone rec) (rec_Name rec)"

section \<open>Cloudflare\<close>

definition Cloudflare_request :: "vendor_env \<Rightarrow> string \<Rightarrow> string \<Rightarrow> string \<Rightarrow> vendor_body \<Rightarrow> request_log \<Rightarrow>
    string result \<times> request_log" where
  "Cloudflare_request env apiToken meth requestURL payload log =
     send_request env
       (NewRequest meth requestURL
          [(''Authorization'', ''Bearer '' @ apiToken), (''Content-Type'', ''application/json'')] payload) log"

definition getZoneID :: "vendor_env \<Rightarrow> string \<Rightarrow> string \<Rightarrow> string \<Rightarrow> request_log \<Rightarrow> string result \<times> request_log" where
  "getZoneID env apiToken apiBaseURL zone log =
     (let query = values_Set ''per_page'' ''50'' (values_Set ''status'' ''active'' (values_Set ''name'' zone []));
          (body, log') = Cloudflare_request env apiToken ''GET'' (apiBaseURL @ ''/zones?'' @ values_Encode query) NoBody log
      in (case body of
            Inl e \<Rightarrow> Inl e
          | Inr b \<Rightarrow>
              (case ve_CloudflareZones env b of
                 Inl e \<Rightarrow> Inl e
               | Inr response \<Rightarrow>
                   if \<not> cf_Success response then Inl (Errorf ''cloudflare zone lookup failed'' [])
                   else (case cfz_Result response of
                           [] \<Rightarrow> Inl (Errorf ''cloudflare zone %q not found'' [zone])
                         | i # _ \<Rightarrow> Inr i)), log'))"

definition getRecords :: "vendor_env \<Rightarrow> string \<Rightarrow> string \<Rightarrow> string \<Rightarrow> string \<Rightarrow> record_type \<Rightarrow> request_log \<Rightarrow>
    cloudflare_record list result \<times> request_log" where
  "getRecords env apiToken apiBaseURL zoneID fqdn recordType log =
     (let query = values_Set ''per_page'' ''50'' (values_Set ''name'' fqdn (values_Set ''type'' recordType []));
          (body, log') = Cloudflare_request env apiToken ''GET''
             (apiBaseURL @ ''/zones/'' @ zoneID @ ''/dns_records?'' @ values_Encode query) NoBody log
      in (case body of
            Inl e \<Rightarrow> Inl e
          | Inr b \<Rightarrow>
              (case ve_CloudflareRecords env b of
                 Inl e \<Rightarrow> Inl e
               | Inr response \<Rightarrow>
                   if \<not> cf_Success response then Inl (Errorf ''cloudflare record lookup failed for %s'' [fqdn])
                   else Inr (cfr_Result response)), log'))"

definition cloudflareTTL :: "int \<Rightarrow> int" where
  "cloudflareTTL ttl = (if ttl = 0 then 1 else ttl)"

definition Cloudflare_Upsert :: "vendor_env \<Rightarrow> string \<Rightarrow> string \<Rightarrow> dns_record \<Rightarrow> request_log \<Rightarrow>
    go_error option \<times> request_log" where
  "Cloudflare_Upsert env apiToken apiBaseURL rec log =
     (case record_target rec of
        Inl e \<Rightarrow> (Some e, log)
      | Inr zone \<Rightarrow>
          (case getZoneID env apiToken apiBaseURL (rn_Zone zone) log of
             (Inl e, log1) \<Rightarrow> (Some e, log1)
           | (Inr zoneID, log1) \<Rightarrow>
               (case getRecords env apiToken apiBaseURL zoneID (rn_FQDN zone) (rec_Type rec) log1 of
                  (Inl e, log2) \<Rightarrow> (Some e, log2)
                | (Inr existing, log2) \<Rightarrow>
                    (let ttl = cloudflareTTL (rec_TTL rec);
                         payload = \<lparr>cf_ID = [], cf_Type = rec_Type rec, cf_Name = rn_FQDN zone,
                                    cf_Content = rec_Value rec, cf_TTL = ttl, cf_Proxied = False\<rparr>
                     in case existing of
                          [] \<Rightarrow>
                            (let (body, log3) = Cloudflare_request env apiToken ''POST''
                                   (apiBaseURL @ ''/zones/'' @ zoneID @ ''/dns_records'') (CloudflareBody payload) log2
                             in (result_error body, log3))
                        | first # _ \<Rightarrow>
                            if cf_Content first = rec_Value rec \<and> cf_TTL first = ttl then (None, log2)
                            else
                              (let (body, log3) = Cloudflare_request env apiToken ''PUT''
                                     (apiBaseURL @ ''/zones/'' @ zoneID @ ''/dns_records/'' @ cf_ID first)
                                     (CloudflareBody (payload\<lparr>cf_ID := cf_ID first\<rparr>)) log2
                               in (result_error body, log3))))))"

section \<open>The AliDNS signer\<close>

definition b64_char :: "nat \<Rightarrow> char" where
  "b64_char n = (if n < 26 then char_of (65 + n) else if n < 52 then char_of (71 + n)
     else if n < 62 then char_of (n - 4) else if n = 62 then CHR ''+'' else CHR ''/'')"

text \<open>\<open>base64.StdEncoding.EncodeToString\<close>\<close>

fun EncodeToString :: "string \<Rightarrow> string" where
  "EncodeToString [] = []"
| "EncodeToString [a] =
     (let x = of_char a in [b64_char (x div 4), b64_char (x mod 4 * 16), CHR ''='', CHR ''=''])"
| "EncodeToString [a, b] =
     (let x = of_char a; y = of_char b
      in [b64_char (x div 4), b64_char (x mod 4 * 16 + y div 16), b64_char (y mod 16 * 4), CHR ''=''])"
| "EncodeToString (a # b # c # s) =
     (let x = of_char a; y = of_char b; z = of_char c
      in b64_char (x div 4) # b64_char (x mod 4 * 16 + y div 16) # b64_char (y mod 16 * 4 + z div 64)
         # b64_char (z mod 64) # EncodeToString s)"

record signer_token =
  tok_s :: string
  tok_e :: bool

text \<open>The \<open>%c\<close> verb prints the byte as a code point.\<close>

definition rune_bytes :: "char \<Rightarrow> string" where
  "rune_bytes c = (let n = of_char c in if n < (128::nat) then [c] else [char_of (192 + n div 64), char_of (128 + n mod 64)])"

fun encode_token :: "string \<Rightarrow> string" where
  "encode_token [] = []"
| "encode_token (c # s) =
     (if c = CHR ''%'' \<and> prefix ''7E'' s then CHR ''~'' # encode_token (drop 2 s)
      else (if c \<in> set ''%*/&='' then pct c else if c = CHR ''+'' then ''%20'' else rune_bytes c) @ encode_token s)"

definition specialURLEncode :: "signer_token list \<Rightarrow> string" where
  "specialURLEncode toks = concat (map (\<lambda>t. if tok_e t then encode_token (tok_s t) else tok_s t) toks)"

definition makeDataToSign :: "string \<Rightarrow> url_values \<Rightarrow> string" where
  "makeDataToSign httpMethod vals =
     specialURLEncode
       [\<lparr>tok_s = httpMethod, tok_e = False\<rparr>, \<lparr>tok_s = ''&'', tok_e = False\<rparr>, \<lparr>tok_s = ''/'', tok_e = True\<rparr>,
        \<lparr>tok_s = ''&'', tok_e = False\<rparr>, \<lparr>tok_s = values_Encode vals, tok_e = True\<rparr>]"

text \<open>The first argument of \<open>ve_Hmac\<close> names the hash; an unknown method falls back to SHA-1.\<close>

definition hmacSign :: "vendor_env \<Rightarrow> string \<Rightarrow> string \<Rightarrow> string \<Rightarrow> url_values \<Rightarrow> string" where
  "hmacSign env signMethod httpMethod appKeySecret vals =
     ve_Hmac env
       (if signMethod \<in> {''HMAC-SHA1'', ''HMAC-SHA256'', ''HMAC-MD5''} then signMethod else ''HMAC-SHA1'')
       (appKeySecret @ ''&'') (makeDataToSign httpMethod vals)"

definition hmacSignToB64 :: "vendor_env \<Rightarrow> string \<Rightarrow> string \<Rightarrow> string \<Rightarrow> url_values \<Rightarrow> string" where
  "hmacSignToB64 env signMethod httpMethod appKeySecret vals =
     EncodeToString (hmacSign env signMethod httpMethod appKeySecret vals)"

definition aliyunSigner :: "vendor_env \<Rightarrow> request_log \<Rightarrow> string \<Rightarrow> string \<Rightarrow> url_values \<Rightarrow> string \<Rightarrow> string \<Rightarrow> url_values" where
  "aliyunSigner env log accessKeyID accessSecret params httpMethod apiVersion =
     (let signed = fold (\<lambda>(k, v). values_Set k v)
            [(''SignatureMethod'', ''HMAC-SHA1''), (''SignatureNonce'', Itoa (ve_UnixNano env log)),
             (''AccessKeyId'', accessKeyID), (''SignatureVersion'', ''1.0''),
             (''Timestamp'', ve_Timestamp env log), (''Format'', ''JSON''), (''Version'', apiVersion)] params
      in values_Set ''Signature'' (hmacSignToB64 env ''HMAC-SHA1'' httpMethod accessSecret signed) signed)"

section \<open>AliDNS\<close>

text \<open>The indexing of an empty record list panics; the other results are returned errors.\<close>

datatype upsert_result = Returned "go_error option" | Panicked

definition AliDNS_request :: "vendor_env \<Rightarrow> string \<Rightarrow> string \<Rightarrow> string \<Rightarrow> url_values \<Rightarrow> (string \<Rightarrow> 'a result) \<Rightarrow> 'a \<Rightarrow>
    request_log \<Rightarrow> 'a result \<times> request_log" where
  "AliDNS_request env accessKeyID accessKeySecret endpoint params unmarshal out log =
     (let signed = aliyunSigner env log accessKeyID accessKeySecret params ''GET'' ''2015-01-09''
      in case NewRequest ''GET'' endpoint [] NoBody of
           Inl e \<Rightarrow> (Inl e, log)
         | Inr req \<Rightarrow>
             (let (resp, log') = client_Do env (req\<lparr>vr_URL := (vr_URL req)\<lparr>u_RawQuery := values_Encode signed\<rparr>\<rparr>) log
              in (decodeJSONResponse unmarshal out resp, log')))"

definition zero_ali_response :: ali_response where
  "zero_ali_response = \<lparr>ali_RecordID = []\<rparr>"

definition ali_write :: "vendor_env \<Rightarrow> string \<Rightarrow> string \<Rightarrow> string \<Rightarrow> url_values \<Rightarrow> string \<Rightarrow> request_log \<Rightarrow>
    go_error option \<times> request_log" where
  "ali_write env accessKeyID accessKeySecret endpoint params emptyMsg log =
     (let (r, log') = AliDNS_request env accessKeyID accessKeySecret endpoint params (ve_AliResponse env) zero_ali_response log
      in (case r of
            Inl e \<Rightarrow> Some e
          | Inr response \<Rightarrow> if ali_RecordID response = [] then Some (Errorf emptyMsg []) else None, log'))"

definition AliDNS_create :: "vendor_env \<Rightarrow> string \<Rightarrow> string \<Rightarrow> string \<Rightarrow> record_name \<Rightarrow> dns_record \<Rightarrow> request_log \<Rightarrow>
    go_error option \<times> request_log" where
  "AliDNS_create env accessKeyID accessKeySecret endpoint resolved rec log =
     ali_write env accessKeyID accessKeySecret endpoint
       [(''Action'', ''AddDomainRecord''), (''DomainName'', rn_Zone resolved), (''RR'', rn_Relative resolved),
        (''Type'', rec_Type rec), (''Value'', rec_Value rec), (''TTL'', Itoa (defaultAliDNSTTL (rec_TTL rec)))]
       ''alidns create returned empty record id'' log"

definition AliDNS_update :: "vendor_env \<Rightarrow> string \<Rightarrow> string \<Rightarrow> string \<Rightarrow> record_name \<Rightarrow> ali_record \<Rightarrow> dns_record \<Rightarrow>
    request_log \<Rightarrow> go_error option \<times> request_log" where
  "AliDNS_update env accessKeyID accessKeySecret endpoint resolved existing rec log =
     ali_write env accessKeyID accessKeySecret endpoint
       [(''Action'', ''UpdateDomainRecord''), (''RecordId'', ar_RecordID existing), (''RR'', rn_Relative resolved),
        (''Type'', rec_Type rec), (''Value'', rec_Value rec), (''TTL'', Itoa (defaultAliDNSTTL (rec_TTL rec)))]
       ''alidns update returned empty record id'' log"

definition zero_ali_records :: ali_records_response where
  "zero_ali_records = \<lparr>ars_TotalCount = 0, ars_Record = []\<rparr>"

definition AliDNS_Upsert :: "vendor_env \<Rightarrow> string \<Rightarrow> string \<Rightarrow> string \<Rightarrow> dns_record \<Rightarrow> request_log \<Rightarrow>
    upsert_result \<times> request_log" where
  "AliDNS_Upsert env accessKeyID accessKeySecret endpoint rec log =
     (case record_target rec of
        Inl e \<Rightarrow> (Returned (Some e), log)
      | Inr resolved \<Rightarrow>
          (case AliDNS_request env accessKeyID accessKeySecret endpoint
                  [(''Action'', ''DescribeSubDomainRecords''), (''DomainName'', rn_Zone resolved),
                   (''SubDomain'', AliDNSSubDomain resolved), (''Type'', rec_Type rec)]
                  (ve_AliRecords env) zero_ali_records log of
             (Inl e, log1) \<Rightarrow> (Returned (Some e), log1)
           | (Inr records, log1) \<Rightarrow>
               if 0 < ars_TotalCount records then
                 (case ars_Record records of
                    [] \<Rightarrow> (Panicked, log1)
                  | selected # _ \<Rightarrow>
                      if ar_Value selected = rec_Value rec then (Returned None, log1)
                      else apfst Returned
                             (AliDNS_update env accessKeyID accessKeySecret endpoint resolved selected rec log1))
               else apfst Returned (AliDNS_create env accessKeyID accessKeySecret endpoint resolved rec log1)))"

section \<open>GoDaddy\<close>

definition GoDaddy_Upsert :: "vendor_env \<Rightarrow> string \<Rightarrow> string \<Rightarrow> string \<Rightarrow> dns_record \<Rightarrow> request_log \<Rightarrow>
    go_error option \<times> request_log" where
  "GoDaddy_Upsert env apiKey apiSecret apiBaseURL rec log =
     (case record_target rec of
        Inl e \<Rightarrow> (Some e, log)
      | Inr resolved \<Rightarrow>
          (let payload = [\<lparr>gd_Data = rec_Value rec, gd_Name = rn_Relative resolved,
                           gd_TTL = defaultGoDaddyTTL (rec_TTL rec), gd_Type = rec_Type rec\<rparr>];
               requestURL = apiBaseURL @ ''/domains/'' @ PathEscape (rn_Zone resolved) @ ''/records/''
                 @ PathEscape (rec_Type rec) @ ''/'' @ PathEscape (rn_Relative resolved);
               (body, log') = send_request env
                 (NewRequest ''PUT'' requestURL
                    [(''Authorization'', ''sso-key '' @ apiKey @ '':'' @ apiSecret), (''Content-Type'', ''application/json'')]
                    (GoDaddyBody payload)) log
           in (result_error body, log')))"

section \<open>Spaceship\<close>

definition applyHeaders :: "string \<Rightarrow> string \<Rightarrow> (string \<times> string) list" where
  "applyHeaders apiKey apiSecret =
     [(''X-API-Key'', apiKey), (''X-API-Secret'', apiSecret), (''Content-Type'', ''application/json'')]"

definition Spaceship_request :: "vendor_env \<Rightarrow> string \<Rightarrow> string \<Rightarrow> string \<Rightarrow> string \<Rightarrow> vendor_body \<Rightarrow> request_log \<Rightarrow>
    string result \<times> request_log" where
  "Spaceship_request env apiKey apiSecret meth requestURL payload log =
     send_request env (NewRequest meth requestURL (applyHeaders apiKey apiSecret) payload) log"

definition recordsURL :: "string \<Rightarrow> string \<Rightarrow> string" where
  "recordsURL apiBaseURL domain = apiBaseURL @ ''/dns/records/'' @ PathEscape domain"

definition pageSize :: int where
  "pageSize = 500"

definition listPage :: "vendor_env \<Rightarrow> string \<Rightarrow> string \<Rightarrow> string \<Rightarrow> string \<Rightarrow> int \<Rightarrow> request_log \<Rightarrow>
    spaceship_records_response result \<times> request_log" where
  "listPage env apiKey apiSecret apiBaseURL domain skip log =
     (let query = values_Set ''skip'' (Itoa skip) (values_Set ''take'' (Itoa pageSize) []);
          (body, log') = Spaceship_request env apiKey apiSecret ''GET''
             (recordsURL apiBaseURL domain @ ''?'' @ values_Encode query) NoBody log
      in (case body of Inl e \<Rightarrow> Inl e | Inr b \<Rightarrow> ve_SpaceshipRecords env b, log'))"

partial_function (option) listRecords_from :: "vendor_env \<Rightarrow> string \<Rightarrow> string \<Rightarrow> string \<Rightarrow> string \<Rightarrow> int \<Rightarrow>
    spaceship_record list \<Rightarrow> request_log \<Rightarrow> (spaceship_record list result \<times> request_log) option" where
  "listRecords_from env apiKey apiSecret apiBaseURL domain skip all log =
     (case listPage env apiKey apiSecret apiBaseURL domain skip log of
        (Inl e, log') \<Rightarrow> Some (Inl e, log')
      | (Inr response, log') \<Rightarrow>
          (let all' = all @ ssr_Items response
           in if ssr_Items response = [] \<or> ssr_Total response \<le> int (length all') then Some (Inr all', log')
              else listRecords_from env apiKey apiSecret apiBaseURL domain (skip + pageSize) all' log'))"

definition listRecords :: "vendor_env \<Rightarrow> string \<Rightarrow> string \<Rightarrow> string \<Rightarrow> string \<Rightarrow> request_log \<Rightarrow>
    (spaceship_record list result \<times> request_log) option" where
  "listRecords env apiKey apiSecret apiBaseURL domain log =
     listRecords_from env apiKey apiSecret apiBaseURL domain 0 [] log"

definition filterSpaceshipRecords :: "spaceship_record list \<Rightarrow> string \<Rightarrow> record_type \<Rightarrow> spaceship_record list" where
  "filterSpaceshipRecords records name recordType =
     filter (\<lambda>r. EqualFold (ss_GroupType r) ''custom'' \<and> EqualFold (ss_Name r) name \<and> EqualFold (ss_Type r) recordType) records"

definition spaceshipRecordsEqual :: "spaceship_record list \<Rightarrow> string \<Rightarrow> record_type \<Rightarrow> string \<Rightarrow> int \<Rightarrow> bool" where
  "spaceshipRecordsEqual records name recordType value ttl =
     (case records of
        [r] \<Rightarrow> EqualFold (ss_Name r) name \<and> EqualFold (ss_Type r) recordType \<and> ss_Address r = value \<and> ss_TTL r = ttl
      | _ \<Rightarrow> False)"

definition deleteRecords :: "vendor_env \<Rightarrow> string \<Rightarrow> string \<Rightarrow> string \<Rightarrow> string \<Rightarrow> spaceship_record list \<Rightarrow> request_log \<Rightarrow>
    go_error option \<times> request_log" where
  "deleteRecords env apiKey apiSecret apiBaseURL domain records log =
     (let items = map (\<lambda>r. \<lparr>ssd_Type = ss_Type r, ssd_Name = ss_Name r, ssd_Address = ss_Address r\<rparr>) records;
          (body, log') = send_request env
            (NewRequest ''DELETE'' (recordsURL apiBaseURL domain) (applyHeaders apiKey apiSecret) (SpaceshipDeleteBody items)) log
      in (result_error body, log'))"

definition saveRecord :: "vendor_env \<Rightarrow> string \<Rightarrow> string \<Rightarrow> string \<Rightarrow> string \<Rightarrow> spaceship_record \<Rightarrow> request_log \<Rightarrow>
    go_error option \<times> request_log" where
  "saveRecord env apiKey apiSecret apiBaseURL domain r log =
     (let (body, log') = Spaceship_request env apiKey apiSecret ''PUT'' (recordsURL apiBaseURL domain)
            (SpaceshipSaveBody \<lparr>sss_Force = True, sss_Items = [r]\<rparr>) log
      in (result_error body, log'))"

definition Spaceship_Upsert :: "vendor_env \<Rightarrow> string \<Rightarrow> string \<Rightarrow> string \<Rightarrow> dns_record \<Rightarrow> request_log \<Rightarrow>
    (go_error option \<times> request_log) option" where
  "Spaceship_Upsert env apiKey apiSecret apiBaseURL rec log =
     (case record_target rec of
        Inl e \<Rightarrow> Some (Some e, log)
      | Inr resolved \<Rightarrow>
          (case listRecords env apiKey apiSecret apiBaseURL (rn_Zone resolved) log of
             None \<Rightarrow> None
           | Some (Inl e, log1) \<Rightarrow> Some (Some e, log1)
           | Some (Inr existing, log1) \<Rightarrow>
               (let ttl = defaultSpaceshipTTL (rec_TTL rec);
                    matching = filterSpaceshipRecords existing (rn_Relative resolved) (rec_Type rec);
                    r = \<lparr>ss_Type = rec_Type rec, ss_Name = rn_Relative resolved, ss_TTL = ttl,
                         ss_Address = rec_Value rec, ss_GroupType = []\<rparr>
                in if spaceshipRecordsEqual matching (rn_Relative resolved) (rec_Type rec) (rec_Value rec) ttl
                   then Some (None, log1)
                   else if matching \<noteq> [] then
                     (case deleteRecords env apiKey apiSecret apiBaseURL (rn_Zone resolved) matching log1 of
                        (Some e, log2) \<Rightarrow> Some (Some e, log2)
                      | (None, log2) \<Rightarrow> Some (saveRecord env apiKey apiSecret apiBaseURL (rn_Zone resolved) r log2))
                   else Some (saveRecord env apiKey apiSecret apiBaseURL (rn_Zone resolved) r log1))))"

definition cloudflareFactoryConfig :: "string \<Rightarrow> string \<Rightarrow> updater" where
  "cloudflareFactoryConfig apiToken apiBaseURL0 =
     (let apiBaseURL = (if apiBaseURL0 = [] then ''https://api.cloudflare.com/client/v4'' else apiBaseURL0)
      in Cloudflare apiToken (TrimRight apiBaseURL ''/''))"

section \<open>The interface of the updaters\<close>

fun updater_Name :: "updater \<Rightarrow> string" where
  "updater_Name (Cloudflare _ _) = ''cloudflare''"
| "updater_Name (AliDNS _ _ _) = ''alidns''"
| "updater_Name (GoDaddy _ _ _) = ''godaddy''"
| "updater_Name (Spaceship _ _ _) = ''spaceship''"

fun Upsert :: "vendor_env \<Rightarrow> updater \<Rightarrow> dns_record \<Rightarrow> request_log \<Rightarrow> (upsert_result \<times> request_log) option" where
  "Upsert env (Cloudflare tok base) rec log = Some (apfst Returned (Cloudflare_Upsert env tok base rec log))"
| "Upsert env (AliDNS key secret endpoint) rec log = Some (AliDNS_Upsert env key secret endpoint rec log)"
| "Upsert env (GoDaddy key secret base) rec log = Some (apfst Returned (GoDaddy_Upsert env key secret base rec log))"
| "Upsert env (Spaceship key secret base) rec log = map_option (apfst Returned) (Spaceship_Upsert env key secret base rec log)"

section \<open>What a request does\<close>

text \<open>AliDNS sends every action as a \<open>GET\<close>; the other vendors read with \<open>GET\<close> only.\<close>

definition request_param :: "vendor_request \<Rightarrow> string \<Rightarrow> string" where
  "request_param q k = values_Get (url_Query (u_RawQuery (vr_URL q))) k"

fun is_write :: "updater \<Rightarrow> vendor_request \<Rightarrow> bool" where
  "is_write (AliDNS _ _ _) q \<longleftrightarrow> request_param q ''Action'' \<noteq> ''DescribeSubDomainRecords''"
| "is_write _ q \<longleftrightarrow> vr_Method q \<noteq> ''GET''"

text \<open>The request sets the resolved record to the value and the TTL that \<open>Upsert\<close> was called with.\<close>

fun sets_record :: "updater \<Rightarrow> record_name \<Rightarrow> dns_record \<Rightarrow> vendor_request \<Rightarrow> bool" where
  "sets_record (Cloudflare _ _) n rec q \<longleftrightarrow>
     (\<exists>i. vr_Body q = CloudflareBody \<lparr>cf_ID = i, cf_Type = rec_Type rec, cf_Name = rn_FQDN n, cf_Content = rec_Value rec,
        cf_TTL = cloudflareTTL (rec_TTL rec), cf_Proxied = False\<rparr>)"
| "sets_record (AliDNS _ _ _) n rec q \<longleftrightarrow>
     request_param q ''RR'' = rn_Relative n \<and> request_param q ''Type'' = rec_Type rec
     \<and> request_param q ''Value'' = rec_Value rec \<and> request_param q ''TTL'' = Itoa (defaultAliDNSTTL (rec_TTL rec))"
| "sets_record (GoDaddy _ _ _) n rec q \<longleftrightarrow>
     vr_Body q = GoDaddyBody [\<lparr>gd_Data = rec_Value rec, gd_Name = rn_Relative n,
        gd_TTL = defaultGoDaddyTTL (rec_TTL rec), gd_Type = rec_Type rec\<rparr>]"
| "sets_record (Spaceship _ _ _) n rec q \<longleftrightarrow>
     vr_Body q = SpaceshipSaveBody \<lparr>sss_Force = True, sss_Items =
        [\<lparr>ss_Type = rec_Type rec, ss_Name = rn_Relative n, ss_TTL = defaultSpaceshipTTL (rec_TTL rec),
          ss_Address = rec_Value rec, ss_GroupType = []\<rparr>]\<rparr>"

text \<open>The request deletes records of the resolved name and type only.\<close>

definition removes_only :: "record_name \<Rightarrow> dns_record \<Rightarrow> vendor_request \<Rightarrow> bool" where
  "removes_only n rec q \<longleftrightarrow>
     (case vr_Body q of
        SpaceshipDeleteBody items \<Rightarrow>
          vr_Method q = ''DELETE'' \<and> list_all (\<lambda>i. EqualFold (ssd_Name i) (rn_Relative n) \<and> EqualFold (ssd_Type i) (rec_Type rec)) items
      | _ \<Rightarrow> False)"

section \<open>Requests and the log\<close>

lemma NewRequest_Inr:
  "NewRequest m url h b = Inr q \<Longrightarrow> vr_Method q = m \<and> vr_Body q = b \<and> vr_Header q = h"
  by (auto simp: NewRequest_def split: sum.splits)

lemma send_request_cases:
  assumes "send_request env r log = (body, log')"
  obtains (refused) e where "r = Inl e" and "body = Inl e" and "log' = log"
  | (sent) q where "r = Inr q" and "body = readResponseBody (ve_Do env log q)" and "log' = log @ [q]"
  using assms by (cases r) (auto simp: send_request_def client_Do_def)

text \<open>A request either cannot be built, and is then an error, or is the last of the log.\<close>

definition sends :: "string \<Rightarrow> vendor_body \<Rightarrow> request_log \<Rightarrow> request_log \<Rightarrow> bool" where
  "sends m b log log' \<longleftrightarrow> log' = log \<or> (\<exists>q. log' = log @ [q] \<and> vr_Method q = m \<and> vr_Body q = b)"

lemma send_request_sends:
  "send_request env (NewRequest m url h b) log = (body, log') \<Longrightarrow> sends m b log log'"
  by (erule send_request_cases) (auto simp: sends_def dest: NewRequest_Inr)

lemma send_request_ok:
  assumes "send_request env (NewRequest m url h b) log = (Inr body, log')"
  obtains q where "log' = log @ [q]" and "vr_Method q = m" and "vr_Body q = b"
    and "readResponseBody (ve_Do env log q) = Inr body"
  using assms by (cases rule: send_request_cases) (auto dest: NewRequest_Inr)

lemma getZoneID_sends: "getZoneID env tok base z log = (r, log') \<Longrightarrow> sends ''GET'' NoBody log log'"
  by (auto simp: getZoneID_def Cloudflare_request_def Let_def split: prod.splits dest: send_request_sends)

lemma getRecords_sends: "getRecords env tok base i f t log = (r, log') \<Longrightarrow> sends ''GET'' NoBody log log'"
  by (auto simp: getRecords_def Cloudflare_request_def Let_def split: prod.splits dest: send_request_sends)

lemma listPage_sends: "listPage env k s base d n log = (r, log') \<Longrightarrow> sends ''GET'' NoBody log log'"
  by (auto simp: listPage_def Spaceship_request_def Let_def split: prod.splits dest: send_request_sends)

lemma sends_new:
  "sends m b log log' \<Longrightarrow> \<exists>new. log' = log @ new \<and> length new \<le> 1 \<and> (\<forall>q \<in> set new. vr_Method q = m \<and> vr_Body q = b)"
  by (auto simp: sends_def)

text \<open>The paging loop only reads.\<close>

definition reads_only :: "request_log \<Rightarrow> request_log \<Rightarrow> bool" where
  "reads_only log log' \<longleftrightarrow> (\<exists>new. log' = log @ new \<and> (\<forall>q \<in> set new. vr_Method q = ''GET''))"

lemma reads_only_trans: "reads_only a b \<Longrightarrow> reads_only b c \<Longrightarrow> reads_only a c"
  by (force simp: reads_only_def)

lemma sends_reads_only: "sends ''GET'' NoBody log log' \<Longrightarrow> reads_only log log'"
  by (auto simp: sends_def reads_only_def)

lemma listRecords_from_reads:
  assumes ret: "listRecords_from env k s base d skip all log = Some (r, log')"
  shows "reads_only log log'"
proof -
  have "case (r, log') of (r, log') \<Rightarrow> reads_only log log'"
  proof (rule listRecords_from.raw_induct [where P = "\<lambda>env k s base d skip all log out. case out of (r, log') \<Rightarrow> reads_only log log'", OF _ ret])
    fix f env k s base d skip all log out
    assume IH: "\<And>env k s base d skip all log out. f env k s base d skip all log = Some out \<Longrightarrow> case out of (r, log') \<Rightarrow> reads_only log log'"
      and eq: "(case listPage env k s base d skip log of
        (Inl e, log') \<Rightarrow> Some (Inl e, log')
      | (Inr response, log') \<Rightarrow>
          (let all' = all @ ssr_Items response
           in if ssr_Items response = [] \<or> ssr_Total response \<le> int (length all') then Some (Inr all', log')
              else f env k s base d (skip + pageSize) all' log')) = Some out"
    obtain p log1 where p: "listPage env k s base d skip log = (p, log1)" by fastforce
    then have r1: "reads_only log log1" by (intro sends_reads_only listPage_sends)
    obtain r' log2 where out: "out = (r', log2)" by fastforce
    have "log2 = log1 \<or> reads_only log1 log2"
      using eq p IH out by (auto simp: Let_def split: sum.splits if_splits dest!: IH)
    with r1 out show "case out of (r, log') \<Rightarrow> reads_only log log'" by (auto intro: reads_only_trans)
  qed
  then show ?thesis by simp
qed

lemma listRecords_reads: "listRecords env k s base d log = Some (r, log') \<Longrightarrow> reads_only log log'"
  unfolding listRecords_def by (rule listRecords_from_reads)

section \<open>Termination of the paging loop\<close>

lemma listRecords_from_ends:
  fixes N :: nat
  assumes "\<And>b r. ve_SpaceshipRecords env b = Inr r \<Longrightarrow> ssr_Total r \<le> int N"
  shows "\<exists>r new. listRecords_from env k s base d skip all log = Some (r, log @ new) \<and> length new \<le> max 1 (N - length all)"
proof (induction "N - length all" arbitrary: skip all log rule: less_induct)
  case less
  obtain p log1 where p: "listPage env k s base d skip log = (p, log1)" by fastforce
  then obtain new where new: "log1 = log @ new" "length new \<le> 1" using sends_new [OF listPage_sends] by blast
  show ?case
  proof (cases p)
    case (Inl e)
    with p new show ?thesis by (auto simp: listRecords_from.simps)
  next
    case (Inr resp)
    let ?all = "all @ ssr_Items resp"
    show ?thesis
    proof (cases "ssr_Items resp = [] \<or> ssr_Total resp \<le> int (length ?all)")
      case True
      with p Inr new show ?thesis by (auto simp: listRecords_from.simps Let_def)
    next
      case False
      have "ssr_Total resp \<le> int N"
        using p Inr assms by (auto simp: listPage_def Let_def split: prod.splits sum.splits)
      with False have lt: "length ?all < N" "length all < length ?all" by auto
      then have dec: "N - length ?all < N - length all" by linarith
      from less [OF dec] obtain r new' where
        r: "listRecords_from env k s base d (skip + pageSize) ?all log1 = Some (r, log1 @ new')"
           "length new' \<le> max 1 (N - length ?all)" by blast
      have "listRecords_from env k s base d skip all log = Some (r, log @ new @ new')"
        using p Inr False r(1) new by (subst listRecords_from.simps) (simp add: Let_def)
      moreover have "length new' \<le> N - length ?all" using r(2) lt(1) by simp
      with dec new(2) have "length new + length new' \<le> N - length all" by linarith
      then have "length (new @ new') \<le> max 1 (N - length all)" by simp
      ultimately show ?thesis by blast
    qed
  qed
qed

section \<open>Signed queries\<close>

lemma map_of_sort_slice:
  assumes "distinct (map fst xs)"
  shows "map_of (sort_slice fst xs) = map_of xs"
proof -
  have "mset (map fst (sort_slice fst xs)) = mset (map fst xs)" by simp
  then have "distinct (map fst (sort_slice fst xs))" using assms by (metis mset_eq_imp_distinct_iff)
  then show ?thesis using assms by (intro map_of_inject_set [THEN iffD2]) simp_all
qed

lemma values_Get_values_Set [simp]: "values_Get (values_Set k v vs) k' = (if k' = k then v else values_Get vs k')"
proof -
  have "map_of (filter (\<lambda>(j, v). j \<noteq> k) vs) k' = (if k' = k then None else map_of vs k')" by (induction vs) auto
  then show ?thesis by (auto simp: values_Get_def values_Set_def values_Del_def map_add_def split: option.splits)
qed

lemma distinct_values_Set [simp]: "distinct (map fst vs) \<Longrightarrow> distinct (map fst (values_Set k v vs))"
  by (auto simp: values_Set_def values_Del_def distinct_map_filter)

lemma values_Get_encoded: "distinct (map fst vs) \<Longrightarrow> values_Get (url_Query (values_Encode vs)) k = values_Get vs k"
  by (simp add: url_Query_Encode values_Get_def map_of_sort_slice)

definition signature_keys :: "string set" where
  "signature_keys = {''SignatureMethod'', ''SignatureNonce'', ''AccessKeyId'', ''SignatureVersion'', ''Timestamp'',
     ''Format'', ''Version'', ''Signature''}"

lemma signed_param:
  assumes "distinct (map fst params)" and "k \<notin> signature_keys"
  shows "values_Get (url_Query (values_Encode (aliyunSigner env log a sec params m v))) k = values_Get params k"
  using assms by (simp add: values_Get_encoded aliyunSigner_def Let_def signature_keys_def)

lemma AliDNS_request_cases:
  assumes "AliDNS_request env a sec ep params um out log = (r, log')" and "distinct (map fst params)"
  obtains (refused) e where "r = Inl e" and "log' = log"
  | (sent) q where "log' = log @ [q]" and "r = decodeJSONResponse um out (ve_Do env log q)"
      and "\<And>k. k \<notin> signature_keys \<Longrightarrow> request_param q k = values_Get params k"
proof (cases "NewRequest ''GET'' ep [] NoBody")
  case (Inl e)
  with assms(1) show ?thesis by (intro refused) (auto simp: AliDNS_request_def)
next
  case (Inr req)
  let ?q = "req\<lparr>vr_URL := (vr_URL req)\<lparr>u_RawQuery := values_Encode (aliyunSigner env log a sec params ''GET'' ''2015-01-09'')\<rparr>\<rparr>"
  from Inr assms(1) have "log' = log @ [?q]" "r = decodeJSONResponse um out (ve_Do env log ?q)"
    by (auto simp: AliDNS_request_def client_Do_def Let_def)
  moreover have "u_RawQuery (vr_URL ?q) = values_Encode (aliyunSigner env log a sec params ''GET'' ''2015-01-09'')"
    by simp
  then have "request_param ?q k = values_Get params k" if "k \<notin> signature_keys" for k
    using assms(2) that by (simp only: request_param_def signed_param simp_thms)
  ultimately show ?thesis by (rule sent)
qed

section \<open>Which requests an update sends\<close>

text \<open>
  The requests of one \<open>Upsert\<close>: first reads, then at most one deletion, then at most one request
  that sets the record.
\<close>

definition upsert_trace :: "updater \<Rightarrow> record_name \<Rightarrow> dns_record \<Rightarrow> request_log \<Rightarrow> bool" where
  "upsert_trace u n rec new \<longleftrightarrow>
     (\<exists>reads dels puts. new = reads @ dels @ puts
        \<and> (\<forall>q \<in> set reads. \<not> is_write u q)
        \<and> length dels \<le> 1 \<and> (\<forall>q \<in> set dels. is_write u q \<and> removes_only n rec q)
        \<and> length puts \<le> 1 \<and> (\<forall>q \<in> set puts. is_write u q \<and> sets_record u n rec q))"

lemma upsert_trace_reads:
  "\<forall>q \<in> set reads. \<not> is_write u q \<Longrightarrow> upsert_trace u n rec reads"
  unfolding upsert_trace_def by (intro exI [of _ reads] exI [of _ "[]"]) simp

lemma upsert_trace_put:
  "\<forall>q \<in> set reads. \<not> is_write u q \<Longrightarrow> is_write u q \<Longrightarrow> sets_record u n rec q \<Longrightarrow> upsert_trace u n rec (reads @ [q])"
  unfolding upsert_trace_def by (intro exI [of _ reads] exI [of _ "[]"] exI [of _ "[q]"]) simp

lemma sends_trace:
  assumes "sends m b log log'" and "m \<noteq> ''GET''" and "\<forall>q \<in> set reads. \<not> is_write u q"
    and "\<And>q. vr_Method q = m \<Longrightarrow> vr_Body q = b \<Longrightarrow> is_write u q \<and> sets_record u n rec q"
  shows "\<exists>new. log' = log @ new \<and> upsert_trace u n rec (reads @ new)"
  using assms(1) unfolding sends_def
proof
  assume "log' = log"
  with assms(3) show ?thesis by (intro exI [of _ "[]"]) (simp add: upsert_trace_reads)
next
  assume "\<exists>q. log' = log @ [q] \<and> vr_Method q = m \<and> vr_Body q = b"
  then obtain q where "log' = log @ [q]" "vr_Method q = m" "vr_Body q = b" by blast
  with assms(3,4) show ?thesis by (intro exI [of _ "[q]"]) (simp add: upsert_trace_put)
qed

text \<open>An update that returns no error: the vendor accepted the request that sets the record \dots\<close>

fun accepted :: "vendor_env \<Rightarrow> updater \<Rightarrow> request_log \<Rightarrow> vendor_request \<Rightarrow> bool" where
  "accepted env (AliDNS _ _ _) pre q \<longleftrightarrow>
     (\<exists>resp. decodeJSONResponse (ve_AliResponse env) zero_ali_response (ve_Do env pre q) = Inr resp \<and> ali_RecordID resp \<noteq> [])"
| "accepted env _ pre q \<longleftrightarrow> (\<exists>body. readResponseBody (ve_Do env pre q) = Inr body)"

text \<open>\dots\ or the last answer of the vendor shows the record as it has to be.\<close>

fun shown_current :: "vendor_env \<Rightarrow> updater \<Rightarrow> record_name \<Rightarrow> dns_record \<Rightarrow> request_log \<Rightarrow> request_log \<Rightarrow> bool" where
  "shown_current env (Cloudflare _ _) n rec log log' \<longleftrightarrow>
     (\<exists>pre q body resp f fs. log' = pre @ [q] \<and> readResponseBody (ve_Do env pre q) = Inr body
        \<and> ve_CloudflareRecords env body = Inr resp \<and> cfr_Result resp = f # fs
        \<and> cf_Content f = rec_Value rec \<and> cf_TTL f = cloudflareTTL (rec_TTL rec))"
| "shown_current env (AliDNS _ _ _) n rec log log' \<longleftrightarrow>
     (\<exists>pre q resp f fs. log' = pre @ [q] \<and> decodeJSONResponse (ve_AliRecords env) zero_ali_records (ve_Do env pre q) = Inr resp
        \<and> ars_Record resp = f # fs \<and> ar_Value f = rec_Value rec)"
| "shown_current env (GoDaddy _ _ _) n rec log log' \<longleftrightarrow> False"
| "shown_current env (Spaceship k s b) n rec log log' \<longleftrightarrow>
     (\<exists>records r. listRecords env k s b (rn_Zone n) log = Some (Inr records, log')
        \<and> filterSpaceshipRecords records (rn_Relative n) (rec_Type rec) = [r]
        \<and> ss_Address r = rec_Value rec \<and> ss_TTL r = defaultSpaceshipTTL (rec_TTL rec))"

definition record_is_set :: "vendor_env \<Rightarrow> updater \<Rightarrow> record_name \<Rightarrow> dns_record \<Rightarrow> request_log \<Rightarrow> bool" where
  "record_is_set env u n rec log' \<longleftrightarrow> (\<exists>pre q. log' = pre @ [q] \<and> is_write u q \<and> sets_record u n rec q \<and> accepted env u pre q)"

text \<open>The specification of one \<open>Upsert\<close>.\<close>

definition upsert_spec :: "vendor_env \<Rightarrow> updater \<Rightarrow> record_name \<Rightarrow> dns_record \<Rightarrow> request_log \<Rightarrow> upsert_result \<Rightarrow> request_log \<Rightarrow> bool" where
  "upsert_spec env u n rec log out log' \<longleftrightarrow>
     (\<exists>new. log' = log @ new \<and> upsert_trace u n rec new
        \<and> (out = Returned None \<longrightarrow>
             record_is_set env u n rec log'
             \<or> (\<forall>q \<in> set new. \<not> is_write u q) \<and> shown_current env u n rec log log'))"

lemma upsert_spec_reads:
  assumes "log' = log @ new" and "\<forall>q \<in> set new. \<not> is_write u q"
    and "out = Returned None \<Longrightarrow> shown_current env u n rec log log'"
  shows "upsert_spec env u n rec log out log'"
  using assms unfolding upsert_spec_def by (auto intro: upsert_trace_reads)

text \<open>The last step of an update sets the record.\<close>

lemma upsert_spec_sends:
  assumes send: "send_request env (NewRequest m url h b) log1 = (body, log')" and "m \<noteq> ''GET''"
    and log1: "log1 = log @ reads @ dels" and "\<forall>q \<in> set reads. \<not> is_write u q"
    and "length dels \<le> 1" and "\<forall>q \<in> set dels. is_write u q \<and> removes_only n rec q"
    and sets: "\<And>q. vr_Method q = m \<Longrightarrow> vr_Body q = b \<Longrightarrow> is_write u q \<and> sets_record u n rec q"
    and acc: "\<And>pre q body. readResponseBody (ve_Do env pre q) = Inr body \<Longrightarrow> accepted env u pre q"
  shows "upsert_spec env u n rec log (Returned (result_error body)) log'"
  using send
proof (cases rule: send_request_cases)
  case (refused e)
  have "upsert_trace u n rec (reads @ dels)"
    using assms unfolding upsert_trace_def by (intro exI [of _ reads] exI [of _ dels] exI [of _ "[]"]) simp
  with refused log1 show ?thesis by (simp add: upsert_spec_def result_error_def)
next
  case (sent q)
  from sets [of q] NewRequest_Inr [OF sent(1)] have q: "is_write u q" "sets_record u n rec q" by auto
  have "upsert_trace u n rec (reads @ dels @ [q])"
    using assms q unfolding upsert_trace_def by (intro exI [of _ reads] exI [of _ dels] exI [of _ "[q]"]) simp
  moreover have "record_is_set env u n rec log'" if "result_error body = None"
    using that sent q acc unfolding record_is_set_def result_error_def by (auto split: sum.splits)
  ultimately show ?thesis using sent(3) log1 by (auto simp: upsert_spec_def)
qed

lemma getRecords_ok:
  assumes "getRecords env tok base i f t log = (Inr rs, log')"
  obtains q body resp where "log' = log @ [q]" and "vr_Method q = ''GET''"
    and "readResponseBody (ve_Do env log q) = Inr body"
    and "ve_CloudflareRecords env body = Inr resp" and "cfr_Result resp = rs"
  using assms
  by (auto simp: getRecords_def Cloudflare_request_def Let_def split: prod.splits sum.splits if_splits elim!: send_request_ok)

lemma Cloudflare_Upsert_spec:
  assumes "Cloudflare_Upsert env tok base rec log = (r, log')" and n: "record_target rec = Inr n"
  shows "upsert_spec env (Cloudflare tok base) n rec log (Returned r) log'"
proof -
  let ?u = "Cloudflare tok base"
  obtain z log1 where z: "getZoneID env tok base (rn_Zone n) log = (z, log1)" by fastforce
  then obtain n1 where n1: "log1 = log @ n1" "\<forall>q \<in> set n1. \<not> is_write ?u q"
    using sends_new [OF getZoneID_sends] by fastforce
  show ?thesis
  proof (cases z)
    case (Inl e)
    with assms z n1 show ?thesis by (intro upsert_spec_reads [of _ _ n1]) (auto simp: Cloudflare_Upsert_def)
  next
    case (Inr zid)
    obtain ex log2 where ex: "getRecords env tok base zid (rn_FQDN n) (rec_Type rec) log1 = (ex, log2)" by fastforce
    then obtain n2 where n2: "log2 = log1 @ n2" "\<forall>q \<in> set n2. \<not> is_write ?u q"
      using sends_new [OF getRecords_sends] by fastforce
    have reads: "log2 = log @ (n1 @ n2) @ []" "\<forall>q \<in> set (n1 @ n2). \<not> is_write ?u q" using n1 n2 by auto
    note def = Cloudflare_Upsert_def n z Inr ex Cloudflare_request_def
    show ?thesis
    proof (cases ex)
      case (Inl e)
      with assms def reads show ?thesis by (intro upsert_spec_reads [of _ _ "n1 @ n2"]) auto
    next
      case (Inr rs)
      show ?thesis
      proof (cases "rs \<noteq> [] \<and> cf_Content (hd rs) = rec_Value rec \<and> cf_TTL (hd rs) = cloudflareTTL (rec_TTL rec)")
        case True
        with assms(1) def Inr have eqs: "r = None" "log' = log2" by (auto simp: Let_def neq_Nil_conv)
        from ex Inr obtain q body resp where "log2 = log1 @ [q]" "readResponseBody (ve_Do env log1 q) = Inr body"
            "ve_CloudflareRecords env body = Inr resp" "cfr_Result resp = rs" by (auto elim: getRecords_ok)
        with True eqs have "shown_current env ?u n rec log log'" by (cases rs) auto
        with eqs reads show ?thesis by (intro upsert_spec_reads [of _ _ "n1 @ n2"]) auto
      next
        case False
        let ?hdr = "[(''Authorization'', ''Bearer '' @ tok), (''Content-Type'', ''application/json'')]"
        let ?rec = "\<lambda>i. CloudflareBody \<lparr>cf_ID = i, cf_Type = rec_Type rec, cf_Name = rn_FQDN n, cf_Content = rec_Value rec,
             cf_TTL = cloudflareTTL (rec_TTL rec), cf_Proxied = False\<rparr>"
        show ?thesis
        proof (cases rs)
          case Nil
          obtain body log3 where send: "send_request env
              (NewRequest ''POST'' (base @ ''/zones/'' @ zid @ ''/dns_records'') ?hdr (?rec [])) log2 = (body, log3)" by fastforce
          with assms(1) def Inr Nil have "r = result_error body" "log' = log3" by (simp_all add: Let_def)
          then show ?thesis using reads by (auto intro: upsert_spec_sends [OF send])
        next
          case (Cons f fs)
          obtain body log3 where send: "send_request env
              (NewRequest ''PUT'' (base @ ''/zones/'' @ zid @ ''/dns_records/'' @ cf_ID f) ?hdr (?rec (cf_ID f))) log2 = (body, log3)"
            by fastforce
          have "r = result_error body \<and> log' = log3" using assms(1) def Inr Cons False send by (auto simp: Let_def)
          then show ?thesis using reads by (auto intro: upsert_spec_sends [OF send])
        qed
      qed
    qed
  qed
qed

lemma GoDaddy_Upsert_spec:
  assumes "GoDaddy_Upsert env k sec base rec log = (r, log')" and n: "record_target rec = Inr n"
  shows "upsert_spec env (GoDaddy k sec base) n rec log (Returned r) log'"
proof -
  obtain url h b body where b: "b = GoDaddyBody [\<lparr>gd_Data = rec_Value rec, gd_Name = rn_Relative n,
        gd_TTL = defaultGoDaddyTTL (rec_TTL rec), gd_Type = rec_Type rec\<rparr>]"
    and send: "send_request env (NewRequest ''PUT'' url h b) log = (body, log')" and "r = result_error body"
    using assms by (auto simp: GoDaddy_Upsert_def Let_def split: prod.splits)
  then show ?thesis by (auto intro: upsert_spec_sends [OF send, where reads = "[]" and dels = "[]"])
qed

text \<open>Both writes of AliDNS.\<close>

lemma ali_write_spec:
  assumes w: "ali_write env a sec ep params msg log1 = (r, log')" and params: "distinct (map fst params)"
    and log1: "log1 = log @ new" and new: "\<forall>q \<in> set new. \<not> is_write (AliDNS a sec ep) q"
    and act: "values_Get params ''Action'' \<noteq> ''DescribeSubDomainRecords''"
    and vals: "values_Get params ''RR'' = rn_Relative n" "values_Get params ''Type'' = rec_Type rec"
      "values_Get params ''Value'' = rec_Value rec" "values_Get params ''TTL'' = Itoa (defaultAliDNSTTL (rec_TTL rec))"
  shows "upsert_spec env (AliDNS a sec ep) n rec log (Returned r) log'"
proof -
  let ?u = "AliDNS a sec ep"
  obtain x where x: "AliDNS_request env a sec ep params (ve_AliResponse env) zero_ali_response log1 = (x, log')"
    and r: "r = (case x of Inl e \<Rightarrow> Some e | Inr resp \<Rightarrow> if ali_RecordID resp = [] then Some (Errorf msg []) else None)"
    using w by (auto simp: ali_write_def Let_def split: prod.splits)
  from x params show ?thesis
  proof (cases rule: AliDNS_request_cases)
    case (refused e)
    with r log1 new show ?thesis by (intro upsert_spec_reads [of _ _ new]) auto
  next
    case (sent q)
    have q: "is_write ?u q" "sets_record ?u n rec q" using sent(3) act vals by (simp_all add: signature_keys_def)
    have "upsert_trace ?u n rec (new @ [q])" using new q by (intro upsert_trace_put)
    moreover have "record_is_set env ?u n rec log'" if "r = None"
      using that r sent(1,2) q by (auto simp: record_is_set_def split: sum.splits if_splits)
    ultimately show ?thesis using sent(1) log1 by (auto simp: upsert_spec_def)
  qed
qed

lemma AliDNS_Upsert_spec:
  assumes "AliDNS_Upsert env a sec ep rec log = (out, log')" and n: "record_target rec = Inr n"
  shows "upsert_spec env (AliDNS a sec ep) n rec log out log'"
proof -
  let ?u = "AliDNS a sec ep"
  let ?params = "[(''Action'', ''DescribeSubDomainRecords''), (''DomainName'', rn_Zone n),
                   (''SubDomain'', AliDNSSubDomain n), (''Type'', rec_Type rec)]"
  obtain x log1 where x: "AliDNS_request env a sec ep ?params (ve_AliRecords env) zero_ali_records log = (x, log1)" by fastforce
  have "distinct (map fst ?params)" by simp
  with x have "\<exists>new. log1 = log @ new \<and> (\<forall>q \<in> set new. \<not> is_write ?u q)
      \<and> (\<forall>recs. x = Inr recs \<longrightarrow> (\<exists>q. new = [q] \<and> decodeJSONResponse (ve_AliRecords env) zero_ali_records (ve_Do env log q) = Inr recs))"
    by (cases rule: AliDNS_request_cases) (auto simp: signature_keys_def values_Get_def)
  then obtain new where new: "log1 = log @ new" "\<forall>q \<in> set new. \<not> is_write ?u q"
    and ans: "\<And>recs. x = Inr recs \<Longrightarrow> \<exists>q. new = [q] \<and> decodeJSONResponse (ve_AliRecords env) zero_ali_records (ve_Do env log q) = Inr recs"
    by blast
  show ?thesis
  proof (cases x)
    case (Inl e)
    with assms x new show ?thesis by (intro upsert_spec_reads [of _ _ new]) (auto simp: AliDNS_Upsert_def)
  next
    case (Inr recs)
    note def = AliDNS_Upsert_def n x Inr
    consider (panic) "out = Panicked" "log' = log1"
      | (same) f fs where "ars_Record recs = f # fs" "ar_Value f = rec_Value rec" "log' = log1"
      | (update) f r where "AliDNS_update env a sec ep n f rec log1 = (r, log')" "out = Returned r"
      | (create) r where "AliDNS_create env a sec ep n rec log1 = (r, log')" "out = Returned r"
      using assms(1) def by (auto split: if_splits list.splits prod.splits simp: apfst_def map_prod_def)
    then show ?thesis
    proof cases
      case panic
      with new show ?thesis by (intro upsert_spec_reads [of _ _ new]) auto
    next
      case (same f fs)
      from ans [OF Inr] same new have "shown_current env ?u n rec log log'" by auto
      with same new show ?thesis by (intro upsert_spec_reads [of _ _ new]) auto
    next
      case (update f r)
      from update(1)[unfolded AliDNS_update_def] show ?thesis unfolding update(2)
        by (rule ali_write_spec [OF _ _ new]) (simp_all add: values_Get_def)
    next
      case (create r)
      from create(1)[unfolded AliDNS_create_def] show ?thesis unfolding create(2)
        by (rule ali_write_spec [OF _ _ new]) (simp_all add: values_Get_def)
    qed
  qed
qed

lemma filterSpaceshipRecords_match:
  "r \<in> set (filterSpaceshipRecords rs name t) \<Longrightarrow> EqualFold (ss_Name r) name \<and> EqualFold (ss_Type r) t"
  by (simp add: filterSpaceshipRecords_def)

lemma saveRecord_spec:
  assumes "saveRecord env k sec base d \<lparr>ss_Type = rec_Type rec, ss_Name = rn_Relative n, ss_TTL = defaultSpaceshipTTL (rec_TTL rec),
         ss_Address = rec_Value rec, ss_GroupType = []\<rparr> log1 = (r, log')"
    and "log1 = log @ reads @ dels" and "\<forall>q \<in> set reads. \<not> is_write (Spaceship k sec base) q"
    and "length dels \<le> 1" and "\<forall>q \<in> set dels. is_write (Spaceship k sec base) q \<and> removes_only n rec q"
  shows "upsert_spec env (Spaceship k sec base) n rec log (Returned r) log'"
proof -
  from assms(1) obtain body url h where "r = result_error body"
    and send: "send_request env (NewRequest ''PUT'' url h (SpaceshipSaveBody \<lparr>sss_Force = True, sss_Items =
        [\<lparr>ss_Type = rec_Type rec, ss_Name = rn_Relative n, ss_TTL = defaultSpaceshipTTL (rec_TTL rec),
          ss_Address = rec_Value rec, ss_GroupType = []\<rparr>]\<rparr>)) log1 = (body, log')"
    by (auto simp: saveRecord_def Spaceship_request_def Let_def split: prod.splits)
  with assms show ?thesis by (auto intro: upsert_spec_sends [OF send, where reads = reads and dels = dels])
qed

lemma deleteRecords_sends:
  assumes "deleteRecords env k sec base d (filterSpaceshipRecords rs (rn_Relative n) (rec_Type rec)) log = (r, log')"
  shows "\<exists>dels. log' = log @ dels \<and> length dels \<le> 1
     \<and> (\<forall>q \<in> set dels. is_write (Spaceship k sec base) q \<and> removes_only n rec q)"
proof -
  let ?items = "map (\<lambda>r. \<lparr>ssd_Type = ss_Type r, ssd_Name = ss_Name r, ssd_Address = ss_Address r\<rparr>)
     (filterSpaceshipRecords rs (rn_Relative n) (rec_Type rec))"
  have ok: "removes_only n rec q" if "vr_Method q = ''DELETE''" "vr_Body q = SpaceshipDeleteBody ?items" for q
    using that by (auto simp: removes_only_def list_all_iff dest: filterSpaceshipRecords_match)
  have "sends ''DELETE'' (SpaceshipDeleteBody ?items) log log'"
    using assms by (auto simp: deleteRecords_def Let_def split: prod.splits dest: send_request_sends)
  from sends_new [OF this] ok show ?thesis by fastforce
qed

lemma Spaceship_Upsert_spec:
  assumes "Spaceship_Upsert env k sec base rec log = Some (r, log')" and n: "record_target rec = Inr n"
  shows "upsert_spec env (Spaceship k sec base) n rec log (Returned r) log'"
proof -
  let ?u = "Spaceship k sec base"
  from assms obtain x log1 where x: "listRecords env k sec base (rn_Zone n) log = Some (x, log1)"
    by (cases "listRecords env k sec base (rn_Zone n) log") (auto simp: Spaceship_Upsert_def)
  from listRecords_reads [OF x] obtain new where new: "log1 = log @ new" "\<forall>q \<in> set new. \<not> is_write ?u q"
    by (auto simp: reads_only_def)
  show ?thesis
  proof (cases x)
    case (Inl e)
    with assms x new show ?thesis by (intro upsert_spec_reads [of _ _ new]) (auto simp: Spaceship_Upsert_def)
  next
    case (Inr rs)
    let ?m = "filterSpaceshipRecords rs (rn_Relative n) (rec_Type rec)"
    let ?r = "\<lparr>ss_Type = rec_Type rec, ss_Name = rn_Relative n, ss_TTL = defaultSpaceshipTTL (rec_TTL rec),
         ss_Address = rec_Value rec, ss_GroupType = []\<rparr>"
    let ?same = "spaceshipRecordsEqual ?m (rn_Relative n) (rec_Type rec) (rec_Value rec) (defaultSpaceshipTTL (rec_TTL rec))"
    obtain d log2 where d: "deleteRecords env k sec base (rn_Zone n) ?m log1 = (d, log2)" by fastforce
    obtain dels where dels: "log2 = log @ new @ dels" "length dels \<le> 1" "\<forall>q \<in> set dels. is_write ?u q \<and> removes_only n rec q"
      using deleteRecords_sends [OF d] new(1) by auto
    consider (same) ?same "r = None" "log' = log1"
      | (del) e where "r = Some e" "log' = log2"
      | (save) "saveRecord env k sec base (rn_Zone n) ?r log1 = (r, log')"
      | (replace) "saveRecord env k sec base (rn_Zone n) ?r log2 = (r, log')"
      using assms(1) n x Inr d by (auto simp: Spaceship_Upsert_def Let_def split: if_splits option.splits)
    then show ?thesis
    proof cases
      case same
      then have "shown_current env ?u n rec log log'"
        using x Inr by (auto simp: spaceshipRecordsEqual_def split: list.splits)
      with same new show ?thesis by (intro upsert_spec_reads [of _ _ new]) auto
    next
      case del
      have "upsert_trace ?u n rec (new @ dels)"
        using new dels unfolding upsert_trace_def by (intro exI [of _ new] exI [of _ dels] exI [of _ "[]"]) simp
      with del dels show ?thesis by (simp add: upsert_spec_def)
    next
      case save
      with new show ?thesis by (intro saveRecord_spec [of _ _ _ _ _ _ _ log1 _ _ _ new "[]"]) auto
    next
      case replace
      with new dels show ?thesis by (intro saveRecord_spec [of _ _ _ _ _ _ _ log2 _ _ _ new dels]) auto
    qed
  qed
qed

section \<open>The string to sign\<close>

text \<open>
  The documented signature of the Aliyun API: every name and value is percent-encoded as in RFC
  3986 (a space is \<open>%20\<close>), the sorted pairs form the canonical query, and this is percent-encoded
  once more.
\<close>

definition percentEncode :: "string \<Rightarrow> string" where
  "percentEncode s = escape (\<lambda>c. \<not> unreserved c) s"

definition canonicalQuery :: "url_values \<Rightarrow> string" where
  "canonicalQuery vs = Join (map (\<lambda>(k, v). percentEncode k @ ''='' @ percentEncode v) (sort_slice fst vs)) ''&''"

definition string_to_sign :: "string \<Rightarrow> url_values \<Rightarrow> string" where
  "string_to_sign m vs = m @ ''&'' @ percentEncode ''/'' @ ''&'' @ percentEncode (canonicalQuery vs)"

text \<open>The twofold encoding of one byte, as the code computes it and as it is documented.\<close>

definition twice :: "string \<Rightarrow> char \<Rightarrow> string" where
  "twice sp c = (if c = CHR '' '' then sp else if unreserved c then [c] else ''%25'' @ tl (pct c))"

lemma unreserved_plain:
  "unreserved c \<Longrightarrow> c \<notin> set ''%*/&=+ '' \<and> rune_bytes c = [c]"
  by (auto simp: unreserved_def is_alnum_def is_lower_def is_upper_def is_digit_def less_eq_char_def rune_bytes_def)

lemma encode_token_unreserved: "unreserved c \<Longrightarrow> encode_token (c # s) = c # encode_token s"
  using unreserved_plain [of c] by simp

lemma pct_literals:
  "pct (CHR ''%'') = ''%25''" "pct (CHR ''='') = ''%3D''" "pct (CHR ''&'') = ''%26''" "pct (CHR ''/'') = ''%2F''"
  "pct (CHR '' '') = ''%20''"
  by code_simp+

lemma reserved_literals:
  "\<not> unreserved (CHR ''%'')" "\<not> unreserved (CHR ''='')" "\<not> unreserved (CHR ''&'')" "\<not> unreserved (CHR ''/'')"
  "\<not> unreserved (CHR '' '')"
  by code_simp+

lemma pct_tilde: "pct c = ''%7E'' \<Longrightarrow> c = CHR ''~''"
proof -
  assume "pct c = ''%7E''"
  then have "c = unpct (CHR ''7'') (CHR ''E'')" using unpct_pct [of c] by (simp add: pct_def)
  also have "\<dots> = CHR ''~''" by code_simp
  finally show ?thesis .
qed

lemma encode_token_pct:
  assumes "\<not> unreserved c"
  shows "encode_token (pct c @ s) = ''%25'' @ tl (pct c) @ encode_token s"
proof -
  have "c \<noteq> CHR ''~''" using assms by (auto simp: unreserved_def)
  then have "\<not> (upperhex (of_char c div 16) = CHR ''7'' \<and> upperhex (of_char c mod 16) = CHR ''E'')"
    using pct_tilde [of c] by (auto simp: pct_def)
  moreover have "pct (CHR ''%'') = ''%25''" by (rule pct_literals)
  ultimately show ?thesis
    by (auto simp: pct_def [of c] encode_token_unreserved upperhex_unreserved of_char_div_16 simp del: encode_token.simps(2)
        simp: encode_token.simps(2) [of "CHR ''%''"])
qed

lemma encode_token_QueryEscape:
  "encode_token (QueryEscape s @ t) = concat (map (twice ''%20'') s) @ encode_token t"
proof (induction s)
  case (Cons c s)
  have "encode_token ((if c = CHR '' '' then ''+'' else if unreserved c then [c] else pct c) @ x) = twice ''%20'' c @ encode_token x" for x
    by (auto simp: twice_def encode_token_unreserved encode_token_pct simp del: encode_token.simps(2)
        simp: encode_token.simps(2) [of "CHR ''+''"])
  with Cons show ?case by (simp add: QueryEscape_def)
qed (simp add: QueryEscape_def)

lemma percentEncode_append: "percentEncode (s @ t) = percentEncode s @ percentEncode t"
  by (simp add: percentEncode_def escape_def)

lemma percentEncode_pct: "percentEncode (pct c) = ''%25'' @ tl (pct c)"
  by (simp add: percentEncode_def escape_def pct_def [of c] upperhex_unreserved of_char_div_16 reserved_literals pct_literals)

lemma percentEncode_twice: "percentEncode (percentEncode s) = concat (map (twice ''%2520'') s)"
proof (induction s)
  case (Cons c s)
  have "percentEncode (if unreserved c then [c] else pct c) = twice ''%2520'' c"
    using percentEncode_pct [of c] reserved_literals(5) pct_literals(5) by (auto simp: twice_def) (auto simp: percentEncode_def escape_def)
  moreover have "percentEncode (c # s) = (if unreserved c then [c] else pct c) @ percentEncode s"
    by (simp add: percentEncode_def escape_def)
  ultimately show ?case using Cons by (simp only: percentEncode_append list.map concat.simps)
qed (simp add: percentEncode_def escape_def)

text \<open>The encoded query, parametrised by what becomes of a space.\<close>

definition signed_pairs :: "string \<Rightarrow> url_values \<Rightarrow> string" where
  "signed_pairs sp vs = Join (map (\<lambda>(k, v). concat (map (twice sp) k) @ ''%3D'' @ concat (map (twice sp) v)) vs) ''%26''"

lemma encode_token_sep: "encode_token (CHR ''='' # s) = ''%3D'' @ encode_token s" "encode_token (CHR ''&'' # s) = ''%26'' @ encode_token s"
  by (simp_all add: pct_literals)

lemma encode_token_pairs:
  "encode_token (Join (map (\<lambda>(k, v). QueryEscape k @ ''='' @ QueryEscape v) vs) ''&'') = signed_pairs ''%20'' vs"
proof (induction vs rule: induct_list012)
  case (2 x)
  then show ?case using encode_token_QueryEscape [of "snd x" "[]"]
    by (simp add: signed_pairs_def encode_token_QueryEscape encode_token_sep split_beta del: encode_token.simps(2))
next
  case (3 x y zs)
  then show ?case
    by (simp add: signed_pairs_def encode_token_QueryEscape encode_token_sep split_beta del: encode_token.simps(2))
qed (simp add: signed_pairs_def)

lemma percentEncode_sep: "percentEncode ''='' = ''%3D''" "percentEncode ''&'' = ''%26''" "percentEncode ''/'' = ''%2F''"
  by (simp_all add: percentEncode_def escape_def reserved_literals pct_literals)

lemma percentEncode_pairs:
  "percentEncode (Join (map (\<lambda>(k, v). percentEncode k @ ''='' @ percentEncode v) vs) ''&'') = signed_pairs ''%2520'' vs"
proof (induction vs rule: induct_list012)
  case (2 x)
  then show ?case using percentEncode_append [of "''=''"] percentEncode_sep
    by (simp add: signed_pairs_def percentEncode_append percentEncode_twice split_beta)
next
  case (3 x y zs)
  then show ?case using percentEncode_append [of "''=''"] percentEncode_append [of "''&''"] percentEncode_sep
    by (simp add: signed_pairs_def percentEncode_append percentEncode_twice split_beta)
qed (simp add: signed_pairs_def percentEncode_def escape_def)

text \<open>Every space makes the documented string two bytes longer.\<close>

definition spaces :: "string \<Rightarrow> nat" where
  "spaces s = length (filter (\<lambda>c. c = CHR '' '') s)"

lemma length_twice:
  "length (concat (map (twice ''%2520'') s)) = length (concat (map (twice ''%20'') s)) + 2 * spaces s"
  by (induction s) (auto simp: twice_def spaces_def)

lemma length_signed_pairs:
  "length (signed_pairs ''%2520'' vs) = length (signed_pairs ''%20'' vs) + 2 * sum_list (map (\<lambda>(k, v). spaces k + spaces v) vs)"
  by (induction vs rule: induct_list012) (auto simp: signed_pairs_def length_twice split_beta)

lemma twice_no_space: "spaces s = 0 \<Longrightarrow> concat (map (twice sp) s) = concat (map (twice sp') s)"
  by (induction s) (auto simp: twice_def spaces_def split: if_splits)

lemma signed_pairs_no_space:
  "\<forall>(k, v) \<in> set vs. spaces k + spaces v = 0 \<Longrightarrow> signed_pairs sp vs = signed_pairs sp' vs"
  using twice_no_space [of _ sp sp'] by (induction vs rule: induct_list012) (auto simp: signed_pairs_def)

lemma makeDataToSign_eq: "makeDataToSign m vs = m @ ''&%2F&'' @ signed_pairs ''%20'' (sort_slice fst vs)"
  using encode_token_pairs [of "sort_slice fst vs"]
  by (simp add: makeDataToSign_def specialURLEncode_def values_Encode_def pct_literals)

lemma string_to_sign_eq: "string_to_sign m vs = m @ ''&%2F&'' @ signed_pairs ''%2520'' (sort_slice fst vs)"
  using percentEncode_pairs [of "sort_slice fst vs"] by (simp add: string_to_sign_def canonicalQuery_def percentEncode_sep)

text \<open>
  Claim C11. The AliDNS signer computes the documented string to sign exactly when no parameter name
  or value contains a space (a space is signed as \<open>%20\<close> where \<open>%2520\<close> is due).
\<close>

theorem aliyun_string_to_sign:
  "makeDataToSign m vs = string_to_sign m vs \<longleftrightarrow> list_all (\<lambda>(k, v). CHR '' '' \<notin> set k \<and> CHR '' '' \<notin> set v) vs"
proof -
  have sp: "spaces s = 0 \<longleftrightarrow> CHR '' '' \<notin> set s" for s by (auto simp: spaces_def filter_empty_conv)
  let ?vs = "sort_slice fst vs"
  have "signed_pairs ''%20'' ?vs = signed_pairs ''%2520'' ?vs \<longleftrightarrow> (\<forall>(k, v) \<in> set ?vs. spaces k + spaces v = 0)"
  proof
    assume "signed_pairs ''%20'' ?vs = signed_pairs ''%2520'' ?vs"
    then have "sum_list (map (\<lambda>(k, v). spaces k + spaces v) ?vs) = 0" using length_signed_pairs [of ?vs] by simp
    then show "\<forall>(k, v) \<in> set ?vs. spaces k + spaces v = 0" by (auto simp: sum_list_eq_0_iff)
  qed (rule signed_pairs_no_space)
  also have "\<dots> \<longleftrightarrow> list_all (\<lambda>(k, v). CHR '' '' \<notin> set k \<and> CHR '' '' \<notin> set v) vs"
    by (auto simp: list_all_iff sp)
  finally show ?thesis unfolding makeDataToSign_eq string_to_sign_eq by simp
qed

section \<open>Properties of the updates\<close>

definition request_for :: "updater \<Rightarrow> dns_record \<Rightarrow> vendor_request \<Rightarrow> bool" where
  "request_for u rec q \<longleftrightarrow>
     (\<exists>n. record_target rec = Inr n \<and> (\<not> is_write u q \<or> sets_record u n rec q \<or> removes_only n rec q))"

lemma upsert_trace_requests:
  "upsert_trace u n rec new \<Longrightarrow> q \<in> set new \<Longrightarrow> \<not> is_write u q \<or> sets_record u n rec q \<or> removes_only n rec q"
  by (auto simp: upsert_trace_def)

text \<open>What the service relies on in an updater: the contract of the interface \<open>Updater\<close>.\<close>

locale dns_updater =
  fixes u :: updater
    and run :: "vendor_env \<Rightarrow> dns_record \<Rightarrow> request_log \<Rightarrow> (upsert_result \<times> request_log) option"
  assumes unresolved: "record_target rec = Inl e \<Longrightarrow> run env rec log = Some (Returned (Some e), log)"
    and meets: "run env rec log = Some (out, log') \<Longrightarrow> record_target rec = Inr n \<Longrightarrow> upsert_spec env u n rec log out log'"
begin

lemma requests:
  assumes "run env rec log = Some (out, log')"
  shows "\<exists>new. log' = log @ new \<and> (\<forall>q \<in> set new. request_for u rec q)"
proof (cases "record_target rec")
  case (Inl e)
  with assms show ?thesis by (simp add: unresolved)
next
  case (Inr n)
  with meets [OF assms] show ?thesis by (auto simp: upsert_spec_def request_for_def dest: upsert_trace_requests)
qed

lemma no_request_when_unresolved:
  "run env rec log = Some (out, log') \<Longrightarrow> record_target rec = Inl e \<Longrightarrow> out = Returned (Some e) \<and> log' = log"
  by (simp add: unresolved)

end

interpretation upd: dns_updater u "\<lambda>env. Upsert env u" for u
proof unfold_locales
  show "Upsert env u rec log = Some (Returned (Some e), log)" if "record_target rec = Inl e" for rec e env log
    using that by (cases u) (simp_all add: Cloudflare_Upsert_def AliDNS_Upsert_def GoDaddy_Upsert_def Spaceship_Upsert_def)
  show "upsert_spec env u n rec log out log'"
    if "Upsert env u rec log = Some (out, log')" and "record_target rec = Inr n" for env rec log out log' n
    using that
    by (cases u) (auto simp: apfst_def map_prod_def split: prod.splits
        intro: Cloudflare_Upsert_spec AliDNS_Upsert_spec GoDaddy_Upsert_spec Spaceship_Upsert_spec)
qed

text \<open>How many requests an update sends.\<close>

lemma sends_length: "sends m b log log' \<Longrightarrow> length log' \<le> Suc (length log)"
  by (auto simp: sends_def)

lemma send_request_length: "send_request env (NewRequest m url h b) log = (body, log') \<Longrightarrow> length log' \<le> Suc (length log)"
  by (rule sends_length) (rule send_request_sends)

lemma Cloudflare_Upsert_length:
  assumes "Cloudflare_Upsert env tok base rec log = (r, log')"
  shows "length log' \<le> length log + 3"
proof (cases "record_target rec")
  case (Inr n)
  obtain z log1 where z: "getZoneID env tok base (rn_Zone n) log = (z, log1)" by fastforce
  obtain ex log2 where ex: "getRecords env tok base (projr z) (rn_FQDN n) (rec_Type rec) log1 = (ex, log2)" by fastforce
  have l: "length log1 \<le> Suc (length log)" "length log2 \<le> Suc (length log1)"
    using sends_length [OF getZoneID_sends [OF z]] sends_length [OF getRecords_sends [OF ex]] by auto
  have "log' = log1 \<or> log' = log2 \<or> length log' \<le> Suc (length log2)"
    using assms Inr z ex
    by (cases z; cases ex)
      (auto simp: Cloudflare_Upsert_def Cloudflare_request_def Let_def split: list.splits if_splits prod.splits dest: send_request_length)
  with l show ?thesis by auto
qed (use assms in \<open>auto simp: Cloudflare_Upsert_def\<close>)

lemma AliDNS_request_length:
  "AliDNS_request env a sec ep params um out log = (r, log') \<Longrightarrow> length log' \<le> Suc (length log)"
  by (auto simp: AliDNS_request_def client_Do_def Let_def split: sum.splits)

lemma AliDNS_Upsert_length:
  assumes "AliDNS_Upsert env a sec ep rec log = (r, log')"
  shows "length log' \<le> length log + 2"
  using assms
  by (auto simp: AliDNS_Upsert_def AliDNS_update_def AliDNS_create_def ali_write_def Let_def
      split: sum.splits prod.splits if_splits list.splits dest!: AliDNS_request_length)

lemma GoDaddy_Upsert_length:
  "GoDaddy_Upsert env k sec base rec log = (r, log') \<Longrightarrow> length log' \<le> length log + 1"
  by (auto simp: GoDaddy_Upsert_def Let_def split: sum.splits prod.splits dest!: send_request_length)

lemma Spaceship_Upsert_ends:
  assumes "\<And>b r. ve_SpaceshipRecords env b = Inr r \<Longrightarrow> ssr_Total r \<le> int N"
  shows "\<exists>r log'. Spaceship_Upsert env k sec base rec log = Some (r, log') \<and> length log' \<le> length log + max 1 N + 2"
proof (cases "record_target rec")
  case (Inr n)
  have "\<exists>x new. listRecords env k sec base (rn_Zone n) log = Some (x, log @ new) \<and> length new \<le> max 1 (N - length ([] :: spaceship_record list))"
    unfolding listRecords_def by (rule listRecords_from_ends) (rule assms)
  then obtain x new where
    x: "listRecords env k sec base (rn_Zone n) log = Some (x, log @ new)" "length new \<le> max 1 N" by auto
  have save: "length (snd (saveRecord env k sec base d rc lg)) \<le> Suc (length lg)" for d rc lg
    by (auto simp: saveRecord_def Spaceship_request_def Let_def split: prod.splits dest: send_request_length)
  have del: "length l \<le> Suc (length lg)" if "deleteRecords env k sec base d rs lg = (e, l)" for d rs lg e l
    using that by (auto simp: deleteRecords_def Let_def split: prod.splits dest: send_request_length)
  show ?thesis
  proof (cases x)
    case (Inl e)
    with Inr x show ?thesis by (simp add: Spaceship_Upsert_def)
  next
    case (Inr rs)
    let ?m = "filterSpaceshipRecords rs (rn_Relative n) (rec_Type rec)"
    obtain d log2 where d: "deleteRecords env k sec base (rn_Zone n) ?m (log @ new) = (d, log2)" by fastforce
    obtain r1 l1 where r1: "saveRecord env k sec base (rn_Zone n) \<lparr>ss_Type = rec_Type rec, ss_Name = rn_Relative n,
         ss_TTL = defaultSpaceshipTTL (rec_TTL rec), ss_Address = rec_Value rec, ss_GroupType = []\<rparr> log2 = (r1, l1)" by fastforce
    obtain r2 l2 where r2: "saveRecord env k sec base (rn_Zone n) \<lparr>ss_Type = rec_Type rec, ss_Name = rn_Relative n,
         ss_TTL = defaultSpaceshipTTL (rec_TTL rec), ss_Address = rec_Value rec, ss_GroupType = []\<rparr> (log @ new) = (r2, l2)" by fastforce
    have "length log2 \<le> Suc (length (log @ new))" "length l1 \<le> Suc (length log2)" "length l2 \<le> Suc (length (log @ new))"
      using del [OF d] save [of _ _ log2] save [of _ _ "log @ new"] r1 r2 by (metis snd_conv)+
    moreover have "\<exists>r log'. Spaceship_Upsert env k sec base rec log = Some (r, log') \<and> log' \<in> {log @ new, log2, l1, l2}"
      using \<open>record_target rec = Inr n\<close> x(1) Inr d r1 r2 by (cases d) (simp_all add: Spaceship_Upsert_def Let_def)
    ultimately show ?thesis using x(2) by force
  qed
qed (simp add: Spaceship_Upsert_def)

text \<open>The provider calls of a synchronisation in their order; a panic ends the process.\<close>

fun run_upserts :: "vendor_env \<Rightarrow> (updater \<times> dns_record) list \<Rightarrow> request_log \<Rightarrow> request_log option" where
  "run_upserts env [] log = Some log"
| "run_upserts env ((u, rec) # calls) log =
     (case Upsert env u rec log of
        None \<Rightarrow> None
      | Some (Panicked, log') \<Rightarrow> Some log'
      | Some (Returned e, log') \<Rightarrow> run_upserts env calls log')"

lemma run_upserts_requests:
  "run_upserts env calls log = Some log' \<Longrightarrow>
     \<exists>new. log' = log @ new \<and> (\<forall>q \<in> set new. \<exists>(u, rec) \<in> set calls. request_for u rec q)"
proof (induction calls arbitrary: log)
  case (Cons c calls)
  obtain u rec where c: "c = (u, rec)" by fastforce
  from Cons.prems c obtain out l1 where o: "Upsert env u rec log = Some (out, l1)" by (auto split: option.splits)
  from upd.requests [OF this] obtain n1 where n1: "l1 = log @ n1" "\<forall>q \<in> set n1. request_for u rec q" by blast
  show ?case
  proof (cases out)
    case Panicked
    with Cons.prems c o n1 show ?thesis by auto
  next
    case (Returned e)
    with Cons.prems c o have "run_upserts env calls l1 = Some log'" by simp
    from Cons.IH [OF this] n1 c show ?thesis by fastforce
  qed
qed simp


definition demo_vendor :: vendor_env where
  "demo_vendor = \<lparr>ve_Do = (\<lambda>_ _. Inr \<lparr>vp_StatusCode = 200, vp_Body = ''x'', vp_BodyErr = None\<rparr>),
     ve_UnixNano = (\<lambda>_. 7), ve_Timestamp = (\<lambda>_. ''t''), ve_Hmac = (\<lambda>_ _ _. ''h''),
     ve_CloudflareZones = (\<lambda>_. Inl (ErrIO ''json'')), ve_CloudflareRecords = (\<lambda>_. Inl (ErrIO ''json'')),
     ve_AliRecords = (\<lambda>_. Inr \<lparr>ars_TotalCount = 0, ars_Record = []\<rparr>), ve_AliResponse = (\<lambda>_. Inr \<lparr>ali_RecordID = ''1''\<rparr>),
     ve_SpaceshipRecords = (\<lambda>_. Inr \<lparr>ssr_Items = [\<lparr>ss_Type = ''A'', ss_Name = ''@'', ss_TTL = 60, ss_Address = ''1.2.3.4'',
        ss_GroupType = ''custom''\<rparr>], ssr_Total = 2\<rparr>)\<rparr>"

definition demo_dns_record :: dns_record where
  "demo_dns_record = \<lparr>rec_Domain = ''x.io'', rec_Zone = ''x.io'', rec_Name = ''x.io'', rec_Type = ''A'',
     rec_Value = ''1.2.3.4'', rec_TTL = 60\<rparr>"

lemma demo_target: "record_target demo_dns_record =
    Inr \<lparr>rn_Domain = ''x.io'', rn_Zone = ''x.io'', rn_FQDN = ''x.io'', rn_Relative = ''@''\<rparr>"
  by (simp add: record_target_def demo_dns_record_def ResolveRecordName_def trimDot_def TrimSuffix_def HasSuffix_def
      suffix_def literal_simps Let_def)

lemma demo_endpoint: "url_Parse ''https://e'' = Inr (empty_url\<lparr>u_Scheme := ''https'', u_Host := ''e''\<rparr>)"
  by (simp add: url_simps literal_simps)

lemma demo_ali_request:
  "\<exists>q. AliDNS_request demo_vendor a s ''https://e'' ps um z log = (um ''x'', log @ [q])"
  by (simp add: AliDNS_request_def NewRequest_def demo_endpoint client_Do_def Let_def decodeJSONResponse_def
      readResponseBody_def readAllLimited_def demo_vendor_def)

lemma demo_ali_write: "\<exists>q. ali_write demo_vendor a s ''https://e'' ps msg log = (None, log @ [q])"
proof -
  obtain q where "AliDNS_request demo_vendor a s ''https://e'' ps (ve_AliResponse demo_vendor) zero_ali_response log
      = (ve_AliResponse demo_vendor ''x'', log @ [q])"
    using demo_ali_request [of a s ps "ve_AliResponse demo_vendor" zero_ali_response log] by blast
  moreover have "ve_AliResponse demo_vendor ''x'' = Inr \<lparr>ali_RecordID = ''1''\<rparr>" by (simp add: demo_vendor_def)
  ultimately show ?thesis by (simp add: ali_write_def)
qed

lemma demo_ali_upsert:
  "\<exists>p q. Upsert demo_vendor (AliDNS ''k'' ''s'' ''https://e'') demo_dns_record [] = Some (Returned None, [p, q])"
proof -
  let ?n = "\<lparr>rn_Domain = ''x.io'', rn_Zone = ''x.io'', rn_FQDN = ''x.io'', rn_Relative = ''@''\<rparr>"
  obtain p where p: "AliDNS_request demo_vendor ''k'' ''s'' ''https://e''
      [(''Action'', ''DescribeSubDomainRecords''), (''DomainName'', ''x.io''), (''SubDomain'', AliDNSSubDomain ?n),
       (''Type'', rec_Type demo_dns_record)] (ve_AliRecords demo_vendor) zero_ali_records [] = (ve_AliRecords demo_vendor ''x'', [p])"
    using demo_ali_request [of _ _ _ _ _ "[]"] by fastforce
  obtain q where q: "AliDNS_create demo_vendor ''k'' ''s'' ''https://e'' ?n demo_dns_record [p] = (None, [p, q])"
    using demo_ali_write [of _ _ _ _ "[p]"] unfolding AliDNS_create_def by fastforce
  have "ve_AliRecords demo_vendor ''x'' = Inr \<lparr>ars_TotalCount = 0, ars_Record = []\<rparr>" by (simp add: demo_vendor_def)
  with p q demo_target show ?thesis by (simp add: AliDNS_Upsert_def)
qed


text \<open>
  Claim C28. Every \<open>Upsert\<close> returns (or panics) after at most \<open>max 1 N + 2\<close> requests when the vendor never
  reports a zone of more than \<open>N\<close> records; the paging loop of Spaceship is the only one that depends on
  this bound.
\<close>

theorem upsert_returns:
  assumes "\<And>body resp. ve_SpaceshipRecords env body = Inr resp \<Longrightarrow> ssr_Total resp \<le> int N"
  shows "\<exists>out new. Upsert env u rec log = Some (out, log @ new) \<and> length new \<le> max 1 N + 2"
proof -
  have "\<exists>out log'. Upsert env u rec log = Some (out, log') \<and> length log' \<le> length log + max 1 N + 2"
  proof (cases u)
    case (Cloudflare t b)
    then show ?thesis using Cloudflare_Upsert_length [of env t b rec log] by (cases "Cloudflare_Upsert env t b rec log") force
  next
    case (AliDNS a s e)
    then show ?thesis using AliDNS_Upsert_length [of env a s e rec log] by (cases "AliDNS_Upsert env a s e rec log") force
  next
    case (GoDaddy k s b)
    then show ?thesis using GoDaddy_Upsert_length [of env k s b rec log] by (cases "GoDaddy_Upsert env k s b rec log") force
  next
    case (Spaceship k s b)
    then show ?thesis using Spaceship_Upsert_ends [of env N k s b rec log] assms by force
  qed
  then obtain out log' where u: "Upsert env u rec log = Some (out, log')" "length log' \<le> length log + max 1 N + 2" by blast
  with upd.requests [OF u(1)] show ?thesis by auto
qed

theorem upsert_returns_witness:
  "\<exists>out new. Upsert demo_vendor (Spaceship ''k'' ''s'' ''https://e'') demo_dns_record [] = Some (out, new) \<and> length new \<le> 4"
proof -
  have "\<exists>out new. Upsert demo_vendor (Spaceship ''k'' ''s'' ''https://e'') demo_dns_record [] = Some (out, [] @ new)
      \<and> length new \<le> max 1 2 + 2"
    by (rule upsert_returns) (auto simp: demo_vendor_def)
  moreover have "max 1 2 + 2 = (4::nat)" by simp
  ultimately show ?thesis by (simp only: append_Nil)
qed


lemma demo_sync_calls:
  "\<exists>r w' rec. SyncZone demo_ddns 5 demo_ddns_zone demo_world = (r, w') \<and> dw_log w' = [(Cloudflare ''t'' ''u'', rec)]"
proof -
  obtain sts w' where s: "SyncZone demo_ddns 5 demo_ddns_zone demo_world = ((sts, None), w')" and l: "length (dw_log w') = 1"
    using demo_first_sync by blast
  have d: "z_Domain demo_ddns_zone \<noteq> []" by (simp add: demo_ddns_zone_def)
  from l obtain u rec where log: "dw_log w' = [(u, rec)]" by (auto simp: length_Suc_conv)
  with SyncZone_log [OF s d] have "\<exists>ref. gm_get (sv_Providers demo_ddns) ref = Some u"
    by (auto simp: demo_world_def upsert_ok_def)
  then have "u = Cloudflare ''t'' ''u''" by (auto simp: demo_ddns_def split: if_splits)
  with s log show ?thesis by blast
qed


end
