(* ===== verification/Domux_Discovery.thy ===== *)
theory Domux_Discovery
  imports Domux_Store
begin

text \<open>
  Discovery of routes from containers: \<open>internal/discovery/docker/discovery.go\<close> and
  \<open>client.go\<close>. What the Docker client library answers is the record \<open>docker_api\<close>, with the
  fields the code reads; the port parser of the library \<open>go-connections\<close> is the record
  \<open>nat_lib\<close>. The event loop of \<open>Watch\<close> is a transition function over what its channels
  deliver.
\<close>

abbreviation DefaultLabelPrefix :: string where "DefaultLabelPrefix \<equiv> ''domux.''"
abbreviation LocalNodeName :: string where "LocalNodeName \<equiv> ''server''"

record route_intent =
  in_Managed :: bool
  in_Domain :: string
  in_Zone :: string
  in_Subdomain :: string
  in_Port :: int
  in_Network :: string

definition zero_intent :: route_intent where
  "zero_intent = \<lparr>in_Managed = False, in_Domain = [], in_Zone = [], in_Subdomain = [], in_Port = 0, in_Network = []\<rparr>"

section \<open>Labels\<close>

definition NormalizeLabelPrefix :: "string \<Rightarrow> string" where
  "NormalizeLabelPrefix prefix0 =
     (let p = TrimSpace prefix0
      in if p = [] then DefaultLabelPrefix else if \<not> HasSuffix p ''.'' then p @ ''.'' else p)"

definition labelKey :: "string \<Rightarrow> string \<Rightarrow> string" where
  "labelKey p suf = NormalizeLabelPrefix p @ suf"

definition ParseLabels :: "string gomap \<Rightarrow> string \<Rightarrow> route_intent result" where
  "ParseLabels labels prefix0 =
     (if labels = [] then Inr zero_intent
      else
        (let p = NormalizeLabelPrefix prefix0;
             label = (\<lambda>suf. TrimSpace (gm_str labels (labelKey p suf)));
             domain0 = label ''domain'';
             zone = label ''zone'';
             domain = (if domain0 = [] then zone else domain0);
             subdomain = label ''subdomain'';
             network = label ''network'';
             managed = (domain \<noteq> [] \<or> zone \<noteq> [] \<or> subdomain \<noteq> [] \<or> network \<noteq> []);
             rawPort = label ''port'';
             intent = \<lparr>in_Managed = managed, in_Domain = domain, in_Zone = zone,
                       in_Subdomain = subdomain, in_Port = 0, in_Network = network\<rparr>
         in if domain0 \<noteq> [] \<and> zone \<noteq> [] \<and> domain0 \<noteq> zone then
              Inl (Errorf ''conflicting %s and %s values'' [labelKey p ''domain'', labelKey p ''zone''])
            else if rawPort \<noteq> [] then
              (case Atoi rawPort of
                 None \<Rightarrow> Inl (Errorf ''invalid %s value %q'' [labelKey p ''port'', rawPort])
               | Some port \<Rightarrow> Inr (intent\<lparr>in_Port := port, in_Managed := True\<rparr>))
            else Inr intent))"

section \<open>The target of a container\<close>

definition composeProjectName :: "string gomap \<Rightarrow> string" where
  "composeProjectName labels =
     (case find (\<lambda>p. p \<noteq> []) (map (\<lambda>k. TrimSpace (gm_str labels k))
             [''com.docker.compose.project'', ''io.podman.compose.project'']) of
        None \<Rightarrow> [] | Some p \<Rightarrow> p)"

text \<open>\<open>addNetwork\<close>: the network itself, then the network of the compose project.\<close>

definition addNetwork :: "container_snapshot \<Rightarrow> string \<Rightarrow> string list" where
  "addNetwork snapshot name =
     (let project = composeProjectName (cs_Labels snapshot)
      in name # (if project \<noteq> [] \<and> \<not> Contains name ''_'' then [project @ ''_'' @ name] else []))"

definition networkCandidates :: "runtime_source \<Rightarrow> container_snapshot \<Rightarrow> route_intent \<Rightarrow> string list" where
  "networkCandidates source snapshot intent =
     compactNames (addNetwork snapshot (in_Network intent)
       @ (if rs_Network source \<noteq> in_Network intent then addNetwork snapshot (rs_Network source) else [])
       @ sort (map fst (cs_Networks snapshot)))"

definition resolvePort :: "container_snapshot \<Rightarrow> route_intent \<Rightarrow> int result" where
  "resolvePort snapshot intent =
     (if in_Port intent > 0 then Inr (in_Port intent)
      else if cs_ExposedPorts snapshot = [] then Inl (Errorf ''no backend port available'' [])
      else (case find (\<lambda>p. p > 0) (sort (cs_ExposedPorts snapshot)) of
              Some p \<Rightarrow> Inr p
            | None \<Rightarrow> Inl (Errorf ''no valid backend port available'' [])))"

definition resolveHost :: "runtime_source \<Rightarrow> container_snapshot \<Rightarrow> route_intent \<Rightarrow> (string \<times> string) result" where
  "resolveHost source snapshot intent =
     (case find (\<lambda>n. TrimSpace (gm_str (cs_Networks snapshot) n) \<noteq> [])
             (networkCandidates source snapshot intent) of
        Some n \<Rightarrow> Inr (TrimSpace (gm_str (cs_Networks snapshot) n), n)
      | None \<Rightarrow>
          if cs_Networks snapshot = [] then Inl (Errorf ''no container network address available'' [])
          else
            (let own = TrimSpace (in_Network intent);
                 wanted = (if own = [] then TrimSpace (rs_Network source) else own)
             in if wanted \<noteq> [] then
                  Inl (Errorf ''network %q not found or has no address'' [wanted])
                else Inl (Errorf ''no container network address available'' [])))"

definition runningInContainer :: "os_env \<Rightarrow> bool" where
  "runningInContainer os =
     list_ex (os_Exists os) [''/.dockerenv'', ''/.containerenv'', ''/run/.containerenv'']"

definition publishedTargetHost :: "bool \<Rightarrow> bool \<Rightarrow> string" where
  "publishedTargetHost isPodman inContainer =
     (if isPodman \<and> inContainer then ''host.containers.internal'' else ''127.0.0.1'')"

definition resolvePublishedTarget :: "os_env \<Rightarrow> runtime_source \<Rightarrow> container_snapshot \<Rightarrow> int \<Rightarrow>
    (string \<times> int) option" where
  "resolvePublishedTarget os source snapshot privatePort =
     (case map_of (cs_PublishedPorts snapshot) privatePort of
        None \<Rightarrow> None
      | Some published \<Rightarrow>
          if published = 0 then None
          else if RuntimeOrDefault os source = ContainerRuntimePodman then
            Some (publishedTargetHost True (runningInContainer os), published)
          else if cs_Networks snapshot = [] then
            Some (publishedTargetHost False (runningInContainer os), published)
          else None)"

definition resolveTargetAddress :: "os_env \<Rightarrow> runtime_source \<Rightarrow> container_snapshot \<Rightarrow> route_intent \<Rightarrow>
    (string \<times> int \<times> string) result" where
  "resolveTargetAddress os source snapshot intent =
     (case resolvePort snapshot intent of
        Inl e \<Rightarrow> Inl e
      | Inr port \<Rightarrow>
          if cs_HostNetwork snapshot then Inr (''127.0.0.1'', port, ''host'')
          else
            (case resolvePublishedTarget os source snapshot port of
               Some (host, published) \<Rightarrow> Inr (host, published, ''published'')
             | None \<Rightarrow>
                 (case resolveHost source snapshot intent of
                    Inl e \<Rightarrow> Inl e
                  | Inr (host, network) \<Rightarrow> Inr (host, port, network))))"

definition ResolveTarget :: "os_env \<Rightarrow> runtime_source \<Rightarrow> container_snapshot \<Rightarrow> route_intent \<Rightarrow>
    (string \<times> string) result" where
  "ResolveTarget os source snapshot intent =
     (case resolveTargetAddress os source snapshot intent of
        Inl e \<Rightarrow> Inl e
      | Inr (host, port, network) \<Rightarrow>
          Inr (network, url_String (empty_url\<lparr>u_Scheme := ''http'', u_Host := host @ '':'' @ Itoa port\<rparr>)))"

section \<open>Routes\<close>

definition BuildRoute :: "managed_zone \<Rightarrow> container_snapshot \<Rightarrow> route_intent \<Rightarrow> string \<Rightarrow> string \<Rightarrow> string \<Rightarrow>
    discovered_route" where
  "BuildRoute zone snapshot intent targetURL selectedNetwork source =
     (let subdomain = (if in_Subdomain intent = [] then DefaultSubdomain snapshot else in_Subdomain intent);
          host = Hostname zone subdomain
      in \<lparr>rt_ID = cs_ID snapshot @ '':'' @ host, rt_Name = [], rt_Icon = [],
          rt_Domain = z_Domain zone, rt_Zone = z_Name zone, rt_Subdomain = subdomain,
          rt_Host = host, rt_Source = source, rt_ExitNode = [], rt_Origin = RouteOriginLocalDocker,
          rt_Runtime = cs_Runtime snapshot, rt_TargetURL = targetURL, rt_ProxyURL = [],
          rt_Network = selectedNetwork,
          rt_Container = \<lparr>cr_ID = cs_ID snapshot, cr_Name = cs_Name snapshot, cr_Image = cs_Image snapshot,
                          cr_Source = source, cr_Runtime = cs_Runtime snapshot\<rparr>\<rparr>)"

definition zone_domain_key :: "managed_zone \<Rightarrow> string" where
  "zone_domain_key z = (let d = TrimSpace (z_Domain z) in if d = [] then TrimSpace (z_Name z) else d)"

text \<open>
  What the loop of \<open>DiscoverRoutesFromSnapshots\<close> does with one container: nothing, an error
  or a route.
\<close>

definition snapshot_route :: "os_env \<Rightarrow> runtime_source \<Rightarrow> managed_zone list \<Rightarrow> container_snapshot \<Rightarrow>
    discovered_route result option" where
  "snapshot_route os source zones snapshot =
     (if \<not> cs_Running snapshot then None
      else
        (case ParseLabels (cs_Labels snapshot) DefaultLabelPrefix of
           Inl e \<Rightarrow> Some (Inl (Wrapf ''container %s: %w'' [cs_Name snapshot] e))
         | Inr intent \<Rightarrow>
             if \<not> in_Managed intent then None
             else
               (let domainName = (if in_Domain intent = [] then DefaultManagedZoneName zones else in_Domain intent)
                in case gm_get (gm_put_all zone_domain_key zones []) domainName of
                     None \<Rightarrow> Some (Inl (Errorf ''container %s: unknown domain %q'' [cs_Name snapshot, domainName]))
                   | Some zone \<Rightarrow>
                       (case ResolveTarget os source snapshot intent of
                          Inl e \<Rightarrow> Some (Inl (Wrapf ''container %s: %w'' [cs_Name snapshot] e))
                        | Inr (network, targetURL) \<Rightarrow>
                            Some (Inr (BuildRoute zone snapshot intent targetURL network LocalNodeName))))))"

fun snapshot_routes :: "os_env \<Rightarrow> runtime_source \<Rightarrow> managed_zone list \<Rightarrow> container_snapshot list \<Rightarrow>
    discovered_route list \<times> go_error list" where
  "snapshot_routes os source zones [] = ([], [])"
| "snapshot_routes os source zones (c # cs) =
     (let (routes, errs) = snapshot_routes os source zones cs
      in case snapshot_route os source zones c of
           None \<Rightarrow> (routes, errs)
         | Some (Inl e) \<Rightarrow> (routes, e # errs)
         | Some (Inr r) \<Rightarrow> (r # routes, errs))"

definition DiscoverRoutesFromSnapshots :: "os_env \<Rightarrow> runtime_source \<Rightarrow> managed_zone list \<Rightarrow>
    container_snapshot list \<Rightarrow> discovered_route list \<times> go_error option" where
  "DiscoverRoutesFromSnapshots os source zones snapshots =
     (let (routes, errs) = snapshot_routes os source zones snapshots
      in (sort_slice rt_Host routes, errors_Join errs))"

section \<open>The container runtime\<close>

record port_summary =
  ps_PrivatePort :: int
  ps_PublicPort :: int

record container_summary =
  su_ID :: string
  su_Names :: "string list"
  su_Image :: string
  su_State :: string
  su_Labels :: "string gomap"
  su_Ports :: "port_summary list"

record network_settings =
  ns_Networks :: "string option gomap"
  ns_Ports :: "string list gomap"

record container_inspect =
  ci_Name :: string
  ci_NetworkSettings :: "network_settings option"
  ci_ExposedPorts :: "string list option"
  ci_NetworkMode :: "string option"
  ci_State :: "(bool \<times> string) option"

text \<open>\<open>nat.Port.Port\<close> and \<open>nat.ParsePort\<close>; \<open>None\<close> is an error.\<close>

record nat_lib =
  nat_Port :: "string \<Rightarrow> string"
  nat_ParsePort :: "string \<Rightarrow> int option"

record docker_api =
  api_ContainerList :: "container_summary list result"
  api_ContainerInspect :: "string \<Rightarrow> container_inspect result"
  api_NetworkList :: "string list result"

definition positive_port :: "nat_lib \<Rightarrow> string \<Rightarrow> int option" where
  "positive_port lib raw = (case nat_ParsePort lib raw of Some p \<Rightarrow> if p > 0 then Some p else None | None \<Rightarrow> None)"

text \<open>The published ports: those of the summary, overridden by the first usable binding.\<close>

fun summary_ports :: "port_summary list \<Rightarrow> int list \<times> (int \<times> int) list \<Rightarrow> int list \<times> (int \<times> int) list" where
  "summary_ports [] acc = acc"
| "summary_ports (p # ps) (ports, published) =
     (if ps_PrivatePort p > 0 then
        summary_ports ps (ps_PrivatePort p # ports,
          (if ps_PublicPort p > 0 then AList.update (ps_PrivatePort p) (ps_PublicPort p) published else published))
      else summary_ports ps (ports, published))"

definition first_binding :: "nat_lib \<Rightarrow> string list \<Rightarrow> int option" where
  "first_binding lib bindings =
     (case List.map_filter (\<lambda>h. if h = [] then None else positive_port lib h) bindings of
        [] \<Rightarrow> None | p # _ \<Rightarrow> Some p)"

fun inspect_ports :: "nat_lib \<Rightarrow> string list gomap \<Rightarrow> int list \<times> (int \<times> int) list \<Rightarrow> int list \<times> (int \<times> int) list" where
  "inspect_ports lib [] acc = acc"
| "inspect_ports lib ((port, bindings) # rest) (ports, published) =
     (case positive_port lib (nat_Port lib port) of
        None \<Rightarrow> inspect_ports lib rest (ports, published)
      | Some private \<Rightarrow>
          inspect_ports lib rest (private # ports,
            (case first_binding lib bindings of
               None \<Rightarrow> published | Some pub \<Rightarrow> AList.update private pub published)))"

definition snapshotFromDocker :: "nat_lib \<Rightarrow> container_summary \<Rightarrow> container_inspect \<Rightarrow> container_runtime \<Rightarrow>
    container_snapshot" where
  "snapshotFromDocker lib summary inspect runtime =
     (let name0 = TrimPrefix (ci_Name inspect) ''/'';
          name = (if name0 = [] then (case su_Names summary of [] \<Rightarrow> name0 | n # _ \<Rightarrow> TrimPrefix n ''/'') else name0);
          networks = (case ci_NetworkSettings inspect of
                        None \<Rightarrow> []
                      | Some ns \<Rightarrow> List.map_filter (\<lambda>(n, ep).
                          case ep of None \<Rightarrow> None | Some ip \<Rightarrow> if ip \<noteq> [] then Some (n, ip) else None) (ns_Networks ns));
          acc1 = summary_ports (su_Ports summary) ([], []);
          acc2 = (case ci_NetworkSettings inspect of None \<Rightarrow> acc1 | Some ns \<Rightarrow> inspect_ports lib (ns_Ports ns) acc1);
          exposed = (case ci_ExposedPorts inspect of
                       None \<Rightarrow> [] | Some ps \<Rightarrow> List.map_filter (\<lambda>p. positive_port lib (nat_Port lib p)) ps)
      in \<lparr>cs_ID = su_ID summary, cs_Name = name, cs_Image = su_Image summary, cs_Runtime = runtime,
          cs_Running = (case ci_State inspect of None \<Rightarrow> False | Some (running, _) \<Rightarrow> running),
          cs_State = (case ci_State inspect of
                        Some (_, status) \<Rightarrow> if status \<noteq> [] then status else su_State summary
                      | None \<Rightarrow> su_State summary),
          cs_HostNetwork = (ci_NetworkMode inspect = Some ''host''),
          cs_Labels = su_Labels summary, cs_Networks = networks,
          cs_ExposedPorts = sort (remdups (fst acc2 @ exposed)), cs_PublishedPorts = snd acc2\<rparr>)"

record local_discovery =
  ld_Source :: runtime_source
  ld_api :: docker_api

definition NewWithClient :: "os_env \<Rightarrow> runtime_source \<Rightarrow> docker_api \<Rightarrow> local_discovery" where
  "NewWithClient os source api = \<lparr>ld_Source = Normalized os source, ld_api = api\<rparr>"

definition discovery_Name :: "os_env \<Rightarrow> local_discovery \<Rightarrow> string" where
  "discovery_Name os d = RuntimeOrDefault os (ld_Source d)"

definition NetworkNames :: "local_discovery \<Rightarrow> string list result" where
  "NetworkNames d =
     (case api_NetworkList (ld_api d) of
        Inl e \<Rightarrow> Inl e
      | Inr names \<Rightarrow> Inr (remdups_adj (sort (filter (\<lambda>n. n \<noteq> []) (map TrimSpace names)))))"

fun inspect_all :: "nat_lib \<Rightarrow> (string \<Rightarrow> container_inspect result) \<Rightarrow> container_runtime \<Rightarrow>
    container_summary list \<Rightarrow> container_snapshot list result" where
  "inspect_all lib insp runtime [] = Inr []"
| "inspect_all lib insp runtime (c # cs) =
     (case insp (su_ID c) of
        Inl e \<Rightarrow> Inl e
      | Inr i \<Rightarrow>
          (case inspect_all lib insp runtime cs of
             Inl e \<Rightarrow> Inl e
           | Inr ss \<Rightarrow> Inr (snapshotFromDocker lib c i runtime # ss)))"

definition Snapshots :: "os_env \<Rightarrow> nat_lib \<Rightarrow> local_discovery \<Rightarrow> container_snapshot list result" where
  "Snapshots os lib d =
     (case api_ContainerList (ld_api d) of
        Inl e \<Rightarrow> Inl e
      | Inr containers \<Rightarrow>
          inspect_all lib (api_ContainerInspect (ld_api d)) (RuntimeOrDefault os (ld_Source d)) containers)"

definition DiscoverRoutes :: "os_env \<Rightarrow> nat_lib \<Rightarrow> local_discovery \<Rightarrow> managed_zone list \<Rightarrow>
    discovered_route list \<times> go_error option" where
  "DiscoverRoutes os lib d zones =
     (case Snapshots os lib d of
        Inl e \<Rightarrow> ([], Some e)
      | Inr ss \<Rightarrow> DiscoverRoutesFromSnapshots os (ld_Source d) zones ss)"

section \<open>Watching events\<close>

record docker_message =
  dm_Type :: string
  dm_Action :: string

definition shouldRefreshOnEvent :: "docker_message \<Rightarrow> bool" where
  "shouldRefreshOnEvent msg \<longleftrightarrow>
     dm_Type msg = ''container'' \<and>
     dm_Action msg \<in> set [''create'', ''start'', ''stop'', ''die'', ''destroy'', ''rename'', ''update'',
                            ''pause'', ''unpause'', ''connect'', ''disconnect'']"

text \<open>
  The loop of \<open>Watch\<close>: it reads the event stream, waits for the retry timer after a failure,
  or has returned. Both channels hold one element and are sent to without blocking.
\<close>

datatype watch_phase = Streaming | Retrying | Returned

record watch_state =
  w_phase :: watch_phase
  w_refreshCh :: bool
  w_errCh :: "go_error option"

datatype watch_input =
    CtxDone
  | Msg docker_message
  | MsgClosed
  | StreamErr "go_error option"
  | StreamErrClosed
  | RetryTimer
  | TakeRefresh
  | TakeErr

definition watch_start :: watch_state where
  "watch_start = \<lparr>w_phase = Streaming, w_refreshCh = False, w_errCh = None\<rparr>"

definition send_err :: "go_error \<Rightarrow> watch_state \<Rightarrow> watch_state" where
  "send_err e w = (case w_errCh w of None \<Rightarrow> w\<lparr>w_errCh := Some e\<rparr> | Some _ \<Rightarrow> w)"

fun watch_step :: "watch_input \<Rightarrow> watch_state \<Rightarrow> watch_state" where
  "watch_step TakeRefresh w = w\<lparr>w_refreshCh := False\<rparr>"
| "watch_step TakeErr w = w\<lparr>w_errCh := None\<rparr>"
| "watch_step i w =
     (case w_phase w of
        Returned \<Rightarrow> w
      | Retrying \<Rightarrow>
          (case i of
             CtxDone \<Rightarrow> w\<lparr>w_phase := Returned\<rparr>
           | RetryTimer \<Rightarrow> w\<lparr>w_phase := Streaming\<rparr>
           | _ \<Rightarrow> w)
      | Streaming \<Rightarrow>
          (case i of
             CtxDone \<Rightarrow> w\<lparr>w_phase := Returned\<rparr>
           | Msg m \<Rightarrow> if shouldRefreshOnEvent m then w\<lparr>w_refreshCh := True\<rparr> else w
           | MsgClosed \<Rightarrow> (send_err ErrCanceled w)\<lparr>w_phase := Retrying\<rparr>
           | StreamErr (Some e) \<Rightarrow> (send_err e w)\<lparr>w_phase := Retrying\<rparr>
           | StreamErr None \<Rightarrow> w
           | StreamErrClosed \<Rightarrow> w\<lparr>w_phase := Retrying\<rparr>
           | _ \<Rightarrow> w))"

section \<open>Facts\<close>

lemma find_sort_least:
  fixes xs :: "'a::linorder list"
  assumes "find P (sort xs) = Some x" and "q \<in> set xs" and "P q"
  shows "x \<le> q"
proof -
  have *: "sorted ys \<Longrightarrow> find P ys = Some x \<Longrightarrow> q \<in> set ys \<Longrightarrow> x \<le> q" for ys
    using assms(3) by (induction ys) (auto split: if_splits)
  show ?thesis by (rule * [OF _ assms(1)]) (simp_all add: assms(2))
qed

definition network_address :: "container_snapshot \<Rightarrow> string \<Rightarrow> string" where
  "network_address c n = TrimSpace (gm_str (cs_Networks c) n)"

lemma resolvePort_choice:
  "resolvePort c intent = Inr p \<Longrightarrow>
     if in_Port intent > 0 then p = in_Port intent
     else p \<in> set (cs_ExposedPorts c) \<and> (\<forall>q \<in> set (cs_ExposedPorts c). q > 0 \<longrightarrow> p \<le> q)"
  by (auto simp: resolvePort_def split: if_splits option.splits dest: find_Some_mem find_sort_least)

lemma networkCandidates_wanted:
  "trimmed (in_Network intent) \<Longrightarrow> in_Network intent \<noteq> [] \<Longrightarrow>
     \<exists>rest. networkCandidates source c intent = in_Network intent # rest"
  by (simp add: networkCandidates_def addNetwork_def compactNames_def Let_def trimmed_def)

lemma resolveHost_address:
  "resolveHost source c intent = Inr (host, network) \<Longrightarrow> host \<noteq> [] \<and> host = network_address c network"
  by (auto simp: resolveHost_def network_address_def Let_def split: option.splits if_splits dest: find_Some_mem)

lemma resolveHost_wanted:
  "resolveHost source c intent = Inr (host, network) \<Longrightarrow> trimmed (in_Network intent) \<Longrightarrow> in_Network intent \<noteq> [] \<Longrightarrow>
     network_address c (in_Network intent) \<noteq> [] \<Longrightarrow> network = in_Network intent"
  using networkCandidates_wanted [of intent source c] by (auto simp: resolveHost_def network_address_def)

lemma resolvePort_pos: "resolvePort snapshot intent = Inr p \<Longrightarrow> p > 0"
  by (auto simp: resolvePort_def split: if_splits option.splits dest: find_Some_mem)

lemma snapshot_routes_eq:
  "snapshot_routes os source zones cs =
     (let rs = List.map_filter (snapshot_route os source zones) cs
      in (List.map_filter (\<lambda>r. case r of Inl _ \<Rightarrow> None | Inr x \<Rightarrow> Some x) rs,
          List.map_filter (\<lambda>r. case r of Inl e \<Rightarrow> Some e | Inr _ \<Rightarrow> None) rs))"
  by (induction cs) (auto simp: Let_def List.map_filter_simps split: option.splits sum.splits)

lemma snapshot_routes_set:
  "r \<in> set (fst (snapshot_routes os source zones cs)) \<longleftrightarrow>
     (\<exists>c \<in> set cs. snapshot_route os source zones c = Some (Inr r))"
  by (induction cs) (auto simp: Let_def case_prod_unfold split: option.splits sum.splits)

lemma length_partition_sum:
  "length (List.map_filter (\<lambda>r. case r of Inl _ \<Rightarrow> None | Inr x \<Rightarrow> Some x) rs)
     + length (List.map_filter (\<lambda>r. case r of Inl e \<Rightarrow> Some e | Inr _ \<Rightarrow> None) rs) = length rs"
  by (induction rs) (auto simp: List.map_filter_simps split: sum.splits)

text \<open>The containers that ask for a route.\<close>

definition wants_route :: "container_snapshot \<Rightarrow> bool" where
  "wants_route c \<longleftrightarrow> cs_Running c
     \<and> (case ParseLabels (cs_Labels c) DefaultLabelPrefix of Inl _ \<Rightarrow> True | Inr i \<Rightarrow> in_Managed i)"

lemma snapshot_route_None: "snapshot_route os source zones c = None \<longleftrightarrow> \<not> wants_route c"
  by (auto simp: snapshot_route_def wants_route_def Let_def split: sum.splits option.splits)

lemma discover_accounts:
  assumes "snapshot_routes os source zones cs = (routes, errs)"
  shows "length routes + length errs = length (filter wants_route cs)"
proof -
  have "length routes + length errs = length (List.map_filter (snapshot_route os source zones) cs)"
    using assms length_partition_sum by (auto simp: snapshot_routes_eq Let_def)
  then show ?thesis by (simp add: length_map_filter snapshot_route_None)
qed

lemma snapshot_route_zone:
  assumes "snapshot_route os source zones c = Some (Inr r)"
  obtains zone where "zone \<in> set zones" and "rt_Domain r = z_Domain zone" and "rt_Host r = Hostname zone (rt_Subdomain r)"
    and "cs_Running c" and "wants_route c" and "rt_Source r = LocalNodeName" and "cr_ID (rt_Container r) = cs_ID c"
proof -
  from assms have w: "wants_route c" by (metis option.distinct(1) snapshot_route_None)
  from assms obtain zone intent tu nw d where
      z: "gm_get (gm_put_all zone_domain_key zones []) d = Some zone"
      and r: "r = BuildRoute zone c intent tu nw LocalNodeName" and run: "cs_Running c"
    by (auto simp: snapshot_route_def Let_def split: if_splits sum.splits option.splits)
  from z have "zone \<in> set zones"
    by (auto simp: gm_put_all_get split: option.splits dest!: find_Some_mem)
  with r run w that show ?thesis by (simp add: BuildRoute_def Let_def)
qed

lemma watch_pending_kept: "w_refreshCh w \<Longrightarrow> i \<noteq> TakeRefresh \<Longrightarrow> w_refreshCh (watch_step i w)"
  by (cases i; cases "w_phase w") (auto simp: send_err_def split: option.splits)

lemma watch_pending_kept_all:
  "w_refreshCh w \<Longrightarrow> TakeRefresh \<notin> set is \<Longrightarrow> w_refreshCh (fold watch_step is w)"
proof (induction "is" arbitrary: w)
  case (Cons i "is")
  from Cons.prems have "w_refreshCh (watch_step i w)" by (intro watch_pending_kept) auto
  with Cons.IH [OF this] Cons.prems(2) show ?case by simp
qed simp

lemma watch_event_pending:
  "w_phase w = Streaming \<Longrightarrow> shouldRefreshOnEvent m \<Longrightarrow> w_refreshCh (watch_step (Msg m) w)"
  by simp

section \<open>Properties\<close>

text \<open>
  Claim C37. Discovery accounts for every container that asks for a route: each running
  container with domux labels, and each with labels that cannot be parsed, gives exactly one
  route or one reported error, and no other container gives either.
\<close>

theorem discovery_accounts_for_containers:
  "length (fst (snapshot_routes os source zones cs)) + length (snd (snapshot_routes os source zones cs))
     = length (filter wants_route cs)
   \<and> (snd (DiscoverRoutesFromSnapshots os source zones cs) = None \<longleftrightarrow>
        length (fst (DiscoverRoutesFromSnapshots os source zones cs)) = length (filter wants_route cs))"
  using discover_accounts [of os source zones cs "fst (snapshot_routes os source zones cs)" "snd (snapshot_routes os source zones cs)"]
  by (auto simp: DiscoverRoutesFromSnapshots_def case_prod_unfold Let_def)

text \<open>
  Every discovered route belongs to a running container and to a configured zone:
  its host is the zone's domain or a name below it, built from the route's subdomain, and the
  routes are sorted by host.
\<close>

theorem discovered_routes_in_zones:
  assumes "r \<in> set (fst (DiscoverRoutesFromSnapshots os source zones cs))"
  shows "(\<exists>c \<in> set cs. cs_Running c \<and> wants_route c \<and> cr_ID (rt_Container r) = cs_ID c)
    \<and> (\<exists>z \<in> set zones. rt_Domain r = z_Domain z \<and> rt_Host r = Hostname z (rt_Subdomain r))
    \<and> rt_Source r = LocalNodeName
    \<and> sorted (map rt_Host (fst (DiscoverRoutesFromSnapshots os source zones cs)))"
proof -
  from assms obtain c where c: "c \<in> set cs" "snapshot_route os source zones c = Some (Inr r)"
    by (auto simp: DiscoverRoutesFromSnapshots_def case_prod_unfold snapshot_routes_set Let_def)
  from c(2) obtain z where "z \<in> set zones" "rt_Domain r = z_Domain z" "rt_Host r = Hostname z (rt_Subdomain r)"
    "cs_Running c" "wants_route c" "rt_Source r = LocalNodeName" "cr_ID (rt_Container r) = cs_ID c"
    by (rule snapshot_route_zone)
  moreover have "sorted (map rt_Host (fst (DiscoverRoutesFromSnapshots os source zones cs)))"
    by (simp add: DiscoverRoutesFromSnapshots_def case_prod_unfold Let_def)
  ultimately show ?thesis using c(1) by blast
qed

definition demo_container :: container_snapshot where
  "demo_container = \<lparr>cs_ID = ''c1'', cs_Name = ''web'', cs_Image = ''nginx'', cs_Runtime = ContainerRuntimeDocker,
     cs_Running = True, cs_State = ''running'', cs_HostNetwork = True, cs_Labels = [(''domux.port'', ''80'')],
     cs_Networks = [], cs_ExposedPorts = [], cs_PublishedPorts = []\<rparr>"

definition demo_zones :: "managed_zone list" where
  "demo_zones = [\<lparr>z_Name = ''home'', z_Domain = ''example.com'', z_Default = True, z_Wildcard = False,
     z_DDNS = \<lparr>dz_Enabled = False, dz_ProviderRefs = [], dz_IPv4 = False, dz_IPv6 = False, dz_Wildcard = False, dz_TTL = 0\<rparr>,
     z_Certificate = \<lparr>cp_Enabled = False, cp_Email = [], cp_DNSProvider = [], cp_RenewBefore = 0,
       cp_DeployTargets = [], cp_Bundles = []\<rparr>\<rparr>]"

definition demo_source :: runtime_source where
  "demo_source = \<lparr>rs_DisplayName = [], rs_Runtime = ContainerRuntimeDocker, rs_Endpoint = [], rs_Network = []\<rparr>"

lemma demo_labels:
  "ParseLabels [(''domux.port'', ''80'')] DefaultLabelPrefix =
     Inr \<lparr>in_Managed = True, in_Domain = [], in_Zone = [], in_Subdomain = [], in_Port = 80, in_Network = []\<rparr>"
  by (simp add: ParseLabels_def NormalizeLabelPrefix_def labelKey_def gm_str_def literal_simps HasSuffix_def
      Let_def Atoi_def is_digit_def digit_val_def suffix_def)

theorem discovered_routes_in_zones_witness:
  "\<exists>r \<in> set (fst (DiscoverRoutesFromSnapshots no_env demo_source demo_zones [demo_container])).
     rt_Host r = ''web.example.com'' \<and> rt_Source r = LocalNodeName"
proof -
  let ?d = "fst (DiscoverRoutesFromSnapshots no_env demo_source demo_zones [demo_container])"
  have "\<exists>r. ?d = [r] \<and> rt_Host r = ''web.example.com''"
    by (simp add: DiscoverRoutesFromSnapshots_def snapshot_route_def demo_container_def demo_labels demo_zones_def
        DefaultManagedZoneName_def DefaultManagedZone_def zone_domain_key_def ResolveTarget_def resolveTargetAddress_def
        resolvePort_def BuildRoute_def Hostname_def DefaultSubdomain_def TrimPrefix_def HasPrefix_def literal_simps
        sort_slice_def Let_def)
  then obtain r where r: "r \<in> set ?d" "rt_Host r = ''web.example.com''" by auto
  with discovered_routes_in_zones [OF r(1)] show ?thesis by blast
qed

text \<open>
  The address a container is reached at: the private port is the one asked for, or
  else the smallest positive exposed port. A container on the host network is reached on the
  loopback address at that port. Otherwise a published port wins, for podman and for containers
  without networks. Otherwise the host is the address of one of the container's networks, and
  it is the network asked for whenever the container has an address there.
\<close>

theorem target_address_choice:
  assumes "resolveTargetAddress os source c intent = Inr (host, port, network)"
  shows "\<exists>priv > 0.
      (if in_Port intent > 0 then priv = in_Port intent
       else priv \<in> set (cs_ExposedPorts c) \<and> (\<forall>q \<in> set (cs_ExposedPorts c). q > 0 \<longrightarrow> priv \<le> q))
      \<and> (if cs_HostNetwork c then host = ''127.0.0.1'' \<and> port = priv \<and> network = ''host''
         else if (\<exists>pub. map_of (cs_PublishedPorts c) priv = Some pub \<and> pub \<noteq> 0)
             \<and> (RuntimeOrDefault os source = ContainerRuntimePodman \<or> cs_Networks c = [])
         then map_of (cs_PublishedPorts c) priv = Some port \<and> network = ''published''
              \<and> host \<in> {''127.0.0.1'', ''host.containers.internal''}
         else port = priv \<and> host \<noteq> [] \<and> host = network_address c network
              \<and> (trimmed (in_Network intent) \<and> in_Network intent \<noteq> [] \<and> network_address c (in_Network intent) \<noteq> []
                 \<longrightarrow> network = in_Network intent))"
proof -
  from assms obtain priv where p: "resolvePort c intent = Inr priv"
    by (auto simp: resolveTargetAddress_def split: sum.splits)
  show ?thesis
  proof (intro exI [of _ priv] conjI)
    show "priv > 0" using p by (rule resolvePort_pos)
    show "if in_Port intent > 0 then priv = in_Port intent
       else priv \<in> set (cs_ExposedPorts c) \<and> (\<forall>q \<in> set (cs_ExposedPorts c). q > 0 \<longrightarrow> priv \<le> q)"
      using p by (rule resolvePort_choice)
  qed (use assms p in \<open>auto simp: resolveTargetAddress_def resolvePublishedTarget_def publishedTargetHost_def
         split: option.splits if_splits sum.splits dest: resolveHost_address resolveHost_wanted\<close>)
qed

theorem target_address_choice_witness:
  "resolveTargetAddress no_env demo_source
     (demo_container\<lparr>cs_HostNetwork := False, cs_Networks := [(''a'', ''10.0.0.1''), (''web'', ''10.0.0.9'')]\<rparr>)
     (zero_intent\<lparr>in_Network := ''web'', in_Port := 80\<rparr>) = Inr (''10.0.0.9'', 80, ''web'')"
proof -
  let ?c = "demo_container\<lparr>cs_HostNetwork := False, cs_Networks := [(''a'', ''10.0.0.1''), (''web'', ''10.0.0.9'')]\<rparr>"
    and ?i = "zero_intent\<lparr>in_Network := ''web'', in_Port := 80\<rparr>"
  have t: "trimmed (in_Network ?i)" "in_Network ?i \<noteq> []" "network_address ?c (in_Network ?i) = ''10.0.0.9''"
    by (simp_all add: zero_intent_def trimmed_def network_address_def gm_str_def literal_simps)
  have "\<exists>h n. resolveHost demo_source ?c ?i = Inr (h, n)"
    using t(3) networkCandidates_wanted [OF t(1,2), of demo_source ?c] by (auto simp: resolveHost_def network_address_def)
  moreover have "resolvePublishedTarget no_env demo_source ?c 80 = None" "resolvePort ?c ?i = Inr 80"
    by (simp_all add: resolvePublishedTarget_def demo_container_def resolvePort_def)
  moreover have "\<not> cs_HostNetwork ?c" by simp
  ultimately obtain h n where "resolveTargetAddress no_env demo_source ?c ?i = Inr (h, 80, n)"
    by (auto simp: resolveTargetAddress_def)
  with target_address_choice [OF this] t show ?thesis by (auto simp: zero_intent_def demo_container_def)
qed

text \<open>
  No change of a container is missed by the watcher: once a relevant event arrives
  on a live stream a refresh is pending, and it stays pending through every further event,
  stream error, retry and shutdown until the consumer takes it.
\<close>

theorem watch_never_loses_refresh:
  assumes "w_phase w = Streaming" and "shouldRefreshOnEvent m" and "TakeRefresh \<notin> set is"
  shows "w_refreshCh (fold watch_step is (watch_step (Msg m) w))"
  using watch_pending_kept_all [OF watch_event_pending [OF assms(1,2)] assms(3)] .

theorem watch_never_loses_refresh_witness:
  "w_refreshCh (fold watch_step [MsgClosed, RetryTimer, StreamErr (Some ErrCanceled), CtxDone]
     (watch_step (Msg \<lparr>dm_Type = ''container'', dm_Action = ''start''\<rparr>) watch_start))"
  using watch_never_loses_refresh [of watch_start "\<lparr>dm_Type = ''container'', dm_Action = ''start''\<rparr>"
      "[MsgClosed, RetryTimer, StreamErr (Some ErrCanceled), CtxDone]"]
  by (simp add: watch_start_def shouldRefreshOnEvent_def)

end
