(* ===== verification/Go_Files.thy ===== *)
theory Go_Files
  imports Domux_Prelude
begin

text \<open>
  The part of package \<open>os\<close> the program uses: a file system maps paths to contents of some
  type, and every call may fail as an \<open>io_faults\<close> record says. A failing write may leave any
  contents behind; a rename is atomic. \<open>write_replace\<close> is the idiom the program repeats:
  write to \<open>path + ".tmp"\<close>, then rename. Permission bits are not modelled.
\<close>

type_synonym 'd file_system = "string \<Rightarrow> 'd option"

datatype 'd write_fault = OpenFails go_error | WriteFails 'd go_error

record 'd io_faults =
  io_ReadFile :: "string option"
  io_MkdirAll :: "go_error option"
  io_WriteFile :: "'d write_fault option"
  io_Rename :: "go_error option"

definition no_faults :: "'d io_faults" where
  "no_faults = \<lparr>io_ReadFile = None, io_MkdirAll = None, io_WriteFile = None, io_Rename = None\<rparr>"

definition ReadFile :: "'d io_faults \<Rightarrow> 'd file_system \<Rightarrow> string \<Rightarrow> 'd result" where
  "ReadFile io fs path =
     (case io_ReadFile io of
        Some e \<Rightarrow> Inl (ErrIO e)
      | None \<Rightarrow> (case fs path of None \<Rightarrow> Inl ErrNotExist | Some d \<Rightarrow> Inr d))"

text \<open>A failing write may leave any contents in the file.\<close>

definition WriteFile :: "'d io_faults \<Rightarrow> string \<Rightarrow> 'd \<Rightarrow> 'd file_system \<Rightarrow> go_error option \<times> 'd file_system" where
  "WriteFile io path data fs =
     (case io_WriteFile io of
        Some (OpenFails e) \<Rightarrow> (Some e, fs)
      | Some (WriteFails junk e) \<Rightarrow> (Some e, fs(path \<mapsto> junk))
      | None \<Rightarrow> (None, fs(path \<mapsto> data)))"

definition Rename :: "'d io_faults \<Rightarrow> string \<Rightarrow> string \<Rightarrow> 'd file_system \<Rightarrow> go_error option \<times> 'd file_system" where
  "Rename io src dst fs =
     (case io_Rename io of
        Some e \<Rightarrow> (Some e, fs)
      | None \<Rightarrow> (case fs src of
                  None \<Rightarrow> (Some ErrNotExist, fs)
                | Some d \<Rightarrow> (None, (fs(src := None))(dst \<mapsto> d))))"

definition write_replace :: "'d io_faults \<Rightarrow> string \<Rightarrow> 'd \<Rightarrow> 'd file_system \<Rightarrow> go_error option \<times> 'd file_system" where
  "write_replace io path data fs =
     (case WriteFile io (path @ ''.tmp'') data fs of
        (Some e, fs1) \<Rightarrow> (Some e, fs1)
      | (None, fs1) \<Rightarrow> Rename io (path @ ''.tmp'') path fs1)"

section \<open>Facts\<close>

lemma write_replace_frame:
  "write_replace io path data fs = (e, fs') \<Longrightarrow> p \<noteq> path \<Longrightarrow> p \<noteq> path @ ''.tmp'' \<Longrightarrow> fs' p = fs p"
  by (auto simp: write_replace_def WriteFile_def Rename_def
      split: option.splits write_fault.splits if_splits)

lemma write_replace_error: "write_replace io path data fs = (Some e, fs') \<Longrightarrow> fs' path = fs path"
  by (auto simp: write_replace_def WriteFile_def Rename_def
      split: option.splits write_fault.splits if_splits)

lemma write_replace_ok: "write_replace io path data fs = (None, fs') \<Longrightarrow> fs' path = Some data"
  by (auto simp: write_replace_def WriteFile_def Rename_def
      split: option.splits write_fault.splits if_splits)

lemma write_replace_cases:
  "write_replace io path data fs = (e, fs') \<Longrightarrow> fs' path = (if e = None then Some data else fs path)"
  by (cases e) (auto simp: write_replace_ok write_replace_error)

lemma write_replace_no_faults:
  "write_replace no_faults path data fs = (None, (fs(path @ ''.tmp'' := None))(path \<mapsto> data))"
  by (simp add: write_replace_def no_faults_def WriteFile_def Rename_def)

end
