(* ===== verification/Domux_Agent.thy ===== *)
theory Domux_Agent
  imports Domux_Discovery Domux_Providers Go_Files
begin

text \<open>
  The agent and the server's view of it: \<open>internal/agent/server\<close> (certificate deployment,
  the HTTP proxy endpoint), \<open>internal/agent/client\<close>, \<open>internal/agent/pool\<close> and
  \<open>internal/discovery/remote\<close>. HTTP exchanges and JSON decoding are the record
  \<open>agent_net\<close>; a shell command is a function from the command line to its output and error.
\<close>

abbreviation APIBasePath :: string where "APIBasePath \<equiv> ''/domux/agent''"
abbreviation EndpointInfo :: string where "EndpointInfo \<equiv> ''/info''"
abbreviation EndpointCertDeploy :: string where "EndpointCertDeploy \<equiv> ''/certificates/deploy''"
abbreviation EndpointProxyHTTP :: string where "EndpointProxyHTTP \<equiv> ''/proxy/http''"
abbreviation FakeRuntimeHostPrefix :: string where "FakeRuntimeHostPrefix \<equiv> ''agent://''"
abbreviation ProxyTargetQueryParam :: string where "ProxyTargetQueryParam \<equiv> ''__jd_target''"
abbreviation NodeStatusOnline :: string where "NodeStatusOnline \<equiv> ''online''"
abbreviation NodeStatusOffline :: string where "NodeStatusOffline \<equiv> ''offline''"
abbreviation NodeStatusPending :: string where "NodeStatusPending \<equiv> ''pending''"

record info_response =
  ir_Name :: string
  ir_Runtime :: container_runtime
  ir_SocketPath :: string
  ir_Version :: string
  ir_Resources :: system_resources

record deploy_request =
  rq_BundleName :: string
  rq_CertPath :: string
  rq_KeyPath :: string
  rq_ReloadCommand :: string
  rq_CertPEM :: string
  rq_KeyPEM :: string

record deploy_result =
  res_Written :: bool
  res_Reloaded :: bool
  res_Message :: string

definition zero_deploy_result :: deploy_result where
  "zero_deploy_result = \<lparr>res_Written = False, res_Reloaded = False, res_Message = []\<rparr>"

section \<open>Deploying files on the agent\<close>

text \<open>\<open>sh -c\<close>: the combined output and, if the command failed, its error and the error's text.\<close>

type_synonym shell = "string \<Rightarrow> string \<times> (go_error \<times> string) option"

text \<open>
  Writing a certificate and its key: the directories first, then the certificate, then the
  key. \<open>io\<close> holds the faults of the calls for the certificate and for the key.
\<close>

definition write_pair :: "string io_faults \<times> string io_faults \<Rightarrow> string \<Rightarrow> string \<Rightarrow> string \<Rightarrow> string \<Rightarrow>
    string file_system \<Rightarrow> go_error option \<times> string file_system" where
  "write_pair io certPath keyPath certPEM keyPEM fs =
     (case (io_MkdirAll (fst io), io_MkdirAll (snd io)) of
        (Some e, _) \<Rightarrow> (Some e, fs)
      | (None, Some e) \<Rightarrow> (Some e, fs)
      | (None, None) \<Rightarrow>
          (case write_replace (fst io) certPath certPEM fs of
             (Some e, fs1) \<Rightarrow> (Some e, fs1)
           | (None, fs1) \<Rightarrow> write_replace (snd io) keyPath keyPEM fs1))"

definition FileDeployer_Deploy :: "string io_faults \<times> string io_faults \<Rightarrow> shell \<Rightarrow> deploy_request \<Rightarrow>
    string file_system \<Rightarrow> (deploy_result \<times> go_error option) \<times> string file_system" where
  "FileDeployer_Deploy io sh req fs =
     (case write_pair io (rq_CertPath req) (rq_KeyPath req) (rq_CertPEM req) (rq_KeyPEM req) fs of
        (Some e, fs') \<Rightarrow> ((zero_deploy_result, Some e), fs')
      | (None, fs') \<Rightarrow>
          (let result = \<lparr>res_Written = True, res_Reloaded = False, res_Message = ''certificate files written''\<rparr>
           in if rq_ReloadCommand req = [] then ((result, None), fs')
              else
                (let (out, failed) = sh (rq_ReloadCommand req); msg = TrimSpace out
                 in case failed of
                      Some (e, text) \<Rightarrow>
                        ((\<lparr>res_Written = True, res_Reloaded = False,
                           res_Message = (if msg = [] then text else msg)\<rparr>,
                          Some (Wrapf ''reload command failed: %w'' [] e)), fs')
                    | None \<Rightarrow>
                        ((result\<lparr>res_Reloaded := True,
                                 res_Message := (if msg = [] then res_Message result else msg)\<rparr>, None), fs'))))"

text \<open>
  \<open>handleDeploy\<close>: the status code and the result. The request body is given decoded;
  \<open>errors.Is(err, context.Canceled)\<close> looks through the wrapping.
\<close>

datatype http_reply =
    HttpError nat go_error
  | HttpOK deploy_result

definition handleDeploy :: "(string io_faults \<times> string io_faults) option \<Rightarrow> shell \<Rightarrow> deploy_request result \<Rightarrow>
    string file_system \<Rightarrow> http_reply \<times> string file_system" where
  "handleDeploy deployer sh body fs =
     (case deployer of
        None \<Rightarrow> (HttpError 501 (Errorf ''certificate deployer is not configured'' []), fs)
      | Some io \<Rightarrow>
          (case body of
             Inl e \<Rightarrow> (HttpError 400 e, fs)
           | Inr req \<Rightarrow>
               if rq_CertPath req = [] \<or> rq_KeyPath req = [] then
                 (HttpError 400 (Errorf ''cert_path and key_path are required'' []), fs)
               else if rq_CertPEM req = [] \<or> rq_KeyPEM req = [] then
                 (HttpError 400 (Errorf ''cert_pem and key_pem are required'' []), fs)
               else
                 (case FileDeployer_Deploy io sh req fs of
                    ((_, Some e), fs') \<Rightarrow>
                      (HttpError (if errors_Is e ErrCanceled then 408 else 500) e, fs')
                  | ((result, None), fs') \<Rightarrow> (HttpOK result, fs'))))"

definition IsFakeRuntimeHost :: "string \<Rightarrow> bool" where
  "IsFakeRuntimeHost host \<longleftrightarrow>
     length host > length FakeRuntimeHostPrefix
     \<and> take (length FakeRuntimeHostPrefix) host = FakeRuntimeHostPrefix"

section \<open>The proxy endpoint\<close>

text \<open>The URL of a request as the handlers see and change it.\<close>

definition proxyTargetURL :: "go_url \<Rightarrow> (go_url \<times> go_url) result" where
  "proxyTargetURL rURL =
     (let query = url_Query (u_RawQuery rURL);
          rawTarget = TrimSpace (values_Get query ProxyTargetQueryParam)
      in if rawTarget = [] then Inl (Errorf ''%s is required'' [ProxyTargetQueryParam])
         else
           (case url_Parse rawTarget of
              Inl e \<Rightarrow> Inl e
            | Inr target \<Rightarrow>
                if u_Scheme target = [] \<or> u_Host target = [] then
                  Inl (Errorf ''invalid proxy target %q'' [rawTarget])
                else Inr (target, rURL\<lparr>u_RawQuery := values_Encode (values_Del ProxyTargetQueryParam query)\<rparr>)))"

definition stripProxyPath :: "go_url \<Rightarrow> string \<Rightarrow> go_url" where
  "stripProxyPath rURL pre =
     (let path0 = TrimPrefix (u_Path rURL) pre;
          path = (if path0 = [] then ''/'' else path0);
          raw0 = (if HasPrefix (u_RawPath rURL) pre then TrimPrefix (u_RawPath rURL) pre else []);
          raw = (if u_RawPath rURL = [] then []
                 else if raw0 = [] \<and> path = ''/'' then ''/'' else raw0)
      in rURL\<lparr>u_Path := path, u_RawPath := raw\<rparr>)"

text \<open>What \<open>handleProxyHTTP\<close> hands to the reverse proxy: the target's base and the request URL.\<close>

definition handleProxyHTTP :: "go_url \<Rightarrow> (go_url \<times> go_url) result" where
  "handleProxyHTTP rURL =
     (case proxyTargetURL rURL of
        Inl e \<Rightarrow> Inl e
      | Inr (target, rURL') \<Rightarrow>
          Inr (target\<lparr>u_Path := [], u_RawPath := [], u_RawQuery := []\<rparr>,
               stripProxyPath rURL' (APIBasePath @ EndpointProxyHTTP)))"

section \<open>The client of an agent\<close>

record agent_client =
  ac_Node :: agent_node
  ac_rootURL :: string
  ac_baseURL :: string

definition normalizeRootURL :: "string \<Rightarrow> string" where
  "normalizeRootURL addr0 =
     (let addr = TrimRight addr0 ''/''
      in if HasPrefix addr ''http://'' \<or> HasPrefix addr ''https://'' then addr else ''http://'' @ addr)"

definition NewClient :: "agent_node \<Rightarrow> agent_client" where
  "NewClient node =
     (let rootURL = normalizeRootURL (ag_Addr node)
      in \<lparr>ac_Node = node, ac_rootURL = rootURL, ac_baseURL = rootURL @ APIBasePath\<rparr>)"

definition FakeRuntimeHost :: "agent_client \<Rightarrow> string" where
  "FakeRuntimeHost c = FakeRuntimeHostPrefix @ ag_Addr (ac_Node c)"

definition HTTPProxyURL :: "agent_client \<Rightarrow> string \<Rightarrow> string result" where
  "HTTPProxyURL c targetURL =
     (case url_Parse targetURL of
        Inl e \<Rightarrow> Inl e
      | Inr parsedTarget \<Rightarrow>
          if u_Scheme parsedTarget = [] \<or> u_Host parsedTarget = [] then
            Inl (Errorf ''invalid target url %q'' [targetURL])
          else
            (case url_Parse (ac_baseURL c @ EndpointProxyHTTP) of
               Inl e \<Rightarrow> Inl e
             | Inr proxyURL \<Rightarrow>
                 (let query = values_Set ProxyTargetQueryParam targetURL (url_Query (u_RawQuery proxyURL))
                  in Inr (url_String (proxyURL\<lparr>u_RawQuery := values_Encode query\<rparr>)))))"

record agent_net =
  net_Get :: "string \<Rightarrow> (nat \<times> string) result"
  net_Post :: "string \<Rightarrow> deploy_request \<Rightarrow> (nat \<times> string) result"
  net_DecodeInfo :: "string \<Rightarrow> info_response result"
  net_DecodeDeploy :: "string \<Rightarrow> deploy_result result"

definition FetchInfo :: "agent_net \<Rightarrow> agent_client \<Rightarrow> info_response result" where
  "FetchInfo net c =
     (case net_Get net (ac_baseURL c @ EndpointInfo) of
        Inl e \<Rightarrow> Inl e
      | Inr (status, body) \<Rightarrow>
          if status \<noteq> 200 then Inl (Errorf ''agent info request failed: %s'' [TrimSpace body])
          else net_DecodeInfo net body)"

definition DeployCertificate :: "agent_net \<Rightarrow> agent_client \<Rightarrow> deploy_request \<Rightarrow> deploy_result result" where
  "DeployCertificate net c req =
     (case net_Post net (ac_baseURL c @ EndpointCertDeploy) req of
        Inl e \<Rightarrow> Inl e
      | Inr (status, body) \<Rightarrow>
          if status \<noteq> 200 then Inl (Errorf ''agent certificate deploy failed: %s'' [TrimSpace body])
          else net_DecodeDeploy net body)"

section \<open>The pool of agents\<close>

record pool_entry =
  en_client :: agent_client
  en_node :: agent_node

type_synonym pool = "pool_entry gomap"

definition NewPool :: pool where
  "NewPool = []"

definition pool_Add :: "agent_node \<Rightarrow> pool \<Rightarrow> agent_client \<times> pool" where
  "pool_Add node p =
     (case gm_get p (ag_Name node) of
        Some existing \<Rightarrow> (en_client existing, gm_put (ag_Name node) (existing\<lparr>en_node := node\<rparr>) p)
      | None \<Rightarrow>
          (let client = NewClient node
           in (client, gm_put (ag_Name node) \<lparr>en_client = client, en_node = node\<rparr> p)))"

definition pool_GetByName :: "pool \<Rightarrow> string \<Rightarrow> agent_client option" where
  "pool_GetByName p name = map_option en_client (gm_get p name)"

definition pool_GetByAddr :: "pool \<Rightarrow> string \<Rightarrow> agent_client option" where
  "pool_GetByAddr p addr = find (\<lambda>c. ag_Addr (ac_Node c) = addr) (map en_client (gm_values p))"

definition pool_Remove :: "string \<Rightarrow> pool \<Rightarrow> pool" where
  "pool_Remove name p = gm_del name p"

definition pool_List :: "pool \<Rightarrow> agent_client list" where
  "pool_List p = map (en_client \<circ> snd) (sort_slice fst p)"

definition pool_ListNodes :: "pool \<Rightarrow> agent_node list" where
  "pool_ListNodes p = map (en_node \<circ> snd) (sort_slice fst p)"

definition setNode :: "string \<Rightarrow> agent_node \<Rightarrow> pool \<Rightarrow> pool" where
  "setNode name node p =
     (case gm_get p name of None \<Rightarrow> p | Some en \<Rightarrow> gm_put name (en\<lparr>en_node := node\<rparr>) p)"

definition pool_Require :: "pool \<Rightarrow> string \<Rightarrow> agent_client result" where
  "pool_Require p name =
     (case pool_GetByName p name of
        None \<Rightarrow> Inl (Errorf ''agent %q not found'' [name]) | Some c \<Rightarrow> Inr c)"

text \<open>
  The node after a check at time \<open>now\<close>; \<open>err_text\<close> is the text of an error
  (\<open>err.Error()\<close>).
\<close>

definition checked_node :: "(go_error \<Rightarrow> string) \<Rightarrow> time \<Rightarrow> info_response result \<Rightarrow> agent_node \<Rightarrow> agent_node" where
  "checked_node err_text now r node =
     (let updated = node\<lparr>ag_LastCheckedAt := now\<rparr>
      in case r of
           Inl e \<Rightarrow> updated\<lparr>ag_Status := NodeStatusOffline, ag_LastError := err_text e\<rparr>
         | Inr info \<Rightarrow>
             updated\<lparr>ag_Name := ir_Name info, ag_Runtime := ir_Runtime info,
               ag_SocketPath := ir_SocketPath info, ag_Version := ir_Version info,
               ag_Resources := ir_Resources info, ag_Status := NodeStatusOnline, ag_LastError := []\<rparr>)"

definition pool_Refresh :: "(go_error \<Rightarrow> string) \<Rightarrow> agent_net \<Rightarrow> time \<Rightarrow> string \<Rightarrow> pool \<Rightarrow>
    (go_error option \<times> agent_node option) \<times> pool" where
  "pool_Refresh err_text net now name p =
     (case gm_get p name of
        None \<Rightarrow> ((Some (Errorf ''agent %q not found'' [name]), None), p)
      | Some en \<Rightarrow>
          (let r = FetchInfo net (en_client en);
               updated = checked_node err_text now r (en_node en)
           in ((result_error r, Some updated), setNode name updated p)))"

text \<open>\<open>RefreshAll\<close>: every agent in the order of the names, the errors kept in the nodes.\<close>

fun refresh_names :: "(go_error \<Rightarrow> string) \<Rightarrow> agent_net \<Rightarrow> time \<Rightarrow> string list \<Rightarrow> pool \<Rightarrow> agent_node option list \<times> pool" where
  "refresh_names err_text net now [] p = ([], p)"
| "refresh_names err_text net now (n # ns) p =
     (let ((_, node), p1) = pool_Refresh err_text net now n p;
          (nodes, p2) = refresh_names err_text net now ns p1
      in (node # nodes, p2))"

definition pool_RefreshAll :: "(go_error \<Rightarrow> string) \<Rightarrow> agent_net \<Rightarrow> time \<Rightarrow> pool \<Rightarrow> agent_node option list \<times> pool" where
  "pool_RefreshAll err_text net now p = refresh_names err_text net now (sort (map fst p)) p"

section \<open>Discovery on a remote node\<close>

record remote_discovery =
  rd_Node :: agent_node
  rd_Client :: agent_client
  rd_local :: local_discovery

definition NewRemote :: "os_env \<Rightarrow> docker_api \<Rightarrow> agent_node \<Rightarrow> agent_client \<Rightarrow> remote_discovery" where
  "NewRemote os api node client =
     \<lparr>rd_Node = node, rd_Client = client,
      rd_local = NewWithClient os \<lparr>rs_DisplayName = [], rs_Runtime = ag_Runtime node,
                   rs_Endpoint = ac_rootURL client, rs_Network = []\<rparr> api\<rparr>"

definition remote_route :: "agent_node \<Rightarrow> string \<Rightarrow> discovered_route \<Rightarrow> discovered_route" where
  "remote_route node proxyURL r =
     r\<lparr>rt_ID := ag_Name node @ '':'' @ rt_Host r, rt_Origin := RouteOriginRemoteAgent,
       rt_Runtime := ag_Runtime node, rt_Source := ag_Name node, rt_ExitNode := ag_Name node,
       rt_ProxyURL := proxyURL,
       rt_Container := (rt_Container r)\<lparr>cr_Source := ag_Name node, cr_Runtime := ag_Runtime node\<rparr>\<rparr>"

fun remote_routes :: "remote_discovery \<Rightarrow> discovered_route list \<Rightarrow> discovered_route list \<times> go_error list" where
  "remote_routes d [] = ([], [])"
| "remote_routes d (r # rs) =
     (let (rs', errs) = remote_routes d rs
      in case HTTPProxyURL (rd_Client d) (rt_TargetURL r) of
           Inl e \<Rightarrow> (r # rs', Wrapf ''route %s: %w'' [rt_Host r] e # errs)
         | Inr u \<Rightarrow> (remote_route (rd_Node d) u r # rs', errs))"

definition RemoteDiscoverRoutes :: "os_env \<Rightarrow> nat_lib \<Rightarrow> remote_discovery \<Rightarrow> managed_zone list \<Rightarrow>
    discovered_route list \<times> go_error option" where
  "RemoteDiscoverRoutes os lib d zones =
     (let (routes, err) = DiscoverRoutes os lib (rd_local d) zones;
          (routes', errs) = remote_routes d routes
      in (routes', errors_Join (opt_to_list err @ errs)))"

definition RemoteBuildRoute :: "managed_zone \<Rightarrow> container_snapshot \<Rightarrow> route_intent \<Rightarrow> string \<Rightarrow> agent_node \<Rightarrow>
    discovered_route" where
  "RemoteBuildRoute zone snapshot intent targetURL node =
     (let route = BuildRoute zone snapshot intent targetURL (in_Network intent) (ag_Name node)
      in route\<lparr>rt_ID := ag_Name node @ '':'' @ rt_Host route, rt_Origin := RouteOriginRemoteAgent,
          rt_Runtime := ag_Runtime node, rt_Source := ag_Name node, rt_ExitNode := ag_Name node,
          rt_Container := (rt_Container route)\<lparr>cr_Source := ag_Name node, cr_Runtime := ag_Runtime node\<rparr>\<rparr>)"

section \<open>Facts about deployment\<close>

text \<open>The four paths that writing a pair touches do not collide.\<close>

definition pair_paths_ok :: "string \<Rightarrow> string \<Rightarrow> bool" where
  "pair_paths_ok c k \<longleftrightarrow> c \<noteq> k \<and> k \<noteq> c @ ''.tmp'' \<and> c \<noteq> k @ ''.tmp''"

lemma write_pair_result:
  assumes "write_pair io c k cert key fs = (e, fs')" and "pair_paths_ok c k"
  shows "(e = None \<longrightarrow> fs' c = Some cert \<and> fs' k = Some key)
    \<and> (e \<noteq> None \<longrightarrow> (fs' c = fs c \<or> fs' c = Some cert) \<and> fs' k = fs k)"
proof (cases "io_MkdirAll (fst io) = None \<and> io_MkdirAll (snd io) = None")
  case True
  obtain e1 fs1 where w1: "write_replace (fst io) c cert fs = (e1, fs1)" by fastforce
  note c1 = write_replace_cases [OF w1]
  have k1: "fs1 k = fs k" using write_replace_frame [OF w1] assms(2) by (metis pair_paths_ok_def)
  show ?thesis
  proof (cases e1)
    case None
    with True w1 assms(1) have w2: "write_replace (snd io) k key fs1 = (e, fs')"
      by (simp add: write_pair_def)
    have "fs' c = fs1 c" using write_replace_frame [OF w2] assms(2) by (metis pair_paths_ok_def)
    with write_replace_cases [OF w2] c1 k1 None show ?thesis by auto
  next
    case (Some e0)
    with True w1 assms(1) c1 k1 show ?thesis by (auto simp: write_pair_def)
  qed
next
  case False
  with assms(1) show ?thesis by (auto simp: write_pair_def split: option.splits)
qed

lemma write_pair_frame:
  assumes "write_pair io c k cert key fs = (e, fs')"
    and "p \<notin> {c, k, c @ ''.tmp'', k @ ''.tmp''}"
  shows "fs' p = fs p"
proof -
  have "fs1 p = fs p" if "write_replace (fst io) c cert fs = (e1, fs1)" for e1 fs1
    using write_replace_frame [OF that] assms(2) by simp
  moreover have "fs2 p = fs1 p" if "write_replace (snd io) k key fs1 = (e2, fs2)" for e2 fs1 fs2
    using write_replace_frame [OF that] assms(2) by simp
  ultimately show ?thesis
    using assms(1) by (auto simp: write_pair_def split: option.splits prod.splits) metis+
qed

lemma FileDeployer_Deploy_files:
  "FileDeployer_Deploy io sh req fs = ((res, e), fs') \<Longrightarrow>
     \<exists>e'. write_pair io (rq_CertPath req) (rq_KeyPath req) (rq_CertPEM req) (rq_KeyPEM req) fs = (e', fs')
       \<and> (e' = None \<longleftrightarrow> res_Written res) \<and> (e = None \<longrightarrow> e' = None)"
  by (auto simp: FileDeployer_Deploy_def zero_deploy_result_def Let_def
      split: prod.splits option.splits if_splits)

section \<open>Facts about the proxy endpoint\<close>

lemma map_of_filter_key:
  "map_of xs k = (case filter (\<lambda>kv. fst kv = k) xs of [] \<Rightarrow> None | kv # _ \<Rightarrow> Some (snd kv))"
  by (induction xs) auto

lemma values_Get_Set: "values_Get (sort_slice fst (values_Set k v q)) k = v"
proof -
  have "filter (\<lambda>kv. fst kv = k) (values_Del k q) = []" by (auto simp: values_Del_def filter_empty_conv)
  then have "filter (\<lambda>kv. fst kv = k) (sort_slice fst (values_Set k v q)) = [(k, v)]"
    by (simp add: sort_slice_def filter_sort values_Set_def)
  then show ?thesis by (simp add: values_Get_def map_of_filter_key)
qed

lemma values_Encode_Del_Set:
  "values_Encode (values_Del k (sort_slice fst (values_Set k v q))) = values_Encode (values_Del k q)"
proof -
  have "values_Del k (sort_slice fst (values_Set k v q)) = sort_slice fst (values_Del k (values_Set k v q))"
    by (simp add: values_Del_def sort_slice_def filter_sort)
  also have "values_Del k (values_Set k v q) = values_Del k q"
    by (simp add: values_Del_def values_Set_def)
  finally show ?thesis by (simp add: values_Encode_def sort_slice_def sort_key_id_if_sorted)
qed

lemma proxyTargetURL_Set:
  assumes "u_RawQuery rURL = values_Encode (values_Set ProxyTargetQueryParam t q)" and "trimmed t" and "t \<noteq> []"
    and "url_Parse t = Inr target" and "u_Scheme target \<noteq> []" and "u_Host target \<noteq> []"
  shows "proxyTargetURL rURL = Inr (target, rURL\<lparr>u_RawQuery := values_Encode (values_Del ProxyTargetQueryParam q)\<rparr>)"
  using assms
  by (simp add: proxyTargetURL_def url_Query_Encode values_Get_Set values_Encode_Del_Set trimmed_def Let_def)

section \<open>Facts about the pool\<close>

definition pool_ok :: "pool \<Rightarrow> bool" where
  "pool_ok p \<longleftrightarrow> gm_keyed (\<lambda>en. ag_Name (ac_Node (en_client en))) p"

lemma NewClient_Node [simp]: "ac_Node (NewClient n) = n"
  by (simp add: NewClient_def Let_def)

lemma pool_ok_New [simp]: "pool_ok NewPool"
  by (simp add: pool_ok_def NewPool_def)

lemma pool_ok_Add: "pool_ok p \<Longrightarrow> pool_ok (snd (pool_Add n p))"
  by (auto simp: pool_ok_def pool_Add_def Let_def intro!: gm_keyed_put dest: gm_keyed_get split: option.splits)

lemma pool_ok_Remove: "pool_ok p \<Longrightarrow> pool_ok (pool_Remove n p)"
  by (simp add: pool_ok_def pool_Remove_def gm_keyed_del)

lemma pool_ok_setNode: "pool_ok p \<Longrightarrow> pool_ok (setNode n node p)"
  by (auto simp: pool_ok_def setNode_def intro!: gm_keyed_put dest: gm_keyed_get split: option.splits)

interpretation agents_pool: del_table "\<lambda>c. ag_Name (ac_Node c)" pool_GetByName pool_List pool_ok pool_Remove
proof unfold_locales
  fix p n k and c :: agent_client
  assume p: "pool_ok p"
  then have keyed: "gm_keyed (\<lambda>en. ag_Name (ac_Node (en_client en))) p" by (simp add: pool_ok_def)
  have fsts: "map (\<lambda>c. ag_Name (ac_Node c)) (pool_List p) = map fst (sort_slice fst p)"
    using keyed by (auto simp: pool_List_def gm_keyed_def list_all_iff)
  show "pool_GetByName p k = Some c \<Longrightarrow> ag_Name (ac_Node c) = k"
    using keyed by (auto simp: pool_GetByName_def dest: gm_keyed_get)
  show "distinct (map (\<lambda>c. ag_Name (ac_Node c)) (pool_List p))"
    using keyed unfolding fsts by (simp add: gm_keyed_def gm_ok_def)
  have "c \<in> set (pool_List p) \<longleftrightarrow> (\<exists>k en. gm_get p k = Some en \<and> en_client en = c)"
    using keyed by (force simp: pool_List_def gm_get_Some_iff)
  then show "c \<in> set (pool_List p) \<longleftrightarrow> pool_GetByName p (ag_Name (ac_Node c)) = Some c"
    using gm_keyed_get [OF keyed] by (auto simp: pool_GetByName_def)
  show "pool_GetByName (pool_Remove n p) k = (if k = n then None else pool_GetByName p k)"
    by (simp add: pool_GetByName_def pool_Remove_def)
  show "pool_ok (pool_Remove n p)" using p by (rule pool_ok_Remove)
qed

lemma setNode_get:
  "gm_get (setNode n node p) k = (if k = n then map_option (\<lambda>en. en\<lparr>en_node := node\<rparr>) (gm_get p n) else gm_get p k)"
  by (auto simp: setNode_def split: option.splits)

definition refreshed :: "(go_error \<Rightarrow> string) \<Rightarrow> agent_net \<Rightarrow> time \<Rightarrow> pool_entry \<Rightarrow> pool_entry" where
  "refreshed err_text net now en =
     en\<lparr>en_node := checked_node err_text now (FetchInfo net (en_client en)) (en_node en)\<rparr>"

lemma pool_Refresh_get:
  "gm_get (snd (pool_Refresh err_text net now n p)) k =
     (if k = n then map_option (refreshed err_text net now) (gm_get p n) else gm_get p k)"
  by (auto simp: pool_Refresh_def setNode_get refreshed_def Let_def split: option.splits)

lemma refresh_names_get:
  "distinct ns \<Longrightarrow> gm_get (snd (refresh_names err_text net now ns p)) k =
     (if k \<in> set ns then map_option (refreshed err_text net now) (gm_get p k) else gm_get p k)"
proof (induction ns arbitrary: p)
  case (Cons n ns)
  then show ?case
    by (auto simp: case_prod_unfold Let_def pool_Refresh_get option.map_comp)
qed simp

lemma refresh_names_nodes:
  "distinct ns \<Longrightarrow> fst (refresh_names err_text net now ns p) =
     map (\<lambda>n. map_option (en_node \<circ> refreshed err_text net now) (gm_get p n)) ns"
proof (induction ns arbitrary: p)
  case (Cons n ns)
  have "snd (fst (pool_Refresh err_text net now n p)) = map_option (en_node \<circ> refreshed err_text net now) (gm_get p n)"
    by (auto simp: pool_Refresh_def refreshed_def Let_def split: option.splits)
  moreover have "gm_get (snd (pool_Refresh err_text net now n p)) k = gm_get p k" if "k \<in> set ns" for k
    using that Cons.prems by (auto simp: pool_Refresh_get)
  ultimately show ?case using Cons by (simp add: case_prod_unfold Let_def comp_def)
qed simp

lemma pool_RefreshAll_get:
  assumes "gm_ok p"
  shows "gm_get (snd (pool_RefreshAll err_text net now p)) k = map_option (refreshed err_text net now) (gm_get p k)"
proof -
  have "distinct (sort (map fst p))" using assms by (simp add: gm_ok_def)
  from refresh_names_get [OF this] show ?thesis
    by (auto simp: pool_RefreshAll_def) (metis map_of_eq_None_iff option.simps(8))
qed

lemma remote_routes_fst:
  "fst (remote_routes d rs) =
     map (\<lambda>r. case HTTPProxyURL (rd_Client d) (rt_TargetURL r) of
                Inl _ \<Rightarrow> r | Inr u \<Rightarrow> remote_route (rd_Node d) u r) rs"
  by (induction rs) (auto simp: case_prod_unfold Let_def split: sum.splits)

lemma remote_routes_snd:
  "snd (remote_routes d rs) = [] \<longleftrightarrow> (\<forall>r \<in> set rs. \<exists>u. HTTPProxyURL (rd_Client d) (rt_TargetURL r) = Inr u)"
  by (induction rs) (auto simp: case_prod_unfold Let_def split: sum.splits)

section \<open>Properties\<close>

definition demo_node :: agent_node where
  "demo_node = \<lparr>ag_Name = ''edge'', ag_DisplayName = [], ag_Addr = ''10.0.0.2:9000'', ag_Runtime = ContainerRuntimeDocker,
     ag_SocketPath = [], ag_Version = [], ag_Status = [], ag_LastError = [], ag_LastCheckedAt = 0,
     ag_Resources = \<lparr>sr_CPUPercent = 0, sr_MemoryPercent = 0, sr_DiskPercent = 0, sr_CheckedAt = 0\<rparr>\<rparr>"


lemma demo_target_url: "url_Parse ''http://10.0.0.5'' = Inr (empty_url\<lparr>u_Scheme := ''http'', u_Host := ''10.0.0.5''\<rparr>)"
  by (simp add: url_simps)

lemma demo_base_url:
  "url_Parse ''http://10.0.0.2:9000/domux/agent/proxy/http'' =
     Inr (empty_url\<lparr>u_Scheme := ''http'', u_Host := ''10.0.0.2:9000'', u_Path := ''/domux/agent/proxy/http''\<rparr>)"
  by (simp add: url_simps)




text \<open>
  Refreshing the pool checks every agent exactly once and keeps the pool otherwise
  intact: each entry keeps its client, its node shows the result of its own check, online with
  the reported data or offline with the error, and the nodes returned are those of the pool in
  the order of the names.
\<close>

theorem pool_refresh_all:
  assumes "gm_ok p"
  shows "gm_get (snd (pool_RefreshAll et net now p)) k = map_option (refreshed et net now) (gm_get p k)
    \<and> fst (pool_RefreshAll et net now p) =
        map (\<lambda>n. map_option (en_node \<circ> refreshed et net now) (gm_get p n)) (sort (map fst p))"
  using pool_RefreshAll_get [OF assms] refresh_names_nodes [of "sort (map fst p)" et net now p] assms
  by (simp add: pool_RefreshAll_def gm_ok_def)

definition demo_net :: agent_net where
  "demo_net = \<lparr>net_Get = (\<lambda>_. Inl (ErrIO ''refused'')), net_Post = (\<lambda>_ _. Inl (ErrIO ''refused'')),
     net_DecodeInfo = (\<lambda>_. Inl (ErrIO ''json'')), net_DecodeDeploy = (\<lambda>_. Inl (ErrIO ''json''))\<rparr>"

theorem pool_refresh_all_witness:
  "\<exists>en. gm_get (snd (pool_RefreshAll (\<lambda>_. ''refused'') demo_net 5 (snd (pool_Add demo_node NewPool)))) ''edge'' = Some en
     \<and> ag_Status (en_node en) = NodeStatusOffline \<and> ag_LastError (en_node en) = ''refused''"
proof -
  let ?p = "snd (pool_Add demo_node NewPool)"
  have "gm_ok ?p" by (simp add: pool_Add_def NewPool_def Let_def gm_ok_def)
  moreover have "\<exists>en. gm_get ?p ''edge'' = Some en" by (simp add: pool_Add_def NewPool_def Let_def demo_node_def)
  ultimately show ?thesis
    using pool_refresh_all [of ?p "\<lambda>_. ''refused''" demo_net 5 "''edge''"]
    by (auto simp: refreshed_def checked_node_def FetchInfo_def demo_net_def Let_def)
qed

text \<open>
  Adding an agent whose name is already in the pool replaces the node but keeps the
  client that was built for the old address: requests still go to the old address.
\<close>

theorem pool_add_keeps_old_client:
  assumes "ag_Name old = ag_Name new"
  shows "pool_GetByName (snd (pool_Add new (snd (pool_Add old NewPool)))) (ag_Name new) = Some (NewClient old)
    \<and> fst (pool_Add new (snd (pool_Add old NewPool))) = NewClient old
    \<and> pool_ListNodes (snd (pool_Add new (snd (pool_Add old NewPool)))) = [new]"
  using assms by (simp add: pool_Add_def NewPool_def pool_GetByName_def pool_ListNodes_def sort_slice_def Let_def)

theorem pool_add_keeps_old_client_witness:
  "pool_GetByName (snd (pool_Add (demo_node\<lparr>ag_Addr := ''10.0.0.3:9000''\<rparr>) (snd (pool_Add demo_node NewPool)))) ''edge''
     = Some (NewClient demo_node)"
  using pool_add_keeps_old_client [of demo_node "demo_node\<lparr>ag_Addr := ''10.0.0.3:9000''\<rparr>"]
  by (simp add: demo_node_def)

text \<open>
  Routes discovered on an agent that could be given a proxy URL are marked as the
  agent's: origin, source, exit node and container source name the agent, the identifier is
  built from the agent and the host, and the host and the target stay as discovered. If no
  error is reported this holds for every route.
\<close>

theorem remote_routes_marked:
  assumes "RemoteDiscoverRoutes os lib d zones = (routes, None)" and "r \<in> set routes"
  shows "rt_Origin r = RouteOriginRemoteAgent \<and> rt_Source r = ag_Name (rd_Node d) \<and> rt_ExitNode r = ag_Name (rd_Node d)
    \<and> cr_Source (rt_Container r) = ag_Name (rd_Node d) \<and> rt_ID r = ag_Name (rd_Node d) @ '':'' @ rt_Host r
    \<and> HTTPProxyURL (rd_Client d) (rt_TargetURL r) = Inr (rt_ProxyURL r)"
proof -
  let ?rs = "fst (DiscoverRoutes os lib (rd_local d) zones)"
  have "snd (remote_routes d ?rs) = []" and rs: "routes = fst (remote_routes d ?rs)"
    using assms(1) by (auto simp: RemoteDiscoverRoutes_def case_prod_unfold Let_def)
  then have all: "\<forall>x \<in> set ?rs. \<exists>u. HTTPProxyURL (rd_Client d) (rt_TargetURL x) = Inr u"
    by (simp add: remote_routes_snd)
  from assms(2) obtain x u where x: "x \<in> set ?rs" "HTTPProxyURL (rd_Client d) (rt_TargetURL x) = Inr u"
    "r = remote_route (rd_Node d) u x"
    unfolding rs remote_routes_fst using all by fastforce
  then show ?thesis by (simp add: remote_route_def)
qed

definition demo_remote :: remote_discovery where
  "demo_remote = NewRemote no_env
     \<lparr>api_ContainerList = Inr [\<lparr>su_ID = ''c1'', su_Names = [''/web''], su_Image = ''nginx'', su_State = ''running'',
        su_Labels = [(''domux.port'', ''80'')], su_Ports = []\<rparr>],
      api_ContainerInspect = (\<lambda>_. Inr \<lparr>ci_Name = ''/web'', ci_NetworkSettings = None, ci_ExposedPorts = None,
        ci_NetworkMode = Some ''host'', ci_State = Some (True, ''running'')\<rparr>),
      api_NetworkList = Inr []\<rparr> demo_node (NewClient demo_node)"

definition demo_lib :: nat_lib where
  "demo_lib = \<lparr>nat_Port = id, nat_ParsePort = (\<lambda>_. None)\<rparr>"

lemma demo_remote_runtime: "RuntimeOrDefault no_env (ld_Source (rd_local demo_remote)) = ContainerRuntimeDocker"
  by (simp add: demo_remote_def NewRemote_def NewWithClient_def Normalized_def demo_node_def RuntimeOrDefault_def
      literal_simps Let_def)

lemma demo_remote_snapshots:
  "Snapshots no_env demo_lib (rd_local demo_remote) = Inr [demo_container\<lparr>cs_State := ''running''\<rparr>]"
  using demo_remote_runtime
  by (simp add: Snapshots_def)
    (simp add: demo_remote_def NewRemote_def NewWithClient_def snapshotFromDocker_def demo_container_def TrimPrefix_def
      HasPrefix_def Let_def)

lemma demo_127: "url_String (empty_url\<lparr>u_Scheme := ''http'', u_Host := ''127.0.0.1:80''\<rparr>) = ''http://127.0.0.1:80''"
  by (simp add: url_String_def url_authority_def url_simps)

lemma demo_127_parse: "url_Parse ''http://127.0.0.1:80'' = Inr (empty_url\<lparr>u_Scheme := ''http'', u_Host := ''127.0.0.1:80''\<rparr>)"
  by (simp add: url_simps)

lemma demo_80: "nat_digits 80 = ''80''"
  by (simp add: nat_digits.simps [of 80] nat_digits.simps [of 8] char_of_def bit_0)

lemma demo_remote_routes:
  "\<exists>r. DiscoverRoutes no_env demo_lib (rd_local demo_remote) demo_zones = ([r], None)
     \<and> rt_TargetURL r = ''http://127.0.0.1:80'' \<and> rt_Host r = ''web.example.com''"
  by (simp add: DiscoverRoutes_def demo_remote_snapshots)
    (simp add: DiscoverRoutesFromSnapshots_def snapshot_route_def demo_container_def demo_labels demo_zones_def
        DefaultManagedZoneName_def DefaultManagedZone_def zone_domain_key_def ResolveTarget_def resolveTargetAddress_def
        resolvePort_def BuildRoute_def Hostname_def DefaultSubdomain_def TrimPrefix_def HasPrefix_def literal_simps
        sort_slice_def Let_def Itoa_def demo_80 demo_127)

lemma demo_remote_proxy: "\<exists>u. HTTPProxyURL (rd_Client demo_remote) ''http://127.0.0.1:80'' = Inr u"
proof -
  have "ac_baseURL (NewClient demo_node) @ EndpointProxyHTTP = ''http://10.0.0.2:9000/domux/agent/proxy/http''"
    by (simp add: NewClient_def demo_node_def normalizeRootURL_def TrimRight_def HasPrefix_def Let_def)
  then show ?thesis
    by (simp add: demo_remote_def NewRemote_def HTTPProxyURL_def demo_127_parse demo_base_url empty_url_def Let_def)
qed

theorem remote_routes_marked_witness:
  "\<exists>routes r. RemoteDiscoverRoutes no_env demo_lib demo_remote demo_zones = (routes, None) \<and> r \<in> set routes
     \<and> rt_ID r = ''edge'' @ '':'' @ rt_Host r"
proof -
  obtain r u where "DiscoverRoutes no_env demo_lib (rd_local demo_remote) demo_zones = ([r], None)"
    "HTTPProxyURL (rd_Client demo_remote) (rt_TargetURL r) = Inr u"
    using demo_remote_routes demo_remote_proxy by auto
  then have rd: "RemoteDiscoverRoutes no_env demo_lib demo_remote demo_zones = ([remote_route (rd_Node demo_remote) u r], None)"
    by (simp add: RemoteDiscoverRoutes_def)
  have "ag_Name (rd_Node demo_remote) = ''edge''" by (simp add: demo_remote_def NewRemote_def demo_node_def)
  with remote_routes_marked [OF rd] rd show ?thesis by auto
qed

end
