(* ===== verification/Domux_Certs.thy ===== *)
theory Domux_Certs
  imports Domux_Ddns Domux_Agent
begin

text \<open>
  Certificates: the files of a bundle (\<open>internal/certs/store\<close>), requests, renewal and the
  guarded DNS challenge (\<open>internal/certs/acme\<close>), deployment (\<open>internal/certs/deploy\<close>) and the
  certificates served over TLS (\<open>internal/proxy/tls\<close>). The exchange with the certificate
  authority, X.509 parsing and the commands that are run are parameters.
\<close>

section \<open>The files of a bundle\<close>

definition BundlePaths :: "string \<Rightarrow> string \<Rightarrow> string \<times> string" where
  "BundlePaths basePath name =
     (let base = PathJoin [basePath, name]
      in (PathJoin [base, ''fullchain.pem''], PathJoin [base, ''privkey.pem'']))"

definition zero_bundle :: certificate_bundle where
  "zero_bundle = \<lparr>cb_Name = [], cb_Domain = [], cb_Zone = [], cb_Domains = [], cb_DeployTargets = [],
     cb_CertPath = [], cb_KeyPath = [], cb_NotAfter = 0\<rparr>"

definition writeAtomically :: "string io_faults \<Rightarrow> string \<Rightarrow> string \<Rightarrow> string file_system \<Rightarrow>
    go_error option \<times> string file_system" where
  "writeAtomically io path data fs =
     (case WriteFile io (path @ ''.tmp'') data fs of
        (Some e, fs1) \<Rightarrow> (Some e, fs1)
      | (None, fs1) \<Rightarrow>
          (case Rename io (path @ ''.tmp'') path fs1 of
             (Some e, fs2) \<Rightarrow> (Some (Wrapf ''rename %s to %s: %w'' [path @ ''.tmp'', path] e), fs2)
           | (None, fs2) \<Rightarrow> (None, fs2)))"

text \<open>\<open>Save\<close>; \<open>io\<close> holds the faults of the two writes.\<close>

definition Save :: "string io_faults \<times> string io_faults \<Rightarrow> string \<Rightarrow> string \<Rightarrow> string \<Rightarrow> string list \<Rightarrow> string \<Rightarrow>
    string \<Rightarrow> time \<Rightarrow> string file_system \<Rightarrow> certificate_bundle result \<times> string file_system" where
  "Save io basePath name zone domains certPEM keyPEM notAfter fs =
     (let (certPath, keyPath) = BundlePaths basePath name
      in case io_MkdirAll (fst io) of
           Some e \<Rightarrow> (Inl e, fs)
         | None \<Rightarrow>
             (case writeAtomically (fst io) certPath certPEM fs of
                (Some e, fs1) \<Rightarrow> (Inl e, fs1)
              | (None, fs1) \<Rightarrow>
                  (case writeAtomically (snd io) keyPath keyPEM fs1 of
                     (Some e, fs2) \<Rightarrow> (Inl e, fs2)
                   | (None, fs2) \<Rightarrow>
                       (let b = zero_bundle\<lparr>cb_Name := name, cb_Zone := zone, cb_Domains := domains,
                                  cb_CertPath := certPath, cb_KeyPath := keyPath, cb_NotAfter := notAfter\<rparr>
                        in (case CertificateBundle_Validate b of None \<Rightarrow> Inr b | Some e \<Rightarrow> Inl e, fs2)))))"

definition ReadBundle :: "string io_faults \<Rightarrow> string file_system \<Rightarrow> certificate_bundle \<Rightarrow> (string \<times> string) result" where
  "ReadBundle io fs b =
     (case ReadFile io fs (cb_CertPath b) of
        Inl e \<Rightarrow> Inl e
      | Inr cert \<Rightarrow>
          (case ReadFile io fs (cb_KeyPath b) of Inl e \<Rightarrow> Inl e | Inr key \<Rightarrow> Inr (cert, key)))"

section \<open>Requests and renewal\<close>

record issue_request =
  iq_BundleName :: string
  iq_Domain :: string
  iq_Domains :: "string list"
  iq_Email :: string
  iq_DNSProvider :: string
  iq_RenewBefore :: duration
  iq_DeployTargets :: "string list"

definition BuildRequests :: "managed_zone \<Rightarrow> issue_request list result" where
  "BuildRequests zone0 =
     (if \<not> cp_Enabled (z_Certificate zone0) then Inl (Errorf ''certificate policy is disabled'' [])
      else
        (case ManagedZone_Validate zone0 of
           (Some e, _) \<Rightarrow> Inl e
         | (None, zone) \<Rightarrow>
             (case CertificatePlans zone of
                Inl e \<Rightarrow> Inl e
              | Inr plans \<Rightarrow>
                  Inr (map (\<lambda>p. \<lparr>iq_BundleName = pl_Name p, iq_Domain = z_Domain zone,
                                 iq_Domains = pl_Domains p, iq_Email = cp_Email (z_Certificate zone),
                                 iq_DNSProvider = cp_DNSProvider (z_Certificate zone),
                                 iq_RenewBefore = pl_RenewBefore p,
                                 iq_DeployTargets = pl_DeployTargets p\<rparr>) plans))))"

definition zoneDomains :: "managed_zone \<Rightarrow> string list" where
  "zoneDomains zone = z_Domain zone # (if z_Wildcard zone then [''*.'' @ z_Domain zone] else [])"

definition DomainsForZone :: "managed_zone \<Rightarrow> string list" where
  "DomainsForZone zone = sort (zoneDomains zone)"

definition RenewalTime :: "certificate_bundle \<Rightarrow> duration \<Rightarrow> time" where
  "RenewalTime b renewBefore =
     cb_NotAfter b - (if renewBefore = 0 then DefaultCertificateRenewBefore else renewBefore)"

definition ShouldRenew :: "certificate_bundle \<Rightarrow> time \<Rightarrow> duration \<Rightarrow> bool" where
  "ShouldRenew b now renewBefore \<longleftrightarrow> cb_NotAfter b = 0 \<or> \<not> now < RenewalTime b renewBefore"

definition sanitizeName :: "string \<Rightarrow> string" where
  "sanitizeName v0 = (let v = Base (Clean v0) in if v = ''.'' \<or> v = ''/'' then ''default'' else v)"

definition replace_colons :: "string \<Rightarrow> string" where
  "replace_colons s = concat (map (\<lambda>c. if c = CHR '':'' then ''__'' else [c]) s)"

definition storageNameForBundle :: "string \<Rightarrow> string" where
  "storageNameForBundle name = replace_colons (sanitizeName name)"

text \<open>
  What the manager depends on: parsing a pair (the expiry of the leaf, or an error when the
  key does not belong to the certificate), the expiry in a PEM file, and the certificate
  authority.
\<close>

record acme_env =
  ae_X509KeyPair :: "string \<Rightarrow> string \<Rightarrow> time result"
  ae_notAfter :: "string \<Rightarrow> time result"
  ae_obtain :: "issue_request \<Rightarrow> provider_config \<Rightarrow> (string \<times> string) result"

definition loadBundleMetadata :: "acme_env \<Rightarrow> string io_faults \<Rightarrow> string file_system \<Rightarrow> certificate_bundle \<Rightarrow>
    certificate_bundle result" where
  "loadBundleMetadata env io fs b =
     (case ReadBundle io fs b of
        Inl e \<Rightarrow> Inl e
      | Inr (cert, key) \<Rightarrow>
          (case ae_X509KeyPair env cert key of
             Inl e \<Rightarrow> Inl e | Inr leafNotAfter \<Rightarrow> Inr (b\<lparr>cb_NotAfter := leafNotAfter\<rparr>)))"

definition obtainAndSave :: "acme_env \<Rightarrow> string io_faults \<times> string io_faults \<Rightarrow> string \<Rightarrow> string \<Rightarrow> issue_request \<Rightarrow>
    provider_config \<Rightarrow> string file_system \<Rightarrow> certificate_bundle result \<times> string file_system" where
  "obtainAndSave env io dataDir bundleName req cfg fs =
     (case ae_obtain env req cfg of
        Inl e \<Rightarrow> (Inl e, fs)
      | Inr (cert, key) \<Rightarrow>
          (case ae_notAfter env cert of
             Inl e \<Rightarrow> (Inl e, fs)
           | Inr expiry \<Rightarrow>
               (case Save io (PathJoin [dataDir, ''certs'']) (storageNameForBundle bundleName) (iq_Domain req)
                       (iq_Domains req) cert key expiry fs of
                  (Inl e, fs') \<Rightarrow> (Inl e, fs')
                | (Inr saved0, fs') \<Rightarrow>
                    (let saved = saved0\<lparr>cb_Name := bundleName, cb_Domain := iq_Domain req,
                                        cb_DeployTargets := iq_DeployTargets req\<rparr>
                     in (case CertificateBundle_Validate saved of None \<Rightarrow> Inr saved | Some e \<Rightarrow> Inl e, fs')))))"

definition requested_bundle :: "string \<Rightarrow> issue_request \<Rightarrow> certificate_bundle" where
  "requested_bundle dataDir req =
     zero_bundle\<lparr>cb_Name := iq_BundleName req, cb_Domain := iq_Domain req, cb_Zone := iq_Domain req,
       cb_Domains := iq_Domains req, cb_DeployTargets := iq_DeployTargets req,
       cb_CertPath := PathJoin [dataDir, ''certs'', storageNameForBundle (iq_BundleName req), ''fullchain.pem''],
       cb_KeyPath := PathJoin [dataDir, ''certs'', storageNameForBundle (iq_BundleName req), ''privkey.pem'']\<rparr>"

definition EnsureCertificate :: "acme_env \<Rightarrow> string io_faults \<Rightarrow> string io_faults \<times> string io_faults \<Rightarrow> time \<Rightarrow> string \<Rightarrow>
    issue_request \<Rightarrow> provider_config \<Rightarrow> string file_system \<Rightarrow> certificate_bundle result \<times> string file_system" where
  "EnsureCertificate env rio wio now dataDir req cfg fs =
     (case loadBundleMetadata env rio fs (requested_bundle dataDir req) of
        Inr loaded \<Rightarrow>
          if \<not> ShouldRenew loaded now (iq_RenewBefore req) then (Inr loaded, fs)
          else obtainAndSave env wio dataDir (iq_BundleName req) req cfg fs
      | Inl e \<Rightarrow>
          if \<not> errors_Is e ErrNotExist then (Inl e, fs)
          else obtainAndSave env wio dataDir (iq_BundleName req) req cfg fs)"

definition ForceRenewCertificate :: "acme_env \<Rightarrow> string io_faults \<times> string io_faults \<Rightarrow> string \<Rightarrow> issue_request \<Rightarrow>
    provider_config \<Rightarrow> string file_system \<Rightarrow> certificate_bundle result \<times> string file_system" where
  "ForceRenewCertificate env wio dataDir req cfg fs =
     obtainAndSave env wio dataDir (iq_BundleName req) req cfg fs"

section \<open>The guarded DNS challenge\<close>

text \<open>
  \<open>managedDNS01Provider\<close> passes a call on only for a name inside the managed domain. The
  effective name of a challenge and the wrapped provider are parameters; the calls that
  reach the provider are returned.
\<close>

record dns01_env =
  de_EffectiveFQDN :: "string \<Rightarrow> string \<Rightarrow> string"
  de_lookupNS :: ns_lookup
  de_Present :: "string \<Rightarrow> string \<Rightarrow> string \<Rightarrow> go_error option"
  de_CleanUp :: "string \<Rightarrow> string \<Rightarrow> string \<Rightarrow> go_error option"
  de_err_text :: "go_error \<Rightarrow> string"

definition resolveAuthZone :: "dns01_env \<Rightarrow> string \<Rightarrow> string \<Rightarrow> string \<Rightarrow> string result" where
  "resolveAuthZone env managedDomain domain keyAuth =
     (let challengeFQDN = TrimSuffix (de_EffectiveFQDN env domain keyAuth) ''.''
      in if \<not> DomainWithinManagedDomain managedDomain challengeFQDN then
           Inl (WrapTargetOutsideManagedDomain managedDomain challengeFQDN)
         else
           (case ResolveAuthZone (de_lookupNS env) challengeFQDN of
              Inl e \<Rightarrow> Inl (WrapZoneResolutionFailed (de_err_text env) challengeFQDN e)
            | Inr z \<Rightarrow> Inr z))"

definition guarded_call :: "dns01_env \<Rightarrow> (string \<Rightarrow> string \<Rightarrow> string \<Rightarrow> go_error option) \<Rightarrow> string \<Rightarrow> string \<Rightarrow> string \<Rightarrow> string \<Rightarrow>
    go_error option \<times> (string \<times> string \<times> string) list" where
  "guarded_call env call managedDomain domain token keyAuth =
     (case resolveAuthZone env managedDomain domain keyAuth of
        Inl e \<Rightarrow> (Some e, [])
      | Inr authZone \<Rightarrow>
          (let err = call domain token keyAuth
           in (if IsAccessDenied (de_err_text env) err
               then map_option (WrapZoneAccessDenied (de_err_text env) authZone) err else err,
               [(domain, token, keyAuth)])))"

definition Present :: "dns01_env \<Rightarrow> string \<Rightarrow> string \<Rightarrow> string \<Rightarrow> string \<Rightarrow> go_error option \<times> (string \<times> string \<times> string) list" where
  "Present env managedDomain domain token keyAuth = guarded_call env (de_Present env) managedDomain domain token keyAuth"

definition CleanUp :: "dns01_env \<Rightarrow> string \<Rightarrow> string \<Rightarrow> string \<Rightarrow> string \<Rightarrow> go_error option \<times> (string \<times> string \<times> string) list" where
  "CleanUp env managedDomain domain token keyAuth = guarded_call env (de_CleanUp env) managedDomain domain token keyAuth"

section \<open>Deployment\<close>

definition LocalDeploy :: "string io_faults \<times> string io_faults \<Rightarrow> shell \<Rightarrow> deploy_target \<Rightarrow> string \<Rightarrow> string \<Rightarrow>
    string file_system \<Rightarrow> (string \<times> go_error option) \<times> string file_system" where
  "LocalDeploy io sh target certPEM keyPEM fs =
     (if dt_Transport target \<noteq> DeployTransportLocal then
        (([], Some (Errorf ''target %q is not a local target'' [dt_Name target])), fs)
      else
        (case write_pair io (dt_CertPath target) (dt_KeyPath target) certPEM keyPEM fs of
           (Some e, fs') \<Rightarrow> (([], Some e), fs')
         | (None, fs') \<Rightarrow>
             if dt_ReloadCommand target = [] then ((''certificate files written'', None), fs')
             else
               (let (out, failed) = sh (dt_ReloadCommand target); msg = TrimSpace out
                in case failed of
                     Some (e, text) \<Rightarrow> ((if msg = [] then text else msg, Some e), fs')
                   | None \<Rightarrow>
                       ((if msg = [] then ''certificate files written and reload command executed'' else msg,
                         None), fs'))))"

record ssh_plan =
  sp_CopyCert :: "string list"
  sp_CopyKey :: "string list"
  sp_Reload :: "string list"

definition buildIdentityArgs :: "string \<Rightarrow> string list" where
  "buildIdentityArgs p = (let t = TrimSpace p in if t = [] then [] else [''-i'', t])"

definition SSHPlan :: "deploy_target \<Rightarrow> certificate_bundle \<Rightarrow> ssh_plan result" where
  "SSHPlan target b =
     (if dt_Transport target \<noteq> DeployTransportSSH then
        Inl (Errorf ''target %q is not an ssh target'' [dt_Name target])
      else
        (let port = (if ssh_Port (dt_SSH target) = 0 then 22 else ssh_Port (dt_SSH target));
             address = ssh_User (dt_SSH target) @ ''@'' @ ssh_Addr (dt_SSH target);
             identityArgs = buildIdentityArgs (ssh_PrivateKeyPath (dt_SSH target));
             copyBase = [''scp'', ''-P'', Itoa port] @ identityArgs
         in Inr \<lparr>sp_CopyCert = copyBase @ [cb_CertPath b, address @ '':'' @ dt_CertPath target],
                 sp_CopyKey = copyBase @ [cb_KeyPath b, address @ '':'' @ dt_KeyPath target],
                 sp_Reload = (if dt_ReloadCommand target = [] then []
                              else [''ssh'', ''-p'', Itoa port] @ identityArgs @ [address, dt_ReloadCommand target])\<rparr>))"

text \<open>A command given by its arguments, as \<open>exec.CommandContext\<close> runs it.\<close>

type_synonym exec_command = "string list \<Rightarrow> string \<times> (go_error \<times> string) option"

fun run_commands :: "exec_command \<Rightarrow> string list list \<Rightarrow> (string \<times> go_error option) \<times> string list list" where
  "run_commands ex [] = ((''ssh deployment completed'', None), [])"
| "run_commands ex (c # cs) =
     (if c = [] then run_commands ex cs
      else
        (case ex c of
           (out, Some (e, text)) \<Rightarrow>
             (let msg = TrimSpace out in ((if msg = [] then text else msg, Some e), [c]))
         | (out, None) \<Rightarrow> (let (r, ran) = run_commands ex cs in (r, c # ran))))"

text \<open>\<open>SSHDeploy\<close> also returns the commands that were run.\<close>

definition SSHDeploy :: "exec_command \<Rightarrow> deploy_target \<Rightarrow> certificate_bundle \<Rightarrow> (string \<times> go_error option) \<times> string list list" where
  "SSHDeploy ex target b =
     (case SSHPlan target b of
        Inl e \<Rightarrow> (([], Some e), [])
      | Inr plan \<Rightarrow> run_commands ex [sp_CopyCert plan, sp_CopyKey plan, sp_Reload plan])"

definition AgentDeploy :: "agent_net \<Rightarrow> pool option \<Rightarrow> deploy_target \<Rightarrow> certificate_bundle \<Rightarrow> string \<Rightarrow> string \<Rightarrow> deploy_result result" where
  "AgentDeploy net pool target b certPEM keyPEM =
     (if dt_Transport target \<noteq> DeployTransportAgent then
        Inl (Errorf ''target %q is not an agent target'' [dt_Name target])
      else
        (case pool of
           None \<Rightarrow> Inl (Errorf ''agent pool is not configured'' [])
         | Some p \<Rightarrow>
             (case pool_Require p (dt_AgentNode target) of
                Inl e \<Rightarrow> Inl e
              | Inr client \<Rightarrow>
                  DeployCertificate net client
                    \<lparr>rq_BundleName = cb_Name b, rq_CertPath = dt_CertPath target, rq_KeyPath = dt_KeyPath target,
                     rq_ReloadCommand = dt_ReloadCommand target, rq_CertPEM = certPEM, rq_KeyPEM = keyPEM\<rparr>)))"

text \<open>What a deployment depends on; the faults are those of the target that is written.\<close>

record deploy_env =
  dn_io :: "string \<Rightarrow> string io_faults \<times> string io_faults"
  dn_sh :: shell
  dn_exec :: exec_command
  dn_net :: agent_net
  dn_pool :: "pool option"
  dn_err_text :: "go_error \<Rightarrow> string"
  dn_now :: time

definition deploy_one :: "deploy_env \<Rightarrow> deploy_target gomap \<Rightarrow> certificate_bundle \<Rightarrow> string \<Rightarrow> string \<Rightarrow> string \<Rightarrow>
    string file_system \<Rightarrow> (deploy_run \<times> go_error option) \<times> string file_system" where
  "deploy_one env available b certPEM keyPEM name fs =
     (let run = (\<lambda>status msg. \<lparr>dr_Target = name, dr_Bundle = cb_Name b, dr_Status = status, dr_Message = msg,
                               dr_StartedAt = dn_now env, dr_FinishedAt = dn_now env\<rparr>);
          outcome = (\<lambda>msg err. (run (if err = None then ''success'' else ''failed'') msg, err))
      in case gm_get available name of
           None \<Rightarrow>
             (let e = Errorf ''deploy target %q not found'' [name]
              in (outcome (dn_err_text env e) (Some e), fs))
         | Some target \<Rightarrow>
             if dt_Transport target = DeployTransportLocal then
               (let ((msg, err), fs') = LocalDeploy (dn_io env name) (dn_sh env) target certPEM keyPEM fs
                in (outcome msg err, fs'))
             else if dt_Transport target = DeployTransportAgent then
               (case AgentDeploy (dn_net env) (dn_pool env) target b certPEM keyPEM of
                  Inl e \<Rightarrow> (outcome [] (Some e), fs)
                | Inr result \<Rightarrow> (outcome (res_Message result) None, fs))
             else if dt_Transport target = DeployTransportSSH then
               (let ((msg, err), _) = SSHDeploy (dn_exec env) target b in (outcome msg err, fs))
             else
               (let e = Errorf ''unsupported deploy transport %q'' [dt_Transport target]
                in (outcome (dn_err_text env e) (Some e), fs)))"

fun deploy_each :: "deploy_env \<Rightarrow> deploy_target gomap \<Rightarrow> certificate_bundle \<Rightarrow> string \<Rightarrow> string \<Rightarrow> string list \<Rightarrow>
    string file_system \<Rightarrow> (deploy_run list \<times> go_error list) \<times> string file_system" where
  "deploy_each env available b certPEM keyPEM [] fs = (([], []), fs)"
| "deploy_each env available b certPEM keyPEM (n # ns) fs =
     (let ((run, err), fs1) = deploy_one env available b certPEM keyPEM n fs;
          ((runs, errs), fs2) = deploy_each env available b certPEM keyPEM ns fs1
      in ((run # runs, opt_to_list err @ errs), fs2))"

definition indexedTargets :: "deploy_target list \<Rightarrow> deploy_target gomap" where
  "indexedTargets targets = gm_put_all dt_Name targets []"

definition DeployBundle :: "deploy_env \<Rightarrow> string io_faults \<Rightarrow> memory_store \<Rightarrow> certificate_bundle \<Rightarrow> string list \<Rightarrow>
    string file_system \<Rightarrow> (deploy_run list \<times> go_error option) \<times> string file_system" where
  "DeployBundle env rio s b targetNames fs =
     (case ReadBundle rio fs b of
        Inl e \<Rightarrow> (([], Some e), fs)
      | Inr (certPEM, keyPEM) \<Rightarrow>
          (let ((runs, errs), fs') = deploy_each env (indexedTargets (ListDeployTargets s)) b certPEM keyPEM targetNames fs
           in ((runs, errors_Join errs), fs')))"

section \<open>Certificates served over TLS\<close>

record 'c tls_store =
  ts_exact :: "'c gomap"
  ts_wildcards :: "'c gomap"
  ts_defaultCert :: "'c option"

definition NewTlsStore :: "'c tls_store" where
  "NewTlsStore = \<lparr>ts_exact = [], ts_wildcards = [], ts_defaultCert = None\<rparr>"

definition tls_Set :: "string \<Rightarrow> 'c \<Rightarrow> 'c tls_store \<Rightarrow> 'c tls_store" where
  "tls_Set host0 cert s =
     (let host = ToLower (TrimSpace host0)
      in if HasPrefix host ''*.'' then s\<lparr>ts_wildcards := gm_put (drop 2 host) cert (ts_wildcards s)\<rparr>
         else
           (let s1 = s\<lparr>ts_exact := gm_put host cert (ts_exact s)\<rparr>
            in if ts_defaultCert s1 = None then s1\<lparr>ts_defaultCert := Some cert\<rparr> else s1))"

definition tls_SetDefault :: "'c \<Rightarrow> 'c tls_store \<Rightarrow> 'c tls_store" where
  "tls_SetDefault cert s = s\<lparr>ts_defaultCert := Some cert\<rparr>"

definition HasCertificates :: "'c tls_store \<Rightarrow> bool" where
  "HasCertificates s \<longleftrightarrow> ts_defaultCert s \<noteq> None"

definition wildcard_candidates :: "string \<Rightarrow> string list" where
  "wildcard_candidates host =
     (let parts = Split host (CHR ''.'') in map (\<lambda>i. Join (drop i parts) ''.'') [1..<length parts])"

definition GetCertificate :: "'c tls_store \<Rightarrow> string option \<Rightarrow> 'c result" where
  "GetCertificate s hello =
     (case ts_defaultCert s of
        None \<Rightarrow> Inl (Errorf ''no certificates loaded'' [])
      | Some def \<Rightarrow>
          (case hello of
             None \<Rightarrow> Inr def
           | Some serverName \<Rightarrow>
               if serverName = [] then Inr def
               else
                 (let host = ToLower serverName
                  in case gm_get (ts_exact s) host of
                       Some cert \<Rightarrow> Inr cert
                     | None \<Rightarrow>
                         (case List.map_filter (gm_get (ts_wildcards s)) (wildcard_candidates host) of
                            cert # _ \<Rightarrow> Inr cert
                          | [] \<Rightarrow> Inr def))))"

section \<open>Facts about the files of a bundle\<close>

lemma writeAtomically_frame:
  "writeAtomically io path data fs = (e, fs') \<Longrightarrow> p \<noteq> path \<Longrightarrow> p \<noteq> path @ ''.tmp'' \<Longrightarrow> fs' p = fs p"
  by (auto simp: writeAtomically_def WriteFile_def Rename_def
      split: option.splits write_fault.splits if_splits)

lemma writeAtomically_cases:
  "writeAtomically io path data fs = (e, fs') \<Longrightarrow> fs' path = (if e = None then Some data else fs path)"
  by (auto simp: writeAtomically_def WriteFile_def Rename_def
      split: option.splits write_fault.splits if_splits)

lemma sanitizeName_chars: "sanitizeName n \<noteq> [] \<and> CHR ''/'' \<notin> set (sanitizeName n) \<and> sanitizeName n \<noteq> ''.''"
  using Base_no_sep [of "Clean n"] by (auto simp: sanitizeName_def Let_def)

lemma replace_colons_simps [simp]:
  "replace_colons [] = []"
  "replace_colons (c # s) = (if c = CHR '':'' then ''__'' else [c]) @ replace_colons s"
  by (simp_all add: replace_colons_def)

lemma set_replace_colons: "set (replace_colons s) \<subseteq> insert (CHR ''_'') (set s - {CHR '':''})"
  by (induction s) auto

lemma replace_colons_Nil [simp]: "replace_colons s = [] \<longleftrightarrow> s = []"
  by (cases s) auto

lemma replace_colons_dot: "replace_colons s = ''.'' \<longleftrightarrow> s = ''.''"
  by (cases s) auto

lemma storageName_comp: "clean_comp (storageNameForBundle n)"
  using sanitizeName_chars [of n] set_replace_colons [of "sanitizeName n"]
  by (auto simp: storageNameForBundle_def clean_comp_def replace_colons_dot)

lemma PathJoin_Nil [simp]: "PathJoin ([] # es) = PathJoin es"
  by (simp add: PathJoin_def)

lemma BundlePaths_join:
  assumes "n \<noteq> []"
  shows "BundlePaths (PathJoin [d, ''certs'']) n =
    (PathJoin [d, ''certs'', n, ''fullchain.pem''], PathJoin [d, ''certs'', n, ''privkey.pem''])"
proof -
  let ?a = "if d = [] then ''certs'' else d @ ''/certs''"
  have a: "PathJoin [d, ''certs''] = Clean ?a" "?a \<noteq> []" by (simp_all add: PathJoin_def)
  have n: "Clean x \<noteq> []" if "x \<noteq> []" for x using Clean_stack [OF that] by simp
  have b: "PathJoin [Clean ?a, n] = Clean (?a @ ''/'' @ n)"
    using n [OF a(2)] Clean_Clean_append [OF a(2)] by (simp add: PathJoin_two)
  have "PathJoin [PathJoin [Clean ?a, n], f] = Clean (?a @ ''/'' @ n @ ''/'' @ f)" for f
  proof -
    have ne: "?a @ ''/'' @ n \<noteq> []" by simp
    have "PathJoin [PathJoin [Clean ?a, n], f] = Clean (Clean (?a @ ''/'' @ n) @ ''/'' @ f)"
      unfolding b by (rule PathJoin_two [OF n [OF ne]])
    also have "\<dots> = Clean ((?a @ ''/'' @ n) @ ''/'' @ f)" by (rule Clean_Clean_append [OF ne])
    finally show ?thesis by simp
  qed
  moreover have "PathJoin [d, ''certs'', n, f] = Clean (?a @ ''/'' @ n @ ''/'' @ f)" for f
    by (simp add: PathJoin_def)
  ultimately show ?thesis by (simp add: BundlePaths_def a(1))
qed

lemma bundle_files:
  "\<exists>pre. PathJoin [d, ''certs'', n, ''fullchain.pem''] = pre @ ''fullchain.pem''"
  "\<exists>pre. PathJoin [d, ''certs'', n, ''privkey.pem''] = pre @ ''privkey.pem''"
proof -
  let ?p = "if d = [] then ''certs/'' @ n else d @ ''/certs/'' @ n"
  have "PathJoin [d, ''certs'', n, f] = Clean (?p @ ''/'' @ f)" for f by (simp add: PathJoin_def)
  then show "\<exists>pre. PathJoin [d, ''certs'', n, ''fullchain.pem''] = pre @ ''fullchain.pem''"
    "\<exists>pre. PathJoin [d, ''certs'', n, ''privkey.pem''] = pre @ ''privkey.pem''"
    by (simp_all only:) (rule Clean_append_comp; simp add: clean_comp_def)+
qed

lemma bundle_paths_ok:
  "pair_paths_ok (PathJoin [d, ''certs'', n, ''fullchain.pem'']) (PathJoin [d, ''certs'', n, ''privkey.pem''])"
proof -
  obtain a b where ab: "PathJoin [d, ''certs'', n, ''fullchain.pem''] = a @ ''fullchain.pem''"
    "PathJoin [d, ''certs'', n, ''privkey.pem''] = b @ ''privkey.pem''" using bundle_files by blast
  show ?thesis unfolding pair_paths_ok_def ab by (auto dest!: arg_cong [where f = rev])
qed

text \<open>What \<open>Save\<close> leaves on disk.\<close>

lemma Save_files:
  assumes "Save io base name zone doms cert key na fs = (r, fs')"
    and "BundlePaths base name = (c, k)" and ok: "pair_paths_ok c k"
  shows "(\<exists>b. r = Inr b) \<longrightarrow> fs' c = Some cert \<and> fs' k = Some key"
    and "(fs' c = fs c \<or> fs' c = Some cert) \<and> (fs' k = fs k \<or> fs' k = Some key)"
proof -
  have "((\<exists>b. r = Inr b) \<longrightarrow> fs' c = Some cert \<and> fs' k = Some key)
    \<and> (fs' c = fs c \<or> fs' c = Some cert) \<and> (fs' k = fs k \<or> fs' k = Some key)"
  proof (cases "io_MkdirAll (fst io)")
    case (Some e)
    with assms(1,2) show ?thesis by (auto simp: Save_def)
  next
    case None
    obtain e1 fs1 where w1: "writeAtomically (fst io) c cert fs = (e1, fs1)" by fastforce
    obtain e2 fs2 where w2: "writeAtomically (snd io) k key fs1 = (e2, fs2)" by fastforce
    have f1: "fs1 c = (if e1 = None then Some cert else fs c)" "fs1 k = fs k"
      using writeAtomically_cases [OF w1] writeAtomically_frame [OF w1, of k] ok
      unfolding pair_paths_ok_def by blast+
    have f2: "fs2 k = (if e2 = None then Some key else fs1 k)" "fs2 c = fs1 c"
      using writeAtomically_cases [OF w2] writeAtomically_frame [OF w2, of c] ok
      unfolding pair_paths_ok_def by blast+
    show ?thesis
    proof (cases "e1 = None \<and> e2 = None")
      case True
      with f1 f2 have "fs2 c = Some cert \<and> fs2 k = Some key" by simp
      moreover have "fs' = fs2" using assms(1,2) None w1 w2 True by (simp add: Save_def Let_def)
      ultimately show ?thesis by blast
    next
      case False
      then have "(\<exists>e. r = Inl e) \<and> (fs' = fs1 \<and> e1 \<noteq> None \<or> fs' = fs2)"
        using assms(1,2) None w1 w2 by (cases e1; cases e2) (auto simp: Save_def Let_def)
      then show ?thesis using f1 f2 by (auto split: if_splits)
    qed
  qed
  then show "(\<exists>b. r = Inr b) \<longrightarrow> fs' c = Some cert \<and> fs' k = Some key"
    and "(fs' c = fs c \<or> fs' c = Some cert) \<and> (fs' k = fs k \<or> fs' k = Some key)" by blast+
qed

lemma Save_bundle:
  "Save io base name zone doms cert key na fs = (Inr b, fs') \<Longrightarrow> BundlePaths base name = (c, k) \<Longrightarrow>
     cb_CertPath b = c \<and> cb_KeyPath b = k \<and> cb_NotAfter b = na \<and> cb_Domains b = doms \<and> cb_Zone b = zone"
  by (auto simp: Save_def Let_def split: option.splits prod.splits if_splits)

section \<open>Facts about renewal\<close>

lemma obtainAndSave_ok:
  assumes "obtainAndSave env io d n req cfg fs = (Inr b, fs')"
  obtains cert key expiry where "ae_obtain env req cfg = Inr (cert, key)" and "ae_notAfter env cert = Inr expiry"
    and "fs' (PathJoin [d, ''certs'', storageNameForBundle n, ''fullchain.pem'']) = Some cert"
    and "fs' (PathJoin [d, ''certs'', storageNameForBundle n, ''privkey.pem'']) = Some key"
    and "cb_Name b = n" and "cb_Domains b = iq_Domains req" and "cb_NotAfter b = expiry"
    and "cb_DeployTargets b = iq_DeployTargets req" and "cb_Domain b = iq_Domain req" and "cb_Zone b = iq_Domain req"
    and "cb_CertPath b = PathJoin [d, ''certs'', storageNameForBundle n, ''fullchain.pem'']"
    and "cb_KeyPath b = PathJoin [d, ''certs'', storageNameForBundle n, ''privkey.pem'']"
proof -
  let ?n = "storageNameForBundle n"
  have ne: "?n \<noteq> []" using storageName_comp [of n] by (simp add: clean_comp_def)
  note bp = BundlePaths_join [OF ne, of d]
  from assms obtain cert key expiry saved where o: "ae_obtain env req cfg = Inr (cert, key)" "ae_notAfter env cert = Inr expiry"
      and sv: "Save io (PathJoin [d, ''certs'']) ?n (iq_Domain req) (iq_Domains req) cert key expiry fs = (Inr saved, fs')"
      and b: "b = saved\<lparr>cb_Name := n, cb_Domain := iq_Domain req, cb_DeployTargets := iq_DeployTargets req\<rparr>"
    by (auto simp: obtainAndSave_def Let_def split: sum.splits prod.splits option.splits)
  from Save_files(1) [OF sv bp bundle_paths_ok] Save_bundle [OF sv bp] o b that show ?thesis by simp
qed

lemma requested_bundle_paths:
  "cb_CertPath (requested_bundle d req) = PathJoin [d, ''certs'', storageNameForBundle (iq_BundleName req), ''fullchain.pem'']"
  "cb_KeyPath (requested_bundle d req) = PathJoin [d, ''certs'', storageNameForBundle (iq_BundleName req), ''privkey.pem'']"
  by (simp_all add: requested_bundle_def)

lemma EnsureCertificate_fresh:
  assumes "loadBundleMetadata env rio fs (requested_bundle d req) = Inr b" and "\<not> ShouldRenew b now (iq_RenewBefore req)"
  shows "EnsureCertificate env rio wio now d req cfg fs = (Inr b, fs)"
  using assms by (simp add: EnsureCertificate_def)

lemma loadBundleMetadata_stored:
  assumes "fs (cb_CertPath b) = Some cert" and "fs (cb_KeyPath b) = Some key" and "ae_X509KeyPair env cert key = Inr na"
    and "io_ReadFile rio = None"
  shows "loadBundleMetadata env rio fs b = Inr (b\<lparr>cb_NotAfter := na\<rparr>)"
  using assms by (simp add: loadBundleMetadata_def ReadBundle_def ReadFile_def)

lemma EnsureCertificate_after_issue:
  assumes issued: "obtainAndSave env wio d (iq_BundleName req) req cfg fs = (Inr b, fs')"
    and pair: "ae_obtain env req cfg = Inr (cert, key)" "ae_notAfter env cert = Inr na" "ae_X509KeyPair env cert key = Inr na"
    and "io_ReadFile rio = None" and "na \<noteq> 0" and "now < RenewalTime b (iq_RenewBefore req)"
  shows "EnsureCertificate env rio wio' now d req cfg fs' = (Inr b, fs')"
proof -
  from issued show ?thesis
  proof (cases rule: obtainAndSave_ok)
    case (1 cert' key' expiry)
    with pair have same: "cert' = cert" "key' = key" "expiry = na" by simp_all
    have "loadBundleMetadata env rio fs' (requested_bundle d req) = Inr ((requested_bundle d req)\<lparr>cb_NotAfter := na\<rparr>)"
      using 1 same pair assms(5) by (intro loadBundleMetadata_stored) (simp_all add: requested_bundle_paths)
    moreover have "(requested_bundle d req)\<lparr>cb_NotAfter := na\<rparr> = b"
      using 1 same by (cases b) (simp add: requested_bundle_def zero_bundle_def)
    moreover have "\<not> ShouldRenew b now (iq_RenewBefore req)"
      using assms(6,7) 1 same by (simp add: ShouldRenew_def)
    ultimately show ?thesis by (simp add: EnsureCertificate_fresh)
  qed
qed

section \<open>Facts about the guarded challenge\<close>

lemma guarded_call_within:
  "guarded_call env call m d t k = (err, calls) \<Longrightarrow> calls \<noteq> [] \<Longrightarrow>
     DomainWithinManagedDomain m (TrimSuffix (de_EffectiveFQDN env d k) ''.'') \<and> calls = [(d, t, k)]"
  by (auto simp: guarded_call_def resolveAuthZone_def Let_def split: sum.splits if_splits)

section \<open>Facts about deployment\<close>

lemma deploy_one_run:
  "deploy_one env av b c k n fs = ((run, err), fs') \<Longrightarrow>
     dr_Target run = n \<and> dr_Bundle run = cb_Name b \<and> (dr_Status run = ''success'' \<longleftrightarrow> err = None)"
  by (auto simp: deploy_one_def Let_def split: option.splits if_splits prod.splits sum.splits)

lemma deploy_each_runs:
  "deploy_each env av b c k ns fs = ((runs, errs), fs') \<Longrightarrow>
     map dr_Target runs = ns \<and> (\<forall>r \<in> set runs. dr_Bundle r = cb_Name b)
     \<and> (errs = [] \<longleftrightarrow> (\<forall>r \<in> set runs. dr_Status r = ''success''))"
proof (induction ns arbitrary: fs runs errs fs')
  case (Cons n ns)
  obtain run err fs1 where one: "deploy_one env av b c k n fs = ((run, err), fs1)" by (metis prod.collapse)
  obtain runs' errs' fs2 where rest: "deploy_each env av b c k ns fs1 = ((runs', errs'), fs2)" by (metis prod.collapse)
  from Cons.prems one rest have "runs = run # runs'" "errs = opt_to_list err @ errs'" by simp_all
  with Cons.IH [OF rest] deploy_one_run [OF one] show ?case by (cases err) auto
qed simp

lemma deploy_one_local:
  assumes "deploy_one env av b c k n fs = ((run, None), fs')" and "gm_get av n = Some t"
    and "dt_Transport t = DeployTransportLocal" and "pair_paths_ok (dt_CertPath t) (dt_KeyPath t)"
  shows "fs' (dt_CertPath t) = Some c \<and> fs' (dt_KeyPath t) = Some k"
proof -
  obtain e where "write_pair (dn_io env n) (dt_CertPath t) (dt_KeyPath t) c k fs = (e, fs') \<and> e = None"
    using assms(1-3)
    by (auto simp: deploy_one_def LocalDeploy_def Let_def split: prod.splits option.splits if_splits)
  with write_pair_result [OF _ assms(4)] show ?thesis by blast
qed

section \<open>Facts about the TLS store\<close>

definition tls_ok :: "'c tls_store \<Rightarrow> bool" where
  "tls_ok s \<longleftrightarrow> gm_ok (ts_exact s) \<and> gm_ok (ts_wildcards s) \<and> (ts_exact s \<noteq> [] \<longrightarrow> ts_defaultCert s \<noteq> None)"

lemma tls_ok_steps:
  "tls_ok NewTlsStore" "tls_ok s \<Longrightarrow> tls_ok (tls_Set h c s)" "tls_ok s \<Longrightarrow> tls_ok (tls_SetDefault c s)"
  by (auto simp: tls_ok_def NewTlsStore_def tls_Set_def tls_SetDefault_def Let_def)

text \<open>
  The specification of the choice: an exact entry, else the wildcard entry with the longest
  domain among those whose labels are a proper suffix of the host's, else the default.
\<close>

definition wildcard_match :: "'c tls_store \<Rightarrow> string \<Rightarrow> nat \<Rightarrow> 'c \<Rightarrow> bool" where
  "wildcard_match s host i c \<longleftrightarrow> 0 < i \<and> i < length (Split host (CHR ''.''))
     \<and> gm_get (ts_wildcards s) (Join (drop i (Split host (CHR ''.''))) ''.'') = Some c"

lemma wildcard_scan:
  assumes "List.map_filter (gm_get (ts_wildcards s)) (wildcard_candidates host) = c # cs"
  shows "\<exists>i. wildcard_match s host i c \<and> (\<forall>j c'. wildcard_match s host j c' \<longrightarrow> i \<le> j)"
proof -
  let ?parts = "Split host (CHR ''.'')" and ?f = "\<lambda>i. gm_get (ts_wildcards s) (Join (drop i (Split host (CHR ''.''))) ''.'')"
  have "List.map_filter (gm_get (ts_wildcards s)) (wildcard_candidates host) = List.map_filter ?f [1..<length ?parts]"
    by (simp add: wildcard_candidates_def Let_def List.map_filter_def comp_def filter_map)
  then have "List.map_filter ?f [1..<length ?parts] = c # cs" using assms by (rule trans [OF sym])
  from map_filter_Cons_split [OF this] obtain pre i post where sp: "[1..<length ?parts] = pre @ i # post"
      and c: "?f i = Some c" and pre: "\<forall>p \<in> set pre. ?f p = None" by blast
  have len: "length pre < length ?parts - 1" using arg_cong [OF sp, of length] by simp
  have "i = [1..<length ?parts] ! length pre" unfolding sp by simp
  with len have i: "i = Suc (length pre)" by simp
  moreover have "set pre = {1..<i}"
  proof -
    have "pre = take (length pre) [1..<length ?parts]" unfolding sp by simp
    also have "\<dots> = [1..<i]" using len i by (simp add: take_upt)
    finally show ?thesis by simp
  qed
  ultimately have least: "?f j = None" if "0 < j" "j < i" for j using pre that by auto
  have "i \<le> j" if "wildcard_match s host j c'" for j c'
    using that least [of j] by (cases "j < i") (auto simp: wildcard_match_def)
  moreover have "wildcard_match s host i c" using c i len by (simp add: wildcard_match_def)
  ultimately show ?thesis by blast
qed

section \<open>Properties\<close>

definition demo_request :: issue_request where
  "demo_request = \<lparr>iq_BundleName = ''x.io'', iq_Domain = ''x.io'', iq_Domains = [''x.io''], iq_Email = ''a@x.io'',
     iq_DNSProvider = ''cf'', iq_RenewBefore = 100, iq_DeployTargets = []\<rparr>"

definition demo_cfg :: provider_config where
  "demo_cfg = \<lparr>pc_Ref = ''cf'', pc_Type = ''cloudflare'', pc_Options = [(''api_token'', ''t'')]\<rparr>"

text \<open>The key belongs to the certificate when they are equal; every certificate expires at 1000.\<close>

definition demo_acme :: acme_env where
  "demo_acme = \<lparr>ae_X509KeyPair = (\<lambda>c k. if c = k then Inr 1000 else Inl (Errorf ''private key does not match'' [])),
     ae_notAfter = (\<lambda>_. Inr 1000), ae_obtain = (\<lambda>_ _. Inr (''new'', ''new''))\<rparr>"

lemma demo_bundle_valid:
  "CertificateBundle_Validate (requested_bundle d demo_request) = None"
  using bundle_files [of d "storageNameForBundle ''x.io''"]
  by (auto simp: CertificateBundle_Validate_def requested_bundle_def demo_request_def zero_bundle_def literal_simps)

text \<open>
  Claim C33. A certificate that was just issued is not issued again: the call after a
  successful issue finds the pair on disk and, until the renewal time, returns the same bundle
  and leaves the files alone.
\<close>

theorem issued_certificate_is_kept:
  assumes "obtainAndSave env wio d (iq_BundleName req) req cfg fs = (Inr b, fs')"
    and "ae_obtain env req cfg = Inr (cert, key)" and "ae_notAfter env cert = Inr na"
    and "ae_X509KeyPair env cert key = Inr na" and "io_ReadFile rio = None" and "na \<noteq> 0"
    and "now < RenewalTime b (iq_RenewBefore req)"
  shows "EnsureCertificate env rio wio' now d req cfg fs' = (Inr b, fs')"
  by (rule EnsureCertificate_after_issue [OF assms])

lemma writeAtomically_no_faults:
  "writeAtomically no_faults p data fs = (None, (fs(p @ ''.tmp'' := None))(p \<mapsto> data))"
  by (simp add: writeAtomically_def no_faults_def WriteFile_def Rename_def)

lemma demo_issue:
  "\<exists>b fs'. obtainAndSave demo_acme (no_faults, no_faults) ''/d'' (iq_BundleName demo_request) demo_request demo_cfg fs = (Inr b, fs')
     \<and> RenewalTime b 100 = 900"
proof -
  let ?n = "storageNameForBundle ''x.io''"
  have ne: "?n \<noteq> []" using storageName_comp [of "''x.io''"] by (simp add: clean_comp_def)
  have mk: "io_MkdirAll no_faults = None" by (simp add: no_faults_def)
  obtain a b where ab: "PathJoin [''/d'', ''certs'', ?n, ''fullchain.pem''] = a @ ''fullchain.pem''"
    "PathJoin [''/d'', ''certs'', ?n, ''privkey.pem''] = b @ ''privkey.pem''" using bundle_files by blast
  show ?thesis
    by (simp add: obtainAndSave_def demo_acme_def demo_request_def Save_def BundlePaths_join [OF ne] mk
        writeAtomically_no_faults CertificateBundle_Validate_def zero_bundle_def ab ne literal_simps RenewalTime_def Let_def)
qed

theorem issued_certificate_is_kept_witness:
  "\<exists>b fs'. obtainAndSave demo_acme (no_faults, no_faults) ''/d'' ''x.io'' demo_request demo_cfg Map.empty = (Inr b, fs')
     \<and> EnsureCertificate demo_acme no_faults (no_faults, no_faults) 899 ''/d'' demo_request demo_cfg fs' = (Inr b, fs')"
proof -
  obtain b fs' where o: "obtainAndSave demo_acme (no_faults, no_faults) ''/d'' (iq_BundleName demo_request) demo_request demo_cfg Map.empty = (Inr b, fs')"
    and r: "RenewalTime b 100 = 900" using demo_issue by blast
  from issued_certificate_is_kept [OF o, of "''new''" "''new''" 1000 no_faults 899 "(no_faults, no_faults)"] o r show ?thesis
    by (auto simp: demo_acme_def demo_request_def no_faults_def)
qed

text \<open>
  Renewal looks at the expiry only: a bundle whose certificate is not due is
  returned as it is for any list of domains, labelled with the domains of the request, and no
  certificate for the new domains is obtained.
\<close>

theorem changed_domains_are_not_issued:
  assumes "loadBundleMetadata env rio fs (requested_bundle d req) = Inr b" and "\<not> ShouldRenew b now (iq_RenewBefore req)"
  shows "EnsureCertificate env rio wio now d (req\<lparr>iq_Domains := doms\<rparr>) cfg fs = (Inr (b\<lparr>cb_Domains := doms\<rparr>), fs)"
proof -
  have "requested_bundle d (req\<lparr>iq_Domains := doms\<rparr>) = (requested_bundle d req)\<lparr>cb_Domains := doms\<rparr>"
    by (simp add: requested_bundle_def)
  then have "loadBundleMetadata env rio fs (requested_bundle d (req\<lparr>iq_Domains := doms\<rparr>)) = Inr (b\<lparr>cb_Domains := doms\<rparr>)"
    using assms(1) by (auto simp: loadBundleMetadata_def ReadBundle_def requested_bundle_paths split: sum.splits)
  moreover have "\<not> ShouldRenew (b\<lparr>cb_Domains := doms\<rparr>) now (iq_RenewBefore req)"
    using assms(2) by (simp add: ShouldRenew_def RenewalTime_def)
  ultimately show ?thesis by (simp add: EnsureCertificate_def)
qed

text \<open>
  A renewal that is interrupted between the certificate and its key is never
  repaired: once the new certificate stands next to the old key, every later
  \<open>EnsureCertificate\<close> returns the mismatch error and leaves the files as they are.
\<close>

theorem interrupted_renewal_sticks:
  assumes "fs (cb_CertPath (requested_bundle d req)) = Some newCert"
    and "fs (cb_KeyPath (requested_bundle d req)) = Some oldKey"
    and "ae_X509KeyPair env newCert oldKey = Inl mismatch" and "\<not> errors_Is mismatch ErrNotExist"
    and "io_ReadFile rio = None"
  shows "EnsureCertificate env rio wio now d req cfg fs = (Inl mismatch, fs)"
  using assms by (simp add: EnsureCertificate_def loadBundleMetadata_def ReadBundle_def ReadFile_def)

definition demo_pair :: "string \<Rightarrow> string \<Rightarrow> string file_system" where
  "demo_pair c k = [cb_CertPath (requested_bundle ''/d'' demo_request) \<mapsto> c, cb_KeyPath (requested_bundle ''/d'' demo_request) \<mapsto> k]"

lemma demo_pair_simps:
  "demo_pair c k (cb_CertPath (requested_bundle ''/d'' demo_request)) = Some c"
  "demo_pair c k (cb_KeyPath (requested_bundle ''/d'' demo_request)) = Some k"
  using bundle_paths_ok [of "''/d''" "storageNameForBundle (iq_BundleName demo_request)"]
  by (simp_all add: demo_pair_def requested_bundle_paths pair_paths_ok_def)

theorem changed_domains_are_not_issued_witness:
  "\<exists>b. EnsureCertificate demo_acme no_faults (no_faults, no_faults) 5 ''/d'' (demo_request\<lparr>iq_Domains := [''y.x.io'']\<rparr>) demo_cfg
        (demo_pair ''p'' ''p'') = (Inr (b\<lparr>cb_Domains := [''y.x.io'']\<rparr>), demo_pair ''p'' ''p'')"
proof -
  have l: "loadBundleMetadata demo_acme no_faults (demo_pair ''p'' ''p'') (requested_bundle ''/d'' demo_request)
      = Inr ((requested_bundle ''/d'' demo_request)\<lparr>cb_NotAfter := 1000\<rparr>)"
    by (rule loadBundleMetadata_stored [OF demo_pair_simps]) (simp_all add: demo_acme_def no_faults_def)
  have "\<not> ShouldRenew ((requested_bundle ''/d'' demo_request)\<lparr>cb_NotAfter := 1000\<rparr>) 5 (iq_RenewBefore demo_request)"
    by (simp add: ShouldRenew_def RenewalTime_def demo_request_def)
  from changed_domains_are_not_issued [OF l this] show ?thesis by blast
qed

theorem interrupted_renewal_sticks_witness:
  "EnsureCertificate demo_acme no_faults (no_faults, no_faults) 5 ''/d'' demo_request demo_cfg (demo_pair ''new'' ''old'')
     = (Inl (Errorf ''private key does not match'' []), demo_pair ''new'' ''old'')"
  by (rule interrupted_renewal_sticks [OF demo_pair_simps]) (simp_all add: demo_acme_def no_faults_def)

text \<open>
  The DNS challenge is guarded: a call reaches the DNS provider only when the
  effective name of the challenge lies inside the managed domain, for \<open>Present\<close> and for
  \<open>CleanUp\<close>, and then it is passed on unchanged exactly once.
\<close>

theorem challenge_inside_managed_domain:
  "snd (Present env m d t k) \<in> {[], [(d, t, k)]} \<and> snd (CleanUp env m d t k) \<in> {[], [(d, t, k)]}
   \<and> ((snd (Present env m d t k) = [] \<and> snd (CleanUp env m d t k) = [])
      \<or> DomainWithinManagedDomain m (TrimSuffix (de_EffectiveFQDN env d k) ''.''))"
proof -
  have g: "snd (guarded_call env call m d t k) = []
      \<or> snd (guarded_call env call m d t k) = [(d, t, k)] \<and> DomainWithinManagedDomain m (TrimSuffix (de_EffectiveFQDN env d k) ''.'')" for call
    using guarded_call_within [of env call m d t k] by (metis prod.collapse)
  show ?thesis using g [of "de_Present env"] g [of "de_CleanUp env"] by (auto simp: Present_def CleanUp_def)
qed

text \<open>
  Deploying a bundle reports one run per requested target, in order, and returns no
  error exactly when every run succeeded; a run that succeeded on a local target has written
  the bundle's certificate and key to the target's files.
\<close>

theorem deploy_bundle_runs:
  assumes "ReadBundle rio fs b = Inr (cert, key)" and "DeployBundle env rio s b names fs = ((runs, err), fs')"
  shows "map dr_Target runs = names \<and> (\<forall>r \<in> set runs. dr_Bundle r = cb_Name b)
    \<and> (err = None \<longleftrightarrow> (\<forall>r \<in> set runs. dr_Status r = ''success''))
    \<and> (\<forall>n t. names = [n] \<and> err = None \<and> gm_get (indexedTargets (ListDeployTargets s)) n = Some t
         \<and> dt_Transport t = DeployTransportLocal \<and> pair_paths_ok (dt_CertPath t) (dt_KeyPath t) \<longrightarrow>
         fs' (dt_CertPath t) = Some cert \<and> fs' (dt_KeyPath t) = Some key)"
proof -
  obtain errs where each: "deploy_each env (indexedTargets (ListDeployTargets s)) b cert key names fs = ((runs, errs), fs')"
    and err: "err = errors_Join errs"
    using assms by (auto simp: DeployBundle_def split: prod.splits)
  note runs = deploy_each_runs [OF each]
  have "fs' (dt_CertPath t) = Some cert \<and> fs' (dt_KeyPath t) = Some key"
    if t: "names = [n]" "err = None" "gm_get (indexedTargets (ListDeployTargets s)) n = Some t"
      "dt_Transport t = DeployTransportLocal" "pair_paths_ok (dt_CertPath t) (dt_KeyPath t)" for n t
  proof -
    obtain run e where one: "deploy_one env (indexedTargets (ListDeployTargets s)) b cert key n fs = ((run, e), fs')"
        "errs = opt_to_list e" using each t(1) by (auto split: prod.splits)
    with t(2) err have "e = None" by simp
    with one(1) deploy_one_local [OF _ t(3-5)] show ?thesis by blast
  qed
  with runs err show ?thesis by auto
qed

definition demo_target :: deploy_target where
  "demo_target = \<lparr>dt_Name = ''here'', dt_Transport = DeployTransportLocal, dt_AgentNode = [],
     dt_SSH = \<lparr>ssh_Addr = [], ssh_User = [], ssh_Port = 0, ssh_PrivateKeyPath = []\<rparr>, dt_CertPath = ''/c'', dt_KeyPath = ''/k'',
     dt_ReloadCommand = []\<rparr>"

definition demo_deploy :: deploy_env where
  "demo_deploy = \<lparr>dn_io = (\<lambda>_. (no_faults, no_faults)), dn_sh = (\<lambda>_. ([], None)), dn_exec = (\<lambda>_. ([], None)), dn_net = demo_net,
     dn_pool = None, dn_err_text = (\<lambda>_. []), dn_now = 1\<rparr>"

theorem deploy_bundle_runs_witness:
  "\<exists>runs fs'. DeployBundle demo_deploy no_faults (PutDeployTarget demo_target NewMemoryStore) (requested_bundle ''/d'' demo_request)
       [''here''] (demo_pair ''C'' ''K'') = ((runs, None), fs') \<and> fs' ''/c'' = Some ''C'' \<and> fs' ''/k'' = Some ''K''"
proof -
  let ?s = "PutDeployTarget demo_target NewMemoryStore" and ?b = "requested_bundle ''/d'' demo_request"
  have nf: "io_ReadFile no_faults = None" by (simp add: no_faults_def)
  have rd: "ReadBundle no_faults (demo_pair ''C'' ''K'') ?b = Inr (''C'', ''K'')"
    unfolding ReadBundle_def ReadFile_def demo_pair_simps nf by simp
  have ix: "gm_get (indexedTargets (ListDeployTargets ?s)) ''here'' = Some demo_target"
    by (simp add: indexedTargets_def ListDeployTargets_def PutDeployTarget_def NewMemoryStore_def gm_values_def
        sort_slice_def demo_target_def)
  have mk: "io_MkdirAll no_faults = None" by (simp add: no_faults_def)
  obtain runs fs' where d: "DeployBundle demo_deploy no_faults ?s ?b [''here''] (demo_pair ''C'' ''K'') = ((runs, None), fs')"
    by (simp add: DeployBundle_def rd deploy_one_def ix)
      (simp add: demo_target_def demo_deploy_def LocalDeploy_def write_pair_def mk write_replace_no_faults Let_def)
  from deploy_bundle_runs [OF rd d] ix have "fs' ''/c'' = Some ''C'' \<and> fs' ''/k'' = Some ''K''"
    by (auto simp: demo_target_def pair_paths_ok_def)
  with d show ?thesis by blast
qed

text \<open>
  The certificate for a TLS connection: with a default loaded, the exact entry of the
  host if there is one, else the wildcard entry of the closest parent domain, else the default.
\<close>

theorem tls_certificate_choice:
  assumes "ts_defaultCert s = Some def" and "name \<noteq> []"
  shows "GetCertificate s (Some name) =
    (case gm_get (ts_exact s) (ToLower name) of
       Some c \<Rightarrow> Inr c
     | None \<Rightarrow> (if \<exists>i c. wildcard_match s (ToLower name) i c
               then Inr (the (gm_get (ts_wildcards s)
                      (Join (drop (LEAST i. \<exists>c. wildcard_match s (ToLower name) i c) (Split (ToLower name) (CHR ''.''))) ''.'')))
               else Inr def))"
proof (cases "gm_get (ts_exact s) (ToLower name)")
  case None
  show ?thesis
  proof (cases "List.map_filter (gm_get (ts_wildcards s)) (wildcard_candidates (ToLower name))")
    case Nil
    then have "\<not> wildcard_match s (ToLower name) i c" for i c
      by (auto simp: map_filter_Nil_iff wildcard_candidates_def wildcard_match_def Let_def)
    then have no: "(\<exists>i c. wildcard_match s (ToLower name) i c) = False" by blast
    from assms None Nil show ?thesis unfolding no by (simp add: GetCertificate_def Let_def)
  next
    case (Cons c cs)
    from wildcard_scan [OF Cons] obtain i where i: "wildcard_match s (ToLower name) i c"
      "\<And>j c'. wildcard_match s (ToLower name) j c' \<Longrightarrow> i \<le> j" by blast
    then have least: "(LEAST i. \<exists>c. wildcard_match s (ToLower name) i c) = i" by (intro Least_equality) blast+
    from i(1) have ex: "(\<exists>i c. wildcard_match s (ToLower name) i c) = True" by blast
    from i(1) have "gm_get (ts_wildcards s) (Join (drop i (Split (ToLower name) (CHR ''.''))) ''.'') = Some c"
      by (simp add: wildcard_match_def)
    with assms None Cons show ?thesis unfolding least ex by (simp add: GetCertificate_def Let_def)
  qed
qed (use assms in \<open>simp add: GetCertificate_def Let_def\<close>)

theorem tls_certificate_choice_witness:
  "GetCertificate (tls_Set ''A.io'' (1::nat) NewTlsStore) (Some ''a.io'') = Inr 1"
proof -
  have l: "ToLower (TrimSpace ''A.io'') = ''a.io''" "ToLower ''a.io'' = ''a.io''"
    by (simp_all add: literal_simps ToLower_def lower_char_def is_upper_def char_of_def bit_0)
  have "ts_defaultCert (tls_Set ''A.io'' (1::nat) NewTlsStore) = Some 1"
    by (simp add: tls_Set_def l NewTlsStore_def HasPrefix_def Let_def)
  from tls_certificate_choice [OF this, of "''a.io''"] show ?thesis
    by (simp add: l) (simp add: tls_Set_def l NewTlsStore_def HasPrefix_def Let_def)
qed

text \<open>
  A store that only holds wildcard certificates serves none of them: no default is
  ever set, so every handshake fails although a certificate for the host is loaded.
\<close>

theorem tls_wildcards_alone_are_not_served:
  assumes "HasPrefix (ToLower (TrimSpace host)) ''*.''"
  shows "\<not> HasCertificates (tls_Set host c NewTlsStore)
    \<and> GetCertificate (tls_Set host c NewTlsStore) hello = Inl (Errorf ''no certificates loaded'' [])"
  using assms by (simp add: HasCertificates_def tls_Set_def NewTlsStore_def GetCertificate_def Let_def)

theorem tls_wildcards_alone_are_not_served_witness:
  "GetCertificate (tls_Set ''*.a.io'' (1::nat) NewTlsStore) (Some ''x.a.io'') = Inl (Errorf ''no certificates loaded'' [])"
proof -
  have "ToLower (TrimSpace ''*.a.io'') = ''*.a.io''"
    by (simp add: literal_simps ToLower_def lower_char_def is_upper_def)
  then have "HasPrefix (ToLower (TrimSpace ''*.a.io'')) ''*.''" by (simp add: HasPrefix_def)
  from tls_wildcards_alone_are_not_served [OF this, of "1::nat" "Some ''x.a.io''"] show ?thesis by simp
qed

end
