(* ===== verification/Domux_Account.thy ===== *)
theory Domux_Account
  imports Domux_Certs
begin

text \<open>
  The ACME account and the request for a certificate of \<open>internal/certs/acme/manager.go\<close>: the private
  key of an account is kept in a file, created once and loaded afterwards. Keys are of an arbitrary
  type; their encoding (packages \<open>pem\<close> and \<open>x509\<close>), their generation and the lego client are
  parameters, the file system is explicit and its calls may fail.
\<close>

section \<open>The account key\<close>

record 'k key_env =
  ke_PemDecode :: "string \<Rightarrow> string option"
  ke_PemEncode :: "string \<Rightarrow> string \<Rightarrow> string"
  ke_ParseEC :: "string \<Rightarrow> 'k result"
  ke_MarshalEC :: "'k \<Rightarrow> string result"
  ke_Generate :: "'k result"

record 'k account_user =
  au_Email :: string
  au_Key :: 'k

definition loadECPrivateKey :: "'k key_env \<Rightarrow> string io_faults \<Rightarrow> string \<Rightarrow> string file_system \<Rightarrow> 'k result" where
  "loadECPrivateKey env io path fs =
     (case ReadFile io fs path of
        Inl e \<Rightarrow> Inl e
      | Inr data \<Rightarrow>
          (case ke_PemDecode env data of
             None \<Rightarrow> Inl (Errorf ''invalid pem data'' [])
           | Some block \<Rightarrow> ke_ParseEC env block))"

definition saveECPrivateKey :: "'k key_env \<Rightarrow> string io_faults \<Rightarrow> string \<Rightarrow> 'k \<Rightarrow> string file_system \<Rightarrow>
    go_error option \<times> string file_system" where
  "saveECPrivateKey env io path key fs =
     (case ke_MarshalEC env key of
        Inl e \<Rightarrow> (Some e, fs)
      | Inr der \<Rightarrow> WriteFile io path (ke_PemEncode env ''EC PRIVATE KEY'' der) fs)"

definition account_key_path :: "string \<Rightarrow> string \<Rightarrow> string" where
  "account_key_path dataDir email = PathJoin [dataDir, ''acme'', sanitizeName email @ ''.key'']"

definition loadOrCreateUser :: "'k key_env \<Rightarrow> string io_faults \<Rightarrow> string \<Rightarrow> string \<Rightarrow> string file_system \<Rightarrow>
    'k account_user result \<times> string file_system" where
  "loadOrCreateUser env io dataDir email fs =
     (let keyPath = account_key_path dataDir email
      in case io_MkdirAll io of
           Some e \<Rightarrow> (Inl e, fs)
         | None \<Rightarrow>
             (case loadECPrivateKey env io keyPath fs of
                Inr key \<Rightarrow> (Inr \<lparr>au_Email = email, au_Key = key\<rparr>, fs)
              | Inl e \<Rightarrow>
                  if \<not> errors_Is e ErrNotExist then (Inl e, fs)
                  else
                    (case ke_Generate env of
                       Inl e \<Rightarrow> (Inl e, fs)
                     | Inr key \<Rightarrow>
                         (case saveECPrivateKey env io keyPath key fs of
                            (Some e, fs') \<Rightarrow> (Inl e, fs')
                          | (None, fs') \<Rightarrow> (Inr \<lparr>au_Email = email, au_Key = key\<rparr>, fs')))))"

section \<open>Asking for a certificate\<close>

text \<open>The provider that answers the challenges: it is guarded by the managed domain, and keeps the timeouts of the wrapped one.\<close>

record managed_dns01 =
  md_managedDomain :: string
  md_lookupNS :: ns_lookup
  md_provider :: lego_config
  md_Timeout :: "(duration \<times> duration) option"

record ('k, 'c, 'r) lego_env =
  lg_NewClient :: "'k account_user \<Rightarrow> string option \<Rightarrow> 'c result"
  lg_Timeout :: "lego_config \<Rightarrow> (duration \<times> duration) option"
  lg_SetDNS01Provider :: "'c \<Rightarrow> managed_dns01 \<Rightarrow> 'c result"
  lg_ResolveAccountByKey :: "'c \<Rightarrow> 'r result"
  lg_Register :: "'c \<Rightarrow> 'r result"
  lg_Obtain :: "'c \<Rightarrow> 'r \<Rightarrow> string list \<Rightarrow> (string \<times> string) result"

record acme_manager =
  am_DataDir :: string
  am_CADirURL :: string
  am_Providers :: "registry option"
  am_AuthZones :: "ns_lookup option"

definition NewAcmeManager :: "ns_lookup \<Rightarrow> string \<Rightarrow> registry \<Rightarrow> acme_manager" where
  "NewAcmeManager lookupNS dataDir providers =
     \<lparr>am_DataDir = dataDir, am_CADirURL = [], am_Providers = Some providers, am_AuthZones = Some lookupNS\<rparr>"

definition wrapDNS01Provider :: "('k, 'c, 'r) lego_env \<Rightarrow> ns_lookup \<Rightarrow> acme_manager \<Rightarrow> string \<Rightarrow> lego_config \<Rightarrow> managed_dns01" where
  "wrapDNS01Provider lego defaultNS m managedDomain provider =
     \<lparr>md_managedDomain = managedDomain,
      md_lookupNS = (case am_AuthZones m of Some r \<Rightarrow> r | None \<Rightarrow> defaultNS),
      md_provider = provider, md_Timeout = lg_Timeout lego provider\<rparr>"

definition resolve_account :: "('k, 'c, 'r) lego_env \<Rightarrow> 'c \<Rightarrow> 'r result" where
  "resolve_account lego client =
     (case lg_ResolveAccountByKey lego client of Inr reg \<Rightarrow> Inr reg | Inl _ \<Rightarrow> lg_Register lego client)"

definition acme_obtain :: "'k key_env \<Rightarrow> ('k, 'c, 'r) lego_env \<Rightarrow> ns_lookup \<Rightarrow> string io_faults \<Rightarrow> acme_manager \<Rightarrow> issue_request \<Rightarrow>
    provider_config \<Rightarrow> string file_system \<Rightarrow> (string \<times> string) result \<times> string file_system" where
  "acme_obtain env lego defaultNS io m req providerCfg fs =
     (case loadOrCreateUser env io (am_DataDir m) (iq_Email req) fs of
        (Inl e, fs') \<Rightarrow> (Inl e, fs')
      | (Inr user, fs') \<Rightarrow>
          (case lg_NewClient lego user (if am_CADirURL m = [] then None else Some (am_CADirURL m)) of
             Inl e \<Rightarrow> (Inl e, fs')
           | Inr client \<Rightarrow>
               (case am_Providers m of
                  None \<Rightarrow> (Inl (Errorf ''acme dns provider registry is not configured'' []), fs')
                | Some reg \<Rightarrow>
                    (case registry_NewChallenge reg (pc_Type providerCfg) (pc_Options providerCfg) of
                       Inl e \<Rightarrow> (Inl e, fs')
                     | Inr dnsProvider \<Rightarrow>
                         (case lg_SetDNS01Provider lego client (wrapDNS01Provider lego defaultNS m (iq_Domain req) dnsProvider) of
                            Inl e \<Rightarrow> (Inl e, fs')
                          | Inr client' \<Rightarrow>
                              (case resolve_account lego client' of
                                 Inl e \<Rightarrow> (Inl e, fs')
                               | Inr account \<Rightarrow> (lg_Obtain lego client' account (iq_Domains req), fs')))))))"

section \<open>Facts\<close>

text \<open>
  The documented behaviour of the key encoding: what was marshalled is parsed back, and a parse error
  is not the error of a missing file.
\<close>

definition key_codec_ok :: "'k key_env \<Rightarrow> bool" where
  "key_codec_ok env \<longleftrightarrow>
     (\<forall>key der. ke_MarshalEC env key = Inr der \<longrightarrow>
        ke_PemDecode env (ke_PemEncode env ''EC PRIVATE KEY'' der) = Some der \<and> ke_ParseEC env der = Inr key)
     \<and> (\<forall>der e. ke_ParseEC env der = Inl e \<longrightarrow> \<not> errors_Is e ErrNotExist)"

lemma loadECPrivateKey_local:
  "fs path = fs' path \<Longrightarrow> loadECPrivateKey env io path fs = loadECPrivateKey env io path fs'"
  by (simp add: loadECPrivateKey_def ReadFile_def cong: option.case_cong)

text \<open>Only a missing file looks like one.\<close>

lemma loadECPrivateKey_missing:
  assumes "key_codec_ok env" and "loadECPrivateKey env io path fs = Inl e" and "errors_Is e ErrNotExist"
  shows "fs path = None"
  using assms by (auto simp: loadECPrivateKey_def ReadFile_def key_codec_ok_def split: option.splits sum.splits)

lemma saveECPrivateKey_ok:
  assumes "key_codec_ok env" and "saveECPrivateKey env io path key fs = (None, fs')" and "io_ReadFile io' = None"
  shows "loadECPrivateKey env io' path fs' = Inr key"
  using assms
  by (auto simp: saveECPrivateKey_def WriteFile_def loadECPrivateKey_def ReadFile_def key_codec_ok_def
      split: sum.splits option.splits write_fault.splits)

lemma loadOrCreateUser_existing:
  assumes "key_codec_ok env" and "fs (account_key_path dataDir email) \<noteq> None"
  shows "snd (loadOrCreateUser env io dataDir email fs) = fs"
  using assms loadECPrivateKey_missing [OF assms(1)]
  by (fastforce simp: loadOrCreateUser_def Let_def split: option.splits sum.splits)

lemma loadOrCreateUser_load:
  assumes "key_codec_ok env" and "loadOrCreateUser env io dataDir email fs = (Inr user, fs')" and "io_ReadFile io' = None"
  shows "loadECPrivateKey env io' (account_key_path dataDir email) fs' = Inr (au_Key user) \<and> au_Email user = email"
proof (cases "loadECPrivateKey env io (account_key_path dataDir email) fs")
  case (Inl e)
  with assms(2) obtain key where "saveECPrivateKey env io (account_key_path dataDir email) key fs = (None, fs')"
      "user = \<lparr>au_Email = email, au_Key = key\<rparr>"
    by (auto simp: loadOrCreateUser_def Let_def split: option.splits sum.splits if_splits prod.splits)
  with saveECPrivateKey_ok [OF assms(1) _ assms(3)] show ?thesis by simp
next
  case (Inr key)
  with assms(2) have "user = \<lparr>au_Email = email, au_Key = key\<rparr>" "fs' = fs"
    by (auto simp: loadOrCreateUser_def Let_def split: option.splits)
  moreover have "loadECPrivateKey env io' p fs = Inr key" if "loadECPrivateKey env io p fs = Inr key" for p
    using that assms(3) by (auto simp: loadECPrivateKey_def ReadFile_def split: option.splits)
  ultimately show ?thesis using Inr by simp
qed

section \<open>Properties\<close>

text \<open>
  Claim C34. The key of an ACME account is created once and then kept: a key file that exists is never
  written again, whatever the call returns and whichever calls fail; after a success every later call
  for the account whose own calls do not fail returns the same key and leaves all files alone, as long
  as nobody else changes the file. So the account is found by its key and not registered anew.
\<close>

theorem account_key_kept:
  assumes "key_codec_ok env" and "loadOrCreateUser env io dataDir email fs = (r, fs')"
  shows "(fs (account_key_path dataDir email) \<noteq> None \<longrightarrow> fs' = fs)
    \<and> (\<forall>user io' fs2. r = Inr user \<and> io_MkdirAll io' = None \<and> io_ReadFile io' = None
         \<and> fs2 (account_key_path dataDir email) = fs' (account_key_path dataDir email) \<longrightarrow>
         loadOrCreateUser env io' dataDir email fs2 = (Inr user, fs2))"
proof (intro conjI allI impI)
  show "fs' = fs" if "fs (account_key_path dataDir email) \<noteq> None"
    using loadOrCreateUser_existing [of env fs dataDir email io] that assms by simp
next
  fix user fs2 and io' :: "string io_faults"
  assume a: "r = Inr user \<and> io_MkdirAll io' = None \<and> io_ReadFile io' = None
         \<and> fs2 (account_key_path dataDir email) = fs' (account_key_path dataDir email)"
  with loadOrCreateUser_load [OF assms(1), of io dataDir email fs user fs' io'] assms(2)
    loadECPrivateKey_local [of fs2 "account_key_path dataDir email" fs' env io']
  have "loadECPrivateKey env io' (account_key_path dataDir email) fs2 = Inr (au_Key user)" "au_Email user = email" by auto
  with a show "loadOrCreateUser env io' dataDir email fs2 = (Inr user, fs2)" by (simp add: loadOrCreateUser_def)
qed

definition demo_keys :: "nat key_env" where
  "demo_keys = \<lparr>ke_PemDecode = (\<lambda>s. case s of [] \<Rightarrow> None | c # t \<Rightarrow> Some t), ke_PemEncode = (\<lambda>_ der. CHR ''p'' # der),
     ke_ParseEC = (\<lambda>der. Inr (length der)), ke_MarshalEC = (\<lambda>n. Inr (replicate n (CHR ''k''))), ke_Generate = Inr 7\<rparr>"

theorem account_key_kept_witness:
  "\<exists>user fs'. loadOrCreateUser demo_keys no_faults ''/d'' ''a@x.io'' Map.empty = (Inr user, fs')
     \<and> loadOrCreateUser demo_keys no_faults ''/d'' ''a@x.io'' fs' = (Inr user, fs')"
proof -
  have ok: "key_codec_ok demo_keys" by (simp add: key_codec_ok_def demo_keys_def)
  have l: "loadOrCreateUser demo_keys no_faults ''/d'' ''a@x.io'' Map.empty
      = (Inr \<lparr>au_Email = ''a@x.io'', au_Key = 7\<rparr>, Map.empty(account_key_path ''/d'' ''a@x.io'' \<mapsto> CHR ''p'' # replicate 7 (CHR ''k'')))"
    by (simp add: loadOrCreateUser_def loadECPrivateKey_def saveECPrivateKey_def ReadFile_def WriteFile_def no_faults_def demo_keys_def)
  from account_key_kept [OF ok l] l show ?thesis by (auto simp: no_faults_def)
qed

text \<open>
  The key file is written in place: when the write is interrupted and leaves bytes that are no PEM
  block behind, every later call for the account fails and the file stays as it is.
\<close>

theorem interrupted_account_key_sticks:
  assumes "ke_PemDecode env junk = None" and "ke_Generate env = Inr key" and "ke_MarshalEC env key = Inr der"
    and "io_MkdirAll io = None" and "io_ReadFile io = None" and "io_WriteFile io = Some (WriteFails junk e)"
    and "fs (account_key_path dataDir email) = None"
    and "loadOrCreateUser env io dataDir email fs = (r, fs')"
  shows "\<exists>e'. fst (loadOrCreateUser env io' dataDir email fs') = Inl e'"
    and "snd (loadOrCreateUser env io' dataDir email fs') = fs'"
proof -
  have "fs' (account_key_path dataDir email) = Some junk"
    using assms by (auto simp: loadOrCreateUser_def loadECPrivateKey_def saveECPrivateKey_def ReadFile_def WriteFile_def Let_def)
  then have "\<exists>e'. loadOrCreateUser env io' dataDir email fs' = (Inl e', fs')"
    using assms(1) by (auto simp: loadOrCreateUser_def loadECPrivateKey_def ReadFile_def Let_def split: option.splits)
  then show "\<exists>e'. fst (loadOrCreateUser env io' dataDir email fs') = Inl e'"
    "snd (loadOrCreateUser env io' dataDir email fs') = fs'" by auto
qed

end
