(* ===== verification/Domux_Proxy.thy ===== *)
theory Domux_Proxy
  imports Domux_Agent
begin

text \<open>
  The HTTP proxy (\<open>internal/proxy/http/server.go\<close>): the table of routes that a refresh swaps in,
  the lookup by the host of a request, and where a request is sent. The reverse proxy of the
  standard library is not modelled beyond the target and the transport it is given.
\<close>

section \<open>The route table\<close>

type_synonym route_table = "discovered_route gomap"

definition NewRouteTable :: route_table where
  "NewRouteTable = []"

definition Swap :: "discovered_route list \<Rightarrow> route_table \<Rightarrow> route_table" where
  "Swap routes t = gm_put_all (\<lambda>r. ToLower (rt_Host r)) routes []"

definition lookup_key :: "string \<Rightarrow> string" where
  "lookup_key host =
     (let key = ToLower host
      in case Cut key (CHR '':'') of Some (before, _) \<Rightarrow> before | None \<Rightarrow> key)"

definition Lookup :: "route_table \<Rightarrow> string \<Rightarrow> discovered_route option" where
  "Lookup t host = gm_get t (lookup_key host)"

section \<open>The handler\<close>

text \<open>
  The outcome of \<open>ServeHTTP\<close>: a \<open>404\<close>, a \<open>502\<close> with the parse error, or the request given to a
  reverse proxy for a target, with a transport if the resolver has one for the route.
\<close>

datatype 't served =
    NotFound
  | BadGateway go_error
  | Forward discovered_route go_url "'t option"

definition ServeHTTP :: "route_table \<Rightarrow> (discovered_route \<Rightarrow> 't option) option \<Rightarrow> string \<Rightarrow> 't served" where
  "ServeHTTP t resolver host =
     (case Lookup t host of
        None \<Rightarrow> NotFound
      | Some route \<Rightarrow>
          (let targetURL = (if TrimSpace (rt_ProxyURL route) \<noteq> [] then rt_ProxyURL route else rt_TargetURL route)
           in case url_Parse targetURL of
                Inl e \<Rightarrow> BadGateway e
              | Inr target \<Rightarrow>
                  Forward route target (case resolver of None \<Rightarrow> None | Some f \<Rightarrow> f route)))"

section \<open>Facts\<close>

lemma Swap_keyed [simp]: "gm_keyed (\<lambda>r. ToLower (rt_Host r)) (Swap routes t)"
  by (simp add: Swap_def gm_put_all_keyed)

lemma Lookup_Swap:
  "Lookup (Swap routes t) host = find (\<lambda>r. ToLower (rt_Host r) = lookup_key host) (rev routes)"
  by (simp add: Lookup_def Swap_def gm_put_all_get split: option.splits)

lemma lower_char_colon: "lower_char c = CHR '':'' \<longleftrightarrow> c = CHR '':''"
proof (cases "is_upper c")
  case True
  then have "(65::nat) \<le> of_char c" and "of_char c \<le> (90::nat)"
    by (simp_all add: is_upper_def less_eq_char_def)
  then have "of_char (lower_char c) = of_char c + (32::nat)"
    using True by (simp add: lower_char_def of_char_of)
  with \<open>(65::nat) \<le> of_char c\<close> have "lower_char c \<noteq> CHR '':''" and "c \<noteq> CHR '':''" by auto
  then show ?thesis by simp
qed (simp add: lower_char_def)

lemma colon_ToLower [simp]: "CHR '':'' \<in> set (ToLower s) \<longleftrightarrow> CHR '':'' \<in> set s"
  by (force simp: ToLower_def lower_char_colon image_iff eq_commute [of "CHR '':''"])

lemma lookup_key_plain: "CHR '':'' \<notin> set host \<Longrightarrow> lookup_key host = ToLower host"
  by (simp add: lookup_key_def Let_def Cut_None [THEN iffD2])

lemma lookup_key_port:
  assumes "CHR '':'' \<notin> set host"
  shows "lookup_key (host @ '':'' @ port) = ToLower host"
proof -
  have "ToLower (host @ '':'' @ port) = ToLower host @ CHR '':'' # ToLower port"
    by (simp add: ToLower_def lower_char_colon)
  with assms show ?thesis by (simp add: lookup_key_def Cut_append)
qed

text \<open>The route of a host is the last one of the list that has it.\<close>

lemma Lookup_Swap_distinct:
  assumes "distinct (map (\<lambda>r. ToLower (rt_Host r)) routes)" and "r \<in> set routes" and "lookup_key host = ToLower (rt_Host r)"
  shows "Lookup (Swap routes t) host = Some r"
  using gm_put_all_get_member [OF assms(1,2), of "[]"] assms(3) by (simp add: Lookup_def Swap_def)

end
