(* ===== verification/Domux_Routes.thy ===== *)
theory Domux_Routes
  imports Domux_Proxy
begin

text \<open>
  Routes and applications of the server (\<open>cmd/domux/main.go\<close>): the discoverers, the routes of custom
  apps, how both are merged, the list of applications, and the refresh that installs the result
  in the store and in the route table.
\<close>

section \<open>Discoverers\<close>

text \<open>The interface \<open>routeDiscoverer\<close> and its two implementations.\<close>

datatype route_discoverer =
    LocalDiscoverer local_discovery
  | RemoteDiscoverer remote_discovery

fun disc_Name :: "os_env \<Rightarrow> route_discoverer \<Rightarrow> string" where
  "disc_Name os (LocalDiscoverer d) = discovery_Name os d"
| "disc_Name os (RemoteDiscoverer d) = ag_Name (rd_Node d)"

fun StartupBlocking :: "route_discoverer \<Rightarrow> bool" where
  "StartupBlocking (LocalDiscoverer d) = True"
| "StartupBlocking (RemoteDiscoverer d) = False"

fun SourceConfig :: "route_discoverer \<Rightarrow> runtime_source" where
  "SourceConfig (LocalDiscoverer d) = ld_Source d"
| "SourceConfig (RemoteDiscoverer d) = ld_Source (rd_local d)"

fun RouteOrigin :: "route_discoverer \<Rightarrow> route_origin" where
  "RouteOrigin (LocalDiscoverer d) = RouteOriginLocalDocker"
| "RouteOrigin (RemoteDiscoverer d) = RouteOriginRemoteAgent"

fun disc_Snapshots :: "os_env \<Rightarrow> nat_lib \<Rightarrow> route_discoverer \<Rightarrow> container_snapshot list result" where
  "disc_Snapshots os lib (LocalDiscoverer d) = Snapshots os lib d"
| "disc_Snapshots os lib (RemoteDiscoverer d) = Snapshots os lib (rd_local d)"

fun disc_DiscoverRoutes :: "os_env \<Rightarrow> nat_lib \<Rightarrow> route_discoverer \<Rightarrow> managed_zone list \<Rightarrow>
    discovered_route list \<times> go_error option" where
  "disc_DiscoverRoutes os lib (LocalDiscoverer d) zones = DiscoverRoutes os lib d zones"
| "disc_DiscoverRoutes os lib (RemoteDiscoverer d) zones = RemoteDiscoverRoutes os lib d zones"

definition discoverAllRoutes :: "os_env \<Rightarrow> nat_lib \<Rightarrow> managed_zone list \<Rightarrow> route_discoverer list \<Rightarrow>
    discovered_route list \<times> go_error option" where
  "discoverAllRoutes os lib zones ds =
     (let found = map (\<lambda>d. disc_DiscoverRoutes os lib d zones) ds
      in (sort_slice rt_Host (concat (map fst found)), errors_Join_opt (map snd found)))"

record discovered_snapshots =
  dsn_NodeName :: string
  dsn_Source :: runtime_source
  dsn_Origin :: route_origin
  dsn_Snapshots :: "container_snapshot list"

fun discoverAllSnapshots :: "os_env \<Rightarrow> nat_lib \<Rightarrow> route_discoverer list \<Rightarrow> discovered_snapshots list \<times> go_error list" where
  "discoverAllSnapshots os lib [] = ([], [])"
| "discoverAllSnapshots os lib (d # ds) =
     (let (results, errs) = discoverAllSnapshots os lib ds
      in case disc_Snapshots os lib d of
           Inl e \<Rightarrow> (results, Wrapf ''discoverer %s snapshots: %w'' [disc_Name os d] e # errs)
         | Inr ss \<Rightarrow>
             (\<lparr>dsn_NodeName = disc_Name os d, dsn_Source = SourceConfig d, dsn_Origin = RouteOrigin d,
               dsn_Snapshots = ss\<rparr> # results, errs))"

definition startupDiscoverers :: "route_discoverer list \<Rightarrow> route_discoverer list" where
  "startupDiscoverers ds = filter StartupBlocking ds"

definition selectedDiscoverers :: "os_env \<Rightarrow> route_discoverer list \<Rightarrow> string \<Rightarrow> route_discoverer list result" where
  "selectedDiscoverers os ds source0 =
     (let source = TrimSpace source0
      in if source = [] then Inr ds
         else
           (let selected = filter (\<lambda>d. disc_Name os d = source) ds
            in if selected = [] then Inl (Errorf ''route source %q not found'' [source]) else Inr selected))"

section \<open>Routes of custom apps\<close>

definition zone_names :: "managed_zone \<Rightarrow> managed_zone gomap \<Rightarrow> managed_zone gomap" where
  "zone_names zone m =
     (let m1 = (let key = TrimSpace (z_Name zone) in if key \<noteq> [] then gm_put key zone m else m)
      in (let key = TrimSpace (z_Domain zone) in if key \<noteq> [] then gm_put key zone m1 else m1))"

definition zoneByName :: "managed_zone list \<Rightarrow> managed_zone gomap" where
  "zoneByName zones = fold zone_names zones []"

text \<open>What the loop of \<open>buildCustomAppRoutes\<close> makes of one app.\<close>

definition custom_route :: "managed_zone gomap \<Rightarrow> pool option \<Rightarrow> custom_app \<Rightarrow> discovered_route result" where
  "custom_route index pool app =
     (let own = TrimSpace (app_Domain app);
          lookup = (if own = [] then TrimSpace (app_Zone app) else own)
      in case gm_get index lookup of
           None \<Rightarrow> Inl (Errorf ''custom app %q references unknown domain %q'' [app_Name app, lookup])
         | Some zone \<Rightarrow>
             (let host = CustomApp_Host app zone;
                  exitNode = TrimSpace (app_ExitNode app);
                  route = (\<lambda>proxyURL.
                    \<lparr>rt_ID = ''custom:'' @ app_Name app @ '':'' @ host, rt_Name = app_Name app, rt_Icon = app_Icon app,
                     rt_Domain = z_Domain zone, rt_Zone = z_Name zone, rt_Subdomain = app_Subdomain app, rt_Host = host,
                     rt_Source = ''manual'', rt_ExitNode = exitNode, rt_Origin = RouteOriginCustomApp, rt_Runtime = [],
                     rt_TargetURL = app_TargetURL app, rt_ProxyURL = proxyURL, rt_Network = [],
                     rt_Container = \<lparr>cr_ID = [], cr_Name = app_Name app, cr_Image = [], cr_Source = ''manual'',
                                     cr_Runtime = []\<rparr>\<rparr>)
              in if exitNode = [] then Inr (route [])
                 else
                   (case pool of
                      None \<Rightarrow> Inl (Errorf ''custom app %q exit node %q is unavailable'' [app_Name app, exitNode])
                    | Some p \<Rightarrow>
                        (case pool_GetByName p exitNode of
                           None \<Rightarrow> Inl (Errorf ''custom app %q exit node %q is unavailable'' [app_Name app, exitNode])
                         | Some client \<Rightarrow>
                             (case HTTPProxyURL client (app_TargetURL app) of
                                Inl e \<Rightarrow> Inl (Wrapf ''custom app %q exit node %q: %w'' [app_Name app, exitNode] e)
                              | Inr proxyURL \<Rightarrow> Inr (route proxyURL))))))"

fun partition_results :: "'a result list \<Rightarrow> 'a list \<times> go_error list" where
  "partition_results [] = ([], [])"
| "partition_results (r # rs) =
     (let (oks, errs) = partition_results rs
      in case r of Inl e \<Rightarrow> (oks, e # errs) | Inr x \<Rightarrow> (x # oks, errs))"

definition buildCustomAppRoutes :: "managed_zone list \<Rightarrow> custom_app list \<Rightarrow> pool option \<Rightarrow>
    discovered_route list \<times> go_error option" where
  "buildCustomAppRoutes zones apps pool =
     (let (routes, errs) = partition_results (map (custom_route (zoneByName zones) pool) apps)
      in (sort_slice rt_Host routes, errors_Join errs))"

section \<open>Conflicts\<close>

definition hostSuffix :: "string \<Rightarrow> string" where
  "hostSuffix host = (case Cut (TrimSpace host) (CHR ''.'') of Some (_, rest) \<Rightarrow> rest | None \<Rightarrow> [])"

text \<open>\<open>slugLabel\<close>: bytes other than letters and digits become single dashes.\<close>

fun slug_from :: "bool \<Rightarrow> string \<Rightarrow> string" where
  "slug_from lastDash [] = []"
| "slug_from lastDash (c # cs) =
     (if is_lower c \<or> is_digit c then c # slug_from False cs
      else if lastDash then slug_from True cs
      else CHR ''-'' # slug_from True cs)"

definition slugLabel :: "string \<Rightarrow> string" where
  "slugLabel v = Trim (slug_from False (ToLower (TrimSpace v))) ''-''"

definition rename_base :: "discovered_route \<Rightarrow> string" where
  "rename_base route =
     (let base = TrimSpace (rt_Subdomain route)
      in if base \<noteq> [] then base
         else if TrimSpace (rt_Name route) \<noteq> [] then TrimSpace (rt_Name route)
         else if TrimSpace (cr_Name (rt_Container route)) \<noteq> [] then TrimSpace (cr_Name (rt_Container route))
         else ''app'')"

text \<open>\<open>renameConflictingRoute\<close> is also given the routes merged so far and the custom routes, and uses neither.\<close>

definition renameConflictingRoute :: "discovered_route \<Rightarrow> discovered_route" where
  "renameConflictingRoute route =
     (let base0 = rename_base route;
          node0 = (if slugLabel (rt_Source route) = [] then ''node'' else slugLabel (rt_Source route));
          base = (if base0 = node0 then base0 @ ''-app'' else base0);
          node = (if HasSuffix base (''-'' @ node0) then node0 @ ''-node'' else node0);
          zoneSuffix = hostSuffix (rt_Host route);
          subdomain = base @ ''-'' @ node;
          host = (if zoneSuffix \<noteq> [] then subdomain @ ''.'' @ zoneSuffix else subdomain)
      in route\<lparr>rt_Subdomain := subdomain, rt_Host := host, rt_ID := rt_Source route @ '':'' @ host\<rparr>)"

definition blocked :: "discovered_route list \<Rightarrow> discovered_route \<Rightarrow> bool" where
  "blocked customRoutes route \<longleftrightarrow> ToLower (rt_Host route) \<in> set (map (\<lambda>c. ToLower (rt_Host c)) customRoutes)"

definition applyCustomRoutes :: "discovered_route list \<Rightarrow> discovered_route list \<Rightarrow> discovered_route list" where
  "applyCustomRoutes routes customRoutes =
     sort_slice rt_Host
       (map (\<lambda>r. if blocked customRoutes r then renameConflictingRoute r else r)
          (filter (\<lambda>r. rt_Origin r \<noteq> RouteOriginCustomApp) routes)
        @ customRoutes)"

definition mergeRoutesForSource :: "discovered_route list \<Rightarrow> string \<Rightarrow> discovered_route list \<Rightarrow> discovered_route list" where
  "mergeRoutesForSource existing source fresh =
     sort_slice rt_Host (filter (\<lambda>r. rt_Source r \<noteq> source) existing @ fresh)"

section \<open>Applications\<close>

abbreviation ApplicationStatusProxied :: string where "ApplicationStatusProxied \<equiv> ''proxied''"
abbreviation ApplicationStatusUnproxied :: string where "ApplicationStatusUnproxied \<equiv> ''unproxied''"

text \<open>The reasons shown for an application without an entry: UTF-8 encoded literals of the source.\<close>

definition reason_conflict :: string where
  "reason_conflict = bytes [229, 173, 144, 229, 159, 159, 229, 144, 141, 228, 184, 142, 232, 135, 170, 229, 174, 154, 228,
     185, 137, 229, 186, 148, 231, 148, 168, 229, 134, 178, 231, 170, 129]"

definition reason_no_default :: string where
  "reason_no_default = bytes [230, 156, 170, 230, 137, 190, 229, 136, 176, 233, 187, 152, 232, 174, 164, 229, 159, 159, 229,
     144, 141]"

definition reason_choose_default :: string where
  "reason_choose_default = bytes [230, 156, 170, 230, 137, 190, 229, 136, 176, 233, 187, 152, 232, 174, 164, 229, 159, 159, 229,
     144, 141, 239, 188, 154, 232, 175, 183, 230, 140, 135, 229, 174, 154, 230, 142, 165, 229, 133,
     165, 229, 159, 159, 229, 144, 141, 230, 136, 150, 232, 174, 190, 231, 189, 174, 233, 187, 152,
     232, 174, 164, 229, 159, 159, 229, 144, 141]"

definition reason_no_domain :: string where
  "reason_no_domain = bytes [230, 140, 135, 229, 174, 154, 229, 159, 159, 229, 144, 141, 228, 184, 141, 229, 173, 152, 229,
     156, 168]"

definition reason_no_target :: string where
  "reason_no_target = bytes [231, 171, 175, 229, 143, 163, 230, 151, 160, 230, 179, 149, 231, 161, 174, 229, 174, 154, 230,
     136, 150, 232, 138, 130, 231, 130, 185, 228, 184, 141, 229, 143, 175, 232, 190, 190]"

definition reason_no_entry :: string where
  "reason_no_entry = bytes [229, 133, 165, 229, 143, 163, 230, 156, 170, 231, 148, 159, 230, 136, 144]"

definition reason_bad_port :: string where
  "reason_bad_port = bytes [231, 171, 175, 229, 143, 163, 233, 133, 141, 231, 189, 174, 230, 151, 160, 230, 149, 136]"

definition reason_no_port :: string where
  "reason_no_port = bytes [231, 171, 175, 229, 143, 163, 230, 151, 160, 230, 179, 149, 231, 161, 174, 229, 174, 154]"

definition reason_unreachable :: string where
  "reason_unreachable = bytes [232, 138, 130, 231, 130, 185, 228, 184, 141, 229, 143, 175, 232, 190, 190]"

definition applicationEntryURL :: "string \<Rightarrow> string" where
  "applicationEntryURL host = (if TrimSpace host = [] then [] else ''https://'' @ TrimSpace host)"

definition routeDomain :: "discovered_route \<Rightarrow> string" where
  "routeDomain route = (if TrimSpace (rt_Domain route) \<noteq> [] then TrimSpace (rt_Domain route) else TrimSpace (rt_Zone route))"

definition applicationFromRoute :: "discovered_route \<Rightarrow> application" where
  "applicationFromRoute route =
     (let names = filter (\<lambda>n. n \<noteq> []) (map TrimSpace [rt_Name route, cr_Name (rt_Container route), rt_Subdomain route, rt_Host route]);
          name = (case names of [] \<Rightarrow> [] | n # _ \<Rightarrow> n)
      in \<lparr>ap_ID = rt_ID route, ap_Name = name, ap_Icon = rt_Icon route, ap_Domain = routeDomain route, ap_Zone = rt_Zone route,
          ap_Subdomain = rt_Subdomain route, ap_Host = rt_Host route, ap_EntryURL = applicationEntryURL (rt_Host route),
          ap_Source = rt_Source route, ap_ExitNode = rt_ExitNode route, ap_Origin = rt_Origin route, ap_Runtime = rt_Runtime route,
          ap_TargetURL = rt_TargetURL route, ap_Status = ApplicationStatusProxied, ap_Reason = [],
          ap_Container = rt_Container route\<rparr>)"

definition sourceNodeName :: "discovered_snapshots \<Rightarrow> string" where
  "sourceNodeName entry =
     (if dsn_Origin entry = RouteOriginRemoteAgent then TrimSpace (dsn_NodeName entry) else LocalNodeName)"

definition productizeDiscoveryError :: "string \<Rightarrow> string" where
  "productizeDiscoveryError message =
     (if Contains message ''invalid domux.port'' then reason_bad_port
      else if Contains message ''no backend port'' \<or> Contains message ''no valid backend port'' then reason_no_port
      else if Contains message ''no container network'' \<or> Contains message ''network '' then reason_unreachable
      else message)"

definition applicationIntakeReason :: "(go_error \<Rightarrow> string) \<Rightarrow> managed_zone list \<Rightarrow> route_intent \<Rightarrow> go_error option \<Rightarrow>
    string \<Rightarrow> string \<Rightarrow> string" where
  "applicationIntakeReason err_text zones intent parseErr targetURL host =
     (case parseErr of
        Some e \<Rightarrow> productizeDiscoveryError (err_text e)
      | None \<Rightarrow>
          if TrimSpace (in_Domain intent) = [] \<and> DefaultManagedZoneName zones = [] then
            (if zones = [] then reason_no_default else reason_choose_default)
          else if TrimSpace (in_Domain intent) \<noteq> [] \<and> host = [] then reason_no_domain
          else if TrimSpace targetURL = [] then reason_no_target
          else reason_no_entry)"

definition discoveredApplicationTargetURL :: "os_env \<Rightarrow> runtime_source \<Rightarrow> container_snapshot \<Rightarrow> route_intent \<Rightarrow> string" where
  "discoveredApplicationTargetURL os source snapshot intent =
     (case ResolveTarget os source snapshot intent of
        Inr (_, targetURL) \<Rightarrow> targetURL
      | Inl _ \<Rightarrow> (case ResolveTarget os source snapshot zero_intent of Inr (_, targetURL) \<Rightarrow> targetURL | Inl _ \<Rightarrow> []))"

definition applicationHost :: "managed_zone list \<Rightarrow> string \<Rightarrow> string \<Rightarrow> string" where
  "applicationHost zones domainName subdomain =
     (if domainName = [] then []
      else (case find (\<lambda>z. z_Domain z = domainName \<or> z_Name z = domainName) zones of
              None \<Rightarrow> []
            | Some zone \<Rightarrow> if subdomain = [] then z_Domain zone else subdomain @ ''.'' @ z_Domain zone))"

definition applicationFromSnapshot :: "os_env \<Rightarrow> (go_error \<Rightarrow> string) \<Rightarrow> managed_zone list \<Rightarrow> discovered_snapshots \<Rightarrow>
    container_snapshot \<Rightarrow> application option" where
  "applicationFromSnapshot os err_text zones entry snapshot =
     (let parsed = ParseLabels (cs_Labels snapshot) DefaultLabelPrefix;
          intent = (case parsed of Inr i \<Rightarrow> i | Inl _ \<Rightarrow> zero_intent);
          err = (case parsed of Inr _ \<Rightarrow> None | Inl e \<Rightarrow> Some e)
      in if err = None \<and> \<not> in_Managed intent then None
         else
           (let domainName = (if TrimSpace (in_Domain intent) = [] then DefaultManagedZoneName zones
                              else TrimSpace (in_Domain intent));
                subdomain = (if TrimSpace (in_Subdomain intent) = [] then DefaultSubdomain snapshot
                             else TrimSpace (in_Subdomain intent));
                host = applicationHost zones domainName subdomain;
                targetURL = discoveredApplicationTargetURL os (dsn_Source entry) snapshot intent;
                name1 = (if TrimSpace subdomain = [] then TrimPrefix (TrimSpace (cs_Name snapshot)) ''/'' else subdomain);
                appName = (if TrimSpace name1 = [] then cs_ID snapshot else name1)
            in Some \<lparr>ap_ID = sourceNodeName entry @ '':'' @ cs_ID snapshot, ap_Name = appName, ap_Icon = [],
                     ap_Domain = domainName, ap_Zone = domainName, ap_Subdomain = subdomain, ap_Host = host,
                     ap_EntryURL = applicationEntryURL host, ap_Source = sourceNodeName entry,
                     ap_ExitNode = (if dsn_Origin entry = RouteOriginRemoteAgent then sourceNodeName entry else []),
                     ap_Origin = dsn_Origin entry, ap_Runtime = cs_Runtime snapshot, ap_TargetURL = targetURL,
                     ap_Status = ApplicationStatusUnproxied,
                     ap_Reason = applicationIntakeReason err_text zones intent err targetURL host,
                     ap_Container = \<lparr>cr_ID = cs_ID snapshot, cr_Name = cs_Name snapshot, cr_Image = cs_Image snapshot,
                                     cr_Source = sourceNodeName entry, cr_Runtime = cs_Runtime snapshot\<rparr>\<rparr>))"

definition container_key :: "string \<Rightarrow> string \<Rightarrow> string \<Rightarrow> string" where
  "container_key origin source cid = origin @ ''|'' @ source @ ''|'' @ cid"

definition route_container_key :: "discovered_route \<Rightarrow> string" where
  "route_container_key r = container_key (rt_Origin r) (rt_Source r) (cr_ID (rt_Container r))"

text \<open>What the loop of \<open>buildApplications\<close> makes of one container.\<close>

definition snapshot_application :: "os_env \<Rightarrow> (go_error \<Rightarrow> string) \<Rightarrow> managed_zone list \<Rightarrow> discovered_route gomap \<Rightarrow>
    discovered_route list \<Rightarrow> discovered_snapshots \<Rightarrow> container_snapshot \<Rightarrow> application option" where
  "snapshot_application os err_text zones routeByContainer customRoutes entry snapshot =
     (if \<not> cs_Running snapshot then None
      else
        (case gm_get routeByContainer (container_key (dsn_Origin entry) (sourceNodeName entry) (cs_ID snapshot)) of
           Some route \<Rightarrow> Some (applicationFromRoute route)
         | None \<Rightarrow>
             map_option (\<lambda>app.
               if ap_Host app \<noteq> [] \<and> ToLower (ap_Host app) \<in> set (map (\<lambda>c. ToLower (TrimSpace (rt_Host c))) customRoutes)
               then app\<lparr>ap_Status := ApplicationStatusUnproxied, ap_Reason := reason_conflict\<rparr> else app)
               (applicationFromSnapshot os err_text zones entry snapshot)))"

definition buildApplications :: "os_env \<Rightarrow> (go_error \<Rightarrow> string) \<Rightarrow> managed_zone list \<Rightarrow> discovered_snapshots list \<Rightarrow>
    discovered_route list \<Rightarrow> discovered_route list \<Rightarrow> application list" where
  "buildApplications os err_text zones snapshots routes customRoutes =
     (let routeByContainer = gm_put_all route_container_key (filter (\<lambda>r. rt_Origin r \<noteq> RouteOriginCustomApp) routes) []
      in sort_slice (\<lambda>a. (ap_Status a, ap_Name a))
           (map applicationFromRoute (filter (\<lambda>r. rt_Origin r = RouteOriginCustomApp) routes)
            @ concat (map (\<lambda>entry. List.map_filter
                (snapshot_application os err_text zones routeByContainer customRoutes entry) (dsn_Snapshots entry)) snapshots)))"

section \<open>Refreshing\<close>

definition refreshRoutesWithDiscoverers :: "os_env \<Rightarrow> nat_lib \<Rightarrow> (go_error \<Rightarrow> string) \<Rightarrow> string \<Rightarrow> route_discoverer list \<Rightarrow>
    pool option \<Rightarrow> memory_store \<times> route_table \<Rightarrow> go_error option \<times> memory_store \<times> route_table" where
  "refreshRoutesWithDiscoverers os lib err_text source ds pool st =
     (case selectedDiscoverers os ds source of
        Inl e \<Rightarrow> (Some e, st)
      | Inr selected \<Rightarrow>
          (let (store, table) = st;
               zones = ListDomains store;
               (found, routeErr) = discoverAllRoutes os lib zones selected;
               (customRoutes, customErr) = buildCustomAppRoutes zones (ListCustomApps store) pool;
               merged = (if source \<noteq> [] then mergeRoutesForSource (ListRoutes store) source found else found);
               routes = applyCustomRoutes merged customRoutes;
               store1 = ReplaceRoutes routes store;
               (snapshots, snapshotErrs) = discoverAllSnapshots os lib ds;
               store2 = ReplaceApplications (buildApplications os err_text zones snapshots routes customRoutes) store1
           in (errors_Join_opt [routeErr, customErr, errors_Join snapshotErrs], store2, Swap routes table)))"

section \<open>What a discoverer promises\<close>

text \<open>The contract of \<open>routeDiscoverer\<close> that merging relies on.\<close>

locale route_source =
  fixes discover :: "managed_zone list \<Rightarrow> discovered_route list \<times> go_error option"
  assumes in_zone: "r \<in> set (fst (discover zones)) \<Longrightarrow> \<exists>z \<in> set zones. rt_Host r = Hostname z (rt_Subdomain r)"
    and not_custom: "r \<in> set (fst (discover zones)) \<Longrightarrow> rt_Origin r \<noteq> RouteOriginCustomApp"
begin

lemma custom_filter_id: "filter (\<lambda>r. rt_Origin r \<noteq> RouteOriginCustomApp) (fst (discover zones)) = fst (discover zones)"
  by (rule filter_True) (simp add: not_custom)

end

lemma DiscoverRoutes_set:
  assumes "r \<in> set (fst (DiscoverRoutes os lib d zones))"
  obtains cs where "r \<in> set (fst (DiscoverRoutesFromSnapshots os (ld_Source d) zones cs))"
  using assms by (auto simp: DiscoverRoutes_def split: sum.splits)

lemma discovered_zone:
  assumes "r \<in> set (fst (DiscoverRoutesFromSnapshots os source zones cs))"
  shows "\<exists>z \<in> set zones. rt_Host r = Hostname z (rt_Subdomain r)" and "rt_Origin r = RouteOriginLocalDocker"
    and "rt_Source r = LocalNodeName"
proof -
  from assms obtain c where c: "snapshot_route os source zones c = Some (Inr r)"
    by (auto simp: DiscoverRoutesFromSnapshots_def case_prod_unfold snapshot_routes_set Let_def)
  then show "\<exists>z \<in> set zones. rt_Host r = Hostname z (rt_Subdomain r)" and "rt_Source r = LocalNodeName"
    by (auto elim: snapshot_route_zone)
  from c show "rt_Origin r = RouteOriginLocalDocker"
    by (auto simp: snapshot_route_def BuildRoute_def Let_def split: if_splits sum.splits option.splits)
qed

interpretation local_source: route_source "DiscoverRoutes os lib d" for os lib d
  by unfold_locales (auto elim!: DiscoverRoutes_set dest: discovered_zone)

interpretation remote_source: route_source "RemoteDiscoverRoutes os lib d" for os lib d
proof
  fix r zones
  assume "r \<in> set (fst (RemoteDiscoverRoutes os lib d zones))"
  then obtain x where x: "x \<in> set (fst (DiscoverRoutes os lib (rd_local d) zones))"
    and r: "r = x \<or> (\<exists>u. r = remote_route (rd_Node d) u x)"
    by (fastforce simp: RemoteDiscoverRoutes_def case_prod_unfold Let_def remote_routes_fst split: sum.splits)
  from local_source.in_zone [OF x] local_source.not_custom [OF x] r
  show "\<exists>z \<in> set zones. rt_Host r = Hostname z (rt_Subdomain r)" and "rt_Origin r \<noteq> RouteOriginCustomApp"
    by (auto simp: remote_route_def)
qed

interpretation any_source: route_source "disc_DiscoverRoutes os lib d" for os lib d
  by (cases d; unfold_locales)
    (auto dest: local_source.in_zone local_source.not_custom remote_source.in_zone remote_source.not_custom)

interpretation all_sources: route_source "\<lambda>zones. discoverAllRoutes os lib zones ds" for os lib ds
proof
  fix r zones
  assume "r \<in> set (fst (discoverAllRoutes os lib zones ds))"
  then obtain d where "r \<in> set (fst (disc_DiscoverRoutes os lib d zones))"
    by (auto simp: discoverAllRoutes_def Let_def)
  then show "\<exists>z \<in> set zones. rt_Host r = Hostname z (rt_Subdomain r)" and "rt_Origin r \<noteq> RouteOriginCustomApp"
    by (auto dest: any_source.in_zone any_source.not_custom)
qed

section \<open>Hosts stay inside the zones\<close>

text \<open>A host is in a zone when it is the zone's domain or a name below it, without regard to case.\<close>

definition host_in_zone :: "managed_zone \<Rightarrow> string \<Rightarrow> bool" where
  "host_in_zone z h \<longleftrightarrow> ToLower h = ToLower (z_Domain z) \<or> suffix (''.'' @ ToLower (z_Domain z)) (ToLower h)"

lemma lower_char_dot: "lower_char c = CHR ''.'' \<longleftrightarrow> c = CHR ''.''"
proof (cases "is_upper c")
  case True
  then have "(65::nat) \<le> of_char c" and "of_char c \<le> (90::nat)"
    by (simp_all add: is_upper_def less_eq_char_def)
  then have "of_char (lower_char c) = of_char c + (32::nat)"
    using True by (simp add: lower_char_def of_char_of)
  with \<open>(65::nat) \<le> of_char c\<close> have "lower_char c \<noteq> CHR ''.''" and "c \<noteq> CHR ''.''" by auto
  then show ?thesis by simp
qed (simp add: lower_char_def)

lemma ToLower_dot [simp]: "ToLower (CHR ''.'' # s) = CHR ''.'' # ToLower s"
  by (simp add: ToLower_def lower_char_dot)

lemma Cut_ToLower: "Cut (ToLower s) (CHR ''.'') = map_option (map_prod ToLower ToLower) (Cut s (CHR ''.''))"
  by (induction s) (auto simp: ToLower_def lower_char_dot split: option.splits)

lemma host_below: "host_in_zone z t \<Longrightarrow> host_in_zone z (l @ ''.'' @ t)"
  by (auto simp: host_in_zone_def ToLower_append intro: suffix_appendI suffix_ConsI)

lemma host_in_zone_Hostname: "host_in_zone z (Hostname z sub)"
  using host_below [of z "z_Domain z" "TrimSpace sub"] by (simp add: Hostname_def host_in_zone_def Let_def)

lemma trimmed_Hostname: "trimmed (z_Domain z) \<Longrightarrow> trimmed (Hostname z sub)"
  using trimmed_join [of "TrimSpace sub" "z_Domain z" "CHR ''.''"]
  by (simp add: Hostname_def Let_def is_graph_def less_eq_char_def)

text \<open>The part of a host below its first label, when the host equals that of a custom app.\<close>

lemma hostSuffix_in_zone:
  assumes "trimmed h" and "ToLower h = ToLower (s @ ''.'' @ d)" and "s \<noteq> []"
  shows "ToLower (hostSuffix h) = ToLower d \<or> suffix (''.'' @ ToLower d) (ToLower (hostSuffix h))"
proof -
  obtain b a where cut: "Cut (ToLower s @ CHR ''.'' # ToLower d) (CHR ''.'') = Some (b, a)"
    by (cases "Cut (ToLower s @ CHR ''.'' # ToLower d) (CHR ''.'')") (auto simp: Cut_None)
  then have ba: "ToLower s @ CHR ''.'' # ToLower d = b @ CHR ''.'' # a" "CHR ''.'' \<notin> set b" by (auto dest: Cut_SomeD)
  then have "a = ToLower d \<or> suffix (CHR ''.'' # ToLower d) a"
    by (auto simp: append_eq_append_conv2 suffix_def append_eq_Cons_conv Cons_eq_append_conv)
  moreover have "map_option (map_prod ToLower ToLower) (Cut h (CHR ''.'')) = Some (b, a)"
    using cut assms(2) by (simp add: ToLower_append flip: Cut_ToLower)
  then have "ToLower (hostSuffix h) = a" using assms(1) by (auto simp: hostSuffix_def trimmed_def)
  ultimately show ?thesis by simp
qed

lemma renamed_in_zone:
  assumes "trimmed (rt_Host r)" and "ToLower (rt_Host r) = ToLower (Hostname z sub)" and "TrimSpace sub \<noteq> []" and "z_Domain z \<noteq> []"
  shows "host_in_zone z (rt_Host (renameConflictingRoute r))"
proof -
  have "Hostname z sub = TrimSpace sub @ ''.'' @ z_Domain z" using assms(3) by (simp add: Hostname_def Let_def)
  from hostSuffix_in_zone [OF assms(1) assms(2)[unfolded this] assms(3)]
  have z: "host_in_zone z (hostSuffix (rt_Host r))" by (simp add: host_in_zone_def)
  with assms(4) have "hostSuffix (rt_Host r) \<noteq> []" by (auto simp: host_in_zone_def ToLower_def)
  then obtain l where "rt_Host (renameConflictingRoute r) = l @ ''.'' @ hostSuffix (rt_Host r)"
    by (simp add: renameConflictingRoute_def Let_def)
  then show ?thesis using host_below [OF z] by simp
qed

lemma partition_results_fst: "set (fst (partition_results rs)) = {x. Inr x \<in> set rs}"
  by (induction rs) (auto simp: case_prod_unfold Let_def split: sum.splits)

lemma partition_results_snd: "snd (partition_results rs) = [] \<longleftrightarrow> (\<forall>r \<in> set rs. \<exists>x. r = Inr x)"
  by (induction rs) (auto simp: case_prod_unfold Let_def split: sum.splits)

lemma zone_names_get:
  "gm_get (zone_names z m) k = Some x \<Longrightarrow> x = z \<or> gm_get m k = Some x"
  by (auto simp: zone_names_def Let_def update_conv' split: if_splits)

lemma zoneByName_mem:
  assumes "gm_get (zoneByName zones) k = Some z"
  shows "z \<in> set zones"
proof -
  have "gm_get (fold zone_names zs m) k = Some z \<Longrightarrow> z \<in> set zs \<or> gm_get m k = Some z" for zs m
    by (induction zs arbitrary: m) (auto dest: zone_names_get)
  from this [of zones "[]"] assms show ?thesis by (simp add: zoneByName_def)
qed

lemma custom_route_shape:
  assumes "custom_route (zoneByName zones) pool app = Inr c"
  obtains z where "z \<in> set zones" and "rt_Host c = Hostname z (app_Subdomain app)" and "rt_Subdomain c = app_Subdomain app"
    and "rt_Origin c = RouteOriginCustomApp" and "rt_Name c = app_Name app" and "rt_TargetURL c = app_TargetURL app"
  using assms
  by (auto simp: custom_route_def CustomApp_Host_def Let_def split: option.splits if_splits sum.splits dest: zoneByName_mem)

lemma custom_routes_mem:
  assumes "c \<in> set (fst (buildCustomAppRoutes zones apps pool))"
  obtains app z where "app \<in> set apps" and "z \<in> set zones" and "rt_Host c = Hostname z (app_Subdomain app)"
    and "rt_Origin c = RouteOriginCustomApp" and "rt_Name c = app_Name app" and "rt_TargetURL c = app_TargetURL app"
proof -
  from assms obtain app where "app \<in> set apps" and "custom_route (zoneByName zones) pool app = Inr c"
    by (auto simp: buildCustomAppRoutes_def case_prod_unfold Let_def partition_results_fst)
  with that show ?thesis by (auto elim: custom_route_shape)
qed

section \<open>Merging\<close>

lemma applyCustomRoutes_set:
  "set (applyCustomRoutes rs cs) =
     (\<lambda>r. if blocked cs r then renameConflictingRoute r else r) ` {r \<in> set rs. rt_Origin r \<noteq> RouteOriginCustomApp} \<union> set cs"
  by (simp add: applyCustomRoutes_def)

lemma renamed_origin [simp]: "rt_Origin (renameConflictingRoute r) = rt_Origin r"
  by (simp add: renameConflictingRoute_def Let_def)

text \<open>No renamed route lands on the host of a custom app.\<close>

definition renames_apart :: "discovered_route list \<Rightarrow> discovered_route list \<Rightarrow> bool" where
  "renames_apart rs cs \<longleftrightarrow>
     (\<forall>r \<in> set rs. rt_Origin r \<noteq> RouteOriginCustomApp \<and> blocked cs r \<longrightarrow> \<not> blocked cs (renameConflictingRoute r))"

lemma merged_not_blocked:
  assumes "renames_apart rs cs" and "r \<in> set (applyCustomRoutes rs cs)" and "blocked cs r"
  shows "r \<in> set cs"
  using assms by (auto simp: applyCustomRoutes_set renames_apart_def split: if_splits)

lemma refresh_full:
  assumes "refreshRoutesWithDiscoverers os lib et [] ds pool (store, table) = (err, store', table')"
  shows "table' = Swap (applyCustomRoutes (fst (discoverAllRoutes os lib (ListDomains store) ds))
           (fst (buildCustomAppRoutes (ListDomains store) (ListCustomApps store) pool))) table"
    and "ms_routes store' = keyedMap rt_ID (applyCustomRoutes (fst (discoverAllRoutes os lib (ListDomains store) ds))
           (fst (buildCustomAppRoutes (ListDomains store) (ListCustomApps store) pool)))"
  using assms by (auto simp: refreshRoutesWithDiscoverers_def selectedDiscoverers_def case_prod_unfold
      ReplaceRoutes_def ReplaceApplications_def Let_def)

lemma gm_put_all_keys: "fst ` set (gm_put_all key vs m) = fst ` set m \<union> key ` set vs"
  by (induction vs arbitrary: m) (auto simp: dom_update simp flip: dom_map_of_conv_image_fst)

lemma gm_keyed_keys: "gm_keyed key m \<Longrightarrow> key ` snd ` set m = fst ` set m"
  by (force simp: gm_keyed_iff gm_ok_def image_iff)

lemma ListRoutes_ids:
  assumes "ms_routes s = keyedMap rt_ID rs"
  shows "rt_ID ` set (ListRoutes s) = rt_ID ` set rs"
proof -
  have "rt_ID ` set (ListRoutes s) = fst ` set (keyedMap rt_ID rs)"
    using gm_keyed_keys [OF keyedMap_keyed, of rt_ID rs] by (simp add: ListRoutes_def gm_values_def assms)
  then show ?thesis by (simp add: keyedMap_def gm_put_all_keys)
qed

lemma merged_in_zone:
  assumes zones: "\<forall>z \<in> set zones. trimmed (z_Domain z) \<and> z_Domain z \<noteq> []"
    and apps: "\<forall>a \<in> set apps. TrimSpace (app_Subdomain a) \<noteq> []"
    and r: "r \<in> set (applyCustomRoutes (fst (discoverAllRoutes os lib zones ds)) (fst (buildCustomAppRoutes zones apps pool)))"
  shows "\<exists>z \<in> set zones. host_in_zone z (rt_Host r)"
proof -
  let ?cs = "fst (buildCustomAppRoutes zones apps pool)"
  have custom: "\<exists>z \<in> set zones. host_in_zone z (rt_Host c)" if "c \<in> set ?cs" for c
    using that by (rule custom_routes_mem) (metis host_in_zone_Hostname)
  from r consider "r \<in> set ?cs"
    | x where "x \<in> set (fst (discoverAllRoutes os lib zones ds))" "r = (if blocked ?cs x then renameConflictingRoute x else x)"
    by (auto simp: applyCustomRoutes_set)
  then show ?thesis
  proof cases
    case 2
    from all_sources.in_zone [OF 2(1)] obtain z where z: "z \<in> set zones" "rt_Host x = Hostname z (rt_Subdomain x)" by blast
    show ?thesis
    proof (cases "blocked ?cs x")
      case True
      then obtain c where c: "c \<in> set ?cs" "ToLower (rt_Host x) = ToLower (rt_Host c)" by (auto simp: blocked_def)
      from c(1) obtain a y where y: "a \<in> set apps" "y \<in> set zones" "rt_Host c = Hostname y (app_Subdomain a)"
        by (rule custom_routes_mem)
      have "trimmed (rt_Host x)" using z zones by (simp add: trimmed_Hostname)
      from renamed_in_zone [OF this c(2)[unfolded y(3)]] apps zones y True 2(2) show ?thesis by auto
    qed (use 2 z host_in_zone_Hostname in auto)
  qed (rule custom)
qed

section \<open>Properties\<close>



text \<open>
  Merging is stable: applying the same custom apps to routes they were already applied
  to, as a refresh of a single source does, changes nothing but the order.
\<close>

theorem apply_custom_routes_stable:
  assumes "renames_apart rs cs" and "\<forall>c \<in> set cs. rt_Origin c = RouteOriginCustomApp"
  shows "mset (applyCustomRoutes (applyCustomRoutes rs cs) cs) = mset (applyCustomRoutes rs cs)"
proof -
  let ?f = "\<lambda>r. if blocked cs r then renameConflictingRoute r else r"
  let ?own = "map ?f (filter (\<lambda>r. rt_Origin r \<noteq> RouteOriginCustomApp) rs)"
  have m: "mset (applyCustomRoutes rs cs) = mset ?own + mset cs" by (simp add: applyCustomRoutes_def)
  have keep: "filter (\<lambda>r. rt_Origin r \<noteq> RouteOriginCustomApp) ?own = ?own" by (rule filter_True) auto
  have drop: "filter (\<lambda>r. rt_Origin r \<noteq> RouteOriginCustomApp) cs = []" using assms(2) by (simp add: filter_empty_conv)
  have "mset (filter (\<lambda>r. rt_Origin r \<noteq> RouteOriginCustomApp) (applyCustomRoutes rs cs))
      = mset (filter (\<lambda>r. rt_Origin r \<noteq> RouteOriginCustomApp) (?own @ cs))"
    using m by (simp add: mset_filter)
  also have "\<dots> = mset ?own" by (simp add: keep drop)
  finally have "mset (applyCustomRoutes (applyCustomRoutes rs cs) cs) = image_mset ?f (mset ?own) + mset cs"
    by (simp add: applyCustomRoutes_def)
  also have "image_mset ?f (mset ?own) = mset ?own"
  proof (rule image_mset_cong [of _ ?f "\<lambda>x. x", simplified])
    fix x assume "x \<in># mset ?own"
    then show "?f x = x" using assms(1) by (auto simp: renames_apart_def)
  qed
  finally show ?thesis using m by simp
qed

definition demo_custom_app :: "string \<Rightarrow> custom_app" where
  "demo_custom_app sub = \<lparr>app_Name = sub, app_Icon = [], app_Domain = ''x.io'', app_Zone = [], app_Subdomain = sub,
     app_ExitNode = [], app_TargetURL = ''http://10.0.0.5''\<rparr>"

definition demo_custom :: "string \<Rightarrow> discovered_route" where
  "demo_custom sub = \<lparr>rt_ID = ''custom:'' @ sub @ '':'' @ sub @ ''.x.io'', rt_Name = sub, rt_Icon = [], rt_Domain = ''x.io'',
     rt_Zone = ''home'', rt_Subdomain = sub, rt_Host = sub @ ''.x.io'', rt_Source = ''manual'', rt_ExitNode = [],
     rt_Origin = RouteOriginCustomApp, rt_Runtime = [], rt_TargetURL = ''http://10.0.0.5'', rt_ProxyURL = [], rt_Network = [],
     rt_Container = \<lparr>cr_ID = [], cr_Name = sub, cr_Image = [], cr_Source = ''manual'', cr_Runtime = []\<rparr>\<rparr>"

definition demo_container_route :: "string \<Rightarrow> discovered_route" where
  "demo_container_route sub = (demo_custom sub)\<lparr>rt_ID := ''c1:'' @ sub @ ''.x.io'', rt_Name := [], rt_Source := LocalNodeName,
     rt_Origin := RouteOriginLocalDocker, rt_Runtime := ''docker''\<rparr>"

definition demo_zone_x :: managed_zone where
  "demo_zone_x = \<lparr>z_Name = ''home'', z_Domain = ''x.io'', z_Default = True, z_Wildcard = False,
     z_DDNS = \<lparr>dz_Enabled = False, dz_ProviderRefs = [], dz_IPv4 = False, dz_IPv6 = False, dz_Wildcard = False, dz_TTL = 0\<rparr>,
     z_Certificate = \<lparr>cp_Enabled = False, cp_Email = [], cp_DNSProvider = [], cp_RenewBefore = 0,
       cp_DeployTargets = [], cp_Bundles = []\<rparr>\<rparr>"

definition demo_route_store :: memory_store where
  "demo_route_store = PutCustomApp (demo_custom_app ''web'') (PutDomain demo_zone_x NewMemoryStore)"

lemma demo_route_store_lists:
  "ListDomains demo_route_store = [demo_zone_x]" "ListCustomApps demo_route_store = [demo_custom_app ''web'']"
  by (simp_all add: demo_route_store_def ListDomains_def ListCustomApps_def PutCustomApp_def PutDomain_def NewMemoryStore_def
      gm_values_def sort_slice_def)

lemma demo_lower:
  "ToLower ''web.x.io'' = ''web.x.io''" "ToLower ''web-server.x.io'' = ''web-server.x.io''" "ToLower ''server'' = ''server''"
  "ToLower ''WEB.x.io:443'' = ''web.x.io:443''"
  by (simp_all add: ToLower_def lower_char_def is_upper_def less_eq_char_def char_of_def bit_0)

lemma demo_custom_routes:
  "buildCustomAppRoutes [demo_zone_x] [demo_custom_app ''web''] None = ([demo_custom ''web''], None)"
  by (simp add: buildCustomAppRoutes_def custom_route_def demo_custom_app_def demo_zone_x_def zoneByName_def zone_names_def
      demo_custom_def CustomApp_Host_def Hostname_def literal_simps Let_def sort_slice_def)


lemma demo_blocked: "blocked [demo_custom ''web''] (demo_container_route ''web'')"
  by (simp add: blocked_def demo_container_route_def demo_custom_def)

lemma demo_renamed: "rt_Host (renameConflictingRoute (demo_container_route ''web'')) = ''web-server.x.io''"
  by (simp add: renameConflictingRoute_def rename_base_def demo_container_route_def demo_custom_def slugLabel_def hostSuffix_def
      literal_simps demo_lower is_lower_def Trim_def TrimRight_def HasSuffix_def suffix_def Let_def)

lemma demo_apart: "renames_apart [demo_container_route ''web''] [demo_custom ''web'']"
  unfolding renames_apart_def by (simp add: blocked_def demo_renamed demo_custom_def demo_lower)


theorem apply_custom_routes_stable_witness:
  "mset (applyCustomRoutes (applyCustomRoutes [demo_container_route ''web''] [demo_custom ''web'']) [demo_custom ''web''])
     = mset (applyCustomRoutes [demo_container_route ''web''] [demo_custom ''web''])"
  using apply_custom_routes_stable [OF demo_apart] by (simp add: demo_custom_def)

text \<open>
  Renaming does not look at the hosts that are taken: with custom apps on
  \<open>web.x.io\<close> and \<open>web-server.x.io\<close> the route of a local container \<open>web\<close> is renamed to the host of the
  second app, and which of the two serves that host depends on how \<open>sort.Slice\<close> arranges them.
\<close>

theorem custom_app_may_be_shadowed:
  "let r = demo_container_route ''web''; cs = [demo_custom ''web'', demo_custom ''web-server'']
   in \<exists>ys zs. is_sort_of rt_Host (applyCustomRoutes [r] cs) ys \<and> is_sort_of rt_Host (applyCustomRoutes [r] cs) zs
        \<and> Lookup (Swap ys t) ''web-server.x.io'' = Some (demo_custom ''web-server'')
        \<and> Lookup (Swap zs t) ''web-server.x.io'' = Some (renameConflictingRoute r)"
proof -
  let ?r = "demo_container_route ''web''" and ?c1 = "demo_custom ''web''" and ?c2 = "demo_custom ''web-server''"
  let ?n = "renameConflictingRoute ?r"
  have h: "rt_Host ?c1 = ''web.x.io''" "rt_Host ?c2 = ''web-server.x.io''" "rt_Host ?n = ''web-server.x.io''"
    using demo_renamed by (simp_all add: demo_custom_def)
  have "blocked [?c1, ?c2] ?r" using demo_blocked by (simp add: blocked_def)
  moreover have "rt_Origin ?r \<noteq> RouteOriginCustomApp" by (simp add: demo_container_route_def)
  ultimately have m: "mset (applyCustomRoutes [?r] [?c1, ?c2]) = {#?n, ?c1, ?c2#}"
    by (simp add: applyCustomRoutes_def)
  have le: "''web-server.x.io'' \<le> ''web.x.io''" by (simp add: less_eq_char_def less_char_def)
  have k: "lookup_key ''web-server.x.io'' = ''web-server.x.io''" by (simp add: lookup_key_def demo_lower)
  have "is_sort_of rt_Host (applyCustomRoutes [?r] [?c1, ?c2]) [?n, ?c2, ?c1]"
    "is_sort_of rt_Host (applyCustomRoutes [?r] [?c1, ?c2]) [?c2, ?n, ?c1]"
    using le by (simp_all add: is_sort_of_def m h)
  moreover have "Lookup (Swap [?n, ?c2, ?c1] t) ''web-server.x.io'' = Some ?c2"
    "Lookup (Swap [?c2, ?n, ?c1] t) ''web-server.x.io'' = Some ?n"
    by (simp_all add: Lookup_Swap k h demo_lower)
  ultimately show ?thesis by (auto simp: Let_def)
qed

text \<open>
  A refresh triggered by the local runtime keeps routes of containers that are gone: it
  is scoped to the name of the runtime, but local routes carry the source \<open>server\<close>, so a stored
  local route stays listed whatever the runtime reports.
\<close>

theorem local_event_keeps_stale_routes:
  assumes "refreshRoutesWithDiscoverers os lib et source ds pool (store, table) = (err, store', table')"
    and "selectedDiscoverers os ds source = Inr sel" and "source = ''docker'' \<or> source = ''podman''"
    and "r \<in> set (ListRoutes store)" and "rt_Source r = LocalNodeName" and "rt_Origin r = RouteOriginLocalDocker"
    and "\<not> blocked (fst (buildCustomAppRoutes (ListDomains store) (ListCustomApps store) pool)) r"
  shows "rt_ID r \<in> rt_ID ` set (ListRoutes store')"
proof -
  let ?cs = "fst (buildCustomAppRoutes (ListDomains store) (ListCustomApps store) pool)"
  let ?routes = "applyCustomRoutes (mergeRoutesForSource (ListRoutes store) source
      (fst (discoverAllRoutes os lib (ListDomains store) sel))) ?cs"
  have "ms_routes store' = keyedMap rt_ID ?routes"
    using assms(1-3) by (auto simp: refreshRoutesWithDiscoverers_def case_prod_unfold Let_def
        ReplaceApplications_def ReplaceRoutes_def)
  moreover have "r \<in> set ?routes" using assms(3-7) by (auto simp: applyCustomRoutes_set mergeRoutesForSource_def image_iff)
  ultimately show ?thesis by (simp add: ListRoutes_ids)
qed

definition demo_idle :: route_discoverer where
  "demo_idle = LocalDiscoverer \<lparr>ld_Source = demo_source,
     ld_api = \<lparr>api_ContainerList = Inr [], api_ContainerInspect = (\<lambda>_. Inl ErrNotExist), api_NetworkList = Inr []\<rparr>\<rparr>"

theorem local_event_keeps_stale_routes_witness:
  "\<exists>err store' table'. refreshRoutesWithDiscoverers no_env demo_lib (\<lambda>_. []) ''docker'' [demo_idle] None
       (ReplaceRoutes [demo_container_route ''old''] demo_route_store, NewRouteTable) = (err, store', table')
     \<and> disc_DiscoverRoutes no_env demo_lib demo_idle [demo_zone_x] = ([], None)
     \<and> ''c1:old.x.io'' \<in> rt_ID ` set (ListRoutes store')"
proof -
  let ?store = "ReplaceRoutes [demo_container_route ''old''] demo_route_store" and ?r = "demo_container_route ''old''"
  obtain err store' table' where f: "refreshRoutesWithDiscoverers no_env demo_lib (\<lambda>_. []) ''docker'' [demo_idle] None
      (?store, NewRouteTable) = (err, store', table')" by (metis prod.exhaust)
  have n: "disc_Name no_env demo_idle = ''docker''"
    by (simp add: demo_idle_def discovery_Name_def demo_source_def RuntimeOrDefault_def literal_simps)
  have sel: "selectedDiscoverers no_env [demo_idle] ''docker'' = Inr [demo_idle]"
    by (simp add: selectedDiscoverers_def n literal_simps Let_def)
  have lists: "ListDomains ?store = [demo_zone_x]" "ListCustomApps ?store = [demo_custom_app ''web'']"
    using demo_route_store_lists by (simp_all add: ListDomains_def ListCustomApps_def ReplaceRoutes_def)
  have r: "?r \<in> set (ListRoutes ?store)" "rt_Source ?r = LocalNodeName" "rt_Origin ?r = RouteOriginLocalDocker" "rt_ID ?r = ''c1:old.x.io''"
    by (simp_all add: ListRoutes_def ReplaceRoutes_def keyedMap_def gm_values_def demo_container_route_def)
  have "\<not> blocked (fst (buildCustomAppRoutes (ListDomains ?store) (ListCustomApps ?store) None)) ?r"
    unfolding lists demo_custom_routes
    by (simp add: blocked_def demo_container_route_def demo_custom_def ToLower_def lower_char_def is_upper_def)
  from local_event_keeps_stale_routes [OF f sel _ r(1-3) this] r(4) f show ?thesis
    by (simp add: demo_idle_def DiscoverRoutes_def Snapshots_def DiscoverRoutesFromSnapshots_def)
qed

section \<open>Applications\<close>

definition has_route :: "discovered_route list \<Rightarrow> discovered_snapshots \<Rightarrow> container_snapshot \<Rightarrow> bool" where
  "has_route routes entry c \<longleftrightarrow> (\<exists>r \<in> set routes. rt_Origin r \<noteq> RouteOriginCustomApp
     \<and> route_container_key r = container_key (dsn_Origin entry) (sourceNodeName entry) (cs_ID c))"

lemma applicationFromSnapshot_None:
  "cs_Running c \<Longrightarrow> applicationFromSnapshot os et zones entry c = None \<longleftrightarrow> \<not> wants_route c"
  by (auto simp: applicationFromSnapshot_def wants_route_def Let_def split: sum.splits)

abbreviation container_routes :: "discovered_route list \<Rightarrow> discovered_route gomap" where
  "container_routes routes \<equiv> gm_put_all route_container_key (filter (\<lambda>r. rt_Origin r \<noteq> RouteOriginCustomApp) routes) []"

lemma container_routes_Some:
  "gm_get (container_routes routes) k = Some r \<Longrightarrow> r \<in> set routes \<and> route_container_key r = k"
  by (auto simp: gm_put_all_get split: option.splits dest!: find_Some_mem)

lemma container_routes_None:
  "gm_get (container_routes routes) (container_key (dsn_Origin entry) (sourceNodeName entry) (cs_ID c)) = None
     \<longleftrightarrow> \<not> has_route routes entry c"
  by (auto simp: gm_put_all_get find_None_iff has_route_def split: option.splits dest!: find_Some_mem)

lemma snapshot_application_None:
  "snapshot_application os et zones (container_routes routes) cs entry c = None
     \<longleftrightarrow> \<not> (cs_Running c \<and> (has_route routes entry c \<or> wants_route c))"
proof (cases "gm_get (container_routes routes) (container_key (dsn_Origin entry) (sourceNodeName entry) (cs_ID c))")
  case None
  then have "\<not> has_route routes entry c" using container_routes_None by blast
  with None show ?thesis by (simp add: snapshot_application_def applicationFromSnapshot_None)
next
  case (Some r)
  then have "has_route routes entry c" using container_routes_None by (metis option.distinct(1))
  with Some show ?thesis by (simp add: snapshot_application_def)
qed

lemma productize_ne: "m \<noteq> [] \<Longrightarrow> productizeDiscoveryError m \<noteq> []"
  by (simp add: productizeDiscoveryError_def reason_bad_port_def reason_no_port_def reason_unreachable_def bytes_def)

lemma intake_reason_ne: "(\<And>e. et e \<noteq> []) \<Longrightarrow> applicationIntakeReason et zones i err u h \<noteq> []"
  by (simp add: applicationIntakeReason_def productize_ne reason_no_default_def reason_choose_default_def reason_no_domain_def
      reason_no_target_def reason_no_entry_def bytes_def split: option.splits)

lemma applicationFromSnapshot_shape:
  assumes "applicationFromSnapshot os et zones entry c = Some app" and "\<And>e. et e \<noteq> []"
  shows "ap_Status app = ApplicationStatusUnproxied \<and> ap_Reason app \<noteq> [] \<and> cr_ID (ap_Container app) = cs_ID c"
proof -
  from assms(1) obtain i err u h where "ap_Reason app = applicationIntakeReason et zones i err u h"
      "ap_Status app = ApplicationStatusUnproxied" "cr_ID (ap_Container app) = cs_ID c"
    unfolding applicationFromSnapshot_def Let_def by (force split: if_splits)
  then show ?thesis using intake_reason_ne [OF assms(2)] by simp
qed

lemma snapshot_application_cases:
  assumes "snapshot_application os et zones (container_routes routes) cs entry c = Some a" and "\<And>e. et e \<noteq> []"
  shows "(\<exists>r \<in> set routes. a = applicationFromRoute r)
    \<or> ap_Status a = ApplicationStatusUnproxied \<and> ap_Reason a \<noteq> [] \<and> cr_ID (ap_Container a) = cs_ID c \<and> \<not> has_route routes entry c"
proof (cases "gm_get (container_routes routes) (container_key (dsn_Origin entry) (sourceNodeName entry) (cs_ID c))")
  case None
  then have n: "\<not> has_route routes entry c" using container_routes_None by blast
  from assms(1) None obtain app where app: "applicationFromSnapshot os et zones entry c = Some app"
    and a: "a = app \<or> a = app\<lparr>ap_Status := ApplicationStatusUnproxied, ap_Reason := reason_conflict\<rparr>"
    by (auto simp: snapshot_application_def split: if_splits)
  with applicationFromSnapshot_shape [OF app assms(2)] n show ?thesis by (auto simp: reason_conflict_def bytes_def)
next
  case (Some r)
  with assms(1) container_routes_Some [OF Some] show ?thesis by (auto simp: snapshot_application_def split: if_splits)
qed

text \<open>
  The list of applications accounts for every container: it has one entry for each custom
  route and for each running container that has a route or asks for one. An entry is marked as
  proxied exactly when it is made from a route, and every other entry names the container and
  gives a reason.
\<close>

theorem applications_account:
  assumes "\<And>e. et e \<noteq> []"
  shows "length (buildApplications os et zones snapshots routes cs)
      = length (filter (\<lambda>r. rt_Origin r = RouteOriginCustomApp) routes)
        + sum_list (map (\<lambda>entry. length (filter (\<lambda>c. cs_Running c \<and> (has_route routes entry c \<or> wants_route c)) (dsn_Snapshots entry))) snapshots)
    \<and> (\<forall>a \<in> set (buildApplications os et zones snapshots routes cs).
        if ap_Status a = ApplicationStatusProxied then \<exists>r \<in> set routes. a = applicationFromRoute r
        else ap_Reason a \<noteq> [] \<and> (\<exists>entry \<in> set snapshots. \<exists>c \<in> set (dsn_Snapshots entry).
               cr_ID (ap_Container a) = cs_ID c \<and> \<not> has_route routes entry c))"
proof (intro conjI ballI)
  let ?f = "snapshot_application os et zones (container_routes routes) cs"
  let ?apps = "map applicationFromRoute (filter (\<lambda>r. rt_Origin r = RouteOriginCustomApp) routes)
     @ concat (map (\<lambda>entry. List.map_filter (?f entry) (dsn_Snapshots entry)) snapshots)"
  have b: "buildApplications os et zones snapshots routes cs = sort_slice (\<lambda>a. (ap_Status a, ap_Name a)) ?apps"
    by (simp add: buildApplications_def Let_def)
  show "length (buildApplications os et zones snapshots routes cs)
      = length (filter (\<lambda>r. rt_Origin r = RouteOriginCustomApp) routes)
        + sum_list (map (\<lambda>entry. length (filter (\<lambda>c. cs_Running c \<and> (has_route routes entry c \<or> wants_route c)) (dsn_Snapshots entry))) snapshots)"
    by (simp add: b length_concat comp_def length_map_filter snapshot_application_None)
  fix a
  assume "a \<in> set (buildApplications os et zones snapshots routes cs)"
  then consider r where "r \<in> set routes" "a = applicationFromRoute r"
    | entry c where "entry \<in> set snapshots" "c \<in> set (dsn_Snapshots entry)" "?f entry c = Some a"
    unfolding b by (auto simp: set_map_filter_iff)
  then show "if ap_Status a = ApplicationStatusProxied then \<exists>r \<in> set routes. a = applicationFromRoute r
        else ap_Reason a \<noteq> [] \<and> (\<exists>entry \<in> set snapshots. \<exists>c \<in> set (dsn_Snapshots entry).
               cr_ID (ap_Container a) = cs_ID c \<and> \<not> has_route routes entry c)"
  proof cases
    case 1
    then show ?thesis by (auto simp: applicationFromRoute_def Let_def)
  next
    case (2 entry c)
    from snapshot_application_cases [OF 2(3) assms] 2(1,2) show ?thesis
      by (auto simp: applicationFromRoute_def Let_def)
  qed
qed

theorem applications_account_witness:
  "length (buildApplications no_env (\<lambda>_. ''e'') [demo_zone_x]
     [\<lparr>dsn_NodeName = ''docker'', dsn_Source = demo_source, dsn_Origin = RouteOriginLocalDocker, dsn_Snapshots = [demo_container]\<rparr>]
     [demo_custom ''web''] [demo_custom ''web'']) = 2"
proof -
  have w: "wants_route demo_container" "cs_Running demo_container"
    by (simp_all add: wants_route_def demo_container_def demo_labels)
  show ?thesis
    using applications_account [of "\<lambda>_. ''e''" no_env "[demo_zone_x]"
        "[\<lparr>dsn_NodeName = ''docker'', dsn_Source = demo_source, dsn_Origin = RouteOriginLocalDocker, dsn_Snapshots = [demo_container]\<rparr>]"
        "[demo_custom ''web'']" "[demo_custom ''web'']"]
    by (simp add: w demo_custom_def)
qed

end
