(* ===== verification/Domux_Config.thy ===== *)
theory Domux_Config
  imports Domux_Providers
begin

text \<open>
  The configuration: \<open>internal/platform/config/config.go\<close>. \<open>Config.Validate\<close> has a value
  receiver, but it fills defaults into \<open>c.Zones[i]\<close> through a pointer into the slice that the
  caller shares, so \<open>Config_Validate\<close> returns the configuration with the zones as the caller
  sees them afterwards. The yaml library is outside the model: \<open>UnmarshalYAML\<close> and
  \<open>MarshalYAML\<close> are modelled on the decoded document \<open>config_yaml\<close>.
\<close>

section \<open>Structs\<close>

record auth_config =
  au_Username :: string
  au_Password :: string

record public_ip_config =
  pi_IPv4URLs :: "string list"
  pi_IPv6URLs :: "string list"
  pi_Timeout :: duration

record server_config =
  sc_APIAddr :: string
  sc_HTTPAddr :: string
  sc_HTTPSAddr :: string
  sc_Auth :: auth_config
  sc_DataDir :: string
  sc_PublicIP :: public_ip_config
  sc_Runtime :: runtime_source

record config =
  c_Server :: server_config
  c_DataDir :: string
  c_PublicIP :: public_ip_config
  c_DDNSProviders :: "provider_config list"
  c_Apps :: "custom_app list"
  c_Agents :: "agent_node list"
  c_DeployTargets :: "deploy_target list"
  c_Zones :: "managed_zone list"

record manual_entry =
  me_Name :: string
  me_Icon :: string
  me_Subdomain :: string
  me_ExitNode :: string
  me_TargetURL :: string

record domain_yaml =
  dy_Domain :: string
  dy_Name :: string
  dy_Default :: bool
  dy_Wildcard :: bool
  dy_DDNS :: ddns_zone_config
  dy_Certificate :: certificate_policy
  dy_Manual :: "manual_entry list"

record config_yaml =
  cy_Server :: server_config
  cy_DataDir :: string
  cy_PublicIP :: public_ip_config
  cy_DDNSProviders :: "provider_config list"
  cy_Apps :: "custom_app list"
  cy_Agents :: "agent_node list"
  cy_DeployTargets :: "deploy_target list"
  cy_Zones :: "managed_zone list"
  cy_Domains :: "domain_yaml list"

definition zero_auth :: auth_config where
  "zero_auth = \<lparr>au_Username = [], au_Password = []\<rparr>"

definition zero_public_ip :: public_ip_config where
  "zero_public_ip = \<lparr>pi_IPv4URLs = [], pi_IPv6URLs = [], pi_Timeout = 0\<rparr>"

definition zero_runtime :: runtime_source where
  "zero_runtime = \<lparr>rs_DisplayName = [], rs_Runtime = [], rs_Endpoint = [], rs_Network = []\<rparr>"

definition Default :: "os_env \<Rightarrow> config" where
  "Default os =
     \<lparr>c_Server = \<lparr>sc_APIAddr = '':18080'', sc_HTTPAddr = '':8080'', sc_HTTPSAddr = '':8443'',
                  sc_Auth = zero_auth, sc_DataDir = ''./data'', sc_PublicIP = zero_public_ip,
                  sc_Runtime = zero_runtime\<lparr>rs_Runtime := ContainerRuntimeDocker,
                    rs_Endpoint := DefaultRuntimeEndpoint os ContainerRuntimeDocker\<rparr>\<rparr>,
      c_DataDir = [], c_PublicIP = zero_public_ip, c_DDNSProviders = [], c_Apps = [],
      c_Agents = [], c_DeployTargets = [], c_Zones = []\<rparr>"

section \<open>Reading and writing the document\<close>

definition public_ip_unset :: "public_ip_config \<Rightarrow> bool" where
  "public_ip_unset p \<longleftrightarrow> pi_IPv4URLs p = [] \<and> pi_IPv6URLs p = [] \<and> pi_Timeout p = 0"

definition domain_zone :: "domain_yaml \<Rightarrow> managed_zone" where
  "domain_zone d =
     (let domainName = TrimSpace (dy_Domain d); given = TrimSpace (dy_Name d)
      in \<lparr>z_Name = (if given = [] then domainName else given), z_Domain = domainName,
          z_Default = dy_Default d, z_Wildcard = dy_Wildcard d, z_DDNS = dy_DDNS d,
          z_Certificate = dy_Certificate d\<rparr>)"

definition entry_app :: "string \<Rightarrow> manual_entry \<Rightarrow> custom_app" where
  "entry_app domainName e =
     (let given = TrimSpace (me_Name e)
      in \<lparr>app_Name = (if given = [] then TrimSpace (me_Subdomain e) else given),
          app_Icon = TrimSpace (me_Icon e), app_Domain = domainName, app_Zone = domainName,
          app_Subdomain = TrimSpace (me_Subdomain e), app_ExitNode = TrimSpace (me_ExitNode e),
          app_TargetURL = TrimSpace (me_TargetURL e)\<rparr>)"

definition domain_apps :: "domain_yaml \<Rightarrow> custom_app list" where
  "domain_apps d = map (entry_app (TrimSpace (dy_Domain d))) (dy_Manual d)"

text \<open>\<open>normalizeLegacyModel\<close>: the zone loop builds the map from legacy names to domains.\<close>

fun legacy_zones :: "string gomap \<Rightarrow> managed_zone list \<Rightarrow> string gomap \<times> managed_zone list" where
  "legacy_zones m [] = (m, [])"
| "legacy_zones m (z # zs) =
     (let legacyName = TrimSpace (z_Name z);
          trimmedDomain = TrimSpace (z_Domain z);
          domain = (if trimmedDomain = [] then legacyName else trimmedDomain)
      in if domain = [] then (let (m', zs') = legacy_zones m zs in (m', z # zs'))
         else
           (let m1 = (if legacyName \<noteq> [] then gm_put legacyName domain m else m);
                z' = z\<lparr>z_Name := (if legacyName = [] then domain else legacyName), z_Domain := domain\<rparr>;
                (m', zs') = legacy_zones (gm_put domain domain m1) zs
            in (m', z' # zs')))"

definition legacy_app :: "string gomap \<Rightarrow> custom_app \<Rightarrow> custom_app" where
  "legacy_app m a0 =
     (let a = a0\<lparr>app_Zone := TrimSpace (app_Zone a0), app_Domain := TrimSpace (app_Domain a0)\<rparr>;
          lookup = (if app_Domain a = [] then app_Zone a else app_Domain a)
      in case gm_get m lookup of
           Some domain \<Rightarrow> a\<lparr>app_Zone := domain, app_Domain := domain\<rparr>
         | None \<Rightarrow> a)"

definition normalizeLegacyModel :: "config \<Rightarrow> config" where
  "normalizeLegacyModel c =
     (let (m, zs) = legacy_zones [] (c_Zones c)
      in c\<lparr>c_Zones := zs, c_Apps := map (legacy_app m) (c_Apps c)\<rparr>)"

definition UnmarshalYAML :: "os_env \<Rightarrow> config_yaml \<Rightarrow> config" where
  "UnmarshalYAML os raw =
     (let server1 = (if TrimSpace (sc_DataDir (cy_Server raw)) = []
                     then (cy_Server raw)\<lparr>sc_DataDir := cy_DataDir raw\<rparr> else cy_Server raw);
          server2 = (if public_ip_unset (sc_PublicIP server1)
                     then server1\<lparr>sc_PublicIP := cy_PublicIP raw\<rparr> else server1);
          server3 = server2\<lparr>sc_Runtime := Normalized os (sc_Runtime server2)\<rparr>;
          c = \<lparr>c_Server = server3, c_DataDir = sc_DataDir server2, c_PublicIP = sc_PublicIP server2,
               c_DDNSProviders = cy_DDNSProviders raw, c_Apps = [], c_Agents = cy_Agents raw,
               c_DeployTargets = cy_DeployTargets raw, c_Zones = []\<rparr>
      in if cy_Domains raw \<noteq> [] then
           c\<lparr>c_Zones := map domain_zone (cy_Domains raw),
             c_Apps := concat (map domain_apps (cy_Domains raw))\<rparr>
         else normalizeLegacyModel (c\<lparr>c_Apps := cy_Apps raw, c_Zones := cy_Zones raw\<rparr>))"

text \<open>The domain an app belongs to: its domain, or its legacy zone.\<close>

definition app_lookup :: "custom_app \<Rightarrow> string" where
  "app_lookup a = (let d = TrimSpace (app_Domain a) in if d = [] then TrimSpace (app_Zone a) else d)"

definition app_entry :: "custom_app \<Rightarrow> manual_entry" where
  "app_entry a =
     \<lparr>me_Name = TrimSpace (app_Name a), me_Icon = TrimSpace (app_Icon a),
      me_Subdomain = TrimSpace (app_Subdomain a), me_ExitNode = TrimSpace (app_ExitNode a),
      me_TargetURL = TrimSpace (app_TargetURL a)\<rparr>"

definition zone_yaml :: "custom_app list \<Rightarrow> managed_zone \<Rightarrow> domain_yaml" where
  "zone_yaml apps z =
     (let zoneName = TrimSpace (z_Name z);
          trimmedDomain = TrimSpace (z_Domain z);
          domainName = (if trimmedDomain = [] then zoneName else trimmedDomain)
      in \<lparr>dy_Domain = domainName, dy_Name = zoneName, dy_Default = z_Default z,
          dy_Wildcard = z_Wildcard z, dy_DDNS = z_DDNS z, dy_Certificate = z_Certificate z,
          dy_Manual = map app_entry (filter (\<lambda>a. app_lookup a = domainName) apps)\<rparr>)"

definition MarshalYAML :: "config \<Rightarrow> config_yaml" where
  "MarshalYAML c =
     \<lparr>cy_Server = c_Server c, cy_DataDir = [], cy_PublicIP = zero_public_ip,
      cy_DDNSProviders = c_DDNSProviders c, cy_Apps = [], cy_Agents = c_Agents c,
      cy_DeployTargets = c_DeployTargets c, cy_Zones = [],
      cy_Domains = map (zone_yaml (c_Apps c)) (c_Zones c)\<rparr>"

section \<open>Validation\<close>

definition AuthConfig_Enabled :: "auth_config \<Rightarrow> bool" where
  "AuthConfig_Enabled a \<longleftrightarrow> au_Username a \<noteq> [] \<or> au_Password a \<noteq> []"

definition AuthConfig_Validate :: "auth_config \<Rightarrow> go_error option" where
  "AuthConfig_Validate a =
     (if au_Username a = [] \<and> au_Password a = [] then None
      else if au_Username a = [] \<or> au_Password a = [] then
        Some (Errorf ''server.auth.username and server.auth.password must both be set'' [])
      else None)"

definition PublicIPConfig_Validate :: "public_ip_config \<Rightarrow> go_error option" where
  "PublicIPConfig_Validate p =
     (if pi_Timeout p < 0 then
        Some (Errorf ''server.public_ip.timeout must not be negative'' [])
      else if list_ex (\<lambda>e. TrimSpace e = []) (pi_IPv4URLs p @ pi_IPv6URLs p) then
        Some (Errorf ''server.public_ip urls must not be empty'' [])
      else None)"

definition providerRefs :: "provider_config list \<Rightarrow> provider_config gomap" where
  "providerRefs ps = gm_put_all pc_Ref ps []"

text \<open>
  The loops over providers, agents and targets have one shape: report an invalid element,
  report a duplicate name, otherwise remember the name.
\<close>

fun check_unique :: "('a \<Rightarrow> go_error option) \<Rightarrow> ('a \<Rightarrow> string) \<Rightarrow> string \<Rightarrow> string list \<Rightarrow> 'a list \<Rightarrow>
    go_error list \<times> string list" where
  "check_unique valid key dup seen [] = ([], seen)"
| "check_unique valid key dup seen (x # xs) =
     (case valid x of
        Some e \<Rightarrow> (let (es, s) = check_unique valid key dup seen xs in (e # es, s))
      | None \<Rightarrow>
          if key x \<in> set seen then
            (let (es, s) = check_unique valid key dup seen xs in (Errorf dup [key x] # es, s))
          else check_unique valid key dup (key x # seen) xs)"

definition provider_error :: "registry \<Rightarrow> provider_config \<Rightarrow> go_error option" where
  "provider_error reg p =
     (case DDNSProviderConfig_Validate p of
        Some e \<Rightarrow> Some e
      | None \<Rightarrow>
          if \<not> registry_Exists reg (pc_Type p) then
            Some (Errorf ''dns provider %q uses unsupported type %q'' [pc_Ref p, pc_Type p])
          else None)"

definition validate_providers :: "registry \<Rightarrow> provider_config list \<Rightarrow> go_error list \<times> string list" where
  "validate_providers reg ps = check_unique (provider_error reg) pc_Ref ''duplicate dns provider %q'' [] ps"

definition validate_agents :: "agent_node list \<Rightarrow> go_error list \<times> string list" where
  "validate_agents as = check_unique AgentNode_Validate ag_Name ''duplicate agent %q'' [] as"

definition validate_targets :: "deploy_target list \<Rightarrow> go_error list \<times> string list" where
  "validate_targets ts = check_unique DeployTarget_Validate dt_Name ''duplicate deploy target %q'' [] ts"

definition target_agent_errors :: "string list \<Rightarrow> deploy_target list \<Rightarrow> go_error list" where
  "target_agent_errors seenAgents ts =
     List.map_filter (\<lambda>t.
       if dt_Transport t = DeployTransportAgent \<and> dt_AgentNode t \<notin> set seenAgents then
         Some (Errorf ''deploy target %q references unknown agent %q'' [dt_Name t, dt_AgentNode t])
       else None) ts"

text \<open>The references of one zone that passed its own validation.\<close>

definition zone_provider_errors ::
    "registry \<Rightarrow> provider_config gomap \<Rightarrow> managed_zone \<Rightarrow> string \<Rightarrow> go_error list" where
  "zone_provider_errors reg provs z ref =
     (case gm_get provs ref of
        None \<Rightarrow> [Errorf ''domain %q references unknown dns provider %q'' [z_Domain z, ref]]
      | Some p \<Rightarrow>
          if \<not> registry_Exists reg (pc_Type p) then
            [Errorf ''domain %q dns provider %q uses unsupported type %q'' [z_Domain z, ref, pc_Type p]]
          else
            (if dz_IPv4 (z_DDNS z) \<and> \<not> SupportsRecordType reg (pc_Type p) RecordTypeA
             then [Errorf ''domain %q dns provider %q does not support IPv4 updates'' [z_Domain z, ref]]
             else [])
            @ (if dz_IPv6 (z_DDNS z) \<and> \<not> SupportsRecordType reg (pc_Type p) RecordTypeAAAA
               then [Errorf ''domain %q dns provider %q does not support IPv6 updates'' [z_Domain z, ref]]
               else []))"

definition zone_certificate_errors ::
    "registry \<Rightarrow> provider_config gomap \<Rightarrow> string list \<Rightarrow> managed_zone \<Rightarrow> go_error list" where
  "zone_certificate_errors reg provs seenTargets z =
     (if \<not> cp_Enabled (z_Certificate z) then []
      else
        (case CertificatePlans z of
           Inl e \<Rightarrow> [e]
         | Inr plans \<Rightarrow>
             (let ref = cp_DNSProvider (z_Certificate z)
              in case gm_get provs ref of
                   None \<Rightarrow> [Errorf ''domain %q references unknown dns provider %q for certificate'' [z_Domain z, ref]]
                 | Some p \<Rightarrow>
                     if \<not> registry_Exists reg (pc_Type p) then
                       [Errorf ''domain %q certificate dns provider %q uses unsupported type %q''
                          [z_Domain z, ref, pc_Type p]]
                     else [])
             @ concat (map (\<lambda>plan. List.map_filter (\<lambda>t.
                   if t \<notin> set seenTargets then
                     Some (Errorf ''domain %q certificate bundle %q references unknown deploy target %q''
                             [z_Domain z, pl_Name plan, t])
                   else None) (pl_DeployTargets plan)) plans)))"

definition zone_reference_errors ::
    "registry \<Rightarrow> provider_config gomap \<Rightarrow> string list \<Rightarrow> managed_zone \<Rightarrow> go_error list" where
  "zone_reference_errors reg provs seenTargets z =
     concat (map (zone_provider_errors reg provs z) (dz_ProviderRefs (z_DDNS z)))
     @ zone_certificate_errors reg provs seenTargets z"

text \<open>
  The zone loop: the errors, the accepted zones by domain (\<open>zonesByDomain\<close>, whose keys are
  \<open>seenDomains\<close>), the number of default zones, and the zones with their defaults filled in.
\<close>

record zone_loop =
  zl_errs :: "go_error list"
  zl_byDomain :: "managed_zone gomap"
  zl_defaults :: nat
  zl_zones :: "managed_zone list"

fun validate_zones :: "registry \<Rightarrow> provider_config gomap \<Rightarrow> string list \<Rightarrow> managed_zone gomap \<Rightarrow> nat \<Rightarrow>
    managed_zone list \<Rightarrow> zone_loop" where
  "validate_zones reg provs seenTargets byDomain n [] =
     \<lparr>zl_errs = [], zl_byDomain = byDomain, zl_defaults = n, zl_zones = []\<rparr>"
| "validate_zones reg provs seenTargets byDomain n (z0 # zs) =
     (case ManagedZone_Validate z0 of
        (Some e, z) \<Rightarrow>
          (let r = validate_zones reg provs seenTargets byDomain n zs
           in r\<lparr>zl_errs := e # zl_errs r, zl_zones := z # zl_zones r\<rparr>)
      | (None, z) \<Rightarrow>
          if gm_get byDomain (z_Domain z) \<noteq> None then
            (let r = validate_zones reg provs seenTargets byDomain n zs
             in r\<lparr>zl_errs := Errorf ''duplicate domain %q'' [z_Domain z] # zl_errs r,
                  zl_zones := z # zl_zones r\<rparr>)
          else
            (let r = validate_zones reg provs seenTargets (gm_put (z_Domain z) z byDomain)
                       (if z_Default z then Suc n else n) zs
             in r\<lparr>zl_errs := zone_reference_errors reg provs seenTargets z @ zl_errs r,
                  zl_zones := z # zl_zones r\<rparr>))"

fun validate_apps :: "managed_zone gomap \<Rightarrow> string list \<Rightarrow> string list \<Rightarrow> string list \<Rightarrow> custom_app list \<Rightarrow>
    go_error list" where
  "validate_apps byDomain seenAgents seenApps seenHosts [] = []"
| "validate_apps byDomain seenAgents seenApps seenHosts (a # as) =
     (case CustomApp_Validate a of
        Some e \<Rightarrow> e # validate_apps byDomain seenAgents seenApps seenHosts as
      | None \<Rightarrow>
          if app_Name a \<in> set seenApps then
            Errorf ''duplicate custom app %q'' [app_Name a]
              # validate_apps byDomain seenAgents seenApps seenHosts as
          else
            (case gm_get byDomain (app_lookup a) of
               None \<Rightarrow>
                 Errorf ''custom app %q references unknown domain %q'' [app_Name a, app_lookup a]
                   # validate_apps byDomain seenAgents (app_Name a # seenApps) seenHosts as
             | Some zone \<Rightarrow>
                 if TrimSpace (app_ExitNode a) \<noteq> [] \<and> app_ExitNode a \<notin> set seenAgents then
                   Errorf ''custom app %q references unknown exit node %q'' [app_Name a, app_ExitNode a]
                     # validate_apps byDomain seenAgents (app_Name a # seenApps) seenHosts as
                 else if CustomApp_Host a zone \<in> set seenHosts then
                   Errorf ''duplicate custom app host %q'' [CustomApp_Host a zone]
                     # validate_apps byDomain seenAgents (app_Name a # seenApps) seenHosts as
                 else
                   validate_apps byDomain seenAgents (app_Name a # seenApps)
                     (CustomApp_Host a zone # seenHosts) as))"

definition provider_option_errors :: "registry \<Rightarrow> provider_config \<Rightarrow> go_error list" where
  "provider_option_errors reg p =
     (if \<not> registry_Exists reg (pc_Type p) then []
      else
        (case ValidateUpdater reg (pc_Type p) (pc_Options p) of
           None \<Rightarrow> [] | Some e \<Rightarrow> [Wrapf ''dns provider %q updater: %w'' [pc_Ref p] e])
        @ (case ValidateChallenge reg (pc_Type p) (pc_Options p) of
             None \<Rightarrow> [] | Some e \<Rightarrow> [Wrapf ''dns provider %q challenge: %w'' [pc_Ref p] e]))"

text \<open>The server section as \<open>Validate\<close> sees it, with the two legacy top-level fields merged in.\<close>

definition effective_server :: "config \<Rightarrow> server_config" where
  "effective_server c =
     (let s = c_Server c;
          s1 = (if TrimSpace (sc_DataDir s) = [] \<and> TrimSpace (c_DataDir c) \<noteq> []
                then s\<lparr>sc_DataDir := c_DataDir c\<rparr> else s)
      in if public_ip_unset (sc_PublicIP s1) then s1\<lparr>sc_PublicIP := c_PublicIP c\<rparr> else s1)"

definition server_errors :: "server_config \<Rightarrow> go_error list" where
  "server_errors s =
     (if sc_APIAddr s = [] then [Errorf ''server.api_addr is required'' []] else [])
     @ opt_to_list (AuthConfig_Validate (sc_Auth s))
     @ (if sc_DataDir s = [] then [Errorf ''server.data_dir is required'' []] else [])
     @ opt_to_list (PublicIPConfig_Validate (sc_PublicIP s))"

definition Config_Validate :: "os_env \<Rightarrow> config \<Rightarrow> go_error option \<times> config" where
  "Config_Validate os c =
     (case NewBuiltinRegistry of
        Inl e \<Rightarrow> (Some e, c)
      | Inr reg \<Rightarrow>
          (let s = effective_server c;
               (providerErrs, _) = validate_providers reg (c_DDNSProviders c);
               provs = providerRefs (c_DDNSProviders c);
               (agentErrs, seenAgents) = validate_agents (c_Agents c);
               (targetErrs, seenTargets) = validate_targets (c_DeployTargets c);
               zl = validate_zones reg provs seenTargets [] 0 (c_Zones c);
               errs = server_errors s @ providerErrs
                 @ opt_to_list (RuntimeSource_Validate os (sc_Runtime s))
                 @ agentErrs @ targetErrs @ target_agent_errors seenAgents (c_DeployTargets c)
                 @ zl_errs zl
                 @ (if zl_defaults zl > 1
                    then [Errorf ''only one zone can be marked as default'' []] else [])
                 @ validate_apps (zl_byDomain zl) seenAgents [] [] (c_Apps c)
                 @ concat (map (provider_option_errors reg) (c_DDNSProviders c))
           in (errors_Join errs, c\<lparr>c_Zones := zl_zones zl\<rparr>)))"

definition AbsDataDir :: "config \<Rightarrow> string \<Rightarrow> string" where
  "AbsDataDir c base =
     (let s = c_Server c;
          dir = (if TrimSpace (sc_DataDir s) = [] \<and> TrimSpace (c_DataDir c) \<noteq> []
                 then c_DataDir c else sc_DataDir s)
      in if IsAbs dir then dir else PathJoin [base, dir])"

section \<open>Facts about the validation loops\<close>

lemma check_unique_ok:
  "fst (check_unique valid key dup seen xs) = [] \<longleftrightarrow>
     (\<forall>x \<in> set xs. valid x = None) \<and> distinct (map key xs) \<and> key ` set xs \<inter> set seen = {}"
  by (induction xs arbitrary: seen) (auto simp: Let_def split: option.splits prod.splits)

lemma check_unique_seen:
  "\<forall>x \<in> set xs. valid x = None \<Longrightarrow> set (snd (check_unique valid key dup seen xs)) = key ` set xs \<union> set seen"
  by (induction xs arbitrary: seen) (auto simp: case_prod_unfold Let_def)

lemma target_agent_errors_Nil:
  "target_agent_errors agents ts = [] \<longleftrightarrow>
     (\<forall>t \<in> set ts. dt_Transport t = DeployTransportAgent \<longrightarrow> dt_AgentNode t \<in> set agents)"
  by (auto simp: target_agent_errors_def map_filter_Nil_iff)

lemma PublicIPConfig_Validate_None:
  "PublicIPConfig_Validate p = None \<longleftrightarrow>
     0 \<le> pi_Timeout p \<and> (\<forall>u \<in> set (pi_IPv4URLs p) \<union> set (pi_IPv6URLs p). TrimSpace u \<noteq> [])"
  by (auto simp: PublicIPConfig_Validate_def list_ex_iff)

lemma RuntimeSource_Validate_None:
  "RuntimeSource_Validate os s = None \<longleftrightarrow>
     RuntimeOrDefault os s \<in> {ContainerRuntimeDocker, ContainerRuntimePodman}"
  by (simp add: RuntimeSource_Validate_def ContainerRuntime_Validate_def EndpointOrDefault_ne)

text \<open>A zone as the loop leaves it, and the zones it accepts.\<close>

abbreviation validated_zone :: "managed_zone \<Rightarrow> managed_zone" where
  "validated_zone z \<equiv> snd (ManagedZone_Validate z)"

lemma validate_zones_zones: "zl_zones (validate_zones reg provs ts m n zs) = map validated_zone zs"
  by (induction zs arbitrary: m n) (auto simp: Let_def split: prod.splits option.splits)

lemma validate_zones_ok:
  "zl_errs (validate_zones reg provs ts m n zs) = [] \<longleftrightarrow>
     (\<forall>z \<in> set zs. fst (ManagedZone_Validate z) = None
        \<and> zone_reference_errors reg provs ts (validated_zone z) = [])
     \<and> distinct (map z_Domain zs) \<and> (\<forall>z \<in> set zs. gm_get m (z_Domain z) = None)"
proof (induction zs arbitrary: m n)
  case (Cons z zs)
  obtain e z' where v: "ManagedZone_Validate z = (e, z')" by fastforce
  with ManagedZone_Validate_frame(1) [of z] have d: "z_Domain z' = z_Domain z" by simp
  show ?case using Cons.IH v d by (cases e) (auto simp: Let_def image_iff)
qed simp

lemma validate_zones_accepted:
  "zl_errs (validate_zones reg provs ts m n zs) = [] \<Longrightarrow>
     zl_byDomain (validate_zones reg provs ts m n zs) = gm_put_all z_Domain (map validated_zone zs) m
     \<and> zl_defaults (validate_zones reg provs ts m n zs) = n + length (filter z_Default zs)"
proof (induction zs arbitrary: m n)
  case (Cons z zs)
  obtain e z' where v: "ManagedZone_Validate z = (e, z')" by fastforce
  with ManagedZone_Validate_frame(1,2) [of z]
  have d: "z_Domain z' = z_Domain z" "z_Default z' = z_Default z" by simp_all
  show ?case using Cons v d by (cases e) (auto simp: Let_def split: if_splits)
qed simp

text \<open>The host of an app, read off the zones by domain.\<close>

definition app_host :: "managed_zone gomap \<Rightarrow> custom_app \<Rightarrow> string" where
  "app_host m a = (case gm_get m (app_lookup a) of None \<Rightarrow> [] | Some z \<Rightarrow> CustomApp_Host a z)"

definition app_refs_ok :: "managed_zone gomap \<Rightarrow> string list \<Rightarrow> custom_app \<Rightarrow> bool" where
  "app_refs_ok m agents a \<longleftrightarrow> CustomApp_Validate a = None \<and> gm_get m (app_lookup a) \<noteq> None
     \<and> (TrimSpace (app_ExitNode a) \<noteq> [] \<longrightarrow> app_ExitNode a \<in> set agents)"

lemma validate_apps_ok:
  "validate_apps m agents seenApps seenHosts as = [] \<longleftrightarrow>
     (\<forall>a \<in> set as. app_refs_ok m agents a \<and> app_Name a \<notin> set seenApps \<and> app_host m a \<notin> set seenHosts)
     \<and> distinct (map app_Name as) \<and> distinct (map (app_host m) as)"
proof (induction as arbitrary: seenApps seenHosts)
  case (Cons a as)
  show ?case
  proof (cases "app_refs_ok m agents a")
    case True
    then obtain z where z: "gm_get m (app_lookup a) = Some z" by (auto simp: app_refs_ok_def)
    then have h: "app_host m a = CustomApp_Host a z" by (simp add: app_host_def)
    have eq: "validate_apps m agents seenApps seenHosts (a # as) = [] \<longleftrightarrow>
        app_Name a \<notin> set seenApps \<and> app_host m a \<notin> set seenHosts
        \<and> validate_apps m agents (app_Name a # seenApps) (app_host m a # seenHosts) as = []"
      using True z by (auto simp: app_refs_ok_def h)
    show ?thesis unfolding eq Cons.IH using True by (auto simp: image_iff)
  next
    case False
    then have "validate_apps m agents seenApps seenHosts (a # as) \<noteq> []"
      by (cases "CustomApp_Validate a"; cases "gm_get m (app_lookup a)")
        (simp_all add: app_refs_ok_def)
    with False show ?thesis by auto
  qed
qed simp

section \<open>What an accepted configuration satisfies\<close>

definition server_ok :: "os_env \<Rightarrow> server_config \<Rightarrow> bool" where
  "server_ok os s \<longleftrightarrow>
     sc_APIAddr s \<noteq> [] \<and> sc_DataDir s \<noteq> []
     \<and> (au_Username (sc_Auth s) = [] \<longleftrightarrow> au_Password (sc_Auth s) = [])
     \<and> 0 \<le> pi_Timeout (sc_PublicIP s)
     \<and> (\<forall>u \<in> set (pi_IPv4URLs (sc_PublicIP s)) \<union> set (pi_IPv6URLs (sc_PublicIP s)). TrimSpace u \<noteq> [])
     \<and> RuntimeOrDefault os (sc_Runtime s) \<in> {ContainerRuntimeDocker, ContainerRuntimePodman}"

definition provider_ok :: "provider_config \<Rightarrow> bool" where
  "provider_ok p \<longleftrightarrow> pc_Ref p \<noteq> [] \<and> registry_Exists builtins (pc_Type p)
     \<and> ValidateUpdater builtins (pc_Type p) (pc_Options p) = None
     \<and> ValidateChallenge builtins (pc_Type p) (pc_Options p) = None"

text \<open>The references of a zone resolve against the provider references and the deploy targets.\<close>

definition zone_refs_ok :: "string set \<Rightarrow> string set \<Rightarrow> managed_zone \<Rightarrow> bool" where
  "zone_refs_ok refs targets z \<longleftrightarrow>
     set (dz_ProviderRefs (z_DDNS z)) \<subseteq> refs
     \<and> (cp_Enabled (z_Certificate z) \<longrightarrow> cp_DNSProvider (z_Certificate z) \<in> refs
          \<and> (\<exists>plans. CertificatePlans z = Inr plans \<and> (\<forall>p \<in> set plans. set (pl_DeployTargets p) \<subseteq> targets)))"

definition app_ok :: "managed_zone list \<Rightarrow> agent_node list \<Rightarrow> custom_app \<Rightarrow> bool" where
  "app_ok zs agents a \<longleftrightarrow> CustomApp_Validate a = None \<and> app_lookup a \<in> z_Domain ` set zs
     \<and> (TrimSpace (app_ExitNode a) \<noteq> [] \<longrightarrow> app_ExitNode a \<in> ag_Name ` set agents)"

definition config_ok :: "os_env \<Rightarrow> config \<Rightarrow> bool" where
  "config_ok os c \<longleftrightarrow>
     server_ok os (effective_server c)
     \<and> (\<forall>p \<in> set (c_DDNSProviders c). provider_ok p) \<and> distinct (map pc_Ref (c_DDNSProviders c))
     \<and> (\<forall>a \<in> set (c_Agents c). AgentNode_Validate a = None) \<and> distinct (map ag_Name (c_Agents c))
     \<and> (\<forall>t \<in> set (c_DeployTargets c). DeployTarget_Validate t = None
          \<and> (dt_Transport t = DeployTransportAgent \<longrightarrow> dt_AgentNode t \<in> ag_Name ` set (c_Agents c)))
     \<and> distinct (map dt_Name (c_DeployTargets c))
     \<and> (\<forall>z \<in> set (c_Zones c). fst (ManagedZone_Validate z) = None
          \<and> zone_refs_ok (pc_Ref ` set (c_DDNSProviders c)) (dt_Name ` set (c_DeployTargets c)) (validated_zone z))
     \<and> distinct (map z_Domain (c_Zones c)) \<and> length (filter z_Default (c_Zones c)) \<le> 1
     \<and> (\<forall>a \<in> set (c_Apps c). app_ok (c_Zones c) (c_Agents c) a) \<and> distinct (map app_Name (c_Apps c))
     \<and> distinct (map (\<lambda>a. TrimSpace (app_Subdomain a) @ ''.'' @ app_lookup a) (c_Apps c))"

lemma validate_providers_ok:
  "fst (validate_providers builtins ps) = [] \<and> concat (map (provider_option_errors builtins) ps) = [] \<longleftrightarrow>
     (\<forall>p \<in> set ps. provider_ok p) \<and> distinct (map pc_Ref ps)"
proof -
  have "provider_error builtins p = None \<and> provider_option_errors builtins p = [] \<longleftrightarrow> provider_ok p" for p
    by (auto simp: provider_error_def provider_option_errors_def provider_ok_def builtins_Exists
        DDNSProviderConfig_Validate_def split: option.splits)
  then show ?thesis
    unfolding validate_providers_def check_unique_ok by (auto simp: concat_eq_Nil_conv)
qed

lemma server_errors_ok:
  "server_errors s = [] \<and> RuntimeSource_Validate os (sc_Runtime s) = None \<longleftrightarrow> server_ok os s"
  unfolding RuntimeSource_Validate_None
  by (auto simp: server_errors_def server_ok_def AuthConfig_Validate_def PublicIPConfig_Validate_None)

lemma providerRefs_get:
  "(\<exists>p. gm_get (providerRefs ps) r = Some p) \<longleftrightarrow> r \<in> pc_Ref ` set ps"
  "gm_get (providerRefs ps) r = Some p \<Longrightarrow> p \<in> set ps \<and> pc_Ref p = r"
  by (auto simp: providerRefs_def gm_put_all_get find_None_iff image_iff split: option.splits
      dest!: find_Some_mem)

lemma builtins_SupportsRecordType:
  "registry_Exists builtins t \<Longrightarrow> SupportsRecordType builtins t RecordTypeA
     \<and> SupportsRecordType builtins t RecordTypeAAAA"
  by (auto simp: registry_Exists_def SupportsRecordType_def builtins_def builtin_definition_def
      split: if_splits)

lemma zone_provider_errors_Nil:
  assumes "\<forall>p \<in> set ps. provider_ok p"
  shows "zone_provider_errors builtins (providerRefs ps) z r = [] \<longleftrightarrow> r \<in> pc_Ref ` set ps"
proof (cases "gm_get (providerRefs ps) r")
  case None
  then show ?thesis using providerRefs_get(1) [of ps r] by (simp add: zone_provider_errors_def)
next
  case (Some p)
  with assms providerRefs_get(2) [OF this] have "registry_Exists builtins (pc_Type p)"
    by (simp add: provider_ok_def)
  with Some show ?thesis
    using providerRefs_get(1) [of ps r] builtins_SupportsRecordType [of "pc_Type p"]
    by (simp add: zone_provider_errors_def)
qed

lemma zone_certificate_errors_Nil:
  assumes "\<forall>p \<in> set ps. provider_ok p"
  shows "zone_certificate_errors builtins (providerRefs ps) ts z = [] \<longleftrightarrow>
     (cp_Enabled (z_Certificate z) \<longrightarrow> cp_DNSProvider (z_Certificate z) \<in> pc_Ref ` set ps
          \<and> (\<exists>plans. CertificatePlans z = Inr plans \<and> (\<forall>p \<in> set plans. set (pl_DeployTargets p) \<subseteq> set ts)))"
proof (cases "gm_get (providerRefs ps) (cp_DNSProvider (z_Certificate z))")
  case None
  then show ?thesis
    using providerRefs_get(1) [of ps "cp_DNSProvider (z_Certificate z)"]
    by (auto simp: zone_certificate_errors_def split: sum.splits)
next
  case (Some p)
  with assms providerRefs_get(2) [OF this] have "registry_Exists builtins (pc_Type p)"
    by (simp add: provider_ok_def)
  with Some show ?thesis
    using providerRefs_get(1) [of ps "cp_DNSProvider (z_Certificate z)"]
    by (auto simp: zone_certificate_errors_def map_filter_Nil_iff concat_eq_Nil_conv split: sum.splits)
qed

lemma zone_reference_errors_Nil:
  "\<forall>p \<in> set ps. provider_ok p \<Longrightarrow> set ts = targets \<Longrightarrow>
     zone_reference_errors builtins (providerRefs ps) ts z = [] \<longleftrightarrow> zone_refs_ok (pc_Ref ` set ps) targets z"
  by (auto simp: zone_reference_errors_def zone_refs_ok_def zone_certificate_errors_Nil
      zone_provider_errors_Nil concat_eq_Nil_conv)

lemma zones_by_domain:
  "(\<exists>z. gm_get (gm_put_all z_Domain zs []) d = Some z) \<longleftrightarrow> d \<in> z_Domain ` set zs"
  "gm_get (gm_put_all z_Domain zs []) d = Some z \<Longrightarrow> z \<in> set zs \<and> z_Domain z = d"
  by (auto simp: gm_put_all_get find_None_iff image_iff split: option.splits dest!: find_Some_mem)

lemma validated_zone_domains: "z_Domain ` set (map validated_zone zs) = z_Domain ` set zs"
  by (auto simp: image_iff ManagedZone_Validate_frame)

lemma app_subdomain_nonempty: "CustomApp_Validate a = None \<Longrightarrow> TrimSpace (app_Subdomain a) \<noteq> []"
  by (auto simp: CustomApp_Validate_def Let_def split: if_splits)

lemma validate_apps_config:
  assumes m: "m = gm_put_all z_Domain (map validated_zone zs) []" and ags: "set names = ag_Name ` set agents"
  shows "validate_apps m names [] [] as = [] \<longleftrightarrow>
     (\<forall>a \<in> set as. app_ok zs agents a) \<and> distinct (map app_Name as)
     \<and> distinct (map (\<lambda>a. TrimSpace (app_Subdomain a) @ ''.'' @ app_lookup a) as)"
proof -
  have refs: "app_refs_ok m names a \<longleftrightarrow> app_ok zs agents a" for a
    using zones_by_domain(1) [of "map validated_zone zs" "app_lookup a"] m ags
    unfolding validated_zone_domains by (auto simp: app_refs_ok_def app_ok_def)
  have host: "app_host m a = TrimSpace (app_Subdomain a) @ ''.'' @ app_lookup a" if "app_ok zs agents a" for a
  proof -
    from that refs obtain z where z: "gm_get m (app_lookup a) = Some z" by (auto simp: app_refs_ok_def)
    with zones_by_domain(2) m have "z_Domain z = app_lookup a" by blast
    with that z show ?thesis
      by (simp add: app_host_def CustomApp_Host_def Hostname_def app_ok_def app_subdomain_nonempty)
  qed
  have hosts: "map (app_host m) as = map (\<lambda>a. TrimSpace (app_Subdomain a) @ ''.'' @ app_lookup a) as"
    if "\<forall>a \<in> set as. app_ok zs agents a" using that by (intro map_cong refl host) simp
  show ?thesis
  proof (cases "\<forall>a \<in> set as. app_ok zs agents a")
    case True
    then show ?thesis unfolding validate_apps_ok refs hosts [OF True] by simp
  next
    case False
    then show ?thesis by (auto simp: validate_apps_ok refs)
  qed
qed

lemma Config_Validate_unfold:
  "Config_Validate os c =
     (let s = effective_server c;
          zl = validate_zones builtins (providerRefs (c_DDNSProviders c))
                 (snd (validate_targets (c_DeployTargets c))) [] 0 (c_Zones c)
      in (errors_Join (server_errors s @ fst (validate_providers builtins (c_DDNSProviders c))
            @ opt_to_list (RuntimeSource_Validate os (sc_Runtime s))
            @ fst (validate_agents (c_Agents c)) @ fst (validate_targets (c_DeployTargets c))
            @ target_agent_errors (snd (validate_agents (c_Agents c))) (c_DeployTargets c)
            @ zl_errs zl
            @ (if zl_defaults zl > 1 then [Errorf ''only one zone can be marked as default'' []] else [])
            @ validate_apps (zl_byDomain zl) (snd (validate_agents (c_Agents c))) [] [] (c_Apps c)
            @ concat (map (provider_option_errors builtins) (c_DDNSProviders c))),
          c\<lparr>c_Zones := map validated_zone (c_Zones c)\<rparr>))"
  by (simp add: Config_Validate_def builtin_registry_eq case_prod_unfold Let_def validate_zones_zones)

lemma Config_Validate_accepts: "fst (Config_Validate os c) = None \<longleftrightarrow> config_ok os c"
proof (cases "(\<forall>p \<in> set (c_DDNSProviders c). provider_ok p)
    \<and> (\<forall>a \<in> set (c_Agents c). AgentNode_Validate a = None)
    \<and> (\<forall>t \<in> set (c_DeployTargets c). DeployTarget_Validate t = None)")
  case True
  let ?ags = "snd (validate_agents (c_Agents c))" and ?ts = "snd (validate_targets (c_DeployTargets c))"
  let ?zl = "validate_zones builtins (providerRefs (c_DDNSProviders c)) ?ts [] 0 (c_Zones c)"
  have ags: "set ?ags = ag_Name ` set (c_Agents c)" and ts: "set ?ts = dt_Name ` set (c_DeployTargets c)"
    using True by (simp_all add: validate_agents_def validate_targets_def check_unique_seen)
  have zs: "zl_errs ?zl = [] \<longleftrightarrow> (\<forall>z \<in> set (c_Zones c). fst (ManagedZone_Validate z) = None
        \<and> zone_refs_ok (pc_Ref ` set (c_DDNSProviders c)) (dt_Name ` set (c_DeployTargets c)) (validated_zone z))
      \<and> distinct (map z_Domain (c_Zones c))"
    using True ts by (auto simp: validate_zones_ok zone_reference_errors_Nil)
  have acc: "zl_byDomain ?zl = gm_put_all z_Domain (map validated_zone (c_Zones c)) []
      \<and> zl_defaults ?zl = length (filter z_Default (c_Zones c))" if "zl_errs ?zl = []"
    using validate_zones_accepted [OF that] by simp
  have apps: "validate_apps (zl_byDomain ?zl) ?ags [] [] (c_Apps c) = [] \<longleftrightarrow>
      (\<forall>a \<in> set (c_Apps c). app_ok (c_Zones c) (c_Agents c) a) \<and> distinct (map app_Name (c_Apps c))
      \<and> distinct (map (\<lambda>a. TrimSpace (app_Subdomain a) @ ''.'' @ app_lookup a) (c_Apps c))"
    if "zl_errs ?zl = []"
    using acc [OF that] ags by (intro validate_apps_config) simp_all
  show ?thesis
    unfolding Config_Validate_unfold Let_def fst_conv errors_Join_None append_is_Nil_conv config_ok_def
    using True zs acc apps ags ts server_errors_ok [of "effective_server c" os]
      validate_providers_ok [of "c_DDNSProviders c"]
    by (auto simp: validate_agents_def validate_targets_def check_unique_ok target_agent_errors_Nil)
next
  case False
  then have "\<not> config_ok os c" by (auto simp: config_ok_def)
  moreover have "fst (Config_Validate os c) \<noteq> None"
    using False validate_providers_ok [of "c_DDNSProviders c"]
    unfolding Config_Validate_unfold Let_def fst_conv errors_Join_None append_is_Nil_conv
    by (auto simp: validate_agents_def validate_targets_def check_unique_ok)
  ultimately show ?thesis by simp
qed

section \<open>Validation is idempotent\<close>

lemma validated_zone_idem:
  assumes "fst (ManagedZone_Validate z) = None"
  shows "ManagedZone_Validate (validated_zone z) = (None, validated_zone z)"
  using assms by (intro zone_ok_Validate ManagedZone_Validate_ok) (simp add: prod_eq_iff)

lemma app_ok_domains: "z_Domain ` set zs = z_Domain ` set zs' \<Longrightarrow> app_ok zs = app_ok zs'"
  by (simp add: app_ok_def fun_eq_iff)

lemma public_ip_unset_iff: "public_ip_unset p \<longleftrightarrow> p = zero_public_ip"
  by (cases p) (auto simp: public_ip_unset_def zero_public_ip_def)

lemma validated_zone_comp [simp]:
  "z_Domain \<circ> validated_zone = z_Domain" "z_Default \<circ> validated_zone = z_Default"
  by (simp_all add: fun_eq_iff ManagedZone_Validate_frame)

lemma effective_server_zones [simp]:
  "effective_server (c\<lparr>c_Zones := zs\<rparr>) = effective_server c"
  "effective_server (c\<lparr>c_Apps := as\<rparr>) = effective_server c"
  by (simp_all add: effective_server_def Let_def)

lemma config_ok_validated:
  assumes "config_ok os c"
  shows "config_ok os (c\<lparr>c_Zones := map validated_zone (c_Zones c)\<rparr>)"
proof -
  have "app_ok (map validated_zone (c_Zones c)) = app_ok (c_Zones c)"
    by (rule app_ok_domains) (rule validated_zone_domains)
  moreover have "\<forall>z \<in> set (c_Zones c). ManagedZone_Validate (validated_zone z) = (None, validated_zone z)"
    using assms validated_zone_idem by (simp add: config_ok_def)
  ultimately show ?thesis using assms by (auto simp: config_ok_def filter_map)
qed

lemma Config_Validate_zones: "snd (Config_Validate os c) = c\<lparr>c_Zones := map validated_zone (c_Zones c)\<rparr>"
  by (simp add: Config_Validate_unfold Let_def)

lemma Config_Validate_fixpoint:
  assumes "config_ok os c"
  shows "Config_Validate os (snd (Config_Validate os c)) = (None, snd (Config_Validate os c))"
proof (rule prod_eqI)
  show "fst (Config_Validate os (snd (Config_Validate os c))) = fst (None :: go_error option, snd (Config_Validate os c))"
    using config_ok_validated [OF assms]
    by (simp only: Config_Validate_accepts Config_Validate_zones fst_conv)
  have "map validated_zone (map validated_zone (c_Zones c)) = map validated_zone (c_Zones c)"
    using assms validated_zone_idem by (simp add: config_ok_def)
  then show "snd (Config_Validate os (snd (Config_Validate os c))) = snd (None :: go_error option, snd (Config_Validate os c))"
    by (simp add: Config_Validate_zones)
qed

section \<open>Writing a configuration and reading it back\<close>

text \<open>
  What is written of an agent: \<open>Version\<close>, \<open>Status\<close>, \<open>LastError\<close>, \<open>LastCheckedAt\<close> and
  \<open>Resources\<close> carry the tag \<open>yaml:"-"\<close>.
\<close>

definition zero_resources :: system_resources where
  "zero_resources = \<lparr>sr_CPUPercent = 0, sr_MemoryPercent = 0, sr_DiskPercent = 0, sr_CheckedAt = 0\<rparr>"

definition yaml_agent :: "agent_node \<Rightarrow> agent_node" where
  "yaml_agent a = a\<lparr>ag_Version := [], ag_Status := [], ag_LastError := [], ag_LastCheckedAt := 0,
                    ag_Resources := zero_resources\<rparr>"

definition yaml_visible :: "config_yaml \<Rightarrow> config_yaml" where
  "yaml_visible y = y\<lparr>cy_Agents := map yaml_agent (cy_Agents y)\<rparr>"

text \<open>
  The configurations the program itself produces: names without surrounding blanks, apps
  under their domain, the runtime normalised and the two legacy fields mirroring the server
  section.
\<close>

definition app_normal :: "custom_app \<Rightarrow> bool" where
  "app_normal a \<longleftrightarrow> trimmed (app_Name a) \<and> trimmed (app_Icon a) \<and> trimmed (app_Domain a)
     \<and> trimmed (app_Subdomain a) \<and> trimmed (app_ExitNode a) \<and> trimmed (app_TargetURL a)
     \<and> app_Name a \<noteq> [] \<and> app_Domain a \<noteq> [] \<and> app_Zone a = app_Domain a"

definition zone_normal :: "managed_zone \<Rightarrow> bool" where
  "zone_normal z \<longleftrightarrow> trimmed (z_Name z) \<and> trimmed (z_Domain z) \<and> z_Name z \<noteq> [] \<and> z_Domain z \<noteq> []"

definition config_normal :: "os_env \<Rightarrow> config \<Rightarrow> bool" where
  "config_normal os c \<longleftrightarrow>
     list_all zone_normal (c_Zones c) \<and> list_all app_normal (c_Apps c)
     \<and> Normalized os (sc_Runtime (c_Server c)) = sc_Runtime (c_Server c)
     \<and> TrimSpace (sc_DataDir (c_Server c)) \<noteq> []
     \<and> c_DataDir c = sc_DataDir (c_Server c) \<and> c_PublicIP c = sc_PublicIP (c_Server c)"

text \<open>The apps in the order of their zones, and the agents without their status.\<close>

definition regrouped :: "config \<Rightarrow> config" where
  "regrouped c = c\<lparr>c_Apps := concat (map (\<lambda>z. filter (\<lambda>a. app_lookup a = z_Domain z) (c_Apps c)) (c_Zones c)),
                   c_Agents := map yaml_agent (c_Agents c)\<rparr>"

lemma domain_zone_yaml: "zone_normal z \<Longrightarrow> domain_zone (zone_yaml as z) = z"
  by (simp add: domain_zone_def zone_yaml_def zone_normal_def trimmed_def Let_def)

lemma entry_app_entry: "app_normal a \<Longrightarrow> app_lookup a = d \<Longrightarrow> entry_app d (app_entry a) = a"
  by (auto simp: entry_app_def app_entry_def app_lookup_def app_normal_def trimmed_def Let_def)

lemma domain_apps_yaml:
  "zone_normal z \<Longrightarrow> list_all app_normal as \<Longrightarrow>
     domain_apps (zone_yaml as z) = filter (\<lambda>a. app_lookup a = z_Domain z) as"
proof -
  assume z: "zone_normal z" and "list_all app_normal as"
  then have "map (entry_app (z_Domain z) \<circ> app_entry) (filter (\<lambda>a. app_lookup a = z_Domain z) as)
      = filter (\<lambda>a. app_lookup a = z_Domain z) as"
    by (intro map_idI) (auto simp: list_all_iff entry_app_entry)
  with z show ?thesis
    by (simp add: domain_apps_def zone_yaml_def zone_normal_def trimmed_def Let_def)
qed

lemma config_ok_no_zones: "config_ok os c \<Longrightarrow> c_Zones c = [] \<Longrightarrow> c_Apps c = []"
  by (cases "c_Apps c") (auto simp: config_ok_def app_ok_def)

lemma yaml_roundtrip:
  assumes "config_ok os c" and n: "config_normal os c"
  shows "UnmarshalYAML os (yaml_visible (MarshalYAML c)) = regrouped c"
proof -
  have zs: "map domain_zone (map (zone_yaml (c_Apps c)) (c_Zones c)) = c_Zones c"
    using n by (auto simp: config_normal_def list_all_iff domain_zone_yaml intro: map_idI)
  have as: "map domain_apps (map (zone_yaml (c_Apps c)) (c_Zones c))
      = map (\<lambda>z. filter (\<lambda>a. app_lookup a = z_Domain z) (c_Apps c)) (c_Zones c)"
    using n by (auto simp: config_normal_def list_all_iff domain_apps_yaml)
  have srv: "c_DataDir c = sc_DataDir (c_Server c)" "c_PublicIP c = sc_PublicIP (c_Server c)"
    "TrimSpace (sc_DataDir (c_Server c)) \<noteq> []" "(c_Server c)\<lparr>sc_Runtime := Normalized os (sc_Runtime (c_Server c))\<rparr> = c_Server c"
    using n by (simp_all add: config_normal_def)
  have pub: "public_ip_unset (sc_PublicIP (c_Server c)) \<Longrightarrow> sc_PublicIP (c_Server c) = zero_public_ip"
    by (simp add: public_ip_unset_iff)
  then have pub': "(c_Server c)\<lparr>sc_PublicIP := zero_public_ip\<rparr> = c_Server c"
    if "public_ip_unset (sc_PublicIP (c_Server c))" using that by simp
  show ?thesis
  proof (cases "c_Zones c = []")
    case True
    with config_ok_no_zones [OF assms(1)] srv pub pub' show ?thesis
      by (auto simp: UnmarshalYAML_def MarshalYAML_def yaml_visible_def regrouped_def
          normalizeLegacyModel_def Let_def)
  next
    case False
    with srv pub pub' zs as show ?thesis
      by (auto simp: UnmarshalYAML_def MarshalYAML_def yaml_visible_def regrouped_def Let_def simp del: map_map)
  qed
qed

lemma regrouped_apps:
  assumes "config_ok os c"
  shows "mset (c_Apps (regrouped c)) = mset (c_Apps c)"
proof -
  have "c_Apps (regrouped c) = concat (map (\<lambda>k. filter (\<lambda>a. app_lookup a = k) (c_Apps c)) (map z_Domain (c_Zones c)))"
    by (simp add: regrouped_def comp_def)
  then have "mset (c_Apps (regrouped c)) = mset (filter (\<lambda>a. app_lookup a \<in> set (map z_Domain (c_Zones c))) (c_Apps c))"
    using assms by (simp only: mset_concat_groups config_ok_def)
  also have "filter (\<lambda>a. app_lookup a \<in> set (map z_Domain (c_Zones c))) (c_Apps c) = c_Apps c"
    using assms by (auto simp: config_ok_def app_ok_def intro: filter_True)
  finally show ?thesis .
qed

lemma yaml_agent_simps [simp]:
  "ag_Name (yaml_agent a) = ag_Name a" "ag_Name \<circ> yaml_agent = ag_Name"
  "AgentNode_Validate (yaml_agent a) = AgentNode_Validate a"
  by (auto simp: yaml_agent_def AgentNode_Validate_def fun_eq_iff split: option.splits)

lemma config_ok_regrouped:
  assumes "config_ok os c"
  shows "config_ok os (regrouped c)"
proof -
  have m: "mset (c_Apps (regrouped c)) = mset (c_Apps c)" by (rule regrouped_apps) fact
  then have s: "set (c_Apps (regrouped c)) = set (c_Apps c)" by (rule mset_eq_setD)
  have d: "distinct (map f (c_Apps (regrouped c))) = distinct (map f (c_Apps c))" for f :: "custom_app \<Rightarrow> string"
    using m by (metis mset_eq_imp_distinct_iff mset_map)
  have f: "c_Server (regrouped c) = c_Server c" "c_DDNSProviders (regrouped c) = c_DDNSProviders c"
    "c_Agents (regrouped c) = map yaml_agent (c_Agents c)" "c_DeployTargets (regrouped c) = c_DeployTargets c"
    "c_Zones (regrouped c) = c_Zones c" "effective_server (regrouped c) = effective_server c"
    by (simp_all add: regrouped_def effective_server_def Let_def)
  have "ag_Name ` yaml_agent ` set (c_Agents c) = ag_Name ` set (c_Agents c)"
    by (simp add: image_image)
  then show ?thesis using assms unfolding config_ok_def f s d by (auto simp: app_ok_def)
qed

lemma config_normal_regrouped: "config_normal os c \<Longrightarrow> config_normal os (regrouped c)"
  by (auto simp: config_normal_def regrouped_def list_all_iff)

section \<open>An example configuration\<close>

text \<open>A small but complete configuration on which the theorems below are instantiated.\<close>

definition demo_env :: os_env where
  "demo_env = \<lparr>os_Getenv = (\<lambda>_. []), os_Getuid = 1000, os_EvalSymlinks = (\<lambda>_. Inl ErrNotExist),
               os_Exists = (\<lambda>_. False)\<rparr>"

definition demo_provider :: provider_config where
  "demo_provider = \<lparr>pc_Ref = ''cf'', pc_Type = ''cloudflare'', pc_Options = [(''api_token'', ''t'')]\<rparr>"

definition demo_agent :: agent_node where
  "demo_agent = \<lparr>ag_Name = ''edge'', ag_DisplayName = [], ag_Addr = ''10.0.0.2:9000'',
     ag_Runtime = ContainerRuntimeDocker, ag_SocketPath = [], ag_Version = [], ag_Status = [],
     ag_LastError = [], ag_LastCheckedAt = 0, ag_Resources = zero_resources\<rparr>"

definition demo_zone :: managed_zone where
  "demo_zone = \<lparr>z_Name = ''home'', z_Domain = ''example.com'', z_Default = True, z_Wildcard = True,
     z_DDNS = \<lparr>dz_Enabled = True, dz_ProviderRefs = [''cf''], dz_IPv4 = True, dz_IPv6 = False,
                dz_Wildcard = True, dz_TTL = 60\<rparr>,
     z_Certificate = \<lparr>cp_Enabled = True, cp_Email = ''a@example.com'', cp_DNSProvider = ''cf'',
       cp_RenewBefore = 100, cp_DeployTargets = [], cp_Bundles = []\<rparr>\<rparr>"

definition demo_app :: custom_app where
  "demo_app = \<lparr>app_Name = ''nas'', app_Icon = [], app_Domain = ''example.com'', app_Zone = ''example.com'',
     app_Subdomain = ''nas'', app_ExitNode = ''edge'', app_TargetURL = ''http://10.0.0.5:5000''\<rparr>"

definition demo_config :: config where
  "demo_config = (Default demo_env)\<lparr>c_DataDir := ''./data'', c_DDNSProviders := [demo_provider],
     c_Agents := [demo_agent], c_Zones := [demo_zone], c_Apps := [demo_app]\<rparr>"

lemma demo_url: "url_Parse ''http://10.0.0.5:5000'' = Inr (empty_url\<lparr>u_Scheme := ''http'', u_Host := ''10.0.0.5:5000''\<rparr>)"
  by (simp add: url_simps)

lemma demo_app_valid: "CustomApp_Validate demo_app = None"
  by (simp add: demo_app_def CustomApp_Validate_def literal_simps demo_url empty_url_def)

lemma demo_zone_valid: "ManagedZone_Validate demo_zone = (None, demo_zone)"
  by (rule zone_ok_Validate) (simp add: demo_zone_def zone_ok_def CertificatePlans_def Let_def)

lemma demo_zone_plans:
  "CertificatePlans demo_zone = Inr [\<lparr>pl_Name = ''home'', pl_Domains = [''example.com'', ''*.example.com''],
     pl_RenewBefore = 100, pl_DeployTargets = []\<rparr>]"
  by (simp add: demo_zone_def CertificatePlans_def Let_def domainsForManagedZone_def compactNames_def literal_simps)

lemma demo_runtime:
  "Normalized demo_env (sc_Runtime (c_Server (Default demo_env))) = sc_Runtime (c_Server (Default demo_env))"
  by (rule Normalized_id)
    (simp_all add: Default_def zero_runtime_def RuntimeOrDefault_def EndpointOrDefault_given
      DefaultRuntimeEndpoint_normal DefaultRuntimeEndpoint_ne literal_simps)

lemma demo_config_ok: "config_ok demo_env demo_config"
proof -
  have "provider_ok demo_provider"
    by (simp add: provider_ok_def demo_provider_def registry_Exists_def ValidateUpdater_def ValidateChallenge_def
        builtins_def builtin_definition_def validateCloudflareConfig_def validateCloudflareChallengeConfig_def
        validateProviderOptions_None gm_str_def literal_simps)
  moreover have "server_ok demo_env (effective_server demo_config)"
    by (simp add: server_ok_def effective_server_def demo_config_def Default_def Let_def zero_auth_def
        zero_public_ip_def zero_runtime_def RuntimeOrDefault_def literal_simps)
  moreover have "zone_refs_ok {''cf''} {} demo_zone"
    unfolding zone_refs_ok_def demo_zone_plans by (simp add: demo_zone_def)
  moreover have "app_ok [demo_zone] [demo_agent] demo_app"
    by (simp add: app_ok_def demo_app_valid) (simp add: demo_app_def demo_zone_def demo_agent_def app_lookup_def literal_simps)
  moreover have "AgentNode_Validate demo_agent = None"
    by (simp add: demo_agent_def AgentNode_Validate_def ContainerRuntime_Validate_def)
  ultimately show ?thesis
    using demo_zone_valid
    by (simp add: config_ok_def) (simp add: demo_config_def Default_def demo_provider_def)
qed

lemma demo_config_normal: "config_normal demo_env demo_config"
  using demo_runtime
  by (simp add: config_normal_def demo_config_def zone_normal_def app_normal_def trimmed_def)
    (simp add: demo_zone_def demo_app_def Default_def literal_simps)

section \<open>Properties\<close>

text \<open>
  Claim C1. \<open>Config.Validate\<close> accepts exactly the well-formed configurations: valid server
  section; valid, complete and uniquely named providers, agents and deploy targets; agent
  targets that name a configured agent; valid zones with unique domains, at most one default
  and provider and target references that resolve; valid apps with unique names and unique
  hosts whose domain and exit node exist.
\<close>

theorem validate_accepts_exactly: "fst (Config_Validate os c) = None \<longleftrightarrow> config_ok os c"
  by (rule Config_Validate_accepts)

text \<open>
  Validation fills in defaults once: validating the configuration that a
  successful validation leaves behind succeeds again and changes nothing.
\<close>

theorem validate_idempotent:
  assumes "config_ok os c"
  shows "Config_Validate os (snd (Config_Validate os c)) = (None, snd (Config_Validate os c))"
  using assms by (rule Config_Validate_fixpoint)

theorem validate_idempotent_witness:
  "config_ok demo_env demo_config
   \<and> Config_Validate demo_env (snd (Config_Validate demo_env demo_config)) = (None, snd (Config_Validate demo_env demo_config))"
  using validate_idempotent [OF demo_config_ok] demo_config_ok by blast

text \<open>
  Claim C32. Writing a valid, normalised configuration and reading the document back gives the
  same configuration, except that the apps are grouped by zone and the status fields of the
  agents are gone: no app is lost or duplicated, and the result is valid again.
\<close>

theorem config_document_roundtrip:
  assumes "config_ok os c" and "config_normal os c"
  shows "UnmarshalYAML os (yaml_visible (MarshalYAML c)) = regrouped c
    \<and> mset (c_Apps (regrouped c)) = mset (c_Apps c) \<and> config_ok os (regrouped c)"
  using yaml_roundtrip [OF assms] regrouped_apps [OF assms(1)] config_ok_regrouped [OF assms(1)] by blast

theorem config_document_roundtrip_witness:
  "config_ok demo_env demo_config \<and> config_normal demo_env demo_config
   \<and> c_Apps (UnmarshalYAML demo_env (yaml_visible (MarshalYAML demo_config))) = [demo_app]"
proof -
  have "app_lookup demo_app = z_Domain demo_zone"
    by (simp add: demo_app_def demo_zone_def app_lookup_def literal_simps)
  then have "c_Apps (regrouped demo_config) = [demo_app]" by (simp add: regrouped_def demo_config_def)
  with config_document_roundtrip [OF demo_config_ok demo_config_normal] demo_config_ok demo_config_normal
  show ?thesis by simp
qed

end
