(* ===== verification/Domux_Manager.thy ===== *)
theory Domux_Manager
  imports Domux_Config Go_Files
begin

text \<open>
  The configuration file: \<open>LoadFile\<close> of \<open>internal/platform/config/config.go\<close> and
  \<open>internal/platform/config/manager.go\<close>. The yaml library is the parameter \<open>yaml_codec\<close>
  over an abstract type of file contents, the operating system answers each call with the
  faults of an \<open>io_faults\<close> record (theory \<open>Go_Files\<close>). The
  manager's mutex makes every operation one step, so a history of operations is a sequence of
  \<open>config_step\<close>s; a step may also stop the process in the middle of \<open>writeFile\<close>.
\<close>

section \<open>The yaml library\<close>

text \<open>
  \<open>yaml_Unmarshal\<close> answers \<open>None\<close> for an empty document, on which the library does not
  call \<open>UnmarshalYAML\<close>.
\<close>

record 'd yaml_codec =
  yaml_Marshal :: "config_yaml \<Rightarrow> 'd result"
  yaml_Unmarshal :: "'d \<Rightarrow> config_yaml option result"

text \<open>What the code relies on: decoding gives back the fields that are written.\<close>

definition codec_ok :: "'d yaml_codec \<Rightarrow> bool" where
  "codec_ok cdc \<longleftrightarrow>
     (\<forall>y d. yaml_Marshal cdc y = Inr d \<longrightarrow> yaml_Unmarshal cdc d = Inr (Some (yaml_visible y)))"

section \<open>Loading and writing\<close>

abbreviation DefaultPath :: string where
  "DefaultPath \<equiv> ''config.yaml''"

definition validated :: "os_env \<Rightarrow> config \<Rightarrow> config result" where
  "validated os cfg = (case Config_Validate os cfg of (Some e, _) \<Rightarrow> Inl e | (None, cfg') \<Rightarrow> Inr cfg')"

text \<open>Next to an error Go returns a configuration that no caller reads; the model drops it.\<close>

definition LoadFile :: "os_env \<Rightarrow> 'd yaml_codec \<Rightarrow> 'd io_faults \<Rightarrow> 'd file_system \<Rightarrow> string \<Rightarrow> config result" where
  "LoadFile os cdc io fs path0 =
     (let path = (if path0 = [] then DefaultPath else path0)
      in case ReadFile io fs path of
           Inl e \<Rightarrow> if e = ErrNotExist \<and> path = DefaultPath then validated os (Default os) else Inl e
         | Inr data \<Rightarrow>
             (case yaml_Unmarshal cdc data of
                Inl e \<Rightarrow> Inl e
              | Inr None \<Rightarrow> validated os (Default os)
              | Inr (Some raw) \<Rightarrow> validated os (UnmarshalYAML os raw)))"

definition writeFile :: "'d yaml_codec \<Rightarrow> 'd io_faults \<Rightarrow> string \<Rightarrow> config \<Rightarrow> 'd file_system \<Rightarrow>
    go_error option \<times> 'd file_system" where
  "writeFile cdc io path cfg fs =
     (case io_MkdirAll io of
        Some e \<Rightarrow> (Some e, fs)
      | None \<Rightarrow>
          (case yaml_Marshal cdc (MarshalYAML cfg) of
             Inl e \<Rightarrow> (Some e, fs)
           | Inr data \<Rightarrow> write_replace io path data fs))"

section \<open>The manager\<close>

record manager =
  mgr_path :: string

definition NewManager :: "string \<Rightarrow> manager" where
  "NewManager path = \<lparr>mgr_path = (if path = [] then DefaultPath else path)\<rparr>"

definition mgr_Path :: "manager \<Rightarrow> string" where
  "mgr_Path m = (if mgr_path m = [] then DefaultPath else mgr_path m)"

definition mgr_Load :: "os_env \<Rightarrow> 'd yaml_codec \<Rightarrow> 'd io_faults \<Rightarrow> manager \<Rightarrow> 'd file_system \<Rightarrow> config result" where
  "mgr_Load os cdc io m fs = LoadFile os cdc io fs (mgr_Path m)"

definition mgr_Update :: "os_env \<Rightarrow> 'd yaml_codec \<Rightarrow> 'd io_faults \<Rightarrow> manager \<Rightarrow> (config \<Rightarrow> config result) \<Rightarrow>
    'd file_system \<Rightarrow> config result \<times> 'd file_system" where
  "mgr_Update os cdc io m mutator fs =
     (case LoadFile os cdc io fs (mgr_Path m) of
        Inl e \<Rightarrow> (Inl e, fs)
      | Inr cfg0 \<Rightarrow>
          (case mutator cfg0 of
             Inl e \<Rightarrow> (Inl e, fs)
           | Inr cfg1 \<Rightarrow>
               (case Config_Validate os cfg1 of
                  (Some e, _) \<Rightarrow> (Inl (ValidationError e), fs)
                | (None, cfg) \<Rightarrow>
                    (case writeFile cdc io (mgr_Path m) cfg fs of
                       (Some e, fs') \<Rightarrow> (Inl e, fs')
                     | (None, fs') \<Rightarrow> (Inr cfg, fs')))))"

definition mgr_Replace :: "os_env \<Rightarrow> 'd yaml_codec \<Rightarrow> 'd io_faults \<Rightarrow> manager \<Rightarrow> config \<Rightarrow> 'd file_system \<Rightarrow>
    go_error option \<times> 'd file_system" where
  "mgr_Replace os cdc io m cfg0 fs =
     (case Config_Validate os cfg0 of
        (Some e, _) \<Rightarrow> (Some (ValidationError e), fs)
      | (None, cfg) \<Rightarrow> writeFile cdc io (mgr_Path m) cfg fs)"

section \<open>Facts\<close>

lemma mgr_Path_ne [simp]: "mgr_Path m \<noteq> []"
  by (simp add: mgr_Path_def)

lemma mgr_Path_NewManager [simp]: "mgr_Path (NewManager p) = (if p = [] then DefaultPath else p)"
  by (simp add: mgr_Path_def NewManager_def)

lemma writeFile_frame:
  "writeFile cdc io path cfg fs = (e, fs') \<Longrightarrow> p \<noteq> path \<Longrightarrow> p \<noteq> path @ ''.tmp'' \<Longrightarrow> fs' p = fs p"
  by (auto simp: writeFile_def write_replace_frame split: option.splits sum.splits)

lemma writeFile_error: "writeFile cdc io path cfg fs = (Some e, fs') \<Longrightarrow> fs' path = fs path"
  by (auto simp: writeFile_def write_replace_error split: option.splits sum.splits)

lemma writeFile_ok:
  "writeFile cdc io path cfg fs = (None, fs') \<Longrightarrow>
     \<exists>d. yaml_Marshal cdc (MarshalYAML cfg) = Inr d \<and> fs' path = Some d"
  by (auto simp: writeFile_def write_replace_ok split: option.splits sum.splits)

lemma writeFile_no_faults:
  "yaml_Marshal cdc (MarshalYAML cfg) = Inr d \<Longrightarrow>
     writeFile cdc no_faults path cfg fs = (None, (fs(path @ ''.tmp'' := None))(path \<mapsto> d))"
  using write_replace_no_faults [of path d fs] by (simp add: writeFile_def) (simp add: no_faults_def)

lemma validated_Inr: "validated os c = Inr c' \<longleftrightarrow> config_ok os c \<and> c' = snd (Config_Validate os c)"
  using Config_Validate_accepts [of os c]
  by (auto simp: validated_def split: option.splits prod.splits)

lemma config_ok_Validate: "config_ok os c \<Longrightarrow> config_ok os (snd (Config_Validate os c))"
  using Config_Validate_fixpoint [of os c] Config_Validate_accepts [of os "snd (Config_Validate os c)"]
  by simp

lemma LoadFile_ok: "LoadFile os cdc io fs path = Inr c \<Longrightarrow> config_ok os c"
  by (auto simp: LoadFile_def Let_def validated_Inr config_ok_Validate
      split: sum.splits option.splits if_splits)

text \<open>The outcomes of an update.\<close>

lemma mgr_Update_cases:
  assumes "mgr_Update os cdc io m mut fs = (r, fs')"
  obtains (kept) e where "r = Inl e" and "fs' (mgr_Path m) = fs (mgr_Path m)"
  | (written) cfg0 cfg1 cfg d where "r = Inr cfg" and "LoadFile os cdc io fs (mgr_Path m) = Inr cfg0"
      and "mut cfg0 = Inr cfg1" and "config_ok os cfg1" and "cfg = snd (Config_Validate os cfg1)"
      and "yaml_Marshal cdc (MarshalYAML cfg) = Inr d" and "fs' (mgr_Path m) = Some d"
proof (cases r)
  case (Inl e)
  then have "fs' (mgr_Path m) = fs (mgr_Path m)"
    using assms by (auto simp: mgr_Update_def dest: writeFile_error
        split: sum.splits option.splits prod.splits)
  with Inl show ?thesis by (rule kept)
next
  case (Inr cfg)
  then obtain cfg0 cfg1 where l: "LoadFile os cdc io fs (mgr_Path m) = Inr cfg0"
    and mu: "mut cfg0 = Inr cfg1" and v: "Config_Validate os cfg1 = (None, cfg)"
    and w: "writeFile cdc io (mgr_Path m) cfg fs = (None, fs')"
    using assms by (auto simp: mgr_Update_def split: sum.splits option.splits prod.splits)
  obtain d where "yaml_Marshal cdc (MarshalYAML cfg) = Inr d" "fs' (mgr_Path m) = Some d"
    using writeFile_ok [OF w] by blast
  moreover have "config_ok os cfg1" "cfg = snd (Config_Validate os cfg1)"
    using v Config_Validate_accepts [of os cfg1] by simp_all
  ultimately show ?thesis using Inr l mu by (intro written)
qed

lemma mgr_Update_frame:
  "mgr_Update os cdc io m mut fs = (r, fs') \<Longrightarrow> p \<noteq> mgr_Path m \<Longrightarrow> p \<noteq> mgr_Path m @ ''.tmp'' \<Longrightarrow> fs' p = fs p"
  by (auto simp: mgr_Update_def dest: writeFile_frame split: sum.splits option.splits prod.splits)

section \<open>Histories of the configuration file\<close>

text \<open>
  One step of the file: an update, a replacement, or a process that stops while
  \<open>writeFile\<close> fills the temporary file.
\<close>

inductive config_step :: "os_env \<Rightarrow> 'd yaml_codec \<Rightarrow> manager \<Rightarrow> (config \<Rightarrow> bool) \<Rightarrow>
    'd file_system \<Rightarrow> 'd file_system \<Rightarrow> bool"
  for os cdc m allowed where
  update: "mgr_Update os cdc io m mut fs = (r, fs') \<Longrightarrow>
     (\<forall>c c'. allowed c \<longrightarrow> mut c = Inr c' \<longrightarrow> allowed c') \<Longrightarrow> config_step os cdc m allowed fs fs'"
| replace: "mgr_Replace os cdc io m cfg fs = (e, fs') \<Longrightarrow> allowed cfg \<Longrightarrow>
     config_step os cdc m allowed fs fs'"
| stopped: "config_step os cdc m allowed fs (fs(mgr_Path m @ ''.tmp'' \<mapsto> junk))"

text \<open>The file can be loaded, and what it holds is well formed.\<close>

definition loadable :: "os_env \<Rightarrow> 'd yaml_codec \<Rightarrow> manager \<Rightarrow> 'd file_system \<Rightarrow> bool" where
  "loadable os cdc m fs \<longleftrightarrow>
     (\<exists>c. mgr_Load os cdc no_faults m fs = Inr c \<and> config_ok os c \<and> config_normal os c)"

lemma config_normal_Validate:
  assumes "config_normal os c"
  shows "config_normal os (snd (Config_Validate os c))"
proof -
  have "zone_normal (validated_zone z)" if "zone_normal z" for z
    using that
    by (auto simp: zone_normal_def ManagedZone_Validate_def validate_zone_certificate_def Let_def
        fill_zone_name_def fill_zone_ttl_def fill_zone_renew_def split: sum.splits)
  with assms show ?thesis
    by (auto simp: Config_Validate_zones config_normal_def list_all_iff)
qed

lemma load_written:
  assumes cdc: "codec_ok cdc" and c: "config_ok os c" "config_normal os c" "Config_Validate os c = (None, c)"
    and w: "yaml_Marshal cdc (MarshalYAML c) = Inr d" "fs (mgr_Path m) = Some d"
  shows "mgr_Load os cdc no_faults m fs = Inr (regrouped c)"
proof -
  have "yaml_Unmarshal cdc d = Inr (Some (yaml_visible (MarshalYAML c)))"
    using cdc w(1) by (simp add: codec_ok_def)
  moreover have "map validated_zone (c_Zones c) = c_Zones c"
    using c(3) Config_Validate_zones [of os c]
    by (metis config.select_convs(8) config.surjective config.update_convs(8) snd_conv)
  then have "validated os (regrouped c) = Inr (regrouped c)"
    using config_ok_regrouped [OF c(1)]
    by (simp add: validated_Inr Config_Validate_zones) (simp add: regrouped_def)
  ultimately show ?thesis
    using w(2) yaml_roundtrip [OF c(1,2)]
    by (simp add: mgr_Load_def LoadFile_def ReadFile_def no_faults_def Let_def)
qed

lemma loadable_written:
  assumes "codec_ok cdc" and "config_ok os c" and "config_normal os c"
    and "cfg = snd (Config_Validate os c)"
    and "yaml_Marshal cdc (MarshalYAML cfg) = Inr d" and "fs (mgr_Path m) = Some d"
  shows "loadable os cdc m fs"
proof -
  have ok: "config_ok os cfg" "config_normal os cfg" "Config_Validate os cfg = (None, cfg)"
    using assms(2-4) by (simp_all add: config_ok_Validate config_normal_Validate Config_Validate_fixpoint)
  from load_written [where fs = fs and m = m, OF assms(1) ok assms(5,6)] show ?thesis
    using config_ok_regrouped [OF ok(1)] config_normal_regrouped [OF ok(2)]
    by (auto simp: loadable_def)
qed

lemma LoadFile_faults:
  "LoadFile os cdc io fs (mgr_Path m) = Inr c \<Longrightarrow> mgr_Load os cdc no_faults m fs = Inr c"
  by (auto simp: mgr_Load_def LoadFile_def ReadFile_def no_faults_def Let_def
      split: option.splits sum.splits if_splits)

lemma loadable_cong: "fs' (mgr_Path m) = fs (mgr_Path m) \<Longrightarrow> loadable os cdc m fs' = loadable os cdc m fs"
  by (simp add: loadable_def mgr_Load_def LoadFile_def ReadFile_def no_faults_def Let_def)

lemma config_step_loadable:
  assumes "codec_ok cdc" and "config_step os cdc m (config_normal os) fs fs'" and l: "loadable os cdc m fs"
  shows "loadable os cdc m fs'"
  using assms(2)
proof (cases rule: config_step.cases)
  case (update io mut r)
  from update(1) show ?thesis
  proof (cases rule: mgr_Update_cases)
    case (kept e)
    from l show ?thesis unfolding loadable_cong [of fs' m fs, OF kept(2)] .
  next
    case (written cfg0 cfg1 cfg d)
    from LoadFile_faults [OF written(2)] l have "config_normal os cfg0" by (auto simp: loadable_def)
    with update(2) written(3) have n: "config_normal os cfg1" by blast
    from loadable_written [where fs = fs' and m = m, OF assms(1) written(4) n written(5-7)] show ?thesis .
  qed
next
  case (replace io cfg e)
  obtain v cfg' where v: "Config_Validate os cfg = (v, cfg')" by fastforce
  consider (kept) "fs' (mgr_Path m) = fs (mgr_Path m)"
    | (written) d where "v = None" "yaml_Marshal cdc (MarshalYAML cfg') = Inr d" "fs' (mgr_Path m) = Some d"
    using replace(1) v writeFile_error [of cdc io "mgr_Path m" cfg' fs] writeFile_ok [of cdc io "mgr_Path m" cfg' fs fs']
    by (cases v; cases e) (auto simp: mgr_Replace_def)
  then show ?thesis
  proof cases
    case kept
    from l show ?thesis unfolding loadable_cong [of fs' m fs, OF kept] .
  next
    case (written d)
    with v Config_Validate_accepts [of os cfg] have ok: "config_ok os cfg" by simp
    from loadable_written [where fs = fs' and m = m, OF assms(1) ok replace(2) _ written(2,3)] v show ?thesis by simp
  qed
next
  case (stopped junk)
  then have same: "fs' (mgr_Path m) = fs (mgr_Path m)" by simp
  from l show ?thesis unfolding loadable_cong [of fs' m fs, OF same] .
qed

lemma config_steps_loadable:
  assumes "codec_ok cdc" and "(config_step os cdc m (config_normal os))\<^sup>*\<^sup>* fs fs'" and "loadable os cdc m fs"
  shows "loadable os cdc m fs'"
  using assms(2,3) by (induction rule: rtranclp_induct) (blast intro: config_step_loadable [OF assms(1)])+

text \<open>Without faults an update whose result is well formed goes through and is what a reload sees.\<close>

lemma mgr_Update_succeeds:
  assumes "codec_ok cdc" and "mgr_Load os cdc no_faults m fs = Inr c0" and "mut c0 = Inr c1"
    and "config_ok os c1" and "config_normal os c1" and "c = snd (Config_Validate os c1)"
    and "yaml_Marshal cdc (MarshalYAML c) = Inr d"
  shows "\<exists>fs'. mgr_Update os cdc no_faults m mut fs = (Inr c, fs') \<and> mgr_Load os cdc no_faults m fs' = Inr (regrouped c)"
proof -
  let ?fs' = "(fs(mgr_Path m @ ''.tmp'' := None))(mgr_Path m \<mapsto> d)"
  have "Config_Validate os c1 = (None, c)"
    using assms(4,6) Config_Validate_accepts [of os c1] by (simp add: prod_eq_iff)
  then have "mgr_Update os cdc no_faults m mut fs = (Inr c, ?fs')"
    using assms(2,3) writeFile_no_faults [OF assms(7)] by (simp add: mgr_Update_def mgr_Load_def)
  moreover have "config_ok os c" "config_normal os c" "Config_Validate os c = (None, c)"
    using assms(4-6) by (simp_all add: config_ok_Validate config_normal_Validate Config_Validate_fixpoint)
  then have "mgr_Load os cdc no_faults m ?fs' = Inr (regrouped c)"
    by (rule load_written [OF assms(1) _ _ _ assms(7)]) simp
  ultimately show ?thesis by blast
qed

section \<open>Properties\<close>

text \<open>A codec that stores the document itself, and a file that holds the example configuration.\<close>

definition demo_codec :: "config_yaml yaml_codec" where
  "demo_codec = \<lparr>yaml_Marshal = Inr, yaml_Unmarshal = (\<lambda>d. Inr (Some (yaml_visible d)))\<rparr>"

definition demo_files :: "config_yaml file_system" where
  "demo_files = [''config.yaml'' \<mapsto> MarshalYAML demo_config]"

lemma demo_codec_ok: "codec_ok demo_codec"
  by (simp add: codec_ok_def demo_codec_def)

lemma demo_config_fixed: "Config_Validate demo_env demo_config = (None, demo_config)"
proof -
  have "map validated_zone (c_Zones demo_config) = c_Zones demo_config"
    using demo_zone_valid by (simp add: demo_config_def)
  then show ?thesis
    using demo_config_ok Config_Validate_accepts [of demo_env demo_config] Config_Validate_zones [of demo_env demo_config]
    by (simp add: prod_eq_iff)
qed

lemma demo_load: "mgr_Load demo_env demo_codec no_faults (NewManager []) demo_files = Inr (regrouped demo_config)"
  by (rule load_written [OF demo_codec_ok demo_config_ok demo_config_normal demo_config_fixed])
    (simp_all add: demo_codec_def demo_files_def)

lemma demo_loadable: "loadable demo_env demo_codec (NewManager []) demo_files"
  using demo_load config_ok_regrouped [OF demo_config_ok] config_normal_regrouped [OF demo_config_normal]
  by (auto simp: loadable_def)

text \<open>
  Claim C2. An update of the configuration is atomic whatever fails: on an error the
  configuration file is unchanged; on success it holds exactly the returned configuration,
  which is valid; and no file other than the configuration and its temporary file changes.
\<close>

theorem update_atomic:
  assumes "mgr_Update os cdc io m mut fs = (r, fs')"
  shows "(case r of
            Inl e \<Rightarrow> fs' (mgr_Path m) = fs (mgr_Path m)
          | Inr c \<Rightarrow> config_ok os c \<and> (\<exists>d. yaml_Marshal cdc (MarshalYAML c) = Inr d \<and> fs' (mgr_Path m) = Some d))
    \<and> {p. fs' p \<noteq> fs p} \<subseteq> {mgr_Path m, mgr_Path m @ ''.tmp''}"
proof
  show "{p. fs' p \<noteq> fs p} \<subseteq> {mgr_Path m, mgr_Path m @ ''.tmp''}"
    using mgr_Update_frame [OF assms] by blast
  from assms show "case r of Inl e \<Rightarrow> fs' (mgr_Path m) = fs (mgr_Path m)
      | Inr c \<Rightarrow> config_ok os c \<and> (\<exists>d. yaml_Marshal cdc (MarshalYAML c) = Inr d \<and> fs' (mgr_Path m) = Some d)"
    by (cases rule: mgr_Update_cases) (auto simp: config_ok_Validate)
qed

theorem update_atomic_witness:
  "\<exists>e fs'. mgr_Update demo_env demo_codec (no_faults\<lparr>io_Rename := Some (ErrIO ''disk full'')\<rparr>) (NewManager [])
       (\<lambda>c. Inr demo_config) demo_files = (Inl e, fs')
     \<and> fs' ''config.yaml'' = Some (MarshalYAML demo_config)"
proof -
  let ?io = "no_faults\<lparr>io_Rename := Some (ErrIO ''disk full'')\<rparr> :: config_yaml io_faults"
  have "LoadFile demo_env demo_codec ?io demo_files (mgr_Path (NewManager [])) = Inr (regrouped demo_config)"
    using demo_load by (simp add: mgr_Load_def LoadFile_def ReadFile_def no_faults_def)
  then obtain e fs' where u: "mgr_Update demo_env demo_codec ?io (NewManager []) (\<lambda>c. Inr demo_config) demo_files = (Inl e, fs')"
    by (simp add: mgr_Update_def demo_config_fixed writeFile_def write_replace_def WriteFile_def Rename_def
        no_faults_def demo_codec_def)
  from update_atomic [OF u] show ?thesis using u by (auto simp: demo_files_def)
qed

text \<open>
  Starting from a loadable file, no history of updates, replacements, failed writes
  and processes stopped in the middle of a write makes the configuration unloadable: in every
  reachable state loading succeeds with a valid, normalised configuration, as long as the
  mutators keep names trimmed.
\<close>

theorem config_always_loadable:
  assumes "codec_ok cdc" and "loadable os cdc m fs" and "(config_step os cdc m (config_normal os))\<^sup>*\<^sup>* fs fs'"
  shows "\<exists>c. mgr_Load os cdc no_faults m fs' = Inr c \<and> config_ok os c \<and> config_normal os c"
  using config_steps_loadable [OF assms(1,3,2)] by (simp add: loadable_def)

theorem config_always_loadable_witness:
  "\<exists>c. mgr_Load demo_env demo_codec no_faults (NewManager []) (demo_files(''config.yaml.tmp'' \<mapsto> MarshalYAML (Default demo_env))) = Inr c
     \<and> config_ok demo_env c \<and> config_normal demo_env c"
proof -
  have "(config_step demo_env demo_codec (NewManager []) (config_normal demo_env))\<^sup>*\<^sup>* demo_files
      (demo_files(''config.yaml.tmp'' \<mapsto> MarshalYAML (Default demo_env)))"
    using config_step.stopped [of demo_env demo_codec "NewManager []" "config_normal demo_env" demo_files "MarshalYAML (Default demo_env)"]
    by (intro r_into_rtranclp) simp
  from config_always_loadable [OF demo_codec_ok demo_loadable this] show ?thesis .
qed

text \<open>
  Without I/O faults an update whose mutator produces a well-formed configuration
  succeeds, returns that configuration with its defaults filled in, and the next load reads
  it back, with the apps grouped by zone.
\<close>

theorem update_then_load:
  assumes "codec_ok cdc" and "mgr_Load os cdc no_faults m fs = Inr c0" and "mut c0 = Inr c1"
    and "config_ok os c1" and "config_normal os c1"
    and "yaml_Marshal cdc (MarshalYAML (snd (Config_Validate os c1))) = Inr d"
  shows "\<exists>fs'. mgr_Update os cdc no_faults m mut fs = (Inr (snd (Config_Validate os c1)), fs')
    \<and> mgr_Load os cdc no_faults m fs' = Inr (regrouped (snd (Config_Validate os c1)))"
  by (rule mgr_Update_succeeds [where mut = mut, OF assms(1,2,3,4,5) refl assms(6)])

theorem update_then_load_witness:
  "\<exists>fs'. mgr_Update demo_env demo_codec no_faults (NewManager []) (\<lambda>c. Inr demo_config) demo_files = (Inr demo_config, fs')
     \<and> mgr_Load demo_env demo_codec no_faults (NewManager []) fs' = Inr (regrouped demo_config)"
  using update_then_load [OF demo_codec_ok demo_load, of "\<lambda>c. Inr demo_config" demo_config "MarshalYAML demo_config"]
    demo_config_ok demo_config_normal demo_config_fixed
  by (simp add: demo_codec_def)

end
