(* ===== verification/Domux_Scheduler.thy ===== *)
theory Domux_Scheduler
  imports Domux_Types
begin

text \<open>
  The job scheduler (\<open>internal/platform/job/scheduler.go\<close>). Every started job has a goroutine that
  waits for its context or its ticker and runs the job on a tick, with retries. The goroutines
  are explicit: a list of program counters, each with the cancellation flag of its context, so
  that the interleavings of \<open>Every\<close>, \<open>Start\<close>, \<open>Stop\<close> and of the goroutines are sequences of steps.
\<close>

section \<open>State\<close>

record scheduled_job =
  sj_name :: string
  sj_interval :: duration
  sj_stop :: bool
  sj_running :: bool
  sj_lastStart :: time
  sj_lastFinish :: time
  sj_lastError :: string
  sj_retryDelay :: duration
  sj_maxRetryCount :: int

text \<open>
  Where a goroutine is: before its ticker is made, in the \<open>select\<close> of the loop, in the call of the
  job function after a number of retries, in the \<open>select\<close> before the next retry, in the deferred
  function, returned, or panicked in \<open>time.NewTicker\<close>.
\<close>

datatype job_pc = Created | Selecting | Calling nat | Sleeping nat | Finishing | Exited | Panicked

record goroutine =
  go_job :: string
  go_cancelled :: bool
  go_pc :: job_pc

record scheduler =
  sc_jobs :: "scheduled_job gomap"
  sc_started :: bool
  sc_parentDone :: bool
  sc_threads :: "goroutine list"

definition NewScheduler :: scheduler where
  "NewScheduler = \<lparr>sc_jobs = [], sc_started = False, sc_parentDone = False, sc_threads = []\<rparr>"

section \<open>Operations\<close>

text \<open>\<open>startJobLocked\<close>: a context below that of the scheduler and a new goroutine.\<close>

definition startJobLocked :: "string \<Rightarrow> scheduler \<Rightarrow> scheduler" where
  "startJobLocked name s =
     (case gm_get (sc_jobs s) name of
        None \<Rightarrow> s
      | Some job \<Rightarrow>
          s\<lparr>sc_jobs := gm_put name (job\<lparr>sj_stop := True\<rparr>) (sc_jobs s),
            sc_threads := sc_threads s @ [\<lparr>go_job = name, go_cancelled = sc_parentDone s, go_pc = Created\<rparr>]\<rparr>)"

definition Every :: "string \<Rightarrow> duration \<Rightarrow> scheduler \<Rightarrow> go_error option \<times> scheduler" where
  "Every name interval s =
     (if gm_get (sc_jobs s) name \<noteq> None then (Some (Errorf ''job %q already registered'' [name]), s)
      else
        (let job = \<lparr>sj_name = name, sj_interval = interval, sj_stop = False, sj_running = False, sj_lastStart = 0,
                    sj_lastFinish = 0, sj_lastError = [], sj_retryDelay = 2 * 1000000000, sj_maxRetryCount = 2\<rparr>;
             s1 = s\<lparr>sc_jobs := gm_put name job (sc_jobs s)\<rparr>
         in (None, if sc_started s then startJobLocked name s1 else s1)))"

definition Start :: "scheduler \<Rightarrow> scheduler" where
  "Start s =
     (if sc_started s then s
      else fold startJobLocked (map fst (sc_jobs s)) (s\<lparr>sc_started := True\<rparr>))"

text \<open>\<open>Stop\<close> cancels the context of the scheduler, and with it that of every goroutine it started.\<close>

definition cancel_all :: "goroutine list \<Rightarrow> goroutine list" where
  "cancel_all ts = map (\<lambda>t. t\<lparr>go_cancelled := True\<rparr>) ts"

definition Stop :: "scheduler \<Rightarrow> scheduler" where
  "Stop s =
     (if \<not> sc_started s then s
      else s\<lparr>sc_jobs := map (\<lambda>(n, j). (n, j\<lparr>sj_stop := False\<rparr>)) (sc_jobs s),
             sc_threads := cancel_all (sc_threads s), sc_started := False\<rparr>)"

section \<open>A goroutine\<close>

text \<open>
  What can happen to a goroutine: it runs up to its next blocking point, the ticker fires, it sees
  that its context is done, the job function returns, or the retry timer fires. \<open>select\<close> takes any
  case that is ready: a cancelled goroutine may still take a tick.
\<close>

datatype job_event = Proceed | Tick | CtxIsDone | FnReturns "go_error option" | RetryAfter

text \<open>The body of the goroutine and \<open>scheduledJob.run\<close>; \<open>err_text\<close> is \<open>err.Error()\<close>.\<close>

fun job_step :: "(go_error \<Rightarrow> string) \<Rightarrow> time \<Rightarrow> job_event \<Rightarrow> goroutine \<times> scheduled_job \<Rightarrow>
    (goroutine \<times> scheduled_job) option" where
  "job_step err_text now ev (t, j) =
     (case (go_pc t, ev) of
        (Created, Proceed) \<Rightarrow> Some (t\<lparr>go_pc := if sj_interval j > 0 then Selecting else Panicked\<rparr>, j)
      | (Selecting, CtxIsDone) \<Rightarrow> if go_cancelled t then Some (t\<lparr>go_pc := Exited\<rparr>, j) else None
      | (Selecting, Tick) \<Rightarrow>
          if sj_running j then Some (t, j)
          else Some (t\<lparr>go_pc := Calling 0\<rparr>, j\<lparr>sj_running := True, sj_lastStart := now\<rparr>)
      | (Calling k, FnReturns err) \<Rightarrow>
          (case err of
             None \<Rightarrow> Some (t\<lparr>go_pc := Finishing\<rparr>, j\<lparr>sj_lastError := []\<rparr>)
           | Some e \<Rightarrow>
               if errors_Is e ErrCanceled then Some (t\<lparr>go_pc := Finishing\<rparr>, j\<lparr>sj_lastError := []\<rparr>)
               else Some (t\<lparr>go_pc := if int k < sj_maxRetryCount j then Sleeping k else Finishing\<rparr>,
                          j\<lparr>sj_lastError := err_text e\<rparr>))
      | (Sleeping k, CtxIsDone) \<Rightarrow> if go_cancelled t then Some (t\<lparr>go_pc := Finishing\<rparr>, j) else None
      | (Sleeping k, RetryAfter) \<Rightarrow> Some (t\<lparr>go_pc := Calling (Suc k)\<rparr>, j)
      | (Finishing, Proceed) \<Rightarrow> Some (t\<lparr>go_pc := Selecting\<rparr>, j\<lparr>sj_running := False, sj_lastFinish := now\<rparr>)
      | _ \<Rightarrow> None)"

definition thread_step :: "(go_error \<Rightarrow> string) \<Rightarrow> time \<Rightarrow> nat \<Rightarrow> job_event \<Rightarrow> scheduler \<Rightarrow> scheduler option" where
  "thread_step err_text now i ev s =
     (if i < length (sc_threads s) then
        (let t = sc_threads s ! i
         in case gm_get (sc_jobs s) (go_job t) of
              None \<Rightarrow> None
            | Some j \<Rightarrow>
                (case job_step err_text now ev (t, j) of
                   None \<Rightarrow> None
                 | Some (t', j') \<Rightarrow>
                     Some (s\<lparr>sc_threads := (sc_threads s)[i := t'], sc_jobs := gm_put (go_job t) j' (sc_jobs s)\<rparr>)))
      else None)"

inductive sched_step :: "scheduler \<Rightarrow> scheduler \<Rightarrow> bool" where
  every: "Every name interval s = (e, s') \<Longrightarrow> sched_step s s'"
| start: "sched_step s (Start s)"
| stop: "sched_step s (Stop s)"
| parent_done: "sched_step s (s\<lparr>sc_parentDone := True, sc_threads := cancel_all (sc_threads s)\<rparr>)"
| thread: "thread_step err_text now i ev s = Some s' \<Longrightarrow> sched_step s s'"

section \<open>The invariant\<close>

fun active :: "job_pc \<Rightarrow> bool" where
  "active (Calling k) = True"
| "active (Sleeping k) = True"
| "active Finishing = True"
| "active pc = False"

fun retries_ok :: "job_pc \<Rightarrow> bool" where
  "retries_ok (Calling k) \<longleftrightarrow> k \<le> 2"
| "retries_ok (Sleeping k) \<longleftrightarrow> k < 2"
| "retries_ok pc \<longleftrightarrow> True"

definition busy :: "string \<Rightarrow> goroutine list \<Rightarrow> nat" where
  "busy n ts = length (filter (\<lambda>t. go_job t = n \<and> active (go_pc t)) ts)"

definition live :: "string \<Rightarrow> goroutine list \<Rightarrow> nat" where
  "live n ts = length (filter (\<lambda>t. go_job t = n \<and> \<not> go_cancelled t) ts)"

text \<open>
  Every goroutine belongs to a job; a job is marked running exactly while one goroutine executes
  it; and while the scheduler is started each job has exactly one goroutine that is not cancelled.
\<close>

definition job_ok :: "scheduler \<Rightarrow> string \<Rightarrow> scheduled_job \<Rightarrow> bool" where
  "job_ok s n j \<longleftrightarrow> sj_maxRetryCount j = 2 \<and> busy n (sc_threads s) = of_bool (sj_running j)
     \<and> live n (sc_threads s) = of_bool (sc_started s \<and> \<not> sc_parentDone s)"

definition sched_ok :: "scheduler \<Rightarrow> bool" where
  "sched_ok s \<longleftrightarrow> gm_ok (sc_jobs s) \<and> go_job ` set (sc_threads s) \<subseteq> set (map fst (sc_jobs s))
     \<and> (\<forall>n j. gm_get (sc_jobs s) n = Some j \<longrightarrow> job_ok s n j)
     \<and> (\<forall>t \<in> set (sc_threads s). retries_ok (go_pc t))"

lemma count_Nil [simp]: "busy n [] = 0" "live n [] = 0"
  by (simp_all add: busy_def live_def)

lemma count_append [simp]:
  "busy n (ts @ us) = busy n ts + busy n us" "live n (ts @ us) = live n ts + live n us"
  by (simp_all add: busy_def live_def)

lemma count_cancel_all [simp]: "busy n (cancel_all ts) = busy n ts" "live n (cancel_all ts) = 0"
  by (induction ts) (simp_all add: busy_def live_def cancel_all_def)

lemma set_cancel_all [simp]:
  "go_job ` set (cancel_all ts) = go_job ` set ts" "go_pc ` set (cancel_all ts) = go_pc ` set ts"
  by (simp_all add: cancel_all_def image_image)

lemma length_filter_update:
  "i < length xs \<Longrightarrow>
     length (filter P (xs[i := y])) + of_bool (P (xs ! i)) = length (filter P xs) + of_bool (P y)"
proof (induction xs arbitrary: i)
  case (Cons x xs)
  show ?case
  proof (cases i)
    case (Suc k)
    with Cons.IH [of k] Cons.prems show ?thesis by simp
  qed simp
qed simp

lemma absent_counts: "n \<notin> go_job ` set ts \<Longrightarrow> busy n ts = 0 \<and> live n ts = 0"
  by (auto simp: busy_def live_def filter_empty_conv)

lemma fold_startJobLocked:
  assumes "set ns \<subseteq> fst ` set (sc_jobs s)"
  shows "sc_threads (fold startJobLocked ns s)
      = sc_threads s @ map (\<lambda>n. \<lparr>go_job = n, go_cancelled = sc_parentDone s, go_pc = Created\<rparr>) ns
    \<and> map fst (sc_jobs (fold startJobLocked ns s)) = map fst (sc_jobs s)
    \<and> sc_started (fold startJobLocked ns s) = sc_started s \<and> sc_parentDone (fold startJobLocked ns s) = sc_parentDone s
    \<and> gm_get (sc_jobs (fold startJobLocked ns s)) n
      = map_option (\<lambda>j. j\<lparr>sj_stop := sj_stop j \<or> n \<in> set ns\<rparr>) (gm_get (sc_jobs s) n)"
  using assms
proof (induction ns arbitrary: s)
  case (Cons m ns)
  then obtain job where job: "gm_get (sc_jobs s) m = Some job" by (auto dest!: weak_map_of_SomeI)
  let ?s = "startJobLocked m s"
  have s': "sc_threads ?s = sc_threads s @ [\<lparr>go_job = m, go_cancelled = sc_parentDone s, go_pc = Created\<rparr>]"
    "map fst (sc_jobs ?s) = map fst (sc_jobs s)" "sc_started ?s = sc_started s" "sc_parentDone ?s = sc_parentDone s"
    "gm_get (sc_jobs ?s) = (gm_get (sc_jobs s))(m \<mapsto> job\<lparr>sj_stop := True\<rparr>)"
    using job Cons.prems by (auto simp: startJobLocked_def update_keys update_conv')
  have "set ns \<subseteq> fst ` set (sc_jobs ?s)" using Cons.prems s'(2) by (metis image_set list.set_intros(2) subset_iff)
  from Cons.IH [OF this] s' job show ?case by (auto simp: option.map_comp comp_def split: option.splits)
qed (simp add: option.map_id0 [unfolded id_def])

section \<open>Every step keeps it\<close>

lemma NewScheduler_ok [simp]: "sched_ok NewScheduler"
  by (simp add: sched_ok_def NewScheduler_def)

lemma sched_okI:
  assumes "gm_ok (sc_jobs s)" and "go_job ` set (sc_threads s) \<subseteq> set (map fst (sc_jobs s))"
    and "\<And>n j. gm_get (sc_jobs s) n = Some j \<Longrightarrow> job_ok s n j"
    and "\<And>pc. pc \<in> go_pc ` set (sc_threads s) \<Longrightarrow> retries_ok pc"
  shows "sched_ok s"
  using assms by (auto simp: sched_ok_def)

lemma sched_okD:
  assumes "sched_ok s"
  shows "gm_ok (sc_jobs s)" and "go_job ` set (sc_threads s) \<subseteq> set (map fst (sc_jobs s))"
    and "gm_get (sc_jobs s) n = Some j \<Longrightarrow> job_ok s n j"
    and "pc \<in> go_pc ` set (sc_threads s) \<Longrightarrow> retries_ok pc"
  using assms by (auto simp: sched_ok_def)

lemma Stop_ok:
  assumes ok: "sched_ok s"
  shows "sched_ok (Stop s)"
proof (cases "sc_started s")
  case True
  let ?jobs = "map (\<lambda>(n, j). (n, j\<lparr>sj_stop := False\<rparr>)) (sc_jobs s)"
  have keys: "map fst ?jobs = map fst (sc_jobs s)" by (simp add: case_prod_unfold comp_def)
  have get: "gm_get ?jobs n = map_option (\<lambda>j. j\<lparr>sj_stop := False\<rparr>) (gm_get (sc_jobs s) n)" for n
    by (simp add: map_of_map)
  have s': "sc_jobs (Stop s) = ?jobs" "sc_threads (Stop s) = cancel_all (sc_threads s)" "\<not> sc_started (Stop s)"
    using True by (simp_all add: Stop_def)
  show ?thesis
  proof (rule sched_okI)
    show "gm_ok (sc_jobs (Stop s))" using sched_okD(1) [OF ok] unfolding s' gm_ok_def keys .
    show "go_job ` set (sc_threads (Stop s)) \<subseteq> set (map fst (sc_jobs (Stop s)))"
      using sched_okD(2) [OF ok] unfolding s' keys by simp
    show "retries_ok pc" if "pc \<in> go_pc ` set (sc_threads (Stop s))" for pc
      using that sched_okD(4) [OF ok] unfolding s' by simp
    show "job_ok (Stop s) n j" if "gm_get (sc_jobs (Stop s)) n = Some j" for n j
      using that sched_okD(3) [OF ok, of n] by (auto simp: job_ok_def s' get)
  qed
qed (simp add: Stop_def ok)

lemma parent_done_ok:
  assumes ok: "sched_ok s"
  shows "sched_ok (s\<lparr>sc_parentDone := True, sc_threads := cancel_all (sc_threads s)\<rparr>)"
proof (rule sched_okI, goal_cases)
  case (3 n j)
  with sched_okD(3) [OF ok] show ?case by (simp add: job_ok_def)
qed (use sched_okD [OF ok] in \<open>simp_all\<close>)

lemma count_spawned:
  "busy n (map (\<lambda>m. \<lparr>go_job = m, go_cancelled = c, go_pc = Created\<rparr>) ns) = 0"
  "distinct ns \<Longrightarrow> live n (map (\<lambda>m. \<lparr>go_job = m, go_cancelled = c, go_pc = Created\<rparr>) ns) = of_bool (n \<in> set ns \<and> \<not> c)"
  by (induction ns) (auto simp: busy_def live_def)

lemma Start_ok:
  assumes ok: "sched_ok s"
  shows "sched_ok (Start s)"
proof (cases "sc_started s")
  case False
  let ?s = "s\<lparr>sc_started := True\<rparr>" and ?ns = "map fst (sc_jobs s)"
  have d: "distinct ?ns" using sched_okD(1) [OF ok] by (simp add: gm_ok_def)
  have st: "Start s = fold startJobLocked ?ns ?s" using False by (simp add: Start_def)
  have f: "sc_threads (Start s)
      = sc_threads s @ map (\<lambda>n. \<lparr>go_job = n, go_cancelled = sc_parentDone s, go_pc = Created\<rparr>) ?ns"
    "map fst (sc_jobs (Start s)) = ?ns" "sc_started (Start s)" "sc_parentDone (Start s) = sc_parentDone s"
    "gm_get (sc_jobs (Start s)) n = map_option (\<lambda>j. j\<lparr>sj_stop := sj_stop j \<or> n \<in> set ?ns\<rparr>) (gm_get (sc_jobs s) n)" for n
    using fold_startJobLocked [of ?ns ?s n] by (simp_all add: st)
  show ?thesis
  proof (rule sched_okI)
    show "gm_ok (sc_jobs (Start s))" using sched_okD(1) [OF ok] unfolding gm_ok_def f .
    show "go_job ` set (sc_threads (Start s)) \<subseteq> set (map fst (sc_jobs (Start s)))"
      using sched_okD(2) [OF ok] unfolding f by force
    show "retries_ok pc" if "pc \<in> go_pc ` set (sc_threads (Start s))" for pc
      using that sched_okD(4) [OF ok] unfolding f by auto
    show "job_ok (Start s) n j" if g: "gm_get (sc_jobs (Start s)) n = Some j" for n j
    proof -
      from g f(5) [of n] obtain j0 where j0: "gm_get (sc_jobs s) n = Some j0"
        "j = j0\<lparr>sj_stop := sj_stop j0 \<or> n \<in> set ?ns\<rparr>" by auto
      then have "n \<in> set ?ns" by (force dest: map_of_SomeD)
      with sched_okD(3) [OF ok j0(1)] d False j0(2) show ?thesis
        by (simp add: job_ok_def f count_spawned del: set_map map_map)
    qed
  qed
qed (simp add: Start_def ok)

lemma Every_ok:
  assumes ok: "sched_ok s"
  shows "sched_ok (snd (Every name interval s))"
proof (cases "gm_get (sc_jobs s) name")
  case None
  let ?job = "\<lparr>sj_name = name, sj_interval = interval, sj_stop = False, sj_running = False, sj_lastStart = 0,
     sj_lastFinish = 0, sj_lastError = [], sj_retryDelay = 2 * 1000000000, sj_maxRetryCount = 2\<rparr>"
  let ?s = "s\<lparr>sc_jobs := gm_put name ?job (sc_jobs s)\<rparr>" and ?t = "snd (Every name interval s)"
  have new: "name \<notin> set (map fst (sc_jobs s))" using None by (simp add: map_of_eq_None_iff)
  then have none: "busy name (sc_threads s) = 0 \<and> live name (sc_threads s) = 0"
    using sched_okD(2) [OF ok] by (intro absent_counts) auto
  have t: "?t = (if sc_started s then startJobLocked name ?s else ?s)" using None by (simp add: Every_def Let_def)
  have f: "map fst (sc_jobs ?t) = map fst (sc_jobs s) @ [name]"
      "sc_threads ?t = sc_threads s @ (if sc_started s
         then map (\<lambda>n. \<lparr>go_job = n, go_cancelled = sc_parentDone s, go_pc = Created\<rparr>) [name] else [])"
      "sc_started ?t = sc_started s" "sc_parentDone ?t = sc_parentDone s"
    using new by (simp_all add: t startJobLocked_def update_keys)
  have get: "gm_get (sc_jobs ?t) n =
      (if n = name then Some (?job\<lparr>sj_stop := sc_started s\<rparr>) else gm_get (sc_jobs s) n)" for n
    by (simp add: t startJobLocked_def update_conv')
  show ?thesis
  proof (rule sched_okI)
    show "gm_ok (sc_jobs ?t)" using sched_okD(1) [OF ok] new unfolding gm_ok_def f by simp
    show "go_job ` set (sc_threads ?t) \<subseteq> set (map fst (sc_jobs ?t))"
      using sched_okD(2) [OF ok] unfolding f by auto
    show "retries_ok pc" if "pc \<in> go_pc ` set (sc_threads ?t)" for pc
      using that sched_okD(4) [OF ok] unfolding f by (auto split: if_splits)
    show "job_ok ?t n j" if g: "gm_get (sc_jobs ?t) n = Some j" for n j
    proof (cases "n = name")
      case True
      with g none show ?thesis by (auto simp: job_ok_def f get count_spawned simp del: list.map)
    next
      case False
      with g sched_okD(3) [OF ok, of n j] show ?thesis by (simp add: job_ok_def f get busy_def live_def)
    qed
  qed
qed (simp add: Every_def ok)

text \<open>What one step of a goroutine does to its own counters.\<close>

lemma job_step_effect:
  assumes "job_step et now ev (t, j) = Some (t', j')" and "retries_ok (go_pc t)" and "sj_maxRetryCount j = 2"
    and "active (go_pc t) \<Longrightarrow> sj_running j"
  shows "go_job t' = go_job t \<and> go_cancelled t' = go_cancelled t \<and> sj_maxRetryCount j' = 2 \<and> retries_ok (go_pc t')
    \<and> of_bool (active (go_pc t')) + of_bool (sj_running j) = of_bool (active (go_pc t)) + (of_bool (sj_running j') :: nat)"
  using assms by (cases "go_pc t"; cases ev) (auto split: option.splits if_splits)

lemma thread_step_ok:
  assumes ok: "sched_ok s" and step: "thread_step et now i ev s = Some s'"
  shows "sched_ok s'"
proof -
  let ?t = "sc_threads s ! i"
  from step obtain j t' j' where i: "i < length (sc_threads s)" and j: "gm_get (sc_jobs s) (go_job ?t) = Some j"
    and st: "job_step et now ev (?t, j) = Some (t', j')"
    and s': "s' = s\<lparr>sc_threads := (sc_threads s)[i := t'], sc_jobs := gm_put (go_job ?t) j' (sc_jobs s)\<rparr>"
    by (auto simp: thread_step_def Let_def split: if_splits option.splits)
  have t: "?t \<in> set (sc_threads s)" using i by simp
  have jok: "job_ok s (go_job ?t) j" using sched_okD(3) [OF ok j] .
  have run: "sj_running j" if "active (go_pc ?t)"
  proof (rule ccontr)
    assume "\<not> sj_running j"
    with jok have "busy (go_job ?t) (sc_threads s) = 0" by (simp add: job_ok_def)
    with t that show False by (auto simp: busy_def filter_empty_conv)
  qed
  have "retries_ok (go_pc ?t)" using sched_okD(4) [OF ok] t by blast
  from job_step_effect [OF st this _ run] jok have e: "go_job t' = go_job ?t" "go_cancelled t' = go_cancelled ?t"
    "sj_maxRetryCount j' = 2" "retries_ok (go_pc t')"
    "of_bool (active (go_pc t')) + of_bool (sj_running j) = of_bool (active (go_pc ?t)) + (of_bool (sj_running j') :: nat)"
    by (auto simp: job_ok_def)
  have busy: "busy n (sc_threads s') + of_bool (go_job ?t = n \<and> active (go_pc ?t))
      = busy n (sc_threads s) + of_bool (go_job ?t = n \<and> active (go_pc t'))" for n
    using length_filter_update [OF i, of "\<lambda>t. go_job t = n \<and> active (go_pc t)" t'] e(1) by (simp add: busy_def s')
  have live: "live n (sc_threads s') = live n (sc_threads s)" for n
    using length_filter_update [OF i, of "\<lambda>t. go_job t = n \<and> \<not> go_cancelled t" t'] e(1,2) by (simp add: live_def s')
  show ?thesis
  proof (rule sched_okI)
    show "gm_ok (sc_jobs s')" using sched_okD(1) [OF ok] by (simp add: s')
    show "go_job ` set (sc_threads s') \<subseteq> set (map fst (sc_jobs s'))"
    proof -
      have "set (map fst (sc_jobs s)) \<subseteq> set (map fst (sc_jobs s'))" by (auto simp: s' update_keys)
      moreover have "go_job ` set (sc_threads s') \<subseteq> go_job ` set (sc_threads s)"
        using set_update_subset_insert [of "sc_threads s" i t'] e(1) t by (auto simp: s' image_subset_iff)
      ultimately show ?thesis using sched_okD(2) [OF ok] by blast
    qed
    show "retries_ok pc" if "pc \<in> go_pc ` set (sc_threads s')" for pc
      using that sched_okD(4) [OF ok] e(4) set_update_subset_insert [of "sc_threads s" i t'] by (auto simp: s')
    show "job_ok s' n k" if g: "gm_get (sc_jobs s') n = Some k" for n k
    proof (cases "n = go_job ?t")
      case True
      with g have "k = j'" by (simp add: s' update_conv')
      with True jok busy [of n] live [of n] e show ?thesis by (auto simp: job_ok_def s')
    next
      case False
      with g have "gm_get (sc_jobs s) n = Some k" by (simp add: s' update_conv')
      from sched_okD(3) [OF ok this] False busy [of n] live [of n] show ?thesis by (auto simp: job_ok_def s')
    qed
  qed
qed

lemma sched_step_ok:
  assumes "sched_step s s'" and "sched_ok s"
  shows "sched_ok s'"
  using assms
proof (cases rule: sched_step.cases)
  case (every name interval e)
  with Every_ok [OF assms(2), of name interval] show ?thesis by simp
qed (use assms(2) in \<open>simp_all add: Start_ok Stop_ok parent_done_ok thread_step_ok\<close>)

lemma sched_steps_ok: "sched_step\<^sup>*\<^sup>* s s' \<Longrightarrow> sched_ok s \<Longrightarrow> sched_ok s'"
  by (induction rule: rtranclp_induct) (auto intro: sched_step_ok)

section \<open>One run of a job\<close>

text \<open>The events of one run: they are taken while the goroutine executes the job.\<close>

fun run_trace :: "(go_error \<Rightarrow> string) \<Rightarrow> (time \<times> job_event) list \<Rightarrow> goroutine \<times> scheduled_job \<Rightarrow>
    (goroutine \<times> scheduled_job) option" where
  "run_trace et [] c = Some c"
| "run_trace et ((now, ev) # evs) c =
     (if active (go_pc (fst c))
      then (case job_step et now ev c of None \<Rightarrow> None | Some c' \<Rightarrow> run_trace et evs c') else None)"

fun is_return :: "job_event \<Rightarrow> bool" where
  "is_return (FnReturns e) = True"
| "is_return ev = False"

text \<open>What is left of a run, in events and in calls.\<close>

fun run_left :: "job_pc \<Rightarrow> nat" where
  "run_left (Calling k) = 2 * (2 - k) + 2"
| "run_left (Sleeping k) = 2 * (2 - k) + 1"
| "run_left Finishing = 1"
| "run_left pc = 0"

fun calls_left :: "job_pc \<Rightarrow> nat" where
  "calls_left (Calling k) = 2 - k + 1"
| "calls_left (Sleeping k) = 2 - k"
| "calls_left pc = 0"

lemma job_step_left:
  assumes "job_step et now ev (t, j) = Some (t', j')" and "active (go_pc t)" and "retries_ok (go_pc t)"
    and "sj_maxRetryCount j = 2"
  shows "run_left (go_pc t') < run_left (go_pc t) \<and> calls_left (go_pc t') + of_bool (is_return ev) \<le> calls_left (go_pc t)
    \<and> retries_ok (go_pc t') \<and> sj_maxRetryCount j' = 2
    \<and> (active (go_pc t') \<or> go_pc t' = Selecting \<and> \<not> sj_running j' \<and> sj_lastFinish j' = now)"
  using assms by (cases "go_pc t"; cases ev) (auto split: option.splits if_splits)

lemma run_trace_left:
  assumes "run_trace et evs (t, j) = Some (t', j')" and "active (go_pc t)" and "retries_ok (go_pc t)"
    and "sj_maxRetryCount j = 2"
  shows "length evs \<le> run_left (go_pc t) \<and> length (filter (is_return \<circ> snd) evs) \<le> calls_left (go_pc t)
    \<and> (active (go_pc t') \<or> go_pc t' = Selecting \<and> \<not> sj_running j')"
  using assms
proof (induction evs arbitrary: t j)
  case (Cons x evs)
  obtain now ev where x: "x = (now, ev)" by fastforce
  with Cons.prems(1,2) obtain t1 j1 where st: "job_step et now ev (t, j) = Some (t1, j1)"
    and rest: "run_trace et evs (t1, j1) = Some (t', j')" by (auto simp del: job_step.simps split: option.splits)
  note l = job_step_left [OF st Cons.prems(2-4)]
  show ?case
  proof (cases "active (go_pc t1)")
    case True
    with Cons.IH [OF rest] l x show ?thesis by auto
  next
    case False
    with rest have "evs = []" "t' = t1" "j' = j1" by (cases evs; auto)+
    with l False x show ?thesis by auto
  qed
qed simp

lemma active_progress: "active (go_pc t) \<Longrightarrow> \<exists>ev. job_step et now ev (t, j) \<noteq> None"
  by (cases "go_pc t") (auto intro: exI [of _ Proceed] exI [of _ RetryAfter] exI [of _ "FnReturns None"])

section \<open>Properties\<close>

text \<open>
  Claim C26. A job never runs twice at a time: in every history of registrations, starts, stops,
  cancellations and steps of the goroutines, also when a scheduler is stopped and started again
  while a job is still running, two goroutines never execute the same job at once, and a job is
  marked as running exactly when one goroutine executes it.
\<close>

theorem job_runs_exclusive:
  assumes "sched_step\<^sup>*\<^sup>* NewScheduler s" and "gm_get (sc_jobs s) n = Some j"
  shows "length (filter (\<lambda>t. go_job t = n \<and> active (go_pc t)) (sc_threads s)) = (if sj_running j then 1 else 0)"
  using sched_okD(3) [OF sched_steps_ok [OF assms(1) NewScheduler_ok] assms(2)] by (simp add: job_ok_def busy_def)

definition demo_sched :: scheduler where
  "demo_sched = Start (snd (Every ''a'' 60 NewScheduler))"

lemma demo_sched_reachable: "sched_step\<^sup>*\<^sup>* NewScheduler demo_sched"
proof -
  have "sched_step NewScheduler (snd (Every ''a'' 60 NewScheduler))"
    by (rule sched_step.every [of "''a''" 60 _ "fst (Every ''a'' 60 NewScheduler)"]) simp
  moreover have "sched_step (snd (Every ''a'' 60 NewScheduler)) demo_sched" unfolding demo_sched_def by (rule sched_step.start)
  ultimately show ?thesis by (meson converse_rtranclp_into_rtranclp r_into_rtranclp)
qed

lemma demo_sched_threads:
  "sc_threads demo_sched = [\<lparr>go_job = ''a'', go_cancelled = False, go_pc = Created\<rparr>]"
  "\<exists>j. gm_get (sc_jobs demo_sched) ''a'' = Some j \<and> \<not> sj_running j" "sc_started demo_sched" "\<not> sc_parentDone demo_sched"
  by (simp_all add: demo_sched_def Start_def Every_def NewScheduler_def startJobLocked_def Let_def)

theorem job_runs_exclusive_witness:
  "length (filter (\<lambda>t. go_job t = ''a'' \<and> active (go_pc t)) (sc_threads demo_sched)) = 0"
proof -
  obtain j where "gm_get (sc_jobs demo_sched) ''a'' = Some j" "\<not> sj_running j" using demo_sched_threads(2) by blast
  with job_runs_exclusive [OF demo_sched_reachable] show ?thesis by simp
qed

text \<open>
  While the scheduler is started and its parent context is alive, every registered job
  has exactly one goroutine that is not cancelled; when it is stopped or the parent is done there
  is none.
\<close>

theorem one_goroutine_per_job:
  assumes "sched_step\<^sup>*\<^sup>* NewScheduler s" and "gm_get (sc_jobs s) n = Some j"
  shows "length (filter (\<lambda>t. go_job t = n \<and> \<not> go_cancelled t) (sc_threads s))
    = (if sc_started s \<and> \<not> sc_parentDone s then 1 else 0)"
  using sched_okD(3) [OF sched_steps_ok [OF assms(1) NewScheduler_ok] assms(2)] by (simp add: job_ok_def live_def)

theorem one_goroutine_per_job_witness:
  "length (filter (\<lambda>t. go_job t = ''a'' \<and> \<not> go_cancelled t) (sc_threads demo_sched)) = 1"
proof -
  obtain j where "gm_get (sc_jobs demo_sched) ''a'' = Some j" using demo_sched_threads(2) by blast
  from one_goroutine_per_job [OF demo_sched_reachable this] demo_sched_threads(3,4) show ?thesis by simp
qed

text \<open>
  A run of a job ends: once a tick has started it, at most six events, with at most three
  calls of the job function, bring the goroutine back to its loop with the job no longer marked as
  running, and as long as it has not ended an event is possible.
\<close>

theorem job_run_terminates:
  assumes "run_trace et evs (t, j) = Some (t', j')" and "go_pc t = Calling 0" and "sj_maxRetryCount j = 2"
  shows "length evs \<le> 6 \<and> length (filter (is_return \<circ> snd) evs) \<le> 3
    \<and> (if active (go_pc t') then \<exists>ev. job_step et now ev (t', j') \<noteq> None
       else go_pc t' = Selecting \<and> \<not> sj_running j')"
  using run_trace_left [OF assms(1)] assms(2,3) active_progress by auto

theorem job_run_terminates_witness:
  "let t = \<lparr>go_job = ''a'', go_cancelled = False, go_pc = Calling 0\<rparr>;
       j = \<lparr>sj_name = ''a'', sj_interval = 60, sj_stop = True, sj_running = True, sj_lastStart = 1, sj_lastFinish = 0,
            sj_lastError = [], sj_retryDelay = 2, sj_maxRetryCount = 2\<rparr>;
       e = FnReturns (Some (ErrIO ''x''))
   in \<exists>t' j'. run_trace (\<lambda>_. ''x'') [(1, e), (2, RetryAfter), (3, e), (4, RetryAfter), (5, e), (6, Proceed)] (t, j) = Some (t', j')
        \<and> go_pc t' = Selecting \<and> \<not> sj_running j'"
proof -
  let ?t = "\<lparr>go_job = ''a'', go_cancelled = False, go_pc = Calling 0\<rparr>"
  let ?j = "\<lparr>sj_name = ''a'', sj_interval = 60, sj_stop = True, sj_running = True, sj_lastStart = 1, sj_lastFinish = 0,
            sj_lastError = [], sj_retryDelay = 2, sj_maxRetryCount = 2\<rparr>"
  let ?e = "FnReturns (Some (ErrIO ''x''))"
  let ?evs = "[(1, ?e), (2, RetryAfter), (3, ?e), (4, RetryAfter), (5, ?e), (6, Proceed)] :: (time \<times> job_event) list"
  obtain t' j' where r: "run_trace (\<lambda>_. ''x'') ?evs (?t, ?j) = Some (t', j')" and a: "\<not> active (go_pc t')" by simp
  from job_run_terminates [OF r] a r show ?thesis by (simp add: Let_def)
qed

end
