(* ===== verification/Domux_Server.thy ===== *)
theory Domux_Server
  imports Domux_Routes Domux_Certs Domux_Manager Domux_Scheduler
begin

text \<open>
  The server process (\<open>cmd/domux/main.go\<close>) around its routes: building the runtime from the
  configuration, seeding the store, the DDNS and certificate jobs and the manual actions, the
  selection of what an action applies to, the runtime manager and the authentication of the API.
\<close>

section \<open>Agents and discoverers\<close>

fun add_agents :: "agent_node list \<Rightarrow> pool \<times> memory_store option \<Rightarrow> pool \<times> memory_store option" where
  "add_agents [] st = st"
| "add_agents (node # nodes) (p, store) =
     add_agents nodes (snd (pool_Add node p), map_option (PutAgent node) store)"

definition initAgentPool :: "agent_node list \<Rightarrow> memory_store option \<Rightarrow> pool \<times> memory_store option" where
  "initAgentPool nodes store = add_agents nodes (NewPool, store)"

text \<open>
  \<open>initDiscoverers\<close>; connecting to the local runtime and to the runtime of an agent is a parameter.
  The third component are the discoverers closed after a failure.
\<close>

record docker_connect =
  dc_local :: "runtime_source \<Rightarrow> docker_api result"
  dc_remote :: "agent_client \<Rightarrow> docker_api result"

fun remote_discoverers :: "os_env \<Rightarrow> docker_connect \<Rightarrow> route_discoverer list \<Rightarrow> agent_client list \<Rightarrow>
    route_discoverer list result \<times> route_discoverer list" where
  "remote_discoverers os conn ds [] = (Inr ds, [])"
| "remote_discoverers os conn ds (client # clients) =
     (case dc_remote conn client of
        Inl e \<Rightarrow> (Inl e, ds)
      | Inr api \<Rightarrow> remote_discoverers os conn (ds @ [RemoteDiscoverer (NewRemote os api (ac_Node client) client)]) clients)"

definition initDiscoverers :: "os_env \<Rightarrow> docker_connect \<Rightarrow> config \<Rightarrow> pool option \<Rightarrow>
    route_discoverer list result \<times> route_discoverer list" where
  "initDiscoverers os conn cfg p =
     (let source = sc_Runtime (c_Server cfg);
          clients = (case p of None \<Rightarrow> [] | Some p \<Rightarrow> pool_List p)
      in if RuntimeOrDefault os source \<noteq> [] then
           (case dc_local conn source of
              Inl e \<Rightarrow> (Inl e, [])
            | Inr api \<Rightarrow> remote_discoverers os conn [LocalDiscoverer (NewWithClient os source api)] clients)
         else remote_discoverers os conn [] clients)"

record prepared_runtime =
  pr_pool :: pool
  pr_discoverers :: "route_discoverer list"

definition buildRuntime :: "os_env \<Rightarrow> docker_connect \<Rightarrow> config \<Rightarrow> prepared_runtime result \<times> route_discoverer list" where
  "buildRuntime os conn cfg =
     (let p = fst (initAgentPool (c_Agents cfg) None)
      in case initDiscoverers os conn cfg (Some p) of
           (Inl e, closed) \<Rightarrow> (Inl e, closed)
         | (Inr ds, closed) \<Rightarrow> (Inr \<lparr>pr_pool = p, pr_discoverers = ds\<rparr>, closed))"

definition syncPoolNodesToStore :: "pool option \<Rightarrow> memory_store \<Rightarrow> memory_store" where
  "syncPoolNodesToStore p store = (case p of None \<Rightarrow> store | Some p \<Rightarrow> fold PutAgent (pool_ListNodes p) store)"

text \<open>\<open>RefreshAll\<close> returns a node for every agent (\<open>pool_refresh_all\<close>), so none is skipped here.\<close>

definition refreshAgentStore :: "(go_error \<Rightarrow> string) \<Rightarrow> agent_net \<Rightarrow> time \<Rightarrow> pool option \<Rightarrow> memory_store option \<Rightarrow>
    pool option \<times> memory_store option" where
  "refreshAgentStore err_text net now p store =
     (case p of
        None \<Rightarrow> (None, store)
      | Some p \<Rightarrow>
          (let (nodes, p') = pool_RefreshAll err_text net now p
           in (Some p', map_option (fold PutAgent (List.map_filter id nodes)) store)))"

section \<open>The runtime manager\<close>

text \<open>
  A watch context is a number; \<open>rm_cancelled\<close> and \<open>rm_closed\<close> record the contexts that were cancelled
  and the discoverers that were closed.
\<close>

record runtime_manager =
  rm_pool :: "pool option"
  rm_discoverers :: "route_discoverer list"
  rm_ddns :: "ddns_service option"
  rm_providerRefs :: "provider_config gomap"
  rm_watchStop :: "nat option"
  rm_nextCtx :: nat
  rm_cancelled :: "nat list"
  rm_closed :: "route_discoverer list"
  rm_watching :: "(nat \<times> route_discoverer) list"

definition newRuntimeManager :: runtime_manager where
  "newRuntimeManager = \<lparr>rm_pool = None, rm_discoverers = [], rm_ddns = None, rm_providerRefs = [], rm_watchStop = None,
     rm_nextCtx = 0, rm_cancelled = [], rm_closed = [], rm_watching = []\<rparr>"

definition rm_swap :: "pool \<Rightarrow> route_discoverer list \<Rightarrow> nat \<Rightarrow> runtime_manager \<Rightarrow>
    (route_discoverer list \<times> nat option) \<times> runtime_manager" where
  "rm_swap p ds watchStop m =
     ((rm_discoverers m, rm_watchStop m), m\<lparr>rm_pool := Some p, rm_discoverers := ds, rm_watchStop := Some watchStop\<rparr>)"

definition rm_Replace :: "prepared_runtime \<Rightarrow> runtime_manager \<Rightarrow> runtime_manager" where
  "rm_Replace new m =
     (let ctx = rm_nextCtx m;
          ((oldDiscoverers, oldWatchStop), m1) = rm_swap (pr_pool new) (pr_discoverers new) ctx (m\<lparr>rm_nextCtx := Suc ctx\<rparr>)
      in m1\<lparr>rm_cancelled := rm_cancelled m1 @ opt_to_list oldWatchStop, rm_closed := rm_closed m1 @ oldDiscoverers,
            rm_watching := rm_watching m1 @ map (Pair ctx) (pr_discoverers new)\<rparr>)"

definition rm_SetDDNS :: "ddns_service \<Rightarrow> provider_config gomap \<Rightarrow> runtime_manager \<Rightarrow> runtime_manager" where
  "rm_SetDDNS sv refs m = m\<lparr>rm_ddns := Some sv, rm_providerRefs := refs\<rparr>"

definition rm_Close :: "runtime_manager \<Rightarrow> runtime_manager" where
  "rm_Close m =
     m\<lparr>rm_watchStop := None, rm_discoverers := [], rm_pool := None, rm_ddns := None, rm_providerRefs := [],
       rm_cancelled := rm_cancelled m @ opt_to_list (rm_watchStop m), rm_closed := rm_closed m @ rm_discoverers m\<rparr>"

text \<open>The transport of the proxy: that of the client of the exit node, if there is one.\<close>

definition proxyTransport :: "pool option \<Rightarrow> discovered_route \<Rightarrow> agent_client option" where
  "proxyTransport p route =
     (let exitNode = TrimSpace (rt_ExitNode route)
      in if exitNode = [] then None
         else (case p of None \<Rightarrow> None | Some p \<Rightarrow> pool_GetByName p exitNode))"

section \<open>DDNS\<close>

definition PublicIPConfig_Detector :: "public_ip_config \<Rightarrow> http_detector" where
  "PublicIPConfig_Detector c =
     (let d0 = DefaultHTTPDetector;
          d1 = (if pi_IPv4URLs c \<noteq> [] then d0\<lparr>hd_IPv4URL := [], hd_IPv4URLs := pi_IPv4URLs c\<rparr> else d0);
          d2 = (if pi_IPv6URLs c \<noteq> [] then d1\<lparr>hd_IPv6URL := [], hd_IPv6URLs := pi_IPv6URLs c\<rparr> else d1)
      in if pi_Timeout c > 0 then d2\<lparr>hd_Timeout := pi_Timeout c\<rparr> else d2)"

text \<open>What the services are given from outside: HTTP requests, the DNS resolver and the providers' APIs.\<close>

record ddns_env =
  dv_get :: "duration \<Rightarrow> http_get"
  dv_lookupNS :: ns_lookup
  dv_upsert :: "(updater \<times> dns_record) list \<Rightarrow> updater \<Rightarrow> dns_record \<Rightarrow> go_error option"
  dv_err_text :: "go_error \<Rightarrow> string"
  dv_now :: time

definition NewDDNSService :: "ddns_env \<Rightarrow> http_detector \<Rightarrow> ddns_service" where
  "NewDDNSService env d = \<lparr>sv_detect = Some (Detect (dv_get env (hd_Timeout d)) (dv_now env) d), sv_Providers = [],
     sv_lookupNS = dv_lookupNS env, sv_upsert = dv_upsert env, sv_err_text = dv_err_text env\<rparr>"

fun init_providers :: "registry \<Rightarrow> provider_config list \<Rightarrow> ddns_service \<times> provider_config gomap \<Rightarrow>
    (ddns_service \<times> provider_config gomap) result" where
  "init_providers reg [] st = Inr st"
| "init_providers reg (p # ps) (sv, refs) =
     (let refs1 = gm_put (pc_Ref p) p refs
      in if \<not> registry_Exists reg (pc_Type p) then init_providers reg ps (sv, refs1)
         else
           (case registry_New reg (pc_Type p) (pc_Options p) of
              Inl e \<Rightarrow> Inl (Wrapf ''initialize dns provider %q: %w'' [pc_Ref p] e)
            | Inr u \<Rightarrow> init_providers reg ps (ddns_Register (pc_Ref p) u sv, refs1)))"

definition initDDNS :: "ddns_env \<Rightarrow> config \<Rightarrow> (registry \<times> ddns_service \<times> provider_config gomap) result" where
  "initDDNS env cfg =
     (case NewBuiltinRegistry of
        Inl e \<Rightarrow> Inl e
      | Inr reg \<Rightarrow>
          (case init_providers reg (c_DDNSProviders cfg)
                  (NewDDNSService env (PublicIPConfig_Detector (sc_PublicIP (c_Server cfg))), []) of
             Inl e \<Rightarrow> Inl e
           | Inr (sv, refs) \<Rightarrow> Inr (reg, sv, refs)))"

fun sync_zones :: "ddns_service \<Rightarrow> time \<Rightarrow> managed_zone list \<Rightarrow> ddns_world \<Rightarrow> go_error list \<times> ddns_world" where
  "sync_zones sv now [] w = ([], w)"
| "sync_zones sv now (z # zs) w =
     (if \<not> dz_Enabled (z_DDNS z) then sync_zones sv now zs w
      else
        (let ((_, err), w1) = SyncZone sv now z w;
             (errs, w2) = sync_zones sv now zs w1
         in (opt_to_list err @ errs, w2)))"

definition syncDDNS :: "ddns_service option \<Rightarrow> time \<Rightarrow> managed_zone list \<Rightarrow> ddns_world \<Rightarrow> go_error option \<times> ddns_world" where
  "syncDDNS sv now zones w =
     (case sv of
        None \<Rightarrow> (None, w)
      | Some sv \<Rightarrow>
          if sv_detect sv = None then (None, w)
          else (let (errs, w') = sync_zones sv now zones w in (errors_Join errs, w')))"

section \<open>Certificates\<close>

text \<open>
  What the certificate jobs change: the files, the store and the certificates served. The clock, the
  faults and the parsing of a pair into a certificate are parameters.
\<close>

record 'c cert_world =
  cw_fs :: "string file_system"
  cw_store :: memory_store
  cw_tls :: "'c tls_store"

record 'c cert_env =
  ce_acme :: acme_env
  ce_dataDir :: string
  ce_rio :: "string io_faults"
  ce_wio :: "string io_faults \<times> string io_faults"
  ce_now :: time
  ce_pair :: "string \<Rightarrow> string \<Rightarrow> 'c result"
  ce_deploy :: deploy_env

definition tls_LoadPair :: "string io_faults \<Rightarrow> (string \<Rightarrow> string \<Rightarrow> 'c result) \<Rightarrow> string file_system \<Rightarrow> string \<Rightarrow> string \<Rightarrow>
    string \<Rightarrow> 'c tls_store \<Rightarrow> go_error option \<times> 'c tls_store" where
  "tls_LoadPair io pair fs host certPath keyPath s =
     (case ReadFile io fs certPath of
        Inl e \<Rightarrow> (Some e, s)
      | Inr cert \<Rightarrow>
          (case ReadFile io fs keyPath of
             Inl e \<Rightarrow> (Some e, s)
           | Inr key \<Rightarrow> (case pair cert key of Inl e \<Rightarrow> (Some e, s) | Inr c \<Rightarrow> (None, tls_Set host c s))))"

fun load_pairs :: "string io_faults \<Rightarrow> (string \<Rightarrow> string \<Rightarrow> 'c result) \<Rightarrow> string file_system \<Rightarrow> certificate_bundle \<Rightarrow>
    string list \<Rightarrow> 'c tls_store \<Rightarrow> go_error list \<times> 'c tls_store" where
  "load_pairs io pair fs b [] s = ([], s)"
| "load_pairs io pair fs b (d # ds) s =
     (let (err, s1) = tls_LoadPair io pair fs d (cb_CertPath b) (cb_KeyPath b) s;
          (errs, s2) = load_pairs io pair fs b ds s1
      in (opt_to_list err @ errs, s2))"

definition server_deployBundle :: "'c cert_env \<Rightarrow> certificate_bundle \<Rightarrow> string list \<Rightarrow> 'c cert_world \<Rightarrow>
    go_error option \<times> 'c cert_world" where
  "server_deployBundle env b targetNames w =
     (let ((runs, err), fs') = DeployBundle (ce_deploy env) (ce_rio env) (cw_store w) b targetNames (cw_fs w)
      in (errors_Join (opt_to_list err), w\<lparr>cw_fs := fs', cw_store := fold AppendDeployRun runs (cw_store w)\<rparr>))"

text \<open>What the loop of \<open>syncCertificateRequests\<close> does for one request.\<close>

definition sync_request :: "'c cert_env \<Rightarrow> bool \<Rightarrow> provider_config gomap \<Rightarrow> issue_request \<Rightarrow> 'c cert_world \<Rightarrow>
    go_error list \<times> 'c cert_world" where
  "sync_request env force providers req w =
     (case gm_get providers (iq_DNSProvider req) of
        None \<Rightarrow> ([Errorf ''missing certificate provider ref: %s'' [iq_DNSProvider req]], w)
      | Some cfg \<Rightarrow>
          (case (if force then ForceRenewCertificate (ce_acme env) (ce_wio env) (ce_dataDir env) req cfg (cw_fs w)
                 else EnsureCertificate (ce_acme env) (ce_rio env) (ce_wio env) (ce_now env) (ce_dataDir env) req cfg (cw_fs w)) of
             (Inl e, fs1) \<Rightarrow> ([e], w\<lparr>cw_fs := fs1\<rparr>)
           | (Inr b, fs1) \<Rightarrow>
               (let (loadErrs, tls1) = load_pairs (ce_rio env) (ce_pair env) fs1 b (cb_Domains b) (cw_tls w);
                    w1 = w\<lparr>cw_fs := fs1, cw_store := PutBundle b (cw_store w), cw_tls := tls1\<rparr>
                in if cb_DeployTargets b \<noteq> [] then
                     (let (err, w2) = server_deployBundle env b (cb_DeployTargets b) w1
                      in (loadErrs @ opt_to_list err, w2))
                   else (loadErrs, w1))))"

fun sync_requests :: "'c cert_env \<Rightarrow> bool \<Rightarrow> provider_config gomap \<Rightarrow> issue_request list \<Rightarrow> 'c cert_world \<Rightarrow>
    go_error list \<times> 'c cert_world" where
  "sync_requests env force providers [] w = ([], w)"
| "sync_requests env force providers (req # reqs) w =
     (let (errs1, w1) = sync_request env force providers req w;
          (errs2, w2) = sync_requests env force providers reqs w1
      in (errs1 @ errs2, w2))"

definition syncCertificateRequests :: "'c cert_env \<Rightarrow> bool \<Rightarrow> issue_request list \<Rightarrow> provider_config gomap \<Rightarrow> 'c cert_world \<Rightarrow>
    go_error option \<times> 'c cert_world" where
  "syncCertificateRequests env force reqs providers w =
     (let (errs, w') = sync_requests env force providers reqs w in (errors_Join errs, w'))"

definition filterDeployTargets :: "string list \<Rightarrow> string \<Rightarrow> string list" where
  "filterDeployTargets targets targetName0 =
     (let targetName = TrimSpace targetName0
      in if targetName = [] then targets else filter (\<lambda>t. t = targetName) targets)"

fun deploy_bundles :: "'c cert_env \<Rightarrow> string \<Rightarrow> certificate_bundle list \<Rightarrow> 'c cert_world \<Rightarrow> go_error list \<times> 'c cert_world" where
  "deploy_bundles env targetName [] w = ([], w)"
| "deploy_bundles env targetName (b # bs) w =
     (let targetNames = (if targetName \<noteq> [] then [targetName] else filterDeployTargets (cb_DeployTargets b) targetName)
      in if targetNames = [] then deploy_bundles env targetName bs w
         else
           (let (err, w1) = server_deployBundle env b targetNames w;
                (errs, w2) = deploy_bundles env targetName bs w1
            in (map (Wrapf ''deploy bundle %q: %w'' [cb_Name b]) (opt_to_list err) @ errs, w2)))"

definition deployStoredBundles :: "'c cert_env \<Rightarrow> certificate_bundle list \<Rightarrow> string \<Rightarrow> 'c cert_world \<Rightarrow> go_error option \<times> 'c cert_world" where
  "deployStoredBundles env bundles targetName w =
     (let (errs, w') = deploy_bundles env targetName bundles w in (errors_Join errs, w'))"

section \<open>What an action applies to\<close>

definition selectedZones :: "managed_zone list \<Rightarrow> string \<Rightarrow> managed_zone list result" where
  "selectedZones zones domain0 =
     (let domain = TrimSpace domain0
      in if domain = [] then Inr zones
         else (case find (\<lambda>z. z_Name z = domain \<or> z_Domain z = domain) zones of
                 Some z \<Rightarrow> Inr [z]
               | None \<Rightarrow> Inl (Errorf ''domain %q not found'' [domain])))"

fun zone_requests :: "managed_zone list \<Rightarrow> issue_request list \<times> go_error list" where
  "zone_requests [] = ([], [])"
| "zone_requests (z # zs) =
     (let (reqs, errs) = zone_requests zs
      in if \<not> cp_Enabled (z_Certificate z) then (reqs, errs)
         else (case BuildRequests z of Inl e \<Rightarrow> (reqs, e # errs) | Inr rs \<Rightarrow> (rs @ reqs, errs)))"

definition buildCertificateRequests :: "managed_zone list \<Rightarrow> issue_request list \<times> go_error option" where
  "buildCertificateRequests zones =
     (let (reqs, errs) = zone_requests zones in (sort_slice iq_BundleName reqs, errors_Join errs))"

definition selectedCertificateRequests :: "managed_zone list \<Rightarrow> string \<Rightarrow> string \<Rightarrow> issue_request list result" where
  "selectedCertificateRequests zones0 domain bundleName0 =
     (case selectedZones zones0 domain of
        Inl e \<Rightarrow> Inl e
      | Inr zones \<Rightarrow>
          (case buildCertificateRequests zones of
             (_, Some e) \<Rightarrow> Inl e
           | (requests, None) \<Rightarrow>
               (let bundleName = TrimSpace bundleName0
                in if bundleName = [] then Inr requests
                   else
                     (let chosen = filter (\<lambda>r. iq_BundleName r = bundleName) requests
                      in if chosen \<noteq> [] then Inr chosen else Inl (Errorf ''bundle %q not found'' [bundleName])))))"

definition selectedStoredBundles :: "certificate_bundle list \<Rightarrow> string \<Rightarrow> string \<Rightarrow> certificate_bundle list result" where
  "selectedStoredBundles bundles domain0 bundleName0 =
     (let domain = TrimSpace domain0; bundleName = TrimSpace bundleName0;
          chosen = filter (\<lambda>b. \<not> (domain \<noteq> [] \<and> cb_Zone b \<noteq> domain) \<and> \<not> (bundleName \<noteq> [] \<and> cb_Name b \<noteq> bundleName)) bundles
      in if bundleName \<noteq> [] \<and> chosen = [] then Inl (Errorf ''bundle %q not found'' [bundleName])
         else if domain \<noteq> [] \<and> bundleName = [] \<and> chosen = [] then
           Inl (Errorf ''domain %q has no certificate bundles'' [domain])
         else Inr chosen)"

text \<open>\<open>selectedDeployTarget\<close>: \<open>None\<close> stands for the zero target.\<close>

definition selectedDeployTarget :: "deploy_target list \<Rightarrow> string \<Rightarrow> deploy_target option result" where
  "selectedDeployTarget targets targetName0 =
     (let targetName = TrimSpace targetName0
      in if targetName = [] then Inr None
         else (case find (\<lambda>t. dt_Name t = targetName) targets of
                 Some t \<Rightarrow> Inr (Some t)
               | None \<Rightarrow> Inl (Errorf ''deploy target %q not found'' [targetName])))"

record action_request =
  ar_Source :: string
  ar_Domain :: string
  ar_Bundle :: string
  ar_Target :: string

text \<open>\<open>recordJob\<close> and \<open>recordActionJob\<close>: the outcome of an action is appended to the history.\<close>

definition job_record :: "string \<Rightarrow> time \<times> time \<Rightarrow> go_error option \<Rightarrow> job_run" where
  "job_record name at err = \<lparr>jr_Name = name, jr_Status = (if err = None then ''success'' else ''failed''), jr_Message = err,
     jr_StartedAt = fst at, jr_FinishedAt = snd at\<rparr>"

definition recordJob :: "string \<Rightarrow> time \<times> time \<Rightarrow> (memory_store \<Rightarrow> go_error option \<times> memory_store) \<Rightarrow> memory_store \<Rightarrow>
    go_error option \<times> memory_store" where
  "recordJob name at action store =
     (let (err, store') = action store
      in (errors_Join (opt_to_list err), AppendJobRun (job_record name at err) store'))"

definition startAsyncTask :: "string \<Rightarrow> time \<times> time \<Rightarrow> (memory_store \<Rightarrow> go_error option \<times> memory_store) \<Rightarrow> memory_store \<Rightarrow> memory_store" where
  "startAsyncTask name at run store =
     (let (err, store') = run store
      in if (case err of Some e \<Rightarrow> errors_Is e ErrCanceled | None \<Rightarrow> False) then store'
         else AppendJobRun (job_record name at err) store')"

text \<open>The manual actions; \<open>RequestError\<close> is \<open>platformapi.BadRequest\<close>.\<close>

definition manualRenewCertificates :: "'c cert_env \<Rightarrow> provider_config gomap \<Rightarrow> action_request \<Rightarrow> 'c cert_world \<Rightarrow>
    go_error option \<times> 'c cert_world" where
  "manualRenewCertificates env refs req w =
     (if ar_Target req \<noteq> [] then
        (Some (RequestError (Errorf ''target scope is not supported for certificate renew'' [])), w)
      else
        (case selectedCertificateRequests (ListDomains (cw_store w)) (ar_Domain req) (ar_Bundle req) of
           Inl e \<Rightarrow> (Some (RequestError e), w)
         | Inr requests \<Rightarrow> syncCertificateRequests env True requests refs w))"

definition manualDeployCertificates :: "'c cert_env \<Rightarrow> action_request \<Rightarrow> 'c cert_world \<Rightarrow> go_error option \<times> 'c cert_world" where
  "manualDeployCertificates env req w =
     (case selectedStoredBundles (CurrentCertificateBundles (ListDomains (cw_store w)) (ListBundles (cw_store w)))
             (ar_Domain req) (ar_Bundle req) of
        Inl e \<Rightarrow> (Some (RequestError e), w)
      | Inr bundles \<Rightarrow>
          (case selectedDeployTarget (ListDeployTargets (cw_store w)) (ar_Target req) of
             Inl e \<Rightarrow> (Some (RequestError e), w)
           | Inr _ \<Rightarrow> deployStoredBundles env bundles (ar_Target req) w))"

definition manualSyncDDNS :: "ddns_service option \<Rightarrow> time \<Rightarrow> action_request \<Rightarrow> memory_store \<Rightarrow> ddns_world \<Rightarrow>
    go_error option \<times> ddns_world" where
  "manualSyncDDNS sv now req store w =
     (case selectedZones (ListDomains store) (ar_Domain req) of
        Inl e \<Rightarrow> (Some (RequestError e), w)
      | Inr zones \<Rightarrow> syncDDNS sv now zones w)"

definition manualRefreshRoutes :: "os_env \<Rightarrow> nat_lib \<Rightarrow> (go_error \<Rightarrow> string) \<Rightarrow> route_discoverer list \<Rightarrow> pool option \<Rightarrow>
    action_request \<Rightarrow> memory_store \<times> route_table \<Rightarrow> go_error option \<times> memory_store \<times> route_table" where
  "manualRefreshRoutes os lib err_text ds p req st =
     (case selectedDiscoverers os ds (ar_Source req) of
        Inl e \<Rightarrow> (Some (RequestError e), st)
      | Inr _ \<Rightarrow> refreshRoutesWithDiscoverers os lib err_text (ar_Source req) ds p st)"

definition registerJobs :: "scheduler \<Rightarrow> scheduler" where
  "registerJobs s =
     (let s1 = snd (Every ''routes.refresh'' (60 * 1000000000) s);
          s2 = snd (Every ''agents.refresh'' (60 * 1000000000) s1);
          s3 = snd (Every ''ddns.sync'' (5 * 60 * 1000000000) s2)
      in snd (Every ''certificates.sync'' (12 * 3600 * 1000000000) s3))"

section \<open>Seeding the store\<close>

definition normalizeRuntimes :: "os_env \<Rightarrow> runtime_source \<Rightarrow> runtime_source list" where
  "normalizeRuntimes os source =
     (if RuntimeOrDefault os source = [] \<and> TrimSpace (rs_Endpoint source) = [] then [] else [Normalized os source])"

fun configured_names :: "managed_zone list \<Rightarrow> string list \<times> go_error list" where
  "configured_names [] = ([], [])"
| "configured_names (z # zs) =
     (let (names, errs) = configured_names zs
      in if \<not> cp_Enabled (z_Certificate z) then (names, errs)
         else (case CertificatePlans z of Inl e \<Rightarrow> (names, e # errs) | Inr plans \<Rightarrow> (map pl_Name plans @ names, errs)))"

definition configuredBundleNames :: "managed_zone list \<Rightarrow> string list \<times> go_error option" where
  "configuredBundleNames zones = (let (names, errs) = configured_names zones in (names, errors_Join errs))"

definition pruneUnmanagedBundles :: "memory_store \<Rightarrow> go_error option \<times> memory_store" where
  "pruneUnmanagedBundles store =
     (case configuredBundleNames (ListDomains store) of
        (_, Some e) \<Rightarrow> (Some e, store)
      | (managedNames, None) \<Rightarrow>
          (None, fold (\<lambda>b s. if cb_Name b \<in> set managedNames then s else DeleteBundle (cb_Name b) s) (ListBundles store) store))"

definition seedConfigState :: "os_env \<Rightarrow> config \<Rightarrow> memory_store \<Rightarrow> go_error option \<times> memory_store" where
  "seedConfigState os cfg store =
     (let s1 = ReplaceDomains (c_Zones cfg) store;
          s2 = ReplaceRuntimes os (normalizeRuntimes os (sc_Runtime (c_Server cfg))) s1;
          s3 = ReplaceDDNSProviders (c_DDNSProviders cfg) s2;
          s4 = ReplaceCustomApps (c_Apps cfg) s3;
          s5 = ReplaceAgents (c_Agents cfg) s4;
          s6 = ReplaceDeployTargets (c_DeployTargets cfg) s5
      in pruneUnmanagedBundles s6)"

section \<open>Authentication\<close>

text \<open>\<open>withBasicAuth\<close>: the handler, or \<open>None\<close> for the answer 401. The credentials are those of the request.\<close>

definition withBasicAuth :: "('r \<Rightarrow> string) \<Rightarrow> ('r \<Rightarrow> (string \<times> string) option) \<Rightarrow> auth_config \<Rightarrow> ('r \<Rightarrow> 'a) \<Rightarrow> 'r \<Rightarrow> 'a option" where
  "withBasicAuth path basicAuth cfg handler req =
     (if \<not> AuthConfig_Enabled cfg then Some (handler req)
      else if path req = ''/health'' then Some (handler req)
      else
        (case basicAuth req of
           None \<Rightarrow> None
         | Some (username, password) \<Rightarrow>
             if username \<noteq> au_Username cfg \<or> password \<noteq> au_Password cfg then None else Some (handler req)))"

section \<open>Facts about seeding\<close>

text \<open>A configuration as it is loaded: accepted by the validation, with the defaults filled in.\<close>

definition config_loaded :: "os_env \<Rightarrow> config \<Rightarrow> bool" where
  "config_loaded os cfg \<longleftrightarrow> Config_Validate os cfg = (None, cfg)"

lemma config_loaded_zones:
  assumes "config_loaded os cfg" and "z \<in> set (c_Zones cfg)"
  shows "config_ok os cfg \<and> zone_ok z \<and> validated_zone z = z"
proof -
  have ok: "config_ok os cfg" using assms(1) Config_Validate_accepts [of os cfg] by (simp add: config_loaded_def)
  have "map validated_zone (c_Zones cfg) = c_Zones cfg"
    using assms(1) Config_Validate_zones [of os cfg] by (simp add: config_loaded_def) (metis config.select_convs(8) config.surjective config.update_convs(8))
  with assms(2) have "validated_zone z = z" by (metis map_idI map_eq_conv list.map_id0 id_apply)
  with ok assms(2) validated_zone_idem [of z] show ?thesis
    using ManagedZone_Validate_ok [of z z] by (simp add: config_ok_def)
qed

lemma configured_names_spec:
  assumes "\<forall>z \<in> set zones. cp_Enabled (z_Certificate z) \<longrightarrow> \<not> isl (CertificatePlans z)"
  shows "snd (configured_names zones) = []
    \<and> set (fst (configured_names zones)) = {n. \<exists>z \<in> set zones. \<exists>plans. cp_Enabled (z_Certificate z) \<and> CertificatePlans z = Inr plans \<and> n \<in> pl_Name ` set plans}"
  using assms
  by (induction zones) (auto simp: case_prod_unfold Let_def split: sum.splits)

abbreviation prune_bundle :: "string set \<Rightarrow> certificate_bundle \<Rightarrow> memory_store \<Rightarrow> memory_store" where
  "prune_bundle N \<equiv> \<lambda>b s. if cb_Name b \<in> N then s else DeleteBundle (cb_Name b) s"

lemma fold_prune_frame: "\<exists>m. fold (prune_bundle N) bs s = s\<lparr>ms_bundles := m\<rparr>"
proof (induction bs arbitrary: s)
  case Nil
  show ?case by (intro exI [of _ "ms_bundles s"]) simp
next
  case (Cons b bs)
  from Cons.IH [of "prune_bundle N b s"] show ?case by (auto simp: DeleteBundle_def split: if_splits)
qed

lemma fold_prune:
  assumes "store_ok os s"
  shows "set (ListBundles (fold (prune_bundle N) bs s))
      = {b \<in> set (ListBundles s). cb_Name b \<in> N \<or> cb_Name b \<notin> cb_Name ` set bs}"
  using assms
proof (induction bs arbitrary: s)
  case (Cons b bs)
  show ?case
  proof (cases "cb_Name b \<in> N")
    case True
    with Cons.IH [OF Cons.prems] show ?thesis by auto
  next
    case False
    have "store_ok os (DeleteBundle (cb_Name b) s)" using Cons.prems by (rule st_bundles.inv_del)
    from Cons.IH [OF this] have "set (ListBundles (fold (prune_bundle N) (b # bs) s))
        = {c \<in> {u \<in> set (ListBundles s). cb_Name u \<noteq> cb_Name b}. cb_Name c \<in> N \<or> cb_Name c \<notin> cb_Name ` set bs}"
      using False st_bundles.listing_del [OF Cons.prems, of "cb_Name b"] by simp
    also have "\<dots> = {c \<in> set (ListBundles s). cb_Name c \<in> N \<or> cb_Name c \<notin> cb_Name ` set (b # bs)}"
      using False by auto
    finally show ?thesis .
  qed
qed simp

lemma listings_frame [simp]:
  "ListDomains (s\<lparr>ms_bundles := m\<rparr>) = ListDomains s" "ListCustomApps (s\<lparr>ms_bundles := m\<rparr>) = ListCustomApps s"
  "ListDDNSProviders (s\<lparr>ms_bundles := m\<rparr>) = ListDDNSProviders s" "ListAgents (s\<lparr>ms_bundles := m\<rparr>) = ListAgents s"
  "ListDeployTargets (s\<lparr>ms_bundles := m\<rparr>) = ListDeployTargets s" "ListRoutes (s\<lparr>ms_bundles := m\<rparr>) = ListRoutes s"
  by (simp_all add: ListDomains_def ListCustomApps_def ListDDNSProviders_def ListAgents_def ListDeployTargets_def ListRoutes_def)

text \<open>The store after the six replacements.\<close>

lemma seeded_store:
  assumes ok: "store_ok os s" and cfg: "config_loaded os cfg"
  defines "s6 \<equiv> ReplaceDeployTargets (c_DeployTargets cfg) (ReplaceAgents (c_Agents cfg) (ReplaceCustomApps (c_Apps cfg)
     (ReplaceDDNSProviders (c_DDNSProviders cfg) (ReplaceRuntimes os (normalizeRuntimes os (sc_Runtime (c_Server cfg)))
     (ReplaceDomains (c_Zones cfg) s)))))"
  shows "store_ok os s6 \<and> mset (ListDomains s6) = mset (c_Zones cfg) \<and> mset (ListCustomApps s6) = mset (c_Apps cfg)
    \<and> mset (ListDDNSProviders s6) = mset (c_DDNSProviders cfg) \<and> mset (ListAgents s6) = mset (c_Agents cfg)
    \<and> mset (ListDeployTargets s6) = mset (c_DeployTargets cfg) \<and> ListBundles s6 = ListBundles s \<and> ListRoutes s6 = ListRoutes s"
proof -
  have c: "config_ok os cfg" using cfg Config_Validate_accepts [of os cfg] by (simp add: config_loaded_def)
  have dk: "map domain_key (c_Zones cfg) = map z_Domain (c_Zones cfg)"
    using config_loaded_zones [OF cfg] by (auto simp: domain_key_def zone_ok_def)
  have d: "distinct (map domain_key (c_Zones cfg))" "distinct (map app_Name (c_Apps cfg))"
    "distinct (map pc_Ref (c_DDNSProviders cfg))" "distinct (map ag_Name (c_Agents cfg))" "distinct (map dt_Name (c_DeployTargets cfg))"
    unfolding dk using c by (simp_all add: config_ok_def)
  have l: "ListDomains s6 = ListDomains (ReplaceDomains (c_Zones cfg) s)" "ListCustomApps s6 = ListCustomApps (ReplaceCustomApps (c_Apps cfg) s)"
    "ListDDNSProviders s6 = ListDDNSProviders (ReplaceDDNSProviders (c_DDNSProviders cfg) s)"
    "ListAgents s6 = ListAgents (ReplaceAgents (c_Agents cfg) s)"
    "ListDeployTargets s6 = ListDeployTargets (ReplaceDeployTargets (c_DeployTargets cfg) s)"
    "ListBundles s6 = ListBundles s" "ListRoutes s6 = ListRoutes s"
    by (simp_all add: s6_def store_defs)
  have "store_ok os s6" using ok by (simp add: s6_def store_ok_def store_defs)
  then show ?thesis
    unfolding l using st_domains_all.listing_replace [OF ok d(1)] st_apps_all.listing_replace [OF ok d(2)]
      st_providers_all.listing_replace [OF ok d(3)] st_agents_all.listing_replace [OF ok d(4)]
      st_targets_all.listing_replace [OF ok d(5)] by simp
qed

lemma seedConfigState_spec:
  assumes ok: "store_ok os s" and "config_loaded os cfg" and "seedConfigState os cfg s = (err, s')"
  shows "err = None \<and> mset (ListDomains s') = mset (c_Zones cfg) \<and> mset (ListCustomApps s') = mset (c_Apps cfg)
    \<and> mset (ListDDNSProviders s') = mset (c_DDNSProviders cfg) \<and> mset (ListAgents s') = mset (c_Agents cfg)
    \<and> mset (ListDeployTargets s') = mset (c_DeployTargets cfg) \<and> ListRoutes s' = ListRoutes s
    \<and> set (ListBundles s') = {b \<in> set (ListBundles s). \<exists>z \<in> set (c_Zones cfg). \<exists>plans.
         cp_Enabled (z_Certificate z) \<and> CertificatePlans z = Inr plans \<and> cb_Name b \<in> pl_Name ` set plans}"
proof -
  define s6 where "s6 = ReplaceDeployTargets (c_DeployTargets cfg) (ReplaceAgents (c_Agents cfg) (ReplaceCustomApps (c_Apps cfg)
     (ReplaceDDNSProviders (c_DDNSProviders cfg) (ReplaceRuntimes os (normalizeRuntimes os (sc_Runtime (c_Server cfg)))
     (ReplaceDomains (c_Zones cfg) s)))))"
  note s6 = seeded_store [OF ok assms(2), folded s6_def]
  then have zs: "set (ListDomains s6) = set (c_Zones cfg)" by (metis set_mset_mset)
  have "\<forall>z \<in> set (ListDomains s6). cp_Enabled (z_Certificate z) \<longrightarrow> \<not> isl (CertificatePlans z)"
    unfolding zs using config_loaded_zones [OF assms(2)] by (auto simp: zone_ok_def)
  note names = configured_names_spec [OF this, unfolded zs]
  let ?N = "set (fst (configured_names (ListDomains s6)))"
  have e: "err = None" and s': "s' = fold (prune_bundle ?N) (ListBundles s6) s6"
    using assms(3) names by (simp_all add: seedConfigState_def pruneUnmanagedBundles_def configuredBundleNames_def
        case_prod_unfold Let_def flip: s6_def)
  obtain m where m: "s' = s6\<lparr>ms_bundles := m\<rparr>" using fold_prune_frame [of ?N "ListBundles s6" s6] s' by auto
  have "set (ListBundles s') = {b \<in> set (ListBundles s). cb_Name b \<in> ?N}"
    unfolding s' using s6 fold_prune [of os s6 ?N "ListBundles s6"] by auto
  with names e s6 show ?thesis by (simp add: m)
qed

lemma zone_requests_ok:
  assumes "\<forall>z \<in> set zones. zone_ok z"
  shows "snd (zone_requests zones) = []"
  using assms
proof (induction zones)
  case (Cons z zones)
  then have "ManagedZone_Validate z = (None, z)" "cp_Enabled (z_Certificate z) \<Longrightarrow> \<not> isl (CertificatePlans z)"
    using zone_ok_Validate [of z] by (auto simp: zone_ok_def)
  with Cons show ?case by (auto simp: case_prod_unfold Let_def BuildRequests_def split: sum.splits)
qed simp

section \<open>Facts about providers\<close>

lemma validated_updater:
  assumes "registry_Exists builtins ty" and "ValidateUpdater builtins ty opts = None"
  shows "\<exists>u. registry_New builtins ty opts = Inr u"
proof -
  from assms(1) consider "ty = ''cloudflare''" | "ty = ''alidns''" | "ty = ''godaddy''" | "ty = ''spaceship''"
    by (auto simp: builtins_Exists)
  then show ?thesis
    using assms(2)
    by cases (auto simp: ValidateUpdater_def registry_New_def call_factory_def builtins_def builtin_definition_def
        validateCloudflareConfig_def validateAliDNSConfig_def validateGoDaddyConfig_def validateSpaceshipConfig_def
        validateProviderOptions_None NewCloudflare_def NewAliDNS_def NewGoDaddy_def NewSpaceship_def Let_def)
qed

lemma init_providers_ok:
  assumes "\<forall>p \<in> set ps. provider_ok p"
  shows "\<exists>sv' refs'. init_providers builtins ps (sv, refs) = Inr (sv', refs')
    \<and> sv_detect sv' = sv_detect sv
    \<and> (\<forall>r. (\<exists>u. gm_get (sv_Providers sv') r = Some u) \<longleftrightarrow> (\<exists>u. gm_get (sv_Providers sv) r = Some u) \<or> r \<in> pc_Ref ` set ps)
    \<and> (\<forall>r. (\<exists>p. gm_get refs' r = Some p) \<longleftrightarrow> (\<exists>p. gm_get refs r = Some p) \<or> r \<in> pc_Ref ` set ps)"
  using assms
proof (induction ps arbitrary: sv refs)
  case (Cons p ps)
  then have p: "registry_Exists builtins (pc_Type p)" "ValidateUpdater builtins (pc_Type p) (pc_Options p) = None"
    by (simp_all add: provider_ok_def)
  from validated_updater [OF this] obtain u where u: "registry_New builtins (pc_Type p) (pc_Options p) = Inr u" by blast
  let ?sv = "ddns_Register (pc_Ref p) u sv" and ?refs = "gm_put (pc_Ref p) p refs"
  from Cons.IH [of ?sv ?refs] Cons.prems obtain sv' refs' where
    r: "init_providers builtins ps (?sv, ?refs) = Inr (sv', refs')" "sv_detect sv' = sv_detect ?sv"
      "\<forall>r. (\<exists>u. gm_get (sv_Providers sv') r = Some u) \<longleftrightarrow> (\<exists>u. gm_get (sv_Providers ?sv) r = Some u) \<or> r \<in> pc_Ref ` set ps"
      "\<forall>r. (\<exists>p. gm_get refs' r = Some p) \<longleftrightarrow> (\<exists>p. gm_get ?refs r = Some p) \<or> r \<in> pc_Ref ` set ps" by auto
  have "init_providers builtins (p # ps) (sv, refs) = Inr (sv', refs')" using p(1) u r(1) by (simp add: Let_def)
  moreover have "sv_detect sv' = sv_detect sv" using r(2) by (simp add: ddns_Register_def)
  ultimately show ?case using r(3,4) by (auto simp: ddns_Register_def update_conv')
qed simp

lemma initDDNS_loaded:
  assumes "config_loaded os cfg"
  shows "\<exists>reg sv refs. initDDNS env cfg = Inr (reg, sv, refs)
    \<and> (\<forall>z \<in> set (c_Zones cfg). \<forall>ref \<in> set (dz_ProviderRefs (z_DDNS z)). \<exists>u. gm_get (sv_Providers sv) ref = Some u)
    \<and> (\<forall>z \<in> set (c_Zones cfg). cp_Enabled (z_Certificate z) \<longrightarrow> (\<exists>p. gm_get refs (cp_DNSProvider (z_Certificate z)) = Some p))"
proof -
  have ok: "config_ok os cfg" using assms Config_Validate_accepts [of os cfg] by (simp add: config_loaded_def)
  let ?sv = "NewDDNSService env (PublicIPConfig_Detector (sc_PublicIP (c_Server cfg)))" and ?refs = "pc_Ref ` set (c_DDNSProviders cfg)"
  have "\<forall>p \<in> set (c_DDNSProviders cfg). provider_ok p" using ok by (simp add: config_ok_def)
  from init_providers_ok [OF this, of ?sv "[]"] obtain sv refs where
    r: "init_providers builtins (c_DDNSProviders cfg) (?sv, []) = Inr (sv, refs)"
      "\<And>r. r \<in> ?refs \<Longrightarrow> \<exists>u. gm_get (sv_Providers sv) r = Some u" "\<And>r. r \<in> ?refs \<Longrightarrow> \<exists>p. gm_get refs r = Some p"
    by metis
  have "zone_refs_ok ?refs (dt_Name ` set (c_DeployTargets cfg)) z" if "z \<in> set (c_Zones cfg)" for z
  proof -
    have "zone_refs_ok ?refs (dt_Name ` set (c_DeployTargets cfg)) (validated_zone z)"
      using ok that unfolding config_ok_def by blast
    then show ?thesis using config_loaded_zones [OF assms that] by simp
  qed
  then have refs: "set (dz_ProviderRefs (z_DDNS z)) \<subseteq> ?refs" "cp_Enabled (z_Certificate z) \<Longrightarrow> cp_DNSProvider (z_Certificate z) \<in> ?refs"
    if "z \<in> set (c_Zones cfg)" for z
    using that by (auto simp: zone_refs_ok_def)
  have "initDDNS env cfg = Inr (builtins, sv, refs)" by (simp add: initDDNS_def builtin_registry_eq r(1))
  moreover have "\<forall>z \<in> set (c_Zones cfg). \<forall>ref \<in> set (dz_ProviderRefs (z_DDNS z)). \<exists>u. gm_get (sv_Providers sv) ref = Some u"
    by (intro ballI r(2) subsetD [OF refs(1)])
  moreover have "\<forall>z \<in> set (c_Zones cfg). cp_Enabled (z_Certificate z) \<longrightarrow> (\<exists>p. gm_get refs (cp_DNSProvider (z_Certificate z)) = Some p)"
    by (intro ballI impI r(3) refs(2))
  ultimately show ?thesis by blast
qed

section \<open>Facts about the scheduler\<close>

definition intervals_ok :: "scheduler \<Rightarrow> bool" where
  "intervals_ok s \<longleftrightarrow> (\<forall>n j. gm_get (sc_jobs s) n = Some j \<longrightarrow> sj_interval j > 0) \<and> (\<forall>t \<in> set (sc_threads s). go_pc t \<noteq> Panicked)"

lemma job_step_interval:
  "job_step et now ev (t, j) = Some (t', j') \<Longrightarrow> sj_interval j > 0 \<Longrightarrow> go_pc t \<noteq> Panicked \<Longrightarrow>
     sj_interval j' = sj_interval j \<and> go_pc t' \<noteq> Panicked"
  by (cases "go_pc t"; cases ev) (auto split: option.splits if_splits)

lemma intervals_ok_step:
  assumes "sched_step s s'" and "map fst (sc_jobs s') = map fst (sc_jobs s)" and "intervals_ok s"
  shows "intervals_ok s'"
  using assms(1)
proof (cases rule: sched_step.cases)
  case (every name interval e)
  show ?thesis
  proof (cases "gm_get (sc_jobs s) name")
    case None
    then have "name \<notin> set (map fst (sc_jobs s))" by (simp add: map_of_eq_None_iff)
    moreover have "gm_get (sc_jobs s') name \<noteq> None"
      using every None by (auto simp: Every_def startJobLocked_def update_conv' Let_def split: if_splits)
    then have "name \<in> set (map fst (sc_jobs s'))" by (simp add: map_of_eq_None_iff)
    ultimately show ?thesis using assms(2) by metis
  next
    case (Some j)
    then show ?thesis using every assms(3) by (simp add: Every_def)
  qed
next
  case start
  have f: "set (map fst (sc_jobs s)) \<subseteq> fst ` set (sc_jobs (s\<lparr>sc_started := True\<rparr>))" by simp
  from fold_startJobLocked [OF f] assms(3) start show ?thesis
    by (auto simp: Start_def intervals_ok_def)
next
  case stop
  then show ?thesis using assms(3) by (auto simp: Stop_def intervals_ok_def cancel_all_def map_of_map)
next
  case parent_done
  then show ?thesis using assms(3) by (auto simp: intervals_ok_def cancel_all_def)
next
  case (thread et now i ev)
  then obtain j t' j' where i: "i < length (sc_threads s)" and j: "gm_get (sc_jobs s) (go_job (sc_threads s ! i)) = Some j"
    and st: "job_step et now ev (sc_threads s ! i, j) = Some (t', j')"
    and s': "s' = s\<lparr>sc_threads := (sc_threads s)[i := t'], sc_jobs := gm_put (go_job (sc_threads s ! i)) j' (sc_jobs s)\<rparr>"
    by (auto simp: thread_step_def Let_def split: if_splits option.splits)
  have "sj_interval j' = sj_interval j \<and> go_pc t' \<noteq> Panicked"
    using assms(3) i j by (intro job_step_interval [OF st]) (auto simp: intervals_ok_def)
  with assms(3) j show ?thesis
    by (auto simp: s' intervals_ok_def update_conv' split: if_splits dest!: set_update_subset_insert [THEN subsetD])
qed

lemma registered_intervals: "intervals_ok (registerJobs NewScheduler)"
  by (simp add: intervals_ok_def registerJobs_def Every_def NewScheduler_def Let_def)

section \<open>Facts about served certificates\<close>

lemma tls_Set_keeps:
  "(\<exists>c. gm_get (ts_exact s) h = Some c) \<Longrightarrow> \<exists>c. gm_get (ts_exact (tls_Set d c' s)) h = Some c"
  by (auto simp: tls_Set_def Let_def update_conv')

lemma load_pairs_keep:
  "(\<exists>c. gm_get (ts_exact s) h = Some c) \<Longrightarrow> \<exists>c. gm_get (ts_exact (snd (load_pairs io pair fs b ds s))) h = Some c"
  by (induction ds arbitrary: s)
    (auto simp: case_prod_unfold Let_def tls_LoadPair_def tls_Set_keeps split: sum.splits)

lemma load_pairs_loaded:
  assumes "load_pairs io pair fs b ds s = ([], s')" and "d \<in> set ds" and "\<not> HasPrefix (ToLower (TrimSpace d)) ''*.''"
  shows "\<exists>c. gm_get (ts_exact s') (ToLower (TrimSpace d)) = Some c"
  using assms
proof (induction ds arbitrary: s)
  case (Cons x ds)
  let ?l = "tls_LoadPair io pair fs x (cb_CertPath b) (cb_KeyPath b) s"
  from Cons.prems(1) have none: "fst ?l = None" and rest: "load_pairs io pair fs b ds (snd ?l) = ([], s')"
    by (auto simp: case_prod_unfold Let_def prod_eq_iff)
  show ?case
  proof (cases "d \<in> set ds")
    case True
    with Cons.IH [OF rest _ Cons.prems(3)] show ?thesis by blast
  next
    case False
    with Cons.prems(2) have "x = d" by simp
    moreover from none obtain c where "snd ?l = tls_Set x c s" by (auto simp: tls_LoadPair_def split: sum.splits)
    ultimately have "\<exists>c. gm_get (ts_exact (snd ?l)) (ToLower (TrimSpace d)) = Some c"
      using Cons.prems(3) by (auto simp: tls_Set_def Let_def)
    from load_pairs_keep [OF this, of io pair fs b ds] rest show ?thesis by simp
  qed
qed simp

lemma obtained_bundle:
  "obtainAndSave env io d n req cfg fs = (Inr b, fs') \<Longrightarrow> cb_Name b = n \<and> cb_Domains b = iq_Domains req"
  by (auto simp: obtainAndSave_def Save_def Let_def split: sum.splits option.splits prod.splits)

lemma ensured_bundle:
  assumes "EnsureCertificate env rio wio now d req cfg fs = (Inr b, fs')"
  shows "cb_Name b = iq_BundleName req \<and> cb_Domains b = iq_Domains req"
proof -
  from assms consider "obtainAndSave env wio d (iq_BundleName req) req cfg fs = (Inr b, fs')"
    | "loadBundleMetadata env rio fs (requested_bundle d req) = Inr b"
    by (auto simp: EnsureCertificate_def split: sum.splits if_splits)
  then show ?thesis
  proof cases
    case 1
    then show ?thesis by (rule obtained_bundle)
  next
    case 2
    then show ?thesis by (auto simp: loadBundleMetadata_def requested_bundle_def split: sum.splits)
  qed
qed

lemma fold_AppendDeployRun [simp]: "GetBundle (fold AppendDeployRun runs s) n = GetBundle s n"
  by (induction runs arbitrary: s) (simp_all add: GetBundle_def AppendDeployRun_def)

lemma server_deployBundle_frame:
  "server_deployBundle env b ts w = (e, w') \<Longrightarrow> GetBundle (cw_store w') n = GetBundle (cw_store w) n \<and> cw_tls w' = cw_tls w"
  by (auto simp: server_deployBundle_def case_prod_unfold Let_def)

text \<open>A request is served when its bundle is stored and its plain domains have a certificate.\<close>

definition request_served :: "issue_request \<Rightarrow> 'c cert_world \<Rightarrow> bool" where
  "request_served req w \<longleftrightarrow>
     (\<exists>b. GetBundle (cw_store w) (iq_BundleName req) = Some b \<and> cb_Domains b = iq_Domains req)
     \<and> (\<forall>d \<in> set (iq_Domains req). \<not> HasPrefix (ToLower (TrimSpace d)) ''*.'' \<longrightarrow>
          (\<exists>c. gm_get (ts_exact (cw_tls w)) (ToLower (TrimSpace d)) = Some c))"

lemma sync_request_cases:
  assumes "sync_request env force refs req w = (errs, w')"
  obtains (failed) "errs \<noteq> []" and "cw_store w' = cw_store w" and "cw_tls w' = cw_tls w"
  | (issued) b loadErrs rest where "cb_Name b = iq_BundleName req" and "cb_Domains b = iq_Domains req"
      and "\<And>n. GetBundle (cw_store w') n = (if n = iq_BundleName req then Some b else GetBundle (cw_store w) n)"
      and "\<exists>fs. load_pairs (ce_rio env) (ce_pair env) fs b (cb_Domains b) (cw_tls w) = (loadErrs, cw_tls w')" and "errs = loadErrs @ rest"
proof (cases "gm_get refs (iq_DNSProvider req)")
  case None
  with assms have "errs \<noteq> []" and "w' = w" by (auto simp: sync_request_def)
  with failed show ?thesis by simp
next
  case (Some cfg)
  let ?r = "if force then ForceRenewCertificate (ce_acme env) (ce_wio env) (ce_dataDir env) req cfg (cw_fs w)
     else EnsureCertificate (ce_acme env) (ce_rio env) (ce_wio env) (ce_now env) (ce_dataDir env) req cfg (cw_fs w)"
  obtain r fs1 where r: "?r = (r, fs1)" by fastforce
  show ?thesis
  proof (cases r)
    case (Inl e)
    with assms Some r have "errs = [e]" and "w' = w\<lparr>cw_fs := fs1\<rparr>" by (auto simp: sync_request_def simp del: if_split)
    with failed show ?thesis by simp
  next
    case (Inr b)
    have b: "cb_Name b = iq_BundleName req" "cb_Domains b = iq_Domains req"
      using r Inr by (auto simp: ForceRenewCertificate_def split: if_splits dest: obtained_bundle ensured_bundle)
    obtain loadErrs tls1 where l: "load_pairs (ce_rio env) (ce_pair env) fs1 b (cb_Domains b) (cw_tls w) = (loadErrs, tls1)" by fastforce
    let ?w1 = "w\<lparr>cw_fs := fs1, cw_store := PutBundle b (cw_store w), cw_tls := tls1\<rparr>"
    have eq: "sync_request env force refs req w =
        (if cb_DeployTargets b \<noteq> [] then (let (err, w2) = server_deployBundle env b (cb_DeployTargets b) ?w1 in (loadErrs @ opt_to_list err, w2))
         else (loadErrs, ?w1))"
      unfolding sync_request_def Some option.case r Inr prod.case sum.case l Let_def ..
    obtain e w2 where d: "server_deployBundle env b (cb_DeployTargets b) ?w1 = (e, w2)" by fastforce
    have w: "(w' = ?w1 \<or> w' = w2) \<and> (\<exists>rest. errs = loadErrs @ rest)" using assms unfolding eq d by (auto split: if_splits)
    then obtain rest where rest: "errs = loadErrs @ rest" by blast
    have "GetBundle (cw_store w') n = GetBundle (PutBundle b (cw_store w)) n" "cw_tls w' = tls1" for n
      using w server_deployBundle_frame [OF d, of n] by auto
    with b l rest show ?thesis by (intro issued [of b loadErrs rest]) (auto simp: GetBundle_def PutBundle_def update_conv')
  qed
qed

lemma sync_request_served:
  assumes "sync_request env force refs req w = ([], w')"
  shows "request_served req w'"
  using assms
proof (cases rule: sync_request_cases)
  case (issued b loadErrs rest)
  then obtain fs where "load_pairs (ce_rio env) (ce_pair env) fs b (cb_Domains b) (cw_tls w) = ([], cw_tls w')" by auto
  with issued show ?thesis by (auto simp: request_served_def dest: load_pairs_loaded)
qed simp

lemma sync_request_keeps:
  assumes "sync_request env force refs req w = (errs, w')" and "request_served r w" and "iq_BundleName r \<noteq> iq_BundleName req"
  shows "request_served r w'"
  using assms(1)
proof (cases rule: sync_request_cases)
  case failed
  with assms(2) show ?thesis by (simp add: request_served_def)
next
  case (issued b loadErrs rest)
  then obtain fs where "load_pairs (ce_rio env) (ce_pair env) fs b (cb_Domains b) (cw_tls w) = (loadErrs, cw_tls w')" by blast
  then have "(\<exists>c. gm_get (ts_exact (cw_tls w)) h = Some c) \<Longrightarrow> \<exists>c. gm_get (ts_exact (cw_tls w')) h = Some c" for h
    using load_pairs_keep [of "cw_tls w" h "ce_rio env" "ce_pair env" fs b "cb_Domains b"] by simp
  with assms(2,3) issued(3) show ?thesis by (auto simp: request_served_def)
qed

lemma sync_requests_keep:
  "sync_requests env force refs reqs w = (errs, w') \<Longrightarrow> request_served r w \<Longrightarrow> iq_BundleName r \<notin> iq_BundleName ` set reqs \<Longrightarrow>
     request_served r w'"
  by (induction reqs arbitrary: w errs) (auto simp: Let_def split: prod.splits dest: sync_request_keeps)

lemma sync_requests_served:
  assumes "sync_requests env force refs reqs w = ([], w')" and "distinct (map iq_BundleName reqs)" and "r \<in> set reqs"
  shows "request_served r w'"
  using assms
proof (induction reqs arbitrary: w)
  case (Cons x reqs)
  from Cons.prems(1) obtain w1 where x: "sync_request env force refs x w = ([], w1)" and rest: "sync_requests env force refs reqs w1 = ([], w')"
    by (auto simp: Let_def split: prod.splits)
  show ?case
  proof (cases "r \<in> set reqs")
    case True
    with Cons.IH [OF rest] Cons.prems(2) show ?thesis by simp
  next
    case False
    with Cons.prems(3) have "r = x" by simp
    with sync_requests_keep [OF rest sync_request_served [OF x]] Cons.prems(2) show ?thesis by simp
  qed
qed simp

section \<open>Facts about the runtime manager\<close>

inductive manager_step :: "runtime_manager \<Rightarrow> runtime_manager \<Rightarrow> bool" where
  replace: "manager_step m (rm_Replace new m)"
| set_ddns: "manager_step m (rm_SetDDNS sv refs m)"
| close: "manager_step m (rm_Close m)"

definition manager_ok :: "runtime_manager \<Rightarrow> bool" where
  "manager_ok m \<longleftrightarrow> rm_cancelled m @ opt_to_list (rm_watchStop m) = [0..<rm_nextCtx m]
     \<and> map snd (rm_watching m) = rm_closed m @ rm_discoverers m \<and> set (map fst (rm_watching m)) \<subseteq> {0..<rm_nextCtx m}"

lemma manager_steps_ok: "manager_step\<^sup>*\<^sup>* newRuntimeManager m \<Longrightarrow> manager_ok m"
proof (induction rule: rtranclp_induct)
  case base
  show ?case by (simp add: manager_ok_def newRuntimeManager_def)
next
  case (step m m')
  from step(2) step.IH show ?case
    by cases (auto simp: manager_ok_def rm_Replace_def rm_swap_def rm_SetDDNS_def rm_Close_def comp_def Let_def)
qed

section \<open>Properties\<close>

text \<open>
  Claim C20. Seeding installs a loaded configuration completely: it succeeds, the store then lists
  exactly the zones, apps, providers, agents and deploy targets of the configuration, keeps
  exactly those certificate bundles that a plan of an enabled zone names, and leaves the routes.
\<close>

theorem seed_installs_configuration:
  assumes "(store_step os)\<^sup>*\<^sup>* NewMemoryStore s" and "config_loaded os cfg" and "seedConfigState os cfg s = (err, s')"
  shows "err = None \<and> mset (ListDomains s') = mset (c_Zones cfg) \<and> mset (ListCustomApps s') = mset (c_Apps cfg)
    \<and> mset (ListDDNSProviders s') = mset (c_DDNSProviders cfg) \<and> mset (ListAgents s') = mset (c_Agents cfg)
    \<and> mset (ListDeployTargets s') = mset (c_DeployTargets cfg) \<and> ListRoutes s' = ListRoutes s
    \<and> set (ListBundles s') = {b \<in> set (ListBundles s). \<exists>z \<in> set (c_Zones cfg). \<exists>plans.
         cp_Enabled (z_Certificate z) \<and> CertificatePlans z = Inr plans \<and> cb_Name b \<in> pl_Name ` set plans}"
  using assms(2,3) by (intro seedConfigState_spec [OF store_steps_ok [OF assms(1)]]) simp_all

theorem seed_installs_configuration_witness:
  "\<exists>s'. seedConfigState demo_env demo_config NewMemoryStore = (None, s') \<and> mset (ListCustomApps s') = {#demo_app#}
     \<and> mset (ListDomains s') = {#demo_zone#}"
proof -
  obtain err s' where s: "seedConfigState demo_env demo_config NewMemoryStore = (err, s')" by fastforce
  have "config_loaded demo_env demo_config" by (simp add: config_loaded_def demo_config_fixed)
  from seed_installs_configuration [OF rtranclp.rtrancl_refl this s] s show ?thesis by (simp add: demo_config_def)
qed

text \<open>
  A loaded configuration starts: every provider can be built from its validated options,
  so the DDNS service is created, each provider that a zone references is registered with it,
  and the provider of every zone with certificates is known to the certificate jobs.
\<close>

theorem loaded_config_starts_ddns:
  assumes "config_loaded os cfg"
  shows "\<exists>reg sv refs. initDDNS env cfg = Inr (reg, sv, refs)
    \<and> (\<forall>z \<in> set (c_Zones cfg). \<forall>ref \<in> set (dz_ProviderRefs (z_DDNS z)). \<exists>u. gm_get (sv_Providers sv) ref = Some u)
    \<and> (\<forall>z \<in> set (c_Zones cfg). cp_Enabled (z_Certificate z) \<longrightarrow> (\<exists>p. gm_get refs (cp_DNSProvider (z_Certificate z)) = Some p))"
  using assms by (rule initDDNS_loaded)

theorem loaded_config_starts_ddns_witness:
  "\<forall>env. \<exists>reg sv refs. initDDNS env demo_config = Inr (reg, sv, refs) \<and> (\<exists>u. gm_get (sv_Providers sv) ''cf'' = Some u)"
proof
  fix env
  have "config_loaded demo_env demo_config" by (simp add: config_loaded_def demo_config_fixed)
  from loaded_config_starts_ddns [OF this, of env] show
    "\<exists>reg sv refs. initDDNS env demo_config = Inr (reg, sv, refs) \<and> (\<exists>u. gm_get (sv_Providers sv) ''cf'' = Some u)"
    by (auto simp: demo_config_def demo_zone_def)
qed

text \<open>
  Claim C23. The certificate job reaches its goal or says so: when it reports no error, every
  request has its bundle in the store with the requested domains, and every domain that is not a
  wildcard has a certificate that the TLS store serves, whatever the earlier and later requests
  of the same run did.
\<close>

theorem certificates_served_after_sync:
  assumes "syncCertificateRequests env force reqs refs w = (None, w')" and "distinct (map iq_BundleName reqs)" and "req \<in> set reqs"
  shows "(\<exists>b. GetBundle (cw_store w') (iq_BundleName req) = Some b \<and> cb_Domains b = iq_Domains req)
    \<and> (\<forall>d \<in> set (iq_Domains req). \<not> HasPrefix (ToLower (TrimSpace d)) ''*.'' \<longrightarrow>
         (\<exists>c. gm_get (ts_exact (cw_tls w')) (ToLower (TrimSpace d)) = Some c))"
proof -
  from assms(1) have "sync_requests env force refs reqs w = ([], w')"
    by (auto simp: syncCertificateRequests_def case_prod_unfold Let_def prod_eq_iff)
  from sync_requests_served [OF this assms(2,3)] show ?thesis by (simp add: request_served_def)
qed

definition demo_cert_env :: "nat cert_env" where
  "demo_cert_env = \<lparr>ce_acme = demo_acme, ce_dataDir = ''/d'', ce_rio = no_faults, ce_wio = (no_faults, no_faults), ce_now = 5,
     ce_pair = (\<lambda>_ _. Inr 1), ce_deploy = demo_deploy\<rparr>"

theorem certificates_served_after_sync_witness:
  "\<exists>w'. syncCertificateRequests demo_cert_env False [demo_request] [(''cf'', demo_cfg)]
        \<lparr>cw_fs = demo_pair ''p'' ''p'', cw_store = NewMemoryStore, cw_tls = NewTlsStore\<rparr> = (None, w')
     \<and> (\<exists>b. GetBundle (cw_store w') ''x.io'' = Some b \<and> cb_Domains b = [''x.io''])"
proof -
  let ?b = "(requested_bundle ''/d'' demo_request)\<lparr>cb_NotAfter := 1000\<rparr>"
  let ?w = "\<lparr>cw_fs = demo_pair ''p'' ''p'', cw_store = NewMemoryStore, cw_tls = NewTlsStore :: nat tls_store\<rparr>"
  have l: "loadBundleMetadata demo_acme no_faults (demo_pair ''p'' ''p'') (requested_bundle ''/d'' demo_request) = Inr ?b"
    by (rule loadBundleMetadata_stored [OF demo_pair_simps]) (simp_all add: demo_acme_def no_faults_def)
  have nr: "\<not> ShouldRenew ?b 5 (iq_RenewBefore demo_request)" by (simp add: ShouldRenew_def RenewalTime_def demo_request_def)
  have e: "EnsureCertificate demo_acme no_faults (no_faults, no_faults) 5 ''/d'' demo_request demo_cfg (demo_pair ''p'' ''p'') = (Inr ?b, demo_pair ''p'' ''p'')"
    using l nr by (simp add: EnsureCertificate_def)
  have nf: "io_ReadFile no_faults = None" by (simp add: no_faults_def)
  have p: "tls_LoadPair no_faults (\<lambda>_ _. Inr 1) (demo_pair ''p'' ''p'') d (cb_CertPath ?b) (cb_KeyPath ?b) s = (None, tls_Set d (1::nat) s)" for d s
    by (simp add: tls_LoadPair_def ReadFile_def nf demo_pair_simps)
  have b: "cb_Domains ?b = [''x.io'']" "cb_DeployTargets ?b = []" "cb_DeployTargets (requested_bundle ''/d'' demo_request) = []"
    by (simp_all add: requested_bundle_def demo_request_def)
  have pr: "iq_DNSProvider demo_request = ''cf''" by (simp add: demo_request_def)
  have env: "ce_acme demo_cert_env = demo_acme" "ce_dataDir demo_cert_env = ''/d''" "ce_rio demo_cert_env = no_faults"
    "ce_wio demo_cert_env = (no_faults, no_faults)" "ce_now demo_cert_env = 5" "ce_pair demo_cert_env = (\<lambda>_ _. Inr 1)"
    by (simp_all add: demo_cert_env_def)
  have lp: "load_pairs no_faults (\<lambda>_ _. Inr 1) (demo_pair ''p'' ''p'') ?b (cb_Domains ?b) NewTlsStore = ([], tls_Set ''x.io'' (1::nat) NewTlsStore)"
    unfolding b(1) load_pairs.simps p by simp
  obtain w1 where w1: "sync_request demo_cert_env False [(''cf'', demo_cfg)] demo_request ?w = ([], w1)"
    unfolding sync_request_def pr env map_of.simps option.case fun_upd_apply simp_thms if_True if_False fst_conv snd_conv
      cert_world.select_convs e prod.case sum.case lp Let_def b(2) by blast
  then obtain w' where w: "syncCertificateRequests demo_cert_env False [demo_request] [(''cf'', demo_cfg)] ?w = (None, w')"
    by (simp add: syncCertificateRequests_def)
  from certificates_served_after_sync [OF w, of demo_request] w show ?thesis by (auto simp: demo_request_def)
qed

text \<open>
  Claim C31. Replacing the runtime leaks nothing: after any history of replacements, DDNS updates
  and closing, every discoverer whose watcher was started is either current or closed, exactly
  once, and every watch context but the current one is cancelled; after closing, all of them.
\<close>

theorem no_watcher_leaks:
  assumes "manager_step\<^sup>*\<^sup>* newRuntimeManager m"
  shows "map snd (rm_watching m) = rm_closed m @ rm_discoverers m
    \<and> (\<forall>(ctx, d) \<in> set (rm_watching m). ctx \<in> set (rm_cancelled m) \<or> rm_watchStop m = Some ctx)
    \<and> distinct (rm_cancelled m)
    \<and> map snd (rm_watching (rm_Close m)) = rm_closed (rm_Close m)
    \<and> fst ` set (rm_watching (rm_Close m)) \<subseteq> set (rm_cancelled (rm_Close m))"
proof -
  from manager_steps_ok [OF assms] have c: "rm_cancelled m @ opt_to_list (rm_watchStop m) = [0..<rm_nextCtx m]"
    and w: "map snd (rm_watching m) = rm_closed m @ rm_discoverers m"
    and ctx: "fst ` set (rm_watching m) \<subseteq> set (rm_cancelled m @ opt_to_list (rm_watchStop m))"
    by (auto simp: manager_ok_def)
  have "distinct (rm_cancelled m @ opt_to_list (rm_watchStop m))" unfolding c by simp
  moreover have "ctx \<in> set (rm_cancelled m) \<or> rm_watchStop m = Some ctx" if "(ctx, d) \<in> set (rm_watching m)" for ctx d
  proof -
    have "ctx \<in> set (rm_cancelled m @ opt_to_list (rm_watchStop m))" using ctx that by force
    then show ?thesis by (cases "rm_watchStop m") auto
  qed
  ultimately show ?thesis using w ctx by (auto simp: rm_Close_def)
qed

theorem no_watcher_leaks_witness:
  "let new = \<lparr>pr_pool = NewPool, pr_discoverers = [demo_idle]\<rparr>
   in rm_closed (rm_Close (rm_Replace new newRuntimeManager)) = pr_discoverers new"
proof -
  let ?new = "\<lparr>pr_pool = NewPool, pr_discoverers = [demo_idle]\<rparr>"
  have "manager_step\<^sup>*\<^sup>* newRuntimeManager (rm_Replace ?new newRuntimeManager)" by (intro r_into_rtranclp manager_step.replace)
  from no_watcher_leaks [OF this] show ?thesis
    by (simp add: Let_def) (simp add: rm_Replace_def rm_swap_def rm_Close_def newRuntimeManager_def Let_def)
qed

text \<open>
  The jobs of the server cannot crash it: whatever happens after they are registered,
  short of registering more, no goroutine of the scheduler panics when its ticker is made.
\<close>

theorem server_jobs_never_panic:
  assumes "(\<lambda>s s'. sched_step s s' \<and> map fst (sc_jobs s') = map fst (sc_jobs s))\<^sup>*\<^sup>* (registerJobs NewScheduler) s"
    and "t \<in> set (sc_threads s)"
  shows "go_pc t \<noteq> Panicked"
proof -
  from assms(1) have "intervals_ok s"
    by (induction rule: rtranclp_induct) (auto intro: registered_intervals intervals_ok_step)
  with assms(2) show ?thesis by (simp add: intervals_ok_def)
qed

theorem server_jobs_never_panic_witness:
  "sc_threads (Start (registerJobs NewScheduler)) \<noteq> [] \<and> go_pc (hd (sc_threads (Start (registerJobs NewScheduler)))) \<noteq> Panicked"
proof -
  let ?s = "Start (registerJobs NewScheduler)"
  have r: "map fst (sc_jobs ?s) = map fst (sc_jobs (registerJobs NewScheduler))" "sc_threads ?s \<noteq> []"
    by (simp_all add: registerJobs_def Every_def NewScheduler_def Start_def startJobLocked_def Let_def)
  then have "(\<lambda>s s'. sched_step s s' \<and> map fst (sc_jobs s') = map fst (sc_jobs s)) (registerJobs NewScheduler) ?s"
    by (simp add: sched_step.start)
  from server_jobs_never_panic [OF r_into_rtranclp [of "\<lambda>s s'. sched_step s s' \<and> map fst (sc_jobs s') = map fst (sc_jobs s)", OF this], of "hd (sc_threads ?s)"]
  show ?thesis using r(2) by simp
qed

text \<open>
  With credentials configured, a request reaches the API only with exactly these
  credentials, the health check apart; without credentials every request does.
\<close>

theorem api_requires_credentials:
  "withBasicAuth path basicAuth cfg handler req =
     (if (au_Username cfg = [] \<and> au_Password cfg = []) \<or> path req = ''/health''
         \<or> basicAuth req = Some (au_Username cfg, au_Password cfg)
      then Some (handler req) else None)"
  by (auto simp: withBasicAuth_def AuthConfig_Enabled_def split: option.splits)

end
