(* ===== verification/Domux_Reload.thy ===== *)
theory Domux_Reload
  imports Domux_Server
begin

text \<open>
  Starting the server and reloading its configuration (\<open>runServerWithContext\<close> and
  \<open>reloadManagedConfig\<close> in \<open>cmd/domux/main.go\<close>): the components composed into one state. The
  background tasks are the names of the goroutines that were started; what they run is modelled
  in \<open>Domux_Routes\<close> and \<open>Domux_Server\<close>.
\<close>

section \<open>State\<close>

record server_state =
  ss_store :: memory_store
  ss_manager :: runtime_manager
  ss_table :: route_table
  ss_deployPool :: "pool option"
  ss_tasks :: "string list"

record server_env =
  sx_os :: os_env
  sx_lib :: nat_lib
  sx_err_text :: "go_error \<Rightarrow> string"
  sx_connect :: docker_connect
  sx_ddns :: ddns_env

section \<open>Starting\<close>

text \<open>
  \<open>runServerWithContext\<close> up to the start of the HTTP servers: the state, the certificate requests of
  the first synchronisation and the scheduler.
\<close>

definition startServer :: "server_env \<Rightarrow> config \<Rightarrow> (server_state \<times> issue_request list \<times> scheduler) result" where
  "startServer env cfg =
     (case seedConfigState (sx_os env) cfg NewMemoryStore of
        (Some e, _) \<Rightarrow> Inl e
      | (None, store1) \<Rightarrow>
          (case fst (buildRuntime (sx_os env) (sx_connect env) cfg) of
             Inl e \<Rightarrow> Inl e
           | Inr prepared \<Rightarrow>
               (let store2 = syncPoolNodesToStore (Some (pr_pool prepared)) store1
                in case initDDNS (sx_ddns env) cfg of
                     Inl e \<Rightarrow> Inl e
                   | Inr (_, sv, refs) \<Rightarrow>
                       (case buildCertificateRequests (ListDomains store2) of
                          (_, Some e) \<Rightarrow> Inl e
                        | (requests, None) \<Rightarrow>
                            Inr (\<lparr>ss_store = store2,
                                  ss_manager = rm_Replace prepared (rm_SetDDNS sv refs newRuntimeManager),
                                  ss_table = NewRouteTable, ss_deployPool = Some (pr_pool prepared),
                                  ss_tasks = [''startup.routes.local'', ''startup.agents.refresh'', ''startup.routes.full'',
                                              ''startup.ddns.sync'', ''startup.certificates.sync'']\<rparr>,
                                 requests, Start (registerJobs NewScheduler))))))"

section \<open>Reloading\<close>

text \<open>
  \<open>reloadManagedConfig\<close>; the second component of the result are the discoverers that were built and
  closed again. A warning of the route refresh is only logged.
\<close>

definition reloadManagedConfig :: "server_env \<Rightarrow> config \<Rightarrow> server_state \<Rightarrow>
    (go_error option \<times> route_discoverer list) \<times> server_state" where
  "reloadManagedConfig env cfg st =
     (case buildRuntime (sx_os env) (sx_connect env) cfg of
        (Inl e, closed) \<Rightarrow> ((Some e, closed), st)
      | (Inr new, closed) \<Rightarrow>
          (case initDDNS (sx_ddns env) cfg of
             Inl e \<Rightarrow> ((Some e, closed @ pr_discoverers new), st)
           | Inr (_, sv, refs) \<Rightarrow>
               (case seedConfigState (sx_os env) cfg (ss_store st) of
                  (Some e, store1) \<Rightarrow> ((Some e, closed @ pr_discoverers new), st\<lparr>ss_store := store1\<rparr>)
                | (None, store1) \<Rightarrow>
                    (let store2 = syncPoolNodesToStore (Some (pr_pool new)) store1;
                         manager = rm_Replace new (rm_SetDDNS sv refs (ss_manager st));
                         (_, store3, table) = refreshRoutesWithDiscoverers (sx_os env) (sx_lib env) (sx_err_text env) []
                           (startupDiscoverers (pr_discoverers new)) (Some (pr_pool new)) (store2, ss_table st)
                     in ((None, closed),
                         \<lparr>ss_store = store3, ss_manager = manager, ss_table = table, ss_deployPool = Some (pr_pool new),
                          ss_tasks = ss_tasks st @ [''startup.agents.refresh'', ''startup.routes.full'']\<rparr>)))))"

section \<open>Facts\<close>

text \<open>Of the store, the refresh and the agents of the pool change the routes, the applications and the agents only.\<close>

lemma refreshRoutes_store:
  "refreshRoutesWithDiscoverers os lib err_text source ds p (s, t) = (e, s', t') \<Longrightarrow>
     \<exists>rs aps. s' = s\<lparr>ms_routes := rs, ms_applicationList := aps\<rparr>"
proof (cases "selectedDiscoverers os ds source")
  case (Inl e')
  moreover assume "refreshRoutesWithDiscoverers os lib err_text source ds p (s, t) = (e, s', t')"
  ultimately have "s' = s\<lparr>ms_routes := ms_routes s, ms_applicationList := ms_applicationList s\<rparr>"
    by (simp add: refreshRoutesWithDiscoverers_def)
  then show ?thesis by blast
next
  case (Inr selected)
  moreover assume "refreshRoutesWithDiscoverers os lib err_text source ds p (s, t) = (e, s', t')"
  ultimately show ?thesis
    by (auto simp: refreshRoutesWithDiscoverers_def case_prod_unfold Let_def ReplaceRoutes_def ReplaceApplications_def)
qed

lemma fold_PutAgent: "\<exists>ags. fold PutAgent nodes s = s\<lparr>ms_agents := ags\<rparr>"
proof (induction nodes arbitrary: s)
  case Nil
  show ?case by (intro exI [of _ "ms_agents s"]) simp
next
  case (Cons n nodes)
  from Cons.IH [of "PutAgent n s"] show ?case by (auto simp: PutAgent_def)
qed


lemma fold_PutAgent_agents: "ms_agents (fold PutAgent nodes s) = fold (\<lambda>n. gm_put (ag_Name n) n) nodes (ms_agents s)"
  by (induction nodes arbitrary: s) (simp_all add: PutAgent_def)

text \<open>What seeding leaves in the tables depends on the configuration only, the certificate bundles apart.\<close>

lemma seedConfigState_tables:
  assumes "seedConfigState os cfg s = (None, s')"
  shows "ms_zones s' = ms_zones (ReplaceDomains (c_Zones cfg) NewMemoryStore) \<and> ms_apps s' = keyedMap app_Name (c_Apps cfg)
    \<and> ms_providers s' = keyedMap pc_Ref (c_DDNSProviders cfg) \<and> ms_agents s' = keyedMap ag_Name (c_Agents cfg)
    \<and> ms_targets s' = keyedMap dt_Name (c_DeployTargets cfg)
    \<and> ms_sources s' = ms_sources (ReplaceRuntimes os (normalizeRuntimes os (sc_Runtime (c_Server cfg))) NewMemoryStore)"
proof -
  let ?s6 = "ReplaceDeployTargets (c_DeployTargets cfg) (ReplaceAgents (c_Agents cfg) (ReplaceCustomApps (c_Apps cfg)
     (ReplaceDDNSProviders (c_DDNSProviders cfg) (ReplaceRuntimes os (normalizeRuntimes os (sc_Runtime (c_Server cfg)))
     (ReplaceDomains (c_Zones cfg) s)))))"
  from assms obtain N where "s' = fold (prune_bundle N) (ListBundles ?s6) ?s6"
    by (auto simp: seedConfigState_def pruneUnmanagedBundles_def Let_def split: prod.splits option.splits)
  with fold_prune_frame [of N "ListBundles ?s6" ?s6] obtain m where "s' = ?s6\<lparr>ms_bundles := m\<rparr>" by auto
  then show ?thesis by (simp add: store_defs)
qed

lemma remote_discoverers_closed: "remote_discoverers os conn ds cs = (Inr ds', closed) \<Longrightarrow> closed = []"
  by (induction cs arbitrary: ds) (auto split: sum.splits)

lemma buildRuntime_closed:
  assumes "buildRuntime os conn cfg = (Inr new, closed)"
  shows "closed = []"
proof -
  from assms obtain ds where "initDiscoverers os conn cfg (Some (fst (initAgentPool (c_Agents cfg) None))) = (Inr ds, closed)"
    by (auto simp: buildRuntime_def Let_def split: prod.splits sum.splits)
  then show ?thesis by (auto simp: initDiscoverers_def Let_def split: if_splits sum.splits dest: remote_discoverers_closed)
qed

text \<open>The store of a started server and of a reloaded one, after the agents of the pool were added.\<close>

lemma seeded_zones:
  assumes "store_ok os s" and "config_loaded os cfg"
  obtains s' where "seedConfigState os cfg s = (None, s')" and "set (ListDomains s') = set (c_Zones cfg)"
proof -
  obtain err s' where s: "seedConfigState os cfg s = (err, s')" by fastforce
  from seedConfigState_spec [OF assms s] s that show ?thesis by (metis set_mset_mset)
qed

lemma startServer_loaded:
  assumes "config_loaded (sx_os env) cfg"
  shows "(\<exists>s0. startServer env cfg = Inr s0) \<or> (\<exists>e. startServer env cfg = Inl e \<and> fst (buildRuntime (sx_os env) (sx_connect env) cfg) = Inl e)"
proof -
  have ok: "store_ok (sx_os env) NewMemoryStore" by simp
  from seeded_zones [OF ok assms] obtain s1 where s1: "seedConfigState (sx_os env) cfg NewMemoryStore = (None, s1)"
    and z: "set (ListDomains s1) = set (c_Zones cfg)" .
  from initDDNS_loaded [OF assms, of "sx_ddns env"] obtain reg sv refs where d: "initDDNS (sx_ddns env) cfg = Inr (reg, sv, refs)" by blast
  have "\<forall>z \<in> set (ListDomains s1). zone_ok z" unfolding z using config_loaded_zones [OF assms] by blast
  then have "snd (buildCertificateRequests (ListDomains (syncPoolNodesToStore (Some p) s1))) = None" for p
    using zone_requests_ok fold_PutAgent [of "pool_ListNodes p" s1]
    by (auto simp: buildCertificateRequests_def case_prod_unfold syncPoolNodesToStore_def ListDomains_def)
  then have "\<exists>reqs. buildCertificateRequests (ListDomains (syncPoolNodesToStore (Some p) s1)) = (reqs, None)" for p by (metis prod.collapse)
  then obtain reqs where "\<And>p. buildCertificateRequests (ListDomains (syncPoolNodesToStore (Some p) s1)) = (reqs p, None)" by metis
  then show ?thesis
    by (cases "fst (buildRuntime (sx_os env) (sx_connect env) cfg)") (simp_all add: startServer_def s1 d Let_def)
qed

text \<open>The configuration tables of two stores agree.\<close>

definition same_config_tables :: "os_env \<Rightarrow> memory_store \<Rightarrow> memory_store \<Rightarrow> bool" where
  "same_config_tables os s s' \<longleftrightarrow> ListDomains s' = ListDomains s \<and> ListCustomApps s' = ListCustomApps s
     \<and> ListDDNSProviders s' = ListDDNSProviders s \<and> ListAgents s' = ListAgents s
     \<and> ListDeployTargets s' = ListDeployTargets s \<and> ListRuntimes os s' = ListRuntimes os s"

lemma seeded_same_tables:
  assumes "seedConfigState os cfg s = (None, t)" and "seedConfigState os cfg s' = (None, t')"
  shows "same_config_tables os (syncPoolNodesToStore p t)
    ((syncPoolNodesToStore p t')\<lparr>ms_routes := rs, ms_applicationList := aps\<rparr>)"
proof (cases p)
  case None
  with seedConfigState_tables [OF assms(1)] seedConfigState_tables [OF assms(2)] show ?thesis
    by (simp add: same_config_tables_def syncPoolNodesToStore_def ListDomains_def ListCustomApps_def ListDDNSProviders_def
        ListAgents_def ListDeployTargets_def ListRuntimes_def)
next
  case (Some q)
  obtain ags ags' where f: "fold PutAgent (pool_ListNodes q) t = t\<lparr>ms_agents := ags\<rparr>"
    "fold PutAgent (pool_ListNodes q) t' = t'\<lparr>ms_agents := ags'\<rparr>" using fold_PutAgent by meson
  have "ags' = ags"
    using fold_PutAgent_agents [of "pool_ListNodes q" t] fold_PutAgent_agents [of "pool_ListNodes q" t'] f
      seedConfigState_tables [OF assms(1)] seedConfigState_tables [OF assms(2)] by simp
  with Some f seedConfigState_tables [OF assms(1)] seedConfigState_tables [OF assms(2)] show ?thesis
    by (simp add: same_config_tables_def syncPoolNodesToStore_def ListDomains_def ListCustomApps_def ListDDNSProviders_def
        ListAgents_def ListDeployTargets_def ListRuntimes_def)
qed

lemma reload_cases:
  assumes "reloadManagedConfig env cfg st = ((err, closed), st')"
  obtains (no_runtime) e where "buildRuntime (sx_os env) (sx_connect env) cfg = (Inl e, closed)" and "err = Some e" and "st' = st"
  | (no_ddns) e new where "buildRuntime (sx_os env) (sx_connect env) cfg = (Inr new, [])" and "initDDNS (sx_ddns env) cfg = Inl e"
      and "err = Some e" and "st' = st" and "closed = pr_discoverers new"
  | (no_seed) e new s1 where "buildRuntime (sx_os env) (sx_connect env) cfg = (Inr new, [])"
      and "seedConfigState (sx_os env) cfg (ss_store st) = (Some e, s1)" and "err = Some e"
  | (reloaded) new reg sv refs s1 rs aps where "buildRuntime (sx_os env) (sx_connect env) cfg = (Inr new, [])"
      and "initDDNS (sx_ddns env) cfg = Inr (reg, sv, refs)" and "seedConfigState (sx_os env) cfg (ss_store st) = (None, s1)"
      and "err = None" and "closed = []"
      and "ss_store st' = (syncPoolNodesToStore (Some (pr_pool new)) s1)\<lparr>ms_routes := rs, ms_applicationList := aps\<rparr>"
      and "ss_manager st' = rm_Replace new (rm_SetDDNS sv refs (ss_manager st))" and "ss_deployPool st' = Some (pr_pool new)"
proof -
  obtain r c where b: "buildRuntime (sx_os env) (sx_connect env) cfg = (r, c)" by fastforce
  show ?thesis
  proof (cases r)
    case (Inl e)
    with assms b no_runtime show ?thesis by (simp add: reloadManagedConfig_def)
  next
    case new: (Inr new)
    with b have c: "c = []" by (auto dest: buildRuntime_closed)
    show ?thesis
    proof (cases "initDDNS (sx_ddns env) cfg")
      case (Inl e)
      with assms b new c no_ddns show ?thesis by (simp add: reloadManagedConfig_def)
    next
      case (Inr x)
      obtain reg sv refs where x: "x = (reg, sv, refs)" by (cases x)
      obtain e s1 where s: "seedConfigState (sx_os env) cfg (ss_store st) = (e, s1)" by fastforce
      let ?r = "refreshRoutesWithDiscoverers (sx_os env) (sx_lib env) (sx_err_text env) [] (startupDiscoverers (pr_discoverers new))
        (Some (pr_pool new)) (syncPoolNodesToStore (Some (pr_pool new)) s1, ss_table st)"
      obtain w s3 t where r: "?r = (w, s3, t)" by (cases ?r)
      show ?thesis
      proof (cases e)
        case (Some e')
        with assms b new c Inr x s no_seed show ?thesis by (auto simp: reloadManagedConfig_def)
      next
        case None
        with assms b new c Inr x s r refreshRoutes_store [OF r] reloaded show ?thesis
          by (auto simp: reloadManagedConfig_def Let_def)
      qed
    qed
  qed
qed

lemma reload_installs:
  assumes "store_ok (sx_os env) (ss_store st)" and "config_loaded (sx_os env) cfg"
    and "reloadManagedConfig env cfg st = ((None, closed), st')"
  shows "mset (ListDomains (ss_store st')) = mset (c_Zones cfg) \<and> mset (ListCustomApps (ss_store st')) = mset (c_Apps cfg)
    \<and> mset (ListDDNSProviders (ss_store st')) = mset (c_DDNSProviders cfg)
    \<and> mset (ListDeployTargets (ss_store st')) = mset (c_DeployTargets cfg)"
  using assms(3)
proof (cases rule: reload_cases)
  case (reloaded new reg sv refs s1 rs aps)
  obtain ags where a: "ss_store st' = s1\<lparr>ms_agents := ags, ms_routes := rs, ms_applicationList := aps\<rparr>"
    using fold_PutAgent [of "pool_ListNodes (pr_pool new)" s1] reloaded(6) by (auto simp: syncPoolNodesToStore_def)
  have "ListDomains (ss_store st') = ListDomains s1" "ListCustomApps (ss_store st') = ListCustomApps s1"
    "ListDDNSProviders (ss_store st') = ListDDNSProviders s1" "ListDeployTargets (ss_store st') = ListDeployTargets s1"
    by (simp_all add: a ListDomains_def ListCustomApps_def ListDDNSProviders_def ListDeployTargets_def)
  with seedConfigState_spec [OF assms(1,2) reloaded(3)] show ?thesis by simp
qed auto

lemma reload_fails:
  assumes "store_ok (sx_os env) (ss_store st)" and "config_loaded (sx_os env) cfg"
    and "reloadManagedConfig env cfg st = ((Some e, closed), st')"
  shows "st' = st \<and> fst (buildRuntime (sx_os env) (sx_connect env) cfg) = Inl e"
  using assms(3)
proof (cases rule: reload_cases)
  case no_ddns
  with initDDNS_loaded [OF assms(2), of "sx_ddns env"] show ?thesis by auto
next
  case no_seed
  with seedConfigState_spec [OF assms(1,2)] show ?thesis by fastforce
qed simp_all

section \<open>An example\<close>

lemma remote_discoverers_connect: "(\<And>c. dc_remote conn c = Inr (api c)) \<Longrightarrow> \<exists>ds'. remote_discoverers os conn ds cs = (Inr ds', [])"
  by (induction cs arbitrary: ds) auto

definition demo_api :: docker_api where
  "demo_api = \<lparr>api_ContainerList = Inr [], api_ContainerInspect = (\<lambda>_. Inl ErrNotExist), api_NetworkList = Inr []\<rparr>"

definition demo_server_env :: server_env where
  "demo_server_env = \<lparr>sx_os = demo_env, sx_lib = \<lparr>nat_Port = (\<lambda>p. p), nat_ParsePort = (\<lambda>_. None)\<rparr>, sx_err_text = (\<lambda>_. []),
     sx_connect = \<lparr>dc_local = (\<lambda>_. Inr demo_api), dc_remote = (\<lambda>_. Inr demo_api)\<rparr>,
     sx_ddns = \<lparr>dv_get = (\<lambda>_ _. Inl ErrNotExist), dv_lookupNS = (\<lambda>_. Inr []), dv_upsert = (\<lambda>_ _ _. None),
                dv_err_text = (\<lambda>_. []), dv_now = 1\<rparr>\<rparr>"

definition demo_state :: server_state where
  "demo_state = \<lparr>ss_store = NewMemoryStore, ss_manager = newRuntimeManager, ss_table = NewRouteTable, ss_deployPool = None, ss_tasks = []\<rparr>"

lemma demo_runtime_built: "\<exists>new. fst (buildRuntime (sx_os demo_server_env) (sx_connect demo_server_env) cfg) = Inr new"
proof -
  have c: "dc_remote (sx_connect demo_server_env) c = Inr demo_api" "dc_local (sx_connect demo_server_env) r = Inr demo_api" for c r
    by (simp_all add: demo_server_env_def)
  have "\<exists>ds. initDiscoverers (sx_os demo_server_env) (sx_connect demo_server_env) cfg p = (Inr ds, [])" for p
    using remote_discoverers_connect [OF c(1)] by (simp add: initDiscoverers_def c(2) Let_def)
  then obtain ds where "initDiscoverers (sx_os demo_server_env) (sx_connect demo_server_env) cfg
      (Some (fst (initAgentPool (c_Agents cfg) None))) = (Inr ds, [])" by blast
  then show ?thesis by (simp add: buildRuntime_def)
qed

lemma demo_loaded: "config_loaded (sx_os demo_server_env) demo_config"
  by (simp add: config_loaded_def demo_server_env_def demo_config_fixed)

lemma demo_started: "\<exists>s r j. startServer demo_server_env demo_config = Inr (s, r, j)"
  using startServer_loaded [OF demo_loaded] demo_runtime_built [of demo_config] by auto

section \<open>Properties\<close>

text \<open>
  Claim C7. Reloading a loaded configuration is all or nothing: when it fails, because no
  connection to a container runtime can be set up, nothing of the running server has changed and
  the server could not have been started with this configuration either; when it succeeds, the
  store lists the zones, apps, providers and deploy targets of the configuration, the new agents
  and discoverers are installed and the old discoverers are closed.
\<close>

theorem reload_all_or_nothing:
  assumes "(store_step (sx_os env))\<^sup>*\<^sup>* NewMemoryStore (ss_store st)" and "config_loaded (sx_os env) cfg"
    and "reloadManagedConfig env cfg st = ((err, closed), st')"
  shows "case err of
      Some e \<Rightarrow> st' = st \<and> startServer env cfg = Inl e
    | None \<Rightarrow> closed = [] \<and> (\<exists>started. startServer env cfg = Inr started)
        \<and> mset (ListDomains (ss_store st')) = mset (c_Zones cfg) \<and> mset (ListCustomApps (ss_store st')) = mset (c_Apps cfg)
        \<and> mset (ListDDNSProviders (ss_store st')) = mset (c_DDNSProviders cfg)
        \<and> mset (ListDeployTargets (ss_store st')) = mset (c_DeployTargets cfg)
        \<and> (\<exists>new. buildRuntime (sx_os env) (sx_connect env) cfg = (Inr new, [])
             \<and> rm_pool (ss_manager st') = Some (pr_pool new) \<and> ss_deployPool st' = Some (pr_pool new)
             \<and> rm_discoverers (ss_manager st') = pr_discoverers new
             \<and> rm_closed (ss_manager st') = rm_closed (ss_manager st) @ rm_discoverers (ss_manager st))"
proof -
  have ok: "store_ok (sx_os env) (ss_store st)" using assms(1) by (rule store_steps_ok) simp
  have start: "(\<exists>s0. startServer env cfg = Inr s0) \<or> (\<exists>e. startServer env cfg = Inl e \<and> fst (buildRuntime (sx_os env) (sx_connect env) cfg) = Inl e)"
    by (rule startServer_loaded [OF assms(2)])
  from assms(3) show ?thesis
  proof (cases rule: reload_cases)
    case (no_runtime e)
    moreover from no_runtime(1) have "startServer env cfg = Inl e"
      using start by (auto simp: startServer_def split: prod.splits option.splits sum.splits)
    ultimately show ?thesis by simp
  next
    case (no_ddns e new)
    with initDDNS_loaded [OF assms(2), of "sx_ddns env"] show ?thesis by auto
  next
    case (no_seed e new s1)
    with seedConfigState_spec [OF ok assms(2)] show ?thesis by fastforce
  next
    case (reloaded new reg sv refs s1 rs aps)
    from reload_installs [OF ok assms(2)] assms(3) reloaded(4) have "mset (ListDomains (ss_store st')) = mset (c_Zones cfg)
      \<and> mset (ListCustomApps (ss_store st')) = mset (c_Apps cfg) \<and> mset (ListDDNSProviders (ss_store st')) = mset (c_DDNSProviders cfg)
      \<and> mset (ListDeployTargets (ss_store st')) = mset (c_DeployTargets cfg)" by blast
    with reloaded start show ?thesis
      by (auto simp: rm_Replace_def rm_swap_def rm_SetDDNS_def Let_def)
  qed
qed

theorem reload_all_or_nothing_witness:
  "\<exists>st'. reloadManagedConfig demo_server_env demo_config demo_state = ((None, []), st')
     \<and> mset (ListCustomApps (ss_store st')) = {#demo_app#}"
proof -
  obtain err closed st' where r: "reloadManagedConfig demo_server_env demo_config demo_state = ((err, closed), st')" by (metis prod.collapse)
  have "(store_step (sx_os demo_server_env))\<^sup>*\<^sup>* NewMemoryStore (ss_store demo_state)" by (simp add: demo_state_def)
  from reload_all_or_nothing [OF this demo_loaded r] demo_started r show ?thesis by (auto simp: demo_config_def split: option.splits)
qed

text \<open>
  Claim C8. Reloading a configuration is as good as restarting with it: the reloaded server has
  the same agents, discoverers, DDNS service and provider references as a server started with the
  configuration, and its store lists the same zones, apps, providers, agents, deploy targets and
  runtimes.
\<close>

theorem reload_like_restart:
  assumes "reloadManagedConfig env cfg st = ((None, closed), st')" and "startServer env cfg = Inr (started, requests, jobs)"
  shows "same_config_tables (sx_os env) (ss_store started) (ss_store st')
    \<and> rm_pool (ss_manager st') = rm_pool (ss_manager started)
    \<and> rm_discoverers (ss_manager st') = rm_discoverers (ss_manager started)
    \<and> rm_ddns (ss_manager st') = rm_ddns (ss_manager started)
    \<and> rm_providerRefs (ss_manager st') = rm_providerRefs (ss_manager started)
    \<and> ss_deployPool st' = ss_deployPool started"
  using assms(1)
proof (cases rule: reload_cases)
  case (reloaded new reg sv refs s1 rs aps)
  with assms(2) obtain s0 where s0: "seedConfigState (sx_os env) cfg NewMemoryStore = (None, s0)"
    and st: "ss_store started = syncPoolNodesToStore (Some (pr_pool new)) s0"
    "ss_manager started = rm_Replace new (rm_SetDDNS sv refs newRuntimeManager)" "ss_deployPool started = Some (pr_pool new)"
    by (auto simp: startServer_def Let_def split: prod.splits option.splits)
  from seeded_same_tables [OF s0 reloaded(3)] reloaded st show ?thesis
    by (simp add: rm_Replace_def rm_swap_def rm_SetDDNS_def Let_def)
qed auto

theorem reload_like_restart_witness:
  "\<exists>st' started requests jobs. reloadManagedConfig demo_server_env demo_config demo_state = ((None, []), st')
     \<and> startServer demo_server_env demo_config = Inr (started, requests, jobs)
     \<and> rm_pool (ss_manager st') = rm_pool (ss_manager started)"
proof -
  obtain err closed st' where r: "reloadManagedConfig demo_server_env demo_config demo_state = ((err, closed), st')" by (metis prod.collapse)
  obtain started requests jobs where s: "startServer demo_server_env demo_config = Inr (started, requests, jobs)" using demo_started by blast
  have ok: "store_ok (sx_os demo_server_env) (ss_store demo_state)" by (simp add: demo_state_def)
  from r have "err = None \<and> closed = []"
  proof (cases rule: reload_cases)
    case no_runtime
    with demo_runtime_built [of demo_config] show ?thesis by auto
  next
    case no_ddns
    with initDDNS_loaded [OF demo_loaded, of "sx_ddns demo_server_env"] show ?thesis by auto
  next
    case no_seed
    with seedConfigState_spec [OF ok demo_loaded] show ?thesis by fastforce
  qed simp
  with r s reload_like_restart [of demo_server_env demo_config demo_state "[]" st' started requests jobs] show ?thesis by auto
qed

end
