(* ===== verification/Domux_Refresh.thy ===== *)
theory Domux_Refresh
  imports Domux_Reload
begin

text \<open>
  Concurrent refreshes of the routes (\<open>cmd/domux/main.go\<close>). \<open>Domux_Routes\<close> takes a refresh as one
  step; here it is the sequence of its accesses to the store and to the route table. Timers, watchers,
  manual actions and startup tasks run refreshes at the same time: most of them through the closure
  \<open>refreshRoutes\<close>, which holds \<open>refreshMu\<close>, two of them (\<open>startup.routes.local\<close> and
  \<open>config-reload-local\<close>) directly.
\<close>

section \<open>A refresh as a thread\<close>

datatype refresh_pc =
    Entered
  | ZonesRead "managed_zone list" "discovered_route list" "go_error option"
  | CustomBuilt "managed_zone list" "discovered_route list" "discovered_route list" "go_error option list"
  | RoutesMerged "managed_zone list" "discovered_route list" "discovered_route list" "go_error option list"
  | RoutesStored "managed_zone list" "discovered_route list" "discovered_route list" "go_error option list"
  | AppsStored "discovered_route list" "go_error option list"
  | RefreshDone "go_error option"

record refresh_call =
  cl_source :: string
  cl_discoverers :: "route_discoverer list"
  cl_pool :: "pool option"
  cl_pc :: refresh_pc

definition refresh_enter :: "string \<Rightarrow> route_discoverer list \<Rightarrow> pool option \<Rightarrow> refresh_call" where
  "refresh_enter source ds p = \<lparr>cl_source = source, cl_discoverers = ds, cl_pool = p, cl_pc = Entered\<rparr>"

text \<open>
  One access of \<open>refreshRoutesWithDiscoverers\<close> to the store or to the table, with the computation
  that leads to it.
\<close>

definition refresh_step :: "os_env \<Rightarrow> nat_lib \<Rightarrow> (go_error \<Rightarrow> string) \<Rightarrow> refresh_call \<times> memory_store \<times> route_table \<Rightarrow>
    refresh_call \<times> memory_store \<times> route_table" where
  "refresh_step os lib err_text x =
     (case x of (c, store, table) \<Rightarrow>
        (case cl_pc c of
           Entered \<Rightarrow>
             (case selectedDiscoverers os (cl_discoverers c) (cl_source c) of
                Inl e \<Rightarrow> (c\<lparr>cl_pc := RefreshDone (Some e)\<rparr>, store, table)
              | Inr selected \<Rightarrow>
                  (let zones = ListDomains store; (found, routeErr) = discoverAllRoutes os lib zones selected
                   in (c\<lparr>cl_pc := ZonesRead zones found routeErr\<rparr>, store, table)))
         | ZonesRead zones found routeErr \<Rightarrow>
             (let (customRoutes, customErr) = buildCustomAppRoutes zones (ListCustomApps store) (cl_pool c)
              in (c\<lparr>cl_pc := CustomBuilt zones found customRoutes [routeErr, customErr]\<rparr>, store, table))
         | CustomBuilt zones found customRoutes errs \<Rightarrow>
             (let merged = (if cl_source c \<noteq> [] then mergeRoutesForSource (ListRoutes store) (cl_source c) found else found)
              in (c\<lparr>cl_pc := RoutesMerged zones (applyCustomRoutes merged customRoutes) customRoutes errs\<rparr>, store, table))
         | RoutesMerged zones routes customRoutes errs \<Rightarrow>
             (c\<lparr>cl_pc := RoutesStored zones routes customRoutes errs\<rparr>, ReplaceRoutes routes store, table)
         | RoutesStored zones routes customRoutes errs \<Rightarrow>
             (let (snapshots, snapshotErrs) = discoverAllSnapshots os lib (cl_discoverers c)
              in (c\<lparr>cl_pc := AppsStored routes (errs @ [errors_Join snapshotErrs])\<rparr>,
                  ReplaceApplications (buildApplications os err_text zones snapshots routes customRoutes) store, table))
         | AppsStored routes errs \<Rightarrow>
             (c\<lparr>cl_pc := RefreshDone (errors_Join_opt errs)\<rparr>, store, Swap routes table)
         | RefreshDone _ \<Rightarrow> (c, store, table)))"

fun refresh_done :: "refresh_pc \<Rightarrow> bool" where
  "refresh_done (RefreshDone _) = True"
| "refresh_done _ = False"

section \<open>Threads and the mutex\<close>

text \<open>
  A call of \<open>refreshRoutes\<close> waits for the mutex, reads the discoverers and the pool of the runtime
  manager, refreshes and unlocks. A direct refresh has its discoverers and its pool from its caller.
\<close>

datatype refresh_thread =
    AwaitLock string
  | InRefresh refresh_call
  | Unlocked
  | DirectRefresh refresh_call

text \<open>\<open>rw_order\<close> lists the refreshes that released the mutex, in that order.\<close>

record refresh_world =
  rw_store :: memory_store
  rw_table :: route_table
  rw_runtime :: "route_discoverer list \<times> pool option"
  rw_locked :: bool
  rw_threads :: "refresh_thread list"
  rw_order :: "refresh_call list"

definition refresh_start :: refresh_world where
  "refresh_start = \<lparr>rw_store = NewMemoryStore, rw_table = NewRouteTable, rw_runtime = ([], None), rw_locked = False,
     rw_threads = [], rw_order = []\<rparr>"

definition set_thread :: "nat \<Rightarrow> refresh_thread \<Rightarrow> refresh_world \<Rightarrow> refresh_world" where
  "set_thread i t w = w\<lparr>rw_threads := (rw_threads w)[i := t]\<rparr>"

inductive refresh_world_step :: "os_env \<Rightarrow> nat_lib \<Rightarrow> (go_error \<Rightarrow> string) \<Rightarrow> refresh_world \<Rightarrow> refresh_world \<Rightarrow> bool"
  for os :: os_env and lib :: nat_lib and err_text :: "go_error \<Rightarrow> string" where
  rw_call: "refresh_world_step os lib err_text w (w\<lparr>rw_threads := rw_threads w @ [AwaitLock source]\<rparr>)"
| rw_lock: "i < length (rw_threads w) \<Longrightarrow> rw_threads w ! i = AwaitLock source \<Longrightarrow> \<not> rw_locked w \<Longrightarrow>
    refresh_world_step os lib err_text w
      ((set_thread i (InRefresh (refresh_enter source (fst (rw_runtime w)) (snd (rw_runtime w)))) w)\<lparr>rw_locked := True\<rparr>)"
| rw_run: "i < length (rw_threads w) \<Longrightarrow> rw_threads w ! i = InRefresh c \<Longrightarrow> \<not> refresh_done (cl_pc c) \<Longrightarrow>
    refresh_step os lib err_text (c, rw_store w, rw_table w) = (c', s', t') \<Longrightarrow>
    refresh_world_step os lib err_text w ((set_thread i (InRefresh c') w)\<lparr>rw_store := s', rw_table := t'\<rparr>)"
| rw_unlock: "i < length (rw_threads w) \<Longrightarrow> rw_threads w ! i = InRefresh c \<Longrightarrow> refresh_done (cl_pc c) \<Longrightarrow>
    refresh_world_step os lib err_text w
      ((set_thread i Unlocked w)\<lparr>rw_locked := False, rw_order := rw_order w @ [c]\<rparr>)"
| rw_direct: "refresh_world_step os lib err_text w (w\<lparr>rw_threads := rw_threads w @ [DirectRefresh (refresh_enter source ds p)]\<rparr>)"
| rw_direct_run: "i < length (rw_threads w) \<Longrightarrow> rw_threads w ! i = DirectRefresh c \<Longrightarrow> \<not> refresh_done (cl_pc c) \<Longrightarrow>
    refresh_step os lib err_text (c, rw_store w, rw_table w) = (c', s', t') \<Longrightarrow>
    refresh_world_step os lib err_text w ((set_thread i (DirectRefresh c') w)\<lparr>rw_store := s', rw_table := t'\<rparr>)"
| rw_replace: "refresh_world_step os lib err_text w (w\<lparr>rw_runtime := r\<rparr>)"

text \<open>The other operations on the store leave its routes alone and can come between any two steps of a refresh.\<close>

inductive refresh_store_step :: "os_env \<Rightarrow> nat_lib \<Rightarrow> (go_error \<Rightarrow> string) \<Rightarrow> refresh_world \<Rightarrow> refresh_world \<Rightarrow> bool"
  for os :: os_env and lib :: nat_lib and err_text :: "go_error \<Rightarrow> string" where
  rs_refresh: "refresh_world_step os lib err_text w w' \<Longrightarrow> refresh_store_step os lib err_text w w'"
| rs_store: "ms_routes s = ms_routes (rw_store w) \<Longrightarrow> refresh_store_step os lib err_text w (w\<lparr>rw_store := s\<rparr>)"

definition only_locked :: "refresh_world \<Rightarrow> bool" where
  "only_locked w = list_all (\<lambda>t. case t of DirectRefresh _ \<Rightarrow> False | _ \<Rightarrow> True) (rw_threads w)"

section \<open>A thread that runs alone\<close>

lemma refresh_step_simps [simp]:
  "refresh_step os lib et (\<lparr>cl_source = source, cl_discoverers = ds, cl_pool = p, cl_pc = RefreshDone e\<rparr>, s, t)
     = (\<lparr>cl_source = source, cl_discoverers = ds, cl_pool = p, cl_pc = RefreshDone e\<rparr>, s, t)"
  by (simp add: refresh_step_def)

lemma refresh_step_frame:
  assumes "refresh_step os lib et (c, s, t) = (c', s', t')"
  shows "cl_source c' = cl_source c" and "cl_discoverers c' = cl_discoverers c" and "cl_pool c' = cl_pool c"
  using assms by (auto simp: refresh_step_def Let_def split: refresh_pc.splits sum.splits prod.splits)

definition refresh_run :: "os_env \<Rightarrow> nat_lib \<Rightarrow> (go_error \<Rightarrow> string) \<Rightarrow> refresh_call \<times> memory_store \<times> route_table \<Rightarrow>
    refresh_call \<times> memory_store \<times> route_table" where
  "refresh_run os lib err_text = refresh_step os lib err_text ^^ 6"

lemma refresh_run_fix: "refresh_step os lib et (refresh_run os lib et x) = refresh_run os lib et x"
proof -
  obtain c s t where x: "x = (c, s, t)" by (cases x)
  show ?thesis
    unfolding x refresh_run_def
    by (cases c; cases "cl_pc c"; cases "selectedDiscoverers os (cl_discoverers c) (cl_source c)")
      (simp_all add: eval_nat_numeral refresh_step_def case_prod_unfold Let_def)
qed

lemma refresh_run_step: "refresh_run os lib et (refresh_step os lib et x) = refresh_run os lib et x"
  using refresh_run_fix [of os lib et x] by (simp add: refresh_run_def funpow_swap1)

lemma refresh_run_done: "refresh_done (cl_pc c) \<Longrightarrow> refresh_run os lib et (c, s, t) = (c, s, t)"
  by (cases "cl_pc c") (simp_all add: refresh_run_def eval_nat_numeral refresh_step_def)

text \<open>The atomic refresh of \<open>Domux_Routes\<close> for the arguments of a call.\<close>

definition refresh_atomic :: "os_env \<Rightarrow> nat_lib \<Rightarrow> (go_error \<Rightarrow> string) \<Rightarrow> refresh_call \<Rightarrow> memory_store \<times> route_table \<Rightarrow>
    memory_store \<times> route_table" where
  "refresh_atomic os lib err_text c st =
     snd (refreshRoutesWithDiscoverers os lib err_text (cl_source c) (cl_discoverers c) (cl_pool c) st)"

lemma refresh_run_enter:
  "refresh_run os lib et (refresh_enter source ds p, s, t) =
     (let (err, s', t') = refreshRoutesWithDiscoverers os lib et source ds p (s, t)
      in ((refresh_enter source ds p)\<lparr>cl_pc := RefreshDone err\<rparr>, s', t'))"
  by (cases "selectedDiscoverers os ds source")
    (simp_all add: refresh_run_def eval_nat_numeral refresh_step_def refresh_enter_def refreshRoutesWithDiscoverers_def
      case_prod_unfold Let_def)

lemma refresh_run_atomic:
  "snd (refresh_run os lib et (refresh_enter source ds p, st)) = refresh_atomic os lib et (refresh_enter source ds p) st"
proof -
  obtain s t where "st = (s, t)" by (cases st)
  then show ?thesis
    unfolding refresh_atomic_def by (simp add: refresh_run_enter case_prod_unfold Let_def) (simp add: refresh_enter_def)
qed

section \<open>What the mutex gives\<close>

fun holds_lock :: "refresh_thread \<Rightarrow> bool" where
  "holds_lock (InRefresh _) = True"
| "holds_lock _ = False"

lemma filter_update_out: "i < length ts \<Longrightarrow> \<not> f (ts ! i) \<Longrightarrow> \<not> f t \<Longrightarrow> filter f (ts[i := t]) = filter f ts"
  by (subst (2) id_take_nth_drop [of i ts]) (simp_all add: upd_conv_take_nth_drop)

lemma filter_single_update:
  assumes "i < length ts" and "f (ts ! i)" and "length (filter f ts) = 1"
  shows "filter f ts = [ts ! i]" and "filter f (ts[i := t]) = (if f t then [t] else [])"
proof -
  have ts: "ts = take i ts @ ts ! i # drop (Suc i) ts" by (rule id_take_nth_drop [OF assms(1)])
  have "length (filter f (take i ts @ ts ! i # drop (Suc i) ts)) = 1" using assms(3) ts by simp
  with assms(2) have out: "filter f (take i ts) = []" "filter f (drop (Suc i) ts) = []" by simp_all
  show "filter f ts = [ts ! i]" by (subst ts) (simp add: out assms(2))
  show "filter f (ts[i := t]) = (if f t then [t] else [])" using assms(1) by (simp add: upd_conv_take_nth_drop out)
qed

lemma filter_none_update:
  assumes "i < length ts" and "filter f ts = []" and "f t"
  shows "filter f (ts[i := t]) = [t]"
proof -
  have "filter f (take i ts) = []" "filter f (drop (Suc i) ts) = []"
    using assms(2) by (auto simp: filter_empty_conv dest: in_set_takeD in_set_dropD)
  with assms(1,3) show ?thesis by (simp add: upd_conv_take_nth_drop)
qed

lemma only_locked_nth: "only_locked w \<Longrightarrow> i < length (rw_threads w) \<Longrightarrow> rw_threads w ! i \<noteq> DirectRefresh c"
  by (auto simp: only_locked_def list_all_length)

lemma only_locked_back: "refresh_world_step os lib et w w' \<Longrightarrow> only_locked w' \<Longrightarrow> only_locked w"
  by (induction rule: refresh_world_step.induct)
    (auto simp: only_locked_def set_thread_def list_all_length nth_list_update nth_append less_Suc_eq
      split: if_splits refresh_thread.splits)

text \<open>
  The contract of a critical section: \<open>P\<close> holds of the shared state while nobody is inside, \<open>Q\<close> while
  a call is. Both may speak of the calls that have left the section.
\<close>

locale critical_section =
  fixes os :: os_env and lib :: nat_lib and et :: "go_error \<Rightarrow> string"
    and P :: "refresh_call list \<Rightarrow> memory_store \<times> route_table \<Rightarrow> bool"
    and Q :: "refresh_call list \<Rightarrow> refresh_call \<Rightarrow> memory_store \<times> route_table \<Rightarrow> bool"
  assumes start: "P [] (NewMemoryStore, NewRouteTable)"
    and enter: "P cs st \<Longrightarrow> Q cs (refresh_enter source ds p) st"
    and step: "Q cs c (s, t) \<Longrightarrow> refresh_step os lib et (c, s, t) = (c', s', t') \<Longrightarrow> Q cs c' (s', t')"
    and leave: "Q cs c st \<Longrightarrow> refresh_done (cl_pc c) \<Longrightarrow> P (cs @ [c]) st"
begin

definition section_ok :: "refresh_world \<Rightarrow> bool" where
  "section_ok w = (filter holds_lock (rw_threads w) = [] \<and> \<not> rw_locked w \<and> P (rw_order w) (rw_store w, rw_table w)
     \<or> (\<exists>c. filter holds_lock (rw_threads w) = [InRefresh c] \<and> rw_locked w \<and> Q (rw_order w) c (rw_store w, rw_table w)))"

lemma section_ok_start: "section_ok refresh_start"
  by (simp add: section_ok_def refresh_start_def start)

lemma holder:
  assumes "section_ok w" and "i < length (rw_threads w)" and "rw_threads w ! i = InRefresh c"
  shows "length (filter holds_lock (rw_threads w)) = 1" and "rw_locked w" and "Q (rw_order w) c (rw_store w, rw_table w)"
proof -
  have "InRefresh c \<in> set (filter holds_lock (rw_threads w))" using assms(3) nth_mem [OF assms(2)] by simp
  with assms(1) show "length (filter holds_lock (rw_threads w)) = 1" "rw_locked w" "Q (rw_order w) c (rw_store w, rw_table w)"
    by (auto simp: section_ok_def simp del: set_filter)
qed

lemma section_ok_step:
  assumes "refresh_world_step os lib et w w'" and "section_ok w" and "only_locked w"
  shows "only_locked w' \<Longrightarrow> section_ok w'"
  using assms
proof (induction rule: refresh_world_step.induct)
  case (rw_lock i w source)
  then have "filter holds_lock (rw_threads w) = []" "P (rw_order w) (rw_store w, rw_table w)" by (auto simp: section_ok_def)
  with rw_lock show ?case by (simp add: section_ok_def set_thread_def filter_none_update enter)
next
  case (rw_run i w c c' s' t')
  note h = holder [OF rw_run.prems(2) rw_run.hyps(1,2)]
  have "holds_lock (rw_threads w ! i)" by (simp add: rw_run.hyps)
  from filter_single_update(2) [OF rw_run.hyps(1) this h(1)] h(2) step [OF h(3) rw_run.hyps(4)] show ?case
    by (simp add: section_ok_def set_thread_def)
next
  case (rw_unlock i w c)
  note h = holder [OF rw_unlock.prems(2) rw_unlock.hyps(1,2)]
  have "holds_lock (rw_threads w ! i)" by (simp add: rw_unlock.hyps)
  from filter_single_update(2) [OF rw_unlock.hyps(1) this h(1)] leave [OF h(3) rw_unlock.hyps(3)] show ?case
    by (simp add: section_ok_def set_thread_def)
next
  case (rw_direct_run i w c c' s' t')
  then show ?case by (simp add: only_locked_nth)
qed (auto simp: section_ok_def)

lemma section_ok_reachable:
  "(refresh_world_step os lib et)\<^sup>*\<^sup>* refresh_start w \<Longrightarrow> only_locked w \<Longrightarrow> section_ok w"
  by (induction rule: rtranclp_induct) (auto intro: section_ok_start section_ok_step only_locked_back)

lemma free_ok:
  "(refresh_world_step os lib et)\<^sup>*\<^sup>* refresh_start w \<Longrightarrow> only_locked w \<Longrightarrow> \<not> rw_locked w \<Longrightarrow>
     P (rw_order w) (rw_store w, rw_table w)"
  using section_ok_reachable by (auto simp: section_ok_def)

end

text \<open>The same when the other operations on the store keep the contract.\<close>

locale critical_section_shared = critical_section +
  assumes other: "ms_routes s' = ms_routes s \<Longrightarrow> P cs (s, t) \<Longrightarrow> P cs (s', t)"
    and other_inside: "ms_routes s' = ms_routes s \<Longrightarrow> Q cs c (s, t) \<Longrightarrow> Q cs c (s', t)"
begin

lemma section_ok_shared:
  "(refresh_store_step os lib et)\<^sup>*\<^sup>* refresh_start w \<Longrightarrow> only_locked w \<Longrightarrow> section_ok w"
proof (induction rule: rtranclp_induct)
  case base
  show ?case by (rule section_ok_start)
next
  case (step w w')
  from step.hyps(2) step.IH step.prems show ?case
  proof cases
    case rs_refresh
    with step.IH step.prems show ?thesis using section_ok_step only_locked_back by blast
  next
    case (rs_store s)
    then have "section_ok w" using step.IH step.prems by (simp add: only_locked_def)
    with rs_store show ?thesis by (auto simp: section_ok_def intro: other other_inside)
  qed
qed

lemma free_shared_ok:
  "(refresh_store_step os lib et)\<^sup>*\<^sup>* refresh_start w \<Longrightarrow> only_locked w \<Longrightarrow> \<not> rw_locked w \<Longrightarrow>
     P (rw_order w) (rw_store w, rw_table w)"
  using section_ok_shared by (auto simp: section_ok_def)

end

section \<open>The store and the table\<close>

text \<open>The routes of the store and those of the proxy come from the same refresh.\<close>

definition routes_agree :: "memory_store \<times> route_table \<Rightarrow> bool" where
  "routes_agree st = (\<exists>routes. ms_routes (fst st) = keyedMap rt_ID routes \<and> snd st = Swap routes NewRouteTable)"

fun pending_routes :: "refresh_pc \<Rightarrow> discovered_route list option" where
  "pending_routes (RoutesStored _ routes _ _) = Some routes"
| "pending_routes (AppsStored routes _) = Some routes"
| "pending_routes _ = None"

definition refresh_agree :: "refresh_call \<Rightarrow> memory_store \<times> route_table \<Rightarrow> bool" where
  "refresh_agree c st =
     (case pending_routes (cl_pc c) of
        None \<Rightarrow> routes_agree st
      | Some routes \<Rightarrow> ms_routes (fst st) = keyedMap rt_ID routes)"

lemma Swap_any: "Swap routes t = Swap routes NewRouteTable"
  by (simp add: Swap_def)

lemma refresh_agree_step:
  assumes "refresh_agree c (s, t)" and "refresh_step os lib et (c, s, t) = (c', s', t')"
  shows "refresh_agree c' (s', t')"
proof (cases "cl_pc c")
  case Entered
  with assms show ?thesis
    by (auto simp: refresh_agree_def refresh_step_def Let_def split: sum.splits prod.splits)
next
  case (AppsStored routes errs)
  with assms have "ms_routes s' = keyedMap rt_ID routes" "t' = Swap routes NewRouteTable" "pending_routes (cl_pc c') = None"
    by (auto simp: refresh_agree_def refresh_step_def intro: Swap_any)
  then show ?thesis by (auto simp: refresh_agree_def routes_agree_def)
qed (use assms in \<open>auto simp: refresh_agree_def refresh_step_def Let_def ReplaceRoutes_def ReplaceApplications_def
      split: prod.splits\<close>)

interpretation agreement: critical_section_shared os lib et "\<lambda>_. routes_agree" "\<lambda>_. refresh_agree"
  for os :: os_env and lib :: nat_lib and et :: "go_error \<Rightarrow> string"
proof unfold_locales
  show "routes_agree (NewMemoryStore, NewRouteTable)"
    unfolding routes_agree_def by (intro exI [of _ "[]"]) (simp add: NewMemoryStore_def keyedMap_def Swap_def NewRouteTable_def)
next
  fix st source ds p
  assume "routes_agree st"
  then show "refresh_agree (refresh_enter source ds p) st" by (simp add: refresh_agree_def refresh_enter_def)
next
  fix c s t c' s' t'
  assume "refresh_agree c (s, t)" and "refresh_step os lib et (c, s, t) = (c', s', t')"
  then show "refresh_agree c' (s', t')" by (rule refresh_agree_step)
next
  fix c st
  assume "refresh_agree c st" and "refresh_done (cl_pc c)"
  then show "routes_agree st" by (cases "cl_pc c") (auto simp: refresh_agree_def)
next
  fix s s' :: memory_store and t :: route_table
  assume "ms_routes s' = ms_routes s" and "routes_agree (s, t)"
  then show "routes_agree (s', t)" by (simp add: routes_agree_def)
next
  fix s s' :: memory_store and t :: route_table and c
  assume "ms_routes s' = ms_routes s" and "refresh_agree c (s, t)"
  then show "refresh_agree c (s', t)" by (simp add: refresh_agree_def routes_agree_def split: option.splits)
qed

section \<open>Serialisability\<close>

text \<open>
  \<open>serial\<close> runs calls one after the other as atomic refreshes. While a call is inside the section, what
  it still has to do leads to the state of the serial run that ends with it.
\<close>

definition serial :: "os_env \<Rightarrow> nat_lib \<Rightarrow> (go_error \<Rightarrow> string) \<Rightarrow> refresh_call list \<Rightarrow> memory_store \<times> route_table" where
  "serial os lib err_text cs = fold (refresh_atomic os lib err_text) cs (NewMemoryStore, NewRouteTable)"

definition serial_inside :: "os_env \<Rightarrow> nat_lib \<Rightarrow> (go_error \<Rightarrow> string) \<Rightarrow> refresh_call list \<Rightarrow> refresh_call \<Rightarrow>
    memory_store \<times> route_table \<Rightarrow> bool" where
  "serial_inside os lib err_text cs c st =
     (snd (refresh_run os lib err_text (c, st)) = refresh_atomic os lib err_text c (serial os lib err_text cs))"

lemma refresh_atomic_frame:
  "refresh_step os lib et (c, s, t) = (c', s', t') \<Longrightarrow> refresh_atomic os lib et c' st = refresh_atomic os lib et c st"
  by (simp add: refresh_atomic_def refresh_step_frame)

interpretation serialised: critical_section os lib et "\<lambda>cs st. st = serial os lib et cs" "serial_inside os lib et"
  for os :: os_env and lib :: nat_lib and et :: "go_error \<Rightarrow> string"
proof unfold_locales
  show "(NewMemoryStore, NewRouteTable) = serial os lib et []" by (simp add: serial_def)
next
  fix cs st source ds p
  assume "st = serial os lib et cs"
  then show "serial_inside os lib et cs (refresh_enter source ds p) st"
    by (simp add: serial_inside_def refresh_run_atomic)
next
  fix cs c s t c' s' t'
  assume q: "serial_inside os lib et cs c (s, t)" and r: "refresh_step os lib et (c, s, t) = (c', s', t')"
  from refresh_run_step [of os lib et "(c, s, t)"] q show "serial_inside os lib et cs c' (s', t')"
    by (simp add: serial_inside_def r refresh_atomic_frame [OF r])
next
  fix cs c st
  assume "serial_inside os lib et cs c st" and "refresh_done (cl_pc c)"
  then show "st = serial os lib et (cs @ [c])" by (cases st) (simp add: serial_inside_def refresh_run_done serial_def)
qed

section \<open>Runs of one thread\<close>

lemma set_thread_twice [simp]: "set_thread i a (set_thread i b w) = set_thread i a w"
  by (simp add: set_thread_def)

lemma thread_runs:
  assumes i: "i < length (rw_threads w)" and c: "rw_threads w ! i = F c" and F: "F = InRefresh \<or> F = DirectRefresh"
    and "(refresh_step os lib et ^^ k) (c, rw_store w, rw_table w) = (c', s', t')"
  shows "(refresh_world_step os lib et)\<^sup>*\<^sup>* w ((set_thread i (F c') w)\<lparr>rw_store := s', rw_table := t'\<rparr>)"
  using assms(4)
proof (induction k arbitrary: c' s' t')
  case 0
  then have "(set_thread i (F c') w)\<lparr>rw_store := s', rw_table := t'\<rparr> = w"
    using i c by (simp add: set_thread_def list_update_same_conv)
  then show ?case by simp
next
  case (Suc k)
  obtain c1 s1 t1 where k: "(refresh_step os lib et ^^ k) (c, rw_store w, rw_table w) = (c1, s1, t1)" by (metis prod.exhaust)
  let ?w1 = "(set_thread i (F c1) w)\<lparr>rw_store := s1, rw_table := t1\<rparr>"
  have r: "refresh_step os lib et (c1, rw_store ?w1, rw_table ?w1) = (c', s', t')" using Suc.prems k by simp
  have at: "i < length (rw_threads ?w1)" "rw_threads ?w1 ! i = F c1" using i by (simp_all add: set_thread_def)
  show ?case
  proof (cases "refresh_done (cl_pc c1)")
    case True
    then have "c' = c1 \<and> s' = s1 \<and> t' = t1" using r by (cases "cl_pc c1") (simp_all add: refresh_step_def)
    with Suc.IH [OF k] show ?thesis by simp
  next
    case False
    have "refresh_world_step os lib et ?w1 ((set_thread i (F c') ?w1)\<lparr>rw_store := s', rw_table := t'\<rparr>)"
      using F at(2) rw_run [OF at(1) _ False r] rw_direct_run [OF at(1) _ False r] by auto
    with Suc.IH [OF k] show ?thesis by (simp add: set_thread_def)
  qed
qed

text \<open>A call of \<open>refreshRoutes\<close> that nobody disturbs is the atomic refresh.\<close>

lemma locked_call:
  assumes free: "\<not> rw_locked w" and rt: "rw_runtime w = (ds, p)"
    and r: "refreshRoutesWithDiscoverers os lib et source ds p (rw_store w, rw_table w) = (err, s', t')"
  shows "(refresh_world_step os lib et)\<^sup>*\<^sup>* w
     (w\<lparr>rw_threads := rw_threads w @ [Unlocked], rw_store := s', rw_table := t',
        rw_order := rw_order w @ [(refresh_enter source ds p)\<lparr>cl_pc := RefreshDone err\<rparr>]\<rparr>)"
proof -
  let ?i = "length (rw_threads w)" and ?c = "refresh_enter source ds p"
  let ?w1 = "w\<lparr>rw_threads := rw_threads w @ [AwaitLock source]\<rparr>"
  let ?w2 = "w\<lparr>rw_threads := rw_threads w @ [InRefresh ?c], rw_locked := True\<rparr>"
  let ?d = "?c\<lparr>cl_pc := RefreshDone err\<rparr>"
  let ?w3 = "(set_thread ?i (InRefresh ?d) ?w2)\<lparr>rw_store := s', rw_table := t'\<rparr>"
  have "refresh_world_step os lib et w ?w1" by (rule rw_call)
  moreover have "refresh_world_step os lib et ?w1 ?w2"
    using rw_lock [of ?i ?w1 source os lib et] free rt by (simp add: set_thread_def)
  moreover have "(refresh_world_step os lib et)\<^sup>*\<^sup>* ?w2 ?w3"
    by (rule thread_runs [where c = ?c and k = 6]) (use r in \<open>simp_all flip: refresh_run_def add: refresh_run_enter\<close>)
  moreover have "refresh_world_step os lib et ?w3
      (w\<lparr>rw_threads := rw_threads w @ [Unlocked], rw_store := s', rw_table := t', rw_order := rw_order w @ [?d]\<rparr>)"
    using rw_unlock [of ?i ?w3 ?d os lib et] free by (cases w) (simp add: set_thread_def)
  ultimately show ?thesis by (meson converse_rtranclp_into_rtranclp rtranclp.rtrancl_into_rtrancl)
qed

section \<open>Properties\<close>

text \<open>
  Claim C10. While every refresh goes through \<open>refreshRoutes\<close>, the routes that the API lists and the
  routes that the proxy serves are the same whenever no refresh is running: whatever calls were
  interleaved, and whatever other operations on the store came between their steps, both come from
  the same list of routes.
\<close>

theorem refreshed_routes_agree:
  assumes "(refresh_store_step os lib et)\<^sup>*\<^sup>* refresh_start w" and "only_locked w" and "\<not> rw_locked w"
  shows "\<exists>routes. ms_routes (rw_store w) = keyedMap rt_ID routes \<and> rw_table w = Swap routes NewRouteTable"
  using agreement.free_shared_ok [OF assms] by (simp add: routes_agree_def)

definition demo_refresh_world :: refresh_world where
  "demo_refresh_world = refresh_start\<lparr>rw_store := demo_route_store\<rparr>"

lemma demo_refresh_world_reachable: "(refresh_store_step os lib et)\<^sup>*\<^sup>* refresh_start demo_refresh_world"
proof -
  have "refresh_store_step os lib et refresh_start demo_refresh_world"
    unfolding demo_refresh_world_def
    by (rule rs_store) (simp add: refresh_start_def demo_route_store_def PutCustomApp_def PutDomain_def)
  then show ?thesis by blast
qed

lemma demo_refresh_result:
  assumes "refreshRoutesWithDiscoverers no_env demo_lib (\<lambda>_. []) [] [] None (demo_route_store, NewRouteTable) = (err, s', t')"
  shows "t' = Swap [demo_custom ''web''] NewRouteTable"
  unfolding refresh_full(1) [OF assms] demo_route_store_lists demo_custom_routes
  by (simp add: discoverAllRoutes_def applyCustomRoutes_def sort_slice_def)

theorem refreshed_routes_agree_witness:
  "\<exists>w. (refresh_store_step no_env demo_lib (\<lambda>_. []))\<^sup>*\<^sup>* refresh_start w \<and> only_locked w \<and> \<not> rw_locked w
     \<and> rw_table w = Swap [demo_custom ''web''] NewRouteTable
     \<and> (\<exists>routes. ms_routes (rw_store w) = keyedMap rt_ID routes \<and> rw_table w = Swap routes NewRouteTable)"
proof -
  obtain err s' t' where r: "refreshRoutesWithDiscoverers no_env demo_lib (\<lambda>_. []) [] [] None
      (rw_store demo_refresh_world, rw_table demo_refresh_world) = (err, s', t')" by (metis prod.exhaust)
  let ?w = "demo_refresh_world\<lparr>rw_threads := rw_threads demo_refresh_world @ [Unlocked], rw_store := s', rw_table := t',
    rw_order := rw_order demo_refresh_world @ [(refresh_enter [] [] None)\<lparr>cl_pc := RefreshDone err\<rparr>]\<rparr>"
  have "(refresh_world_step no_env demo_lib (\<lambda>_. []))\<^sup>*\<^sup>* demo_refresh_world ?w"
    by (rule locked_call [OF _ _ r]) (simp_all add: demo_refresh_world_def refresh_start_def)
  then have "(refresh_store_step no_env demo_lib (\<lambda>_. []))\<^sup>*\<^sup>* demo_refresh_world ?w"
    by (rule rtranclp_mono [THEN predicate2D, rotated]) (blast intro: rs_refresh)
  with demo_refresh_world_reachable have reach: "(refresh_store_step no_env demo_lib (\<lambda>_. []))\<^sup>*\<^sup>* refresh_start ?w"
    by (rule rtranclp_trans)
  have ok: "only_locked ?w" "\<not> rw_locked ?w" by (simp_all add: only_locked_def demo_refresh_world_def refresh_start_def)
  have "rw_table ?w = Swap [demo_custom ''web''] NewRouteTable"
    using demo_refresh_result r by (simp add: demo_refresh_world_def refresh_start_def)
  with refreshed_routes_agree [OF reach ok] reach ok show ?thesis by blast
qed



text \<open>What a full refresh with the given discoverers installs.\<close>

definition refreshed_routes :: "os_env \<Rightarrow> nat_lib \<Rightarrow> memory_store \<Rightarrow> pool option \<Rightarrow> route_discoverer list \<Rightarrow> discovered_route list" where
  "refreshed_routes os lib s p ds =
     applyCustomRoutes (fst (discoverAllRoutes os lib (ListDomains s) ds))
       (fst (buildCustomAppRoutes (ListDomains s) (ListCustomApps s) p))"

text \<open>
  The two refreshes that do not take the mutex break both properties: at startup (and after a reload)
  the refresh of the local discoverers and the full refresh can end with the full list of routes in
  the store and only the local ones in the proxy. The state lasts until the next refresh.
\<close>

theorem direct_refresh_diverges:
  assumes w: "rw_store w = s" "rw_runtime w = (ds, p)" "\<not> rw_locked w" "rw_threads w = []"
  shows "\<exists>w' e. (refresh_world_step os lib et)\<^sup>*\<^sup>* w w' \<and> \<not> rw_locked w'
    \<and> rw_threads w' = [DirectRefresh ((refresh_enter [] (startupDiscoverers ds) p)\<lparr>cl_pc := RefreshDone e\<rparr>), Unlocked]
    \<and> ms_routes (rw_store w') = keyedMap rt_ID (refreshed_routes os lib s p ds) \<and> rw_table w' = Swap (refreshed_routes os lib s p (startupDiscoverers ds)) NewRouteTable"
proof -
  let ?loc = "startupDiscoverers ds"
  let ?c = "refresh_enter [] ?loc p"
  let ?w1 = "w\<lparr>rw_threads := [DirectRefresh ?c]\<rparr>"
  have 1: "refresh_world_step os lib et w ?w1" using rw_direct [of os lib et w "[]" ?loc p] w(4) by simp
  obtain errs rs aps where five: "(refresh_step os lib et ^^ 5) (?c, s, rw_table w) =
      (?c\<lparr>cl_pc := AppsStored (refreshed_routes os lib s p ?loc) errs\<rparr>, s\<lparr>ms_routes := rs, ms_applicationList := aps\<rparr>, rw_table w)"
    by (simp add: eval_nat_numeral refresh_step_def refresh_enter_def selectedDiscoverers_def literal_simps case_prod_unfold Let_def
        refreshed_routes_def ReplaceRoutes_def ReplaceApplications_def)
  let ?d = "?c\<lparr>cl_pc := AppsStored (refreshed_routes os lib s p ?loc) errs\<rparr>" and ?s1 = "s\<lparr>ms_routes := rs, ms_applicationList := aps\<rparr>"
  let ?w2 = "(set_thread 0 (DirectRefresh ?d) ?w1)\<lparr>rw_store := ?s1, rw_table := rw_table w\<rparr>"
  have 2: "(refresh_world_step os lib et)\<^sup>*\<^sup>* ?w1 ?w2"
    by (rule thread_runs [where c = ?c and k = 5]) (use five w(1) in simp_all)
  obtain err s2 t2 where r: "refreshRoutesWithDiscoverers os lib et [] ds p (rw_store ?w2, rw_table ?w2) = (err, s2, t2)"
    by (metis prod.exhaust)
  let ?w3 = "?w2\<lparr>rw_threads := rw_threads ?w2 @ [Unlocked], rw_store := s2, rw_table := t2,
    rw_order := rw_order ?w2 @ [(refresh_enter [] ds p)\<lparr>cl_pc := RefreshDone err\<rparr>]\<rparr>"
  have 3: "(refresh_world_step os lib et)\<^sup>*\<^sup>* ?w2 ?w3"
    by (rule locked_call [OF _ _ r]) (use w in \<open>simp_all add: set_thread_def\<close>)
  have full: "ms_routes s2 = keyedMap rt_ID (refreshed_routes os lib s p ds)"
    using refresh_full(2) [OF r] by (simp add: refreshed_routes_def ListDomains_def ListCustomApps_def)
  let ?e = "?d\<lparr>cl_pc := RefreshDone (errors_Join_opt errs)\<rparr>"
  let ?w4 = "(set_thread 0 (DirectRefresh ?e) ?w3)\<lparr>rw_store := s2, rw_table := Swap (refreshed_routes os lib s p ?loc) t2\<rparr>"
  have 4: "(refresh_world_step os lib et)\<^sup>*\<^sup>* ?w3 ?w4"
    by (rule thread_runs [where c = ?d and k = 1]) (simp_all add: set_thread_def refresh_step_def)
  have "(refresh_world_step os lib et)\<^sup>*\<^sup>* w ?w4"
    using 1 2 3 4 by (meson converse_rtranclp_into_rtranclp rtranclp_trans)
  moreover have "\<not> rw_locked ?w4" "ms_routes (rw_store ?w4) = keyedMap rt_ID (refreshed_routes os lib s p ds)"
    "rw_table ?w4 = Swap (refreshed_routes os lib s p ?loc) NewRouteTable"
    "rw_threads ?w4 = [DirectRefresh (?c\<lparr>cl_pc := RefreshDone (errors_Join_opt errs)\<rparr>), Unlocked]"
    using w full Swap_any by (simp_all add: set_thread_def)
  ultimately show ?thesis by blast
qed

end
