(* ===== verification/Domux_Api.thy ===== *)
theory Domux_Api
  imports Domux_Reload
begin

text \<open>
  The management API (\<open>internal/platform/api/server.go\<close>): decoding of the requests, the handlers that
  change the configuration, the registration of agents, the actions and the read-only handlers. A
  handler is a function from the request and the world (the files and the state of the server) to
  the response and the new world. The body of a request is what \<open>encoding/json\<close> makes of it, a value
  or an error; the store is the memory store, so its type assertions succeed.
\<close>

section \<open>Responses\<close>

datatype api_body =
    StatusBody string
  | MessageBody string string
  | ErrorBody go_error
  | TextBody string
  | AppBody custom_app
  | ZoneBody managed_zone
  | ProviderBody provider_config
  | AgentBody agent_node
  | BundleBody bundle_policy
  | TargetBody deploy_target
  | RuntimeBody runtime_source
  | NamesBody "string list"
  | AppsBody "custom_app list"
  | ApplicationsBody "application list"
  | ZonesBody "managed_zone list"
  | ProvidersBody "provider_config list"
  | AgentsBody "agent_node list"
  | TargetsBody "deploy_target list"
  | RuntimesBody "runtime_source list"
  | RoutesBody "discovered_route list"
  | StatesBody "ddns_sync_state list"
  | CertificatesBody "certificate_bundle list"
  | BundlesBody "bundle_policy list"
  | DeploymentsBody "deploy_run list"
  | JobsBody "job_run list"
  | CatalogBody "(string \<times> record_type list) list"
  | ResourcesBody "(string \<times> system_resources) list"

type_synonym response = "nat \<times> api_body"

abbreviation disabled :: response where
  "disabled \<equiv> (501, StatusBody ''disabled'')"

abbreviation bad_request :: "go_error \<Rightarrow> response" where
  "bad_request e \<equiv> (400, ErrorBody e)"

fun is_RequestError :: "go_error \<Rightarrow> bool" where
  "is_RequestError (RequestError e) = True"
| "is_RequestError _ = False"

fun is_ConflictError :: "go_error \<Rightarrow> bool" where
  "is_ConflictError (ConflictError f a) = True"
| "is_ConflictError _ = False"

fun is_NotFoundError :: "go_error \<Rightarrow> bool" where
  "is_NotFoundError (NotFoundError f a) = True"
| "is_NotFoundError _ = False"

fun is_ValidationError :: "go_error \<Rightarrow> bool" where
  "is_ValidationError (ValidationError e) = True"
| "is_ValidationError _ = False"

definition writeMutationError :: "go_error \<Rightarrow> response" where
  "writeMutationError err =
     (case errors_As is_RequestError err of
        Some e \<Rightarrow> (400, ErrorBody e)
      | None \<Rightarrow>
          (case errors_As is_ConflictError err of
             Some e \<Rightarrow> (409, ErrorBody e)
           | None \<Rightarrow>
               (case errors_As is_NotFoundError err of
                  Some e \<Rightarrow> (404, ErrorBody e)
                | None \<Rightarrow>
                    (case errors_As is_ValidationError err of
                       Some e \<Rightarrow> (400, ErrorBody e)
                     | None \<Rightarrow> (500, ErrorBody err)))))"

section \<open>Decoding\<close>

definition compactStrings :: "string list \<Rightarrow> string list" where
  "compactStrings vs = filter (\<lambda>v. v \<noteq> []) (map TrimSpace vs)"

definition firstNonEmpty :: "string list \<Rightarrow> string" where
  "firstNonEmpty vs = (case compactStrings vs of [] \<Rightarrow> [] | v # _ \<Rightarrow> v)"

definition normalizeBundlePolicy :: "bundle_policy \<Rightarrow> bundle_policy" where
  "normalizeBundlePolicy b =
     b\<lparr>bp_Name := TrimSpace (bp_Name b), bp_Domains := compactStrings (bp_Domains b),
       bp_DeployTargets := compactStrings (bp_DeployTargets b)\<rparr>"

definition normalizeBundlePolicies :: "bundle_policy list \<Rightarrow> bundle_policy list" where
  "normalizeBundlePolicies bs = map normalizeBundlePolicy bs"

definition decodeBundlePolicy :: "bundle_policy result \<Rightarrow> bundle_policy result" where
  "decodeBundlePolicy body = (case body of Inl e \<Rightarrow> Inl e | Inr b \<Rightarrow> Inr (normalizeBundlePolicy b))"

text \<open>\<open>decodeCustomApp\<close> validates the app, the other decoders leave that to the configuration.\<close>

definition trim_app :: "custom_app \<Rightarrow> custom_app" where
  "trim_app a =
     (let domain = TrimSpace (app_Domain a); zone = TrimSpace (app_Zone a);
          domain1 = (if domain = [] then zone else domain);
          zone1 = (if zone = [] then domain1 else zone)
      in a\<lparr>app_Name := TrimSpace (app_Name a), app_Icon := TrimSpace (app_Icon a), app_Domain := domain1, app_Zone := zone1,
           app_Subdomain := TrimSpace (app_Subdomain a), app_ExitNode := TrimSpace (app_ExitNode a),
           app_TargetURL := TrimSpace (app_TargetURL a)\<rparr>)"

definition decodeCustomApp :: "custom_app result \<Rightarrow> custom_app result" where
  "decodeCustomApp body =
     (case body of
        Inl e \<Rightarrow> Inl e
      | Inr a \<Rightarrow> (case CustomApp_Validate (trim_app a) of Some e \<Rightarrow> Inl e | None \<Rightarrow> Inr (trim_app a)))"

definition decodeZone :: "managed_zone result \<Rightarrow> managed_zone result" where
  "decodeZone body =
     (case body of
        Inl e \<Rightarrow> Inl e
      | Inr z \<Rightarrow>
          (let name = TrimSpace (z_Name z); domain = TrimSpace (z_Domain z); ddns = z_DDNS z; cert = z_Certificate z
           in Inr (z\<lparr>z_Name := (if name = [] then domain else name), z_Domain := domain,
                     z_DDNS := ddns\<lparr>dz_ProviderRefs := compactStrings (dz_ProviderRefs ddns)\<rparr>,
                     z_Certificate := cert\<lparr>cp_Email := TrimSpace (cp_Email cert), cp_DNSProvider := TrimSpace (cp_DNSProvider cert),
                       cp_DeployTargets := compactStrings (cp_DeployTargets cert),
                       cp_Bundles := normalizeBundlePolicies (cp_Bundles cert)\<rparr>\<rparr>)))"

text \<open>The options of a provider are visited in the order of the map.\<close>

definition trim_options :: "string gomap \<Rightarrow> string gomap" where
  "trim_options opts =
     fold (\<lambda>(k, v) m. if TrimSpace k = [] then m else gm_put (TrimSpace k) (TrimSpace v) m) opts []"

definition decodeDDNSProvider :: "provider_config result \<Rightarrow> provider_config result" where
  "decodeDDNSProvider body =
     (case body of
        Inl e \<Rightarrow> Inl e
      | Inr p \<Rightarrow> Inr (p\<lparr>pc_Ref := TrimSpace (pc_Ref p), pc_Type := TrimSpace (pc_Type p), pc_Options := trim_options (pc_Options p)\<rparr>))"

definition decodeRuntimeSource :: "os_env \<Rightarrow> runtime_source result \<Rightarrow> runtime_source result" where
  "decodeRuntimeSource os body =
     (case body of
        Inl e \<Rightarrow> Inl e
      | Inr s \<Rightarrow> Inr (Normalized os (s\<lparr>rs_Runtime := TrimSpace (rs_Runtime s), rs_DisplayName := TrimSpace (rs_DisplayName s),
                          rs_Endpoint := TrimSpace (rs_Endpoint s), rs_Network := TrimSpace (rs_Network s)\<rparr>)))"

definition decodeAgent :: "agent_node result \<Rightarrow> agent_node result" where
  "decodeAgent body =
     (case body of
        Inl e \<Rightarrow> Inl e
      | Inr a \<Rightarrow> Inr (a\<lparr>ag_Name := TrimSpace (ag_Name a), ag_DisplayName := TrimSpace (ag_DisplayName a),
                        ag_Addr := TrimSpace (ag_Addr a), ag_SocketPath := TrimSpace (ag_SocketPath a)\<rparr>))"

text \<open>\<open>net.SplitHostPort\<close>: the host and the port of an address, or \<open>None\<close> for an error.\<close>

definition last_colon :: "string \<Rightarrow> (string \<times> string) option" where
  "last_colon s =
     (let port = rev (takeWhile (\<lambda>c. c \<noteq> CHR '':'') (rev s))
      in if CHR '':'' \<in> set s then Some (take (length s - Suc (length port)) s, port) else None)"

definition SplitHostPort :: "string \<Rightarrow> (string \<times> string) option" where
  "SplitHostPort s =
     (case last_colon s of
        None \<Rightarrow> None
      | Some (before, port) \<Rightarrow>
          (if HasPrefix s ''['' then
             (let host = takeWhile (\<lambda>c. c \<noteq> CHR '']'') (tl s);
                  rest = dropWhile (\<lambda>c. c \<noteq> CHR '']'') (tl s)
              in if rest = [] \<or> tl rest \<noteq> CHR '':'' # port \<or> CHR ''['' \<in> set (tl s) \<or> CHR '']'' \<in> set (tl rest) then None
                 else Some (host, port))
           else if CHR '':'' \<in> set before \<or> CHR ''['' \<in> set s \<or> CHR '']'' \<in> set s then None
           else Some (before, port)))"

definition normalizeSSHHostPort :: "string \<Rightarrow> int \<Rightarrow> string \<times> int" where
  "normalizeSSHHostPort addr port =
     (if addr = [] then ([], port)
      else (case SplitHostPort addr of
              None \<Rightarrow> (addr, port)
            | Some (host, portText) \<Rightarrow>
                (Trim host ''[]'', (case Atoi portText of Some p \<Rightarrow> if port = 0 then p else port | None \<Rightarrow> port))))"

definition decodeDeployTarget :: "deploy_target result \<Rightarrow> deploy_target result" where
  "decodeDeployTarget body =
     (case body of
        Inl e \<Rightarrow> Inl e
      | Inr t \<Rightarrow>
          (let ssh = dt_SSH t; (addr, port) = normalizeSSHHostPort (TrimSpace (ssh_Addr ssh)) (ssh_Port ssh)
           in Inr (t\<lparr>dt_Name := TrimSpace (dt_Name t), dt_CertPath := TrimSpace (dt_CertPath t), dt_KeyPath := TrimSpace (dt_KeyPath t),
                     dt_ReloadCommand := TrimSpace (dt_ReloadCommand t), dt_AgentNode := TrimSpace (dt_AgentNode t),
                     dt_SSH := ssh\<lparr>ssh_Addr := addr, ssh_Port := port, ssh_User := TrimSpace (ssh_User ssh),
                                  ssh_PrivateKeyPath := TrimSpace (ssh_PrivateKeyPath ssh)\<rparr>\<rparr>)))"

section \<open>Changing the configuration\<close>

text \<open>
  The world of a handler, and what the API server is built with: the configuration manager and
  whether it reloads. The faults of the file operations are given with each request.
\<close>

record 'd api_world =
  aw_fs :: "'d file_system"
  aw_state :: server_state

record 'd api_env =
  ax_manager :: "manager option"
  ax_reload :: bool
  ax_codec :: "'d yaml_codec"
  ax_server :: server_env

abbreviation ax_os :: "'d api_env \<Rightarrow> os_env" where
  "ax_os env \<equiv> sx_os (ax_server env)"

definition configEnabled :: "'d api_env \<Rightarrow> bool" where
  "configEnabled env \<longleftrightarrow> ax_manager env \<noteq> None"

definition updateConfig :: "'d api_env \<Rightarrow> 'd io_faults \<Rightarrow> (config \<Rightarrow> config result) \<Rightarrow> 'd api_world \<Rightarrow>
    config result \<times> 'd api_world" where
  "updateConfig env io mutate w =
     (case ax_manager env of
        None \<Rightarrow> (Inl (Errorf ''configuration manager is not configured'' []), w)
      | Some m \<Rightarrow>
          (case mgr_Update (ax_os env) (ax_codec env) io m mutate (aw_fs w) of
             (Inl e, fs') \<Rightarrow> (Inl e, w\<lparr>aw_fs := fs'\<rparr>)
           | (Inr cfg, fs') \<Rightarrow>
               (if ax_reload env then
                  (case reloadManagedConfig (ax_server env) cfg (aw_state w) of
                     ((Some e, _), st') \<Rightarrow> (Inl e, \<lparr>aw_fs = fs', aw_state = st'\<rparr>)
                   | ((None, _), st') \<Rightarrow> (Inr cfg, \<lparr>aw_fs = fs', aw_state = st'\<rparr>))
                else (Inr cfg, w\<lparr>aw_fs := fs'\<rparr>))))"

text \<open>The end of every handler that changes the configuration.\<close>

definition mutate_config :: "'d api_env \<Rightarrow> 'd io_faults \<Rightarrow> (config \<Rightarrow> config result) \<Rightarrow> response \<Rightarrow> 'd api_world \<Rightarrow>
    response \<times> 'd api_world" where
  "mutate_config env io mutate ok w =
     (case updateConfig env io mutate w of
        (Inl e, w') \<Rightarrow> (writeMutationError e, w')
      | (Inr _, w') \<Rightarrow> (ok, w'))"

text \<open>The three loops the handlers share: an entry is added, replaced at its index, or removed.\<close>

primrec entry_index :: "('v \<Rightarrow> bool) \<Rightarrow> 'v list \<Rightarrow> nat option" where
  "entry_index P [] = None"
| "entry_index P (x # xs) = (if P x then Some 0 else map_option Suc (entry_index P xs))"

definition create_entry :: "('v \<Rightarrow> string) \<Rightarrow> go_error \<Rightarrow> 'v \<Rightarrow> 'v list \<Rightarrow> 'v list result" where
  "create_entry key conflict x xs =
     (if list_ex (\<lambda>existing. key existing = key x) xs then Inl conflict else Inr (sort_slice key (xs @ [x])))"

definition replace_entry :: "('v \<Rightarrow> string) \<Rightarrow> ('v \<Rightarrow> string) \<Rightarrow> string \<Rightarrow> go_error \<Rightarrow> go_error option \<Rightarrow> 'v \<Rightarrow> 'v list \<Rightarrow> 'v list result" where
  "replace_entry key order name missing refused x xs =
     (case entry_index (\<lambda>existing. key existing = name) xs of
        None \<Rightarrow> Inl missing
      | Some i \<Rightarrow> (case refused of Some e \<Rightarrow> Inl e | None \<Rightarrow> Inr (sort_slice order (xs[i := x]))))"

definition remove_entry :: "('v \<Rightarrow> string) \<Rightarrow> string \<Rightarrow> go_error \<Rightarrow> 'v list \<Rightarrow> 'v list result" where
  "remove_entry key name missing xs =
     (case entry_index (\<lambda>existing. key existing = name) xs of
        None \<Rightarrow> Inl missing
      | Some i \<Rightarrow> Inr (take i xs @ drop (Suc i) xs))"

definition in_apps :: "(custom_app list \<Rightarrow> custom_app list result) \<Rightarrow> config \<Rightarrow> config result" where
  "in_apps f cfg = map_sum (\<lambda>e. e) (\<lambda>xs. cfg\<lparr>c_Apps := xs\<rparr>) (f (c_Apps cfg))"

definition in_zones :: "(managed_zone list \<Rightarrow> managed_zone list result) \<Rightarrow> config \<Rightarrow> config result" where
  "in_zones f cfg = map_sum (\<lambda>e. e) (\<lambda>xs. cfg\<lparr>c_Zones := xs\<rparr>) (f (c_Zones cfg))"

definition in_providers :: "(provider_config list \<Rightarrow> provider_config list result) \<Rightarrow> config \<Rightarrow> config result" where
  "in_providers f cfg = map_sum (\<lambda>e. e) (\<lambda>xs. cfg\<lparr>c_DDNSProviders := xs\<rparr>) (f (c_DDNSProviders cfg))"

definition in_agents :: "(agent_node list \<Rightarrow> agent_node list result) \<Rightarrow> config \<Rightarrow> config result" where
  "in_agents f cfg = map_sum (\<lambda>e. e) (\<lambda>xs. cfg\<lparr>c_Agents := xs\<rparr>) (f (c_Agents cfg))"

definition in_targets :: "(deploy_target list \<Rightarrow> deploy_target list result) \<Rightarrow> config \<Rightarrow> config result" where
  "in_targets f cfg = map_sum (\<lambda>e. e) (\<lambda>xs. cfg\<lparr>c_DeployTargets := xs\<rparr>) (f (c_DeployTargets cfg))"

section \<open>Custom apps\<close>

definition createCustomApp :: "'d api_env \<Rightarrow> 'd io_faults \<Rightarrow> custom_app result \<Rightarrow> 'd api_world \<Rightarrow> response \<times> 'd api_world" where
  "createCustomApp env io body w =
     (if \<not> configEnabled env then (disabled, w)
      else (case decodeCustomApp body of
              Inl e \<Rightarrow> (bad_request e, w)
            | Inr app \<Rightarrow>
                mutate_config env io
                  (in_apps (create_entry app_Name (ConflictError ''custom app %q already exists'' [app_Name app]) app))
                  (201, AppBody app) w))"

definition updateCustomApp :: "'d api_env \<Rightarrow> 'd io_faults \<Rightarrow> string \<Rightarrow> custom_app result \<Rightarrow> 'd api_world \<Rightarrow> response \<times> 'd api_world" where
  "updateCustomApp env io path body w =
     (let name = TrimSpace path
      in if \<not> configEnabled env then (disabled, w)
         else if name = [] then (bad_request (Errorf ''custom app name is required'' []), w)
         else (case decodeCustomApp body of
                 Inl e \<Rightarrow> (bad_request e, w)
               | Inr app0 \<Rightarrow>
                   (let app = (if app_Name app0 = [] then app0\<lparr>app_Name := name\<rparr> else app0)
                    in mutate_config env io
                         (in_apps (\<lambda>apps. replace_entry app_Name app_Name name (NotFoundError ''custom app %q not found'' [name])
                            (if app_Name app \<noteq> name \<and> list_ex (\<lambda>existing. app_Name existing = app_Name app) apps
                             then Some (ConflictError ''custom app %q already exists'' [app_Name app]) else None) app apps))
                         (200, AppBody app) w)))"

definition deleteCustomApp :: "'d api_env \<Rightarrow> 'd io_faults \<Rightarrow> string \<Rightarrow> 'd api_world \<Rightarrow> response \<times> 'd api_world" where
  "deleteCustomApp env io path w =
     (let name = TrimSpace path
      in if \<not> configEnabled env then (disabled, w)
         else if name = [] then (bad_request (Errorf ''custom app name is required'' []), w)
         else mutate_config env io
                (in_apps (remove_entry app_Name name (NotFoundError ''custom app %q not found'' [name])))
                (200, MessageBody ''ok'' ''custom app deleted'') w)"

section \<open>Zones\<close>

definition createZone :: "'d api_env \<Rightarrow> 'd io_faults \<Rightarrow> managed_zone result \<Rightarrow> 'd api_world \<Rightarrow> response \<times> 'd api_world" where
  "createZone env io body w =
     (if \<not> configEnabled env then (disabled, w)
      else (case decodeZone body of
              Inl e \<Rightarrow> (bad_request e, w)
            | Inr zone \<Rightarrow>
                mutate_config env io
                  (in_zones (create_entry z_Domain (ConflictError ''domain %q already exists'' [z_Domain zone]) zone))
                  (201, ZoneBody zone) w))"

definition updateZone :: "'d api_env \<Rightarrow> 'd io_faults \<Rightarrow> string \<Rightarrow> managed_zone result \<Rightarrow> 'd api_world \<Rightarrow> response \<times> 'd api_world" where
  "updateZone env io path body w =
     (let name = TrimSpace path
      in if \<not> configEnabled env then (disabled, w)
         else if name = [] then (bad_request (Errorf ''domain is required'' []), w)
         else (case decodeZone body of
                 Inl e \<Rightarrow> (bad_request e, w)
               | Inr zone0 \<Rightarrow>
                   (let zone = (if z_Name zone0 = [] then zone0\<lparr>z_Name := name\<rparr> else zone0)
                    in mutate_config env io
                         (in_zones (replace_entry z_Name z_Domain name (NotFoundError ''domain %q not found'' [name])
                            (if z_Name zone \<noteq> name then Some (RequestError (Errorf ''renaming domains is not supported'' [])) else None) zone))
                         (200, ZoneBody zone) w)))"

definition deleteZone :: "'d api_env \<Rightarrow> 'd io_faults \<Rightarrow> string \<Rightarrow> 'd api_world \<Rightarrow> response \<times> 'd api_world" where
  "deleteZone env io path w =
     (let name = TrimSpace path
      in if \<not> configEnabled env then (disabled, w)
         else if name = [] then (bad_request (Errorf ''domain is required'' []), w)
         else mutate_config env io
                (in_zones (remove_entry z_Name name (NotFoundError ''domain %q not found'' [name])))
                (200, MessageBody ''ok'' ''domain deleted'') w)"

section \<open>Providers\<close>

definition createDDNSProvider :: "'d api_env \<Rightarrow> 'd io_faults \<Rightarrow> provider_config result \<Rightarrow> 'd api_world \<Rightarrow> response \<times> 'd api_world" where
  "createDDNSProvider env io body w =
     (if \<not> configEnabled env then (disabled, w)
      else (case decodeDDNSProvider body of
              Inl e \<Rightarrow> (bad_request e, w)
            | Inr p \<Rightarrow>
                mutate_config env io
                  (in_providers (create_entry pc_Ref (ConflictError ''ddns provider %q already exists'' [pc_Ref p]) p))
                  (201, ProviderBody p) w))"

definition updateDDNSProvider :: "'d api_env \<Rightarrow> 'd io_faults \<Rightarrow> string \<Rightarrow> provider_config result \<Rightarrow> 'd api_world \<Rightarrow> response \<times> 'd api_world" where
  "updateDDNSProvider env io path body w =
     (let ref = TrimSpace path
      in if \<not> configEnabled env then (disabled, w)
         else if ref = [] then (bad_request (Errorf ''ddns provider ref is required'' []), w)
         else (case decodeDDNSProvider body of
                 Inl e \<Rightarrow> (bad_request e, w)
               | Inr p0 \<Rightarrow>
                   (let p = (if pc_Ref p0 = [] then p0\<lparr>pc_Ref := ref\<rparr> else p0)
                    in mutate_config env io
                         (in_providers (replace_entry pc_Ref pc_Ref ref (NotFoundError ''ddns provider %q not found'' [ref])
                            (if pc_Ref p \<noteq> ref then Some (RequestError (Errorf ''renaming ddns providers is not supported'' [])) else None) p))
                         (200, ProviderBody p) w)))"

definition deleteDDNSProvider :: "'d api_env \<Rightarrow> 'd io_faults \<Rightarrow> string \<Rightarrow> 'd api_world \<Rightarrow> response \<times> 'd api_world" where
  "deleteDDNSProvider env io path w =
     (let ref = TrimSpace path
      in if \<not> configEnabled env then (disabled, w)
         else if ref = [] then (bad_request (Errorf ''ddns provider ref is required'' []), w)
         else mutate_config env io
                (in_providers (remove_entry pc_Ref ref (NotFoundError ''ddns provider %q not found'' [ref])))
                (200, MessageBody ''ok'' ''ddns provider deleted'') w)"

definition listDDNSProviderCatalog :: response where
  "listDDNSProviderCatalog =
     (case NewBuiltinRegistry of Inl e \<Rightarrow> (500, ErrorBody e) | Inr registry \<Rightarrow> (200, CatalogBody (Catalog registry)))"

section \<open>Certificate bundles of a zone\<close>

definition findConfigZone :: "config \<Rightarrow> string \<Rightarrow> (managed_zone \<times> nat) option" where
  "findConfigZone cfg name =
     map_option (\<lambda>i. (c_Zones cfg ! i, i)) (entry_index (\<lambda>z. z_Domain z = name \<or> z_Name z = name) (c_Zones cfg))"

definition findZoneBundle :: "managed_zone \<Rightarrow> string \<Rightarrow> nat option" where
  "findZoneBundle zone bundleName = entry_index (\<lambda>b. TrimSpace (bp_Name b) = TrimSpace bundleName) (cp_Bundles (z_Certificate zone))"

definition sortBundlePolicies :: "string \<Rightarrow> bundle_policy list \<Rightarrow> bundle_policy list" where
  "sortBundlePolicies zoneName bs = sort_slice (\<lambda>b. QualifiedBundleName zoneName (bp_Name b)) bs"

definition put_bundles :: "nat \<Rightarrow> managed_zone \<Rightarrow> bundle_policy list \<Rightarrow> config \<Rightarrow> config" where
  "put_bundles i zone bs cfg =
     cfg\<lparr>c_Zones := (c_Zones cfg)[i := zone\<lparr>z_Certificate := (z_Certificate zone)\<lparr>cp_Bundles := bs\<rparr>\<rparr>]\<rparr>"

definition getZoneByPath :: "memory_store \<Rightarrow> string \<Rightarrow> response + managed_zone" where
  "getZoneByPath store path =
     (let name = TrimSpace path
      in if name = [] then Inl (bad_request (Errorf ''domain is required'' []))
         else (case GetDomain store name of
                 None \<Rightarrow> Inl (404, ErrorBody (Errorf ''domain %q not found'' [name]))
               | Some zone \<Rightarrow> Inr zone))"

definition listZoneBundles :: "string \<Rightarrow> 'd api_world \<Rightarrow> response" where
  "listZoneBundles path w =
     (case getZoneByPath (ss_store (aw_state w)) path of
        Inl r \<Rightarrow> r
      | Inr zone \<Rightarrow> (200, BundlesBody (normalizeBundlePolicies (cp_Bundles (z_Certificate zone)))))"

definition createZoneBundle :: "'d api_env \<Rightarrow> 'd io_faults \<Rightarrow> string \<Rightarrow> bundle_policy result \<Rightarrow> 'd api_world \<Rightarrow> response \<times> 'd api_world" where
  "createZoneBundle env io path body w =
     (let zoneName = TrimSpace path
      in if \<not> configEnabled env then (disabled, w)
         else if zoneName = [] then (bad_request (Errorf ''domain is required'' []), w)
         else (case decodeBundlePolicy body of
                 Inl e \<Rightarrow> (bad_request e, w)
               | Inr bundle \<Rightarrow>
                   if bp_Name bundle = [] then
                     (bad_request (Errorf ''domain %q certificate bundle name is required'' [zoneName]), w)
                   else
                     mutate_config env io (\<lambda>cfg.
                       (case findConfigZone cfg zoneName of
                          None \<Rightarrow> Inl (NotFoundError ''domain %q not found'' [zoneName])
                        | Some (zone, i) \<Rightarrow>
                            (if findZoneBundle zone (bp_Name bundle) \<noteq> None then
                               Inl (ConflictError ''domain %q certificate bundle %q already exists''
                                     [z_Domain zone, QualifiedBundleName (z_Name zone) (bp_Name bundle)])
                             else Inr (put_bundles i zone
                                    (sortBundlePolicies (z_Name zone) (cp_Bundles (z_Certificate zone) @ [bundle])) cfg))))
                       (201, BundleBody bundle) w))"

definition updateZoneBundle :: "'d api_env \<Rightarrow> 'd io_faults \<Rightarrow> string \<Rightarrow> string \<Rightarrow> bundle_policy result \<Rightarrow> 'd api_world \<Rightarrow> response \<times> 'd api_world" where
  "updateZoneBundle env io path bundlePath body w =
     (let zoneName = TrimSpace path; bundleName = TrimSpace bundlePath
      in if \<not> configEnabled env then (disabled, w)
         else if zoneName = [] then (bad_request (Errorf ''domain is required'' []), w)
         else if bundleName = [] then (bad_request (Errorf ''bundle name is required'' []), w)
         else (case decodeBundlePolicy body of
                 Inl e \<Rightarrow> (bad_request e, w)
               | Inr bundle0 \<Rightarrow>
                   (let bundle = (if bp_Name bundle0 = [] then bundle0\<lparr>bp_Name := bundleName\<rparr> else bundle0)
                    in mutate_config env io (\<lambda>cfg.
                         (case findConfigZone cfg zoneName of
                            None \<Rightarrow> Inl (NotFoundError ''domain %q not found'' [zoneName])
                          | Some (zone, i) \<Rightarrow>
                              (case findZoneBundle zone bundleName of
                                 None \<Rightarrow> Inl (NotFoundError ''domain %q certificate bundle %q not found''
                                            [z_Domain zone, QualifiedBundleName (z_Name zone) bundleName])
                               | Some j \<Rightarrow>
                                   if bp_Name bundle \<noteq> bundleName then
                                     Inl (RequestError (Errorf ''renaming certificate bundles is not supported'' []))
                                   else Inr (put_bundles i zone
                                          (sortBundlePolicies (z_Name zone) ((cp_Bundles (z_Certificate zone))[j := bundle])) cfg))))
                         (200, BundleBody bundle) w)))"

definition deleteZoneBundle :: "'d api_env \<Rightarrow> 'd io_faults \<Rightarrow> string \<Rightarrow> string \<Rightarrow> 'd api_world \<Rightarrow> response \<times> 'd api_world" where
  "deleteZoneBundle env io path bundlePath w =
     (let zoneName = TrimSpace path; bundleName = TrimSpace bundlePath
      in if \<not> configEnabled env then (disabled, w)
         else if zoneName = [] then (bad_request (Errorf ''domain is required'' []), w)
         else if bundleName = [] then (bad_request (Errorf ''bundle name is required'' []), w)
         else mutate_config env io (\<lambda>cfg.
                (case findConfigZone cfg zoneName of
                   None \<Rightarrow> Inl (NotFoundError ''domain %q not found'' [zoneName])
                 | Some (zone, i) \<Rightarrow>
                     (case findZoneBundle zone bundleName of
                        None \<Rightarrow> Inl (NotFoundError ''domain %q certificate bundle %q not found''
                                   [z_Domain zone, QualifiedBundleName (z_Name zone) bundleName])
                      | Some j \<Rightarrow>
                          (let bs = cp_Bundles (z_Certificate zone)
                           in Inr (put_bundles i zone (take j bs @ drop (Suc j) bs) cfg)))))
                (200, MessageBody ''ok'' ''bundle deleted'') w)"

section \<open>Agents\<close>

definition createAgent :: "'d api_env \<Rightarrow> 'd io_faults \<Rightarrow> agent_node result \<Rightarrow> 'd api_world \<Rightarrow> response \<times> 'd api_world" where
  "createAgent env io body w =
     (if \<not> configEnabled env then (disabled, w)
      else (case decodeAgent body of
              Inl e \<Rightarrow> (bad_request e, w)
            | Inr agent \<Rightarrow>
                mutate_config env io
                  (in_agents (create_entry ag_Name (ConflictError ''agent %q already exists'' [ag_Name agent]) agent))
                  (201, AgentBody agent) w))"

definition updateAgent :: "'d api_env \<Rightarrow> 'd io_faults \<Rightarrow> string \<Rightarrow> agent_node result \<Rightarrow> 'd api_world \<Rightarrow> response \<times> 'd api_world" where
  "updateAgent env io path body w =
     (let name = TrimSpace path
      in if \<not> configEnabled env then (disabled, w)
         else if name = [] then (bad_request (Errorf ''agent name is required'' []), w)
         else (case decodeAgent body of
                 Inl e \<Rightarrow> (bad_request e, w)
               | Inr agent0 \<Rightarrow>
                   (let agent = (if ag_Name agent0 = [] then agent0\<lparr>ag_Name := name\<rparr> else agent0)
                    in mutate_config env io
                         (in_agents (replace_entry ag_Name ag_Name name (NotFoundError ''agent %q not found'' [name])
                            (if ag_Name agent \<noteq> name then Some (RequestError (Errorf ''renaming agents is not supported'' [])) else None) agent))
                         (200, AgentBody agent) w)))"

definition deleteAgent :: "'d api_env \<Rightarrow> 'd io_faults \<Rightarrow> string \<Rightarrow> 'd api_world \<Rightarrow> response \<times> 'd api_world" where
  "deleteAgent env io path w =
     (let name = TrimSpace path
      in if \<not> configEnabled env then (disabled, w)
         else if name = [] then (bad_request (Errorf ''agent name is required'' []), w)
         else mutate_config env io
                (in_agents (remove_entry ag_Name name (NotFoundError ''agent %q not found'' [name])))
                (200, MessageBody ''ok'' ''agent deleted'') w)"

definition set_store :: "(memory_store \<Rightarrow> memory_store) \<Rightarrow> 'd api_world \<Rightarrow> 'd api_world" where
  "set_store f w = w\<lparr>aw_state := (aw_state w)\<lparr>ss_store := f (ss_store (aw_state w))\<rparr>\<rparr>"

record registration_request =
  rg_Name :: string
  rg_Addr :: string
  rg_Runtime :: container_runtime
  rg_SocketPath :: string
  rg_Version :: string

definition registered_agent :: "string \<Rightarrow> registration_request \<Rightarrow> agent_node" where
  "registered_agent remoteAddr req =
     \<lparr>ag_Name = TrimSpace (rg_Name req), ag_DisplayName = [],
      ag_Addr = (if TrimSpace (rg_Addr req) = [] then remoteAddr else TrimSpace (rg_Addr req)),
      ag_Runtime = (if TrimSpace (rg_Runtime req) = [] then ContainerRuntimeDocker else TrimSpace (rg_Runtime req)),
      ag_SocketPath = TrimSpace (rg_SocketPath req), ag_Version = TrimSpace (rg_Version req), ag_Status = ''pending'',
      ag_LastError = [], ag_LastCheckedAt = 0, ag_Resources = zero_resources\<rparr>"

definition registerAgent :: "string \<Rightarrow> registration_request result \<Rightarrow> 'd api_world \<Rightarrow> response \<times> 'd api_world" where
  "registerAgent remoteAddr body w =
     (case body of
        Inl e \<Rightarrow> (bad_request e, w)
      | Inr req \<Rightarrow>
          (let agent = registered_agent remoteAddr req
           in case AgentNode_Validate agent of
                Some e \<Rightarrow> (bad_request e, w)
              | None \<Rightarrow> ((202, StatusBody ''pending''), set_store (PutPendingAgent agent) w)))"

definition approvePendingAgent :: "'d api_env \<Rightarrow> 'd io_faults \<Rightarrow> string \<Rightarrow> 'd api_world \<Rightarrow> response \<times> 'd api_world" where
  "approvePendingAgent env io path w =
     (let name = TrimSpace path
      in if \<not> configEnabled env then (disabled, w)
         else if name = [] then (bad_request (Errorf ''agent name is required'' []), w)
         else (case find (\<lambda>a. ag_Name a = name) (ListPendingAgents (ss_store (aw_state w))) of
                 None \<Rightarrow> ((404, ErrorBody (Errorf ''pending agent %q not found'' [name])), w)
               | Some pending \<Rightarrow>
                   (let agent = pending\<lparr>ag_Status := [], ag_LastError := [], ag_LastCheckedAt := 0\<rparr>
                    in case updateConfig env io
                              (in_agents (create_entry ag_Name (ConflictError ''agent %q already exists'' [ag_Name pending]) agent)) w of
                         (Inl e, w') \<Rightarrow> (writeMutationError e, w')
                       | (Inr _, w') \<Rightarrow> ((200, StatusBody ''ok''), set_store (DeletePendingAgent name) w'))))"

definition deletePendingAgent :: "string \<Rightarrow> 'd api_world \<Rightarrow> response \<times> 'd api_world" where
  "deletePendingAgent path w =
     (let name = TrimSpace path
      in if name = [] then (bad_request (Errorf ''agent name is required'' []), w)
         else ((200, StatusBody ''ok''), set_store (DeletePendingAgent name) w))"

section \<open>Deploy targets and the runtime of the server\<close>

definition createDeployTarget :: "'d api_env \<Rightarrow> 'd io_faults \<Rightarrow> deploy_target result \<Rightarrow> 'd api_world \<Rightarrow> response \<times> 'd api_world" where
  "createDeployTarget env io body w =
     (if \<not> configEnabled env then (disabled, w)
      else (case decodeDeployTarget body of
              Inl e \<Rightarrow> (bad_request e, w)
            | Inr t \<Rightarrow>
                mutate_config env io
                  (in_targets (create_entry dt_Name (ConflictError ''deploy target %q already exists'' [dt_Name t]) t))
                  (201, TargetBody t) w))"

definition updateDeployTarget :: "'d api_env \<Rightarrow> 'd io_faults \<Rightarrow> string \<Rightarrow> deploy_target result \<Rightarrow> 'd api_world \<Rightarrow> response \<times> 'd api_world" where
  "updateDeployTarget env io path body w =
     (let name = TrimSpace path
      in if \<not> configEnabled env then (disabled, w)
         else if name = [] then (bad_request (Errorf ''deploy target name is required'' []), w)
         else (case decodeDeployTarget body of
                 Inl e \<Rightarrow> (bad_request e, w)
               | Inr t0 \<Rightarrow>
                   (let t = (if dt_Name t0 = [] then t0\<lparr>dt_Name := name\<rparr> else t0)
                    in mutate_config env io
                         (in_targets (replace_entry dt_Name dt_Name name (NotFoundError ''deploy target %q not found'' [name])
                            (if dt_Name t \<noteq> name then Some (RequestError (Errorf ''renaming deploy targets is not supported'' [])) else None) t))
                         (200, TargetBody t) w)))"

definition deleteDeployTarget :: "'d api_env \<Rightarrow> 'd io_faults \<Rightarrow> string \<Rightarrow> 'd api_world \<Rightarrow> response \<times> 'd api_world" where
  "deleteDeployTarget env io path w =
     (let name = TrimSpace path
      in if \<not> configEnabled env then (disabled, w)
         else if name = [] then (bad_request (Errorf ''deploy target name is required'' []), w)
         else mutate_config env io
                (in_targets (remove_entry dt_Name name (NotFoundError ''deploy target %q not found'' [name])))
                (200, MessageBody ''ok'' ''deploy target deleted'') w)"

definition updateServerRuntime :: "'d api_env \<Rightarrow> 'd io_faults \<Rightarrow> runtime_source result \<Rightarrow> 'd api_world \<Rightarrow> response \<times> 'd api_world" where
  "updateServerRuntime env io body w =
     (if \<not> configEnabled env then (disabled, w)
      else (case decodeRuntimeSource (ax_os env) body of
              Inl e \<Rightarrow> (bad_request e, w)
            | Inr source \<Rightarrow>
                mutate_config env io
                  (\<lambda>cfg. Inr (cfg\<lparr>c_Server := (c_Server cfg)\<lparr>sc_Runtime := Normalized (ax_os env) source\<rparr>\<rparr>))
                  (200, RuntimeBody (Normalized (ax_os env) source)) w))"

definition listDockerNetworks :: "server_env \<Rightarrow> string \<Rightarrow> string \<Rightarrow> response" where
  "listDockerNetworks env runtimeQuery endpointQuery =
     (let runtime = (if TrimSpace runtimeQuery = [] then ContainerRuntimeDocker else TrimSpace runtimeQuery)
      in case ContainerRuntime_Validate runtime of
           Some e \<Rightarrow> bad_request e
         | None \<Rightarrow>
             (let source = \<lparr>rs_DisplayName = [], rs_Runtime = runtime, rs_Endpoint = TrimSpace endpointQuery, rs_Network = []\<rparr>
              in case dc_local (sx_connect env) source of
                   Inl e \<Rightarrow> bad_request e
                 | Inr api \<Rightarrow>
                     (case NetworkNames (NewWithClient (sx_os env) source api) of
                        Inl e \<Rightarrow> bad_request e
                      | Inr names \<Rightarrow> (200, NamesBody names))))"

section \<open>Logs, resources and files\<close>

text \<open>\<open>tailLines\<close>: the buffer of the scanner loop, shifted once it is full; the lines are those of the file.\<close>

definition tail_step :: "nat \<Rightarrow> string \<Rightarrow> string list \<Rightarrow> string list" where
  "tail_step limit line buf =
     (if length buf < limit then buf @ [line] else (tl buf @ [last buf])[length buf - 1 := line])"

definition tailLines :: "(string \<Rightarrow> string list result) \<Rightarrow> string \<Rightarrow> int \<Rightarrow> string list result" where
  "tailLines scan path limit0 =
     (let limit = (if limit0 \<le> 0 then 300 else nat limit0)
      in case scan path of Inl e \<Rightarrow> Inl e | Inr lines \<Rightarrow> Inr (fold (tail_step limit) lines []))"

definition no_logs :: string where
  "no_logs = bytes [230, 154, 130, 230, 151, 160, 230, 151, 165, 229, 191, 151]"

definition systemLogs :: "os_env \<Rightarrow> (string \<Rightarrow> string list result) \<Rightarrow> response" where
  "systemLogs os scan =
     (let own = TrimSpace (os_Getenv os ''DOMUX_LOG_FILE'');
          path = (if own = [] then ''/tmp/domux.log'' else own)
      in case tailLines scan path 300 of
           Inl e \<Rightarrow> (200, TextBody no_logs)
         | Inr lines \<Rightarrow> (200, TextBody (Join lines [CHR 0x0A])))"

definition listNodeResources :: "system_resources result \<Rightarrow> 'd api_world \<Rightarrow> response" where
  "listNodeResources own w =
     (200, ResourcesBody
        ((case own of Inr r \<Rightarrow> [(''server'', r)] | Inl _ \<Rightarrow> [])
         @ map (\<lambda>a. (ag_Name a, ag_Resources a))
             (filter (\<lambda>a. sr_CheckedAt (ag_Resources a) \<noteq> 0) (ListAgents (ss_store (aw_state w))))))"

text \<open>\<open>agentBinaryPath\<close>; \<open>is_file\<close> is \<open>os.Stat\<close> of something that is not a directory.\<close>

definition agentBinaryPath :: "os_env \<Rightarrow> (string \<Rightarrow> bool) \<Rightarrow> string result \<Rightarrow> string result \<Rightarrow> string result" where
  "agentBinaryPath os is_file executable absolute =
     (let own = TrimSpace (os_Getenv os ''DOMUX_AGENT_BINARY'');
          beside = (case executable of Inl _ \<Rightarrow> None
                    | Inr exe \<Rightarrow> let c = PathJoin [Dir exe, ''domux-agent''] in if is_file c then Some c else None)
      in if own \<noteq> [] \<and> is_file own then Inr own
         else (case beside of
                 Some c \<Rightarrow> Inr c
               | None \<Rightarrow>
                   (case (if is_file ''domux-agent'' then absolute else Inl ErrNotExist) of
                      Inr path \<Rightarrow> Inr path
                    | Inl _ \<Rightarrow> Inl (Errorf ''domux-agent binary not found'' []))))"

text \<open>\<open>requestOrigin\<close> of a request with its host and two headers; empty headers are absent.\<close>

definition requestOrigin :: "bool \<Rightarrow> string \<Rightarrow> string \<Rightarrow> string \<Rightarrow> string" where
  "requestOrigin over_tls host forwardedProto forwardedHost =
     (let first = (\<lambda>v. hd (Split (TrimSpace v) (CHR '',''))) ;
          scheme = (if TrimSpace forwardedProto \<noteq> [] then first forwardedProto else if over_tls then ''https'' else ''http'');
          h = (if TrimSpace forwardedHost \<noteq> [] then first forwardedHost else host)
      in TrimRight (scheme @ ''://'' @ TrimSpace h) ''/'')"

section \<open>Actions\<close>

record action_query =
  aq_domain :: string
  aq_zone :: string
  aq_source :: string
  aq_bundle :: string
  aq_target :: string

definition runAction :: "(action_request \<Rightarrow> 'w \<Rightarrow> go_error option \<times> 'w) option \<Rightarrow> string \<Rightarrow> action_query \<Rightarrow> 'w \<Rightarrow> response \<times> 'w" where
  "runAction action message q w =
     (case action of
        None \<Rightarrow> (disabled, w)
      | Some act \<Rightarrow>
          (let request = \<lparr>ar_Source = TrimSpace (aq_source q), ar_Domain = TrimSpace (firstNonEmpty [aq_domain q, aq_zone q]),
                          ar_Bundle = TrimSpace (aq_bundle q), ar_Target = TrimSpace (aq_target q)\<rparr>
           in case act request w of
                (None, w') \<Rightarrow> ((200, MessageBody ''ok'' message), w')
              | (Some err, w') \<Rightarrow>
                  (case errors_As is_RequestError err of
                     Some e \<Rightarrow> (bad_request e, w')
                   | None \<Rightarrow> ((500, ErrorBody err), w'))))"

section \<open>The endpoints\<close>

text \<open>
  The endpoints of \<open>Handler\<close> (the paths below \<open>/zones\<close> and \<open>/domains\<close> share a handler). Left out are
  those that answer with a file (the install script, the agent binary, the web UI), the logs and the
  docker networks, which read nothing of the state, and the actions: \<open>Domux_Http\<close> adds them.
\<close>

datatype read_request =
    ReadHealth | ReadZones | ReadApplications | ReadApps | ReadZoneBundles string | ReadProviders | ReadCatalog | ReadRuntimes
  | ReadRoutes | ReadAgents | ReadPendingAgents | ReadDDNSStates | ReadDeployTargets | ReadCertificates | ReadDeployments
  | ReadJobs | ReadResources "system_resources result"

datatype api_request =
    ReadRq read_request
  | CreateApp "custom_app result" | UpdateApp string "custom_app result" | DeleteApp string
  | CreateZoneRq "managed_zone result" | UpdateZoneRq string "managed_zone result" | DeleteZoneRq string
  | CreateBundle string "bundle_policy result" | UpdateBundle string string "bundle_policy result" | DeleteBundleRq string string
  | CreateProvider "provider_config result" | UpdateProvider string "provider_config result" | DeleteProvider string
  | CreateAgentRq "agent_node result" | UpdateAgentRq string "agent_node result" | DeleteAgentRq string
  | RegisterAgent string "registration_request result" | ApproveAgent string | RejectAgent string
  | CreateTarget "deploy_target result" | UpdateTarget string "deploy_target result" | DeleteTarget string
  | UpdateRuntime "runtime_source result"

fun api_read :: "os_env \<Rightarrow> read_request \<Rightarrow> 'd api_world \<Rightarrow> response" where
  "api_read os ReadHealth w = (200, StatusBody ''ok'')"
| "api_read os ReadZones w = (200, ZonesBody (ListDomains (ss_store (aw_state w))))"
| "api_read os ReadApplications w = (200, ApplicationsBody (ListApplications (ss_store (aw_state w))))"
| "api_read os ReadApps w = (200, AppsBody (ListCustomApps (ss_store (aw_state w))))"
| "api_read os (ReadZoneBundles name) w = listZoneBundles name w"
| "api_read os ReadProviders w = (200, ProvidersBody (ListDDNSProviders (ss_store (aw_state w))))"
| "api_read os ReadCatalog w = listDDNSProviderCatalog"
| "api_read os ReadRuntimes w = (200, RuntimesBody (ListRuntimes os (ss_store (aw_state w))))"
| "api_read os ReadRoutes w = (200, RoutesBody (ListRoutes (ss_store (aw_state w))))"
| "api_read os ReadAgents w = (200, AgentsBody (ListAgents (ss_store (aw_state w))))"
| "api_read os ReadPendingAgents w = (200, AgentsBody (ListPendingAgents (ss_store (aw_state w))))"
| "api_read os ReadDDNSStates w = (200, StatesBody (ListDDNSSyncStates (ss_store (aw_state w))))"
| "api_read os ReadDeployTargets w = (200, TargetsBody (ListDeployTargets (ss_store (aw_state w))))"
| "api_read os ReadCertificates w =
     (200, CertificatesBody (CurrentCertificateBundles (ListDomains (ss_store (aw_state w))) (ListBundles (ss_store (aw_state w)))))"
| "api_read os ReadDeployments w = (200, DeploymentsBody (ListDeployRuns (ss_store (aw_state w))))"
| "api_read os ReadJobs w = (200, JobsBody (ListJobRuns (ss_store (aw_state w))))"
| "api_read os (ReadResources own) w = listNodeResources own w"

fun api_serve :: "'d api_env \<Rightarrow> 'd io_faults \<Rightarrow> api_request \<Rightarrow> 'd api_world \<Rightarrow> response \<times> 'd api_world" where
  "api_serve env io (ReadRq r) w = (api_read (ax_os env) r w, w)"
| "api_serve env io (CreateApp b) w = createCustomApp env io b w"
| "api_serve env io (UpdateApp n b) w = updateCustomApp env io n b w"
| "api_serve env io (DeleteApp n) w = deleteCustomApp env io n w"
| "api_serve env io (CreateZoneRq b) w = createZone env io b w"
| "api_serve env io (UpdateZoneRq n b) w = updateZone env io n b w"
| "api_serve env io (DeleteZoneRq n) w = deleteZone env io n w"
| "api_serve env io (CreateBundle z b) w = createZoneBundle env io z b w"
| "api_serve env io (UpdateBundle z n b) w = updateZoneBundle env io z n b w"
| "api_serve env io (DeleteBundleRq z n) w = deleteZoneBundle env io z n w"
| "api_serve env io (CreateProvider b) w = createDDNSProvider env io b w"
| "api_serve env io (UpdateProvider n b) w = updateDDNSProvider env io n b w"
| "api_serve env io (DeleteProvider n) w = deleteDDNSProvider env io n w"
| "api_serve env io (CreateAgentRq b) w = createAgent env io b w"
| "api_serve env io (UpdateAgentRq n b) w = updateAgent env io n b w"
| "api_serve env io (DeleteAgentRq n) w = deleteAgent env io n w"
| "api_serve env io (RegisterAgent addr b) w = registerAgent addr b w"
| "api_serve env io (ApproveAgent n) w = approvePendingAgent env io n w"
| "api_serve env io (RejectAgent n) w = deletePendingAgent n w"
| "api_serve env io (CreateTarget b) w = createDeployTarget env io b w"
| "api_serve env io (UpdateTarget n b) w = updateDeployTarget env io n b w"
| "api_serve env io (DeleteTarget n) w = deleteDeployTarget env io n w"
| "api_serve env io (UpdateRuntime b) w = updateServerRuntime env io b w"

section \<open>Facts about the decoders and the loops\<close>

lemma entry_index_Some: "entry_index P xs = Some i \<Longrightarrow> i < length xs \<and> P (xs ! i)"
  by (induction xs arbitrary: i) (auto split: if_splits)

lemma entry_index_None: "entry_index P xs = None \<longleftrightarrow> (\<forall>x \<in> set xs. \<not> P x)"
  by (induction xs) auto

lemma create_entry_Inr: "create_entry key e x xs = Inr ys \<longleftrightarrow> key x \<notin> key ` set xs \<and> ys = sort_slice key (xs @ [x])"
  by (auto simp: create_entry_def list_ex_iff image_iff eq_commute [of "key x"])

lemma replace_entry_Inr:
  "replace_entry key order n e r x xs = Inr ys \<longleftrightarrow>
     r = None \<and> (\<exists>i. entry_index (\<lambda>existing. key existing = n) xs = Some i \<and> ys = sort_slice order (xs[i := x]))"
  by (auto simp: replace_entry_def split: option.splits)

lemma remove_entry_Inr:
  "remove_entry key n e xs = Inr ys \<longleftrightarrow>
     (\<exists>i. entry_index (\<lambda>existing. key existing = n) xs = Some i \<and> ys = take i xs @ drop (Suc i) xs)"
  by (auto simp: remove_entry_def split: option.splits)

text \<open>With distinct names the entry at the index is the only one of its name.\<close>

lemma mset_at: "i < length xs \<Longrightarrow> mset xs = {#xs ! i#} + mset (take i xs @ drop (Suc i) xs)"
  by (metis append.assoc append_Cons append_Nil id_take_nth_drop mset.simps(2) mset_append union_mset_add_mset_left union_mset_add_mset_right add_mset_add_single union_commute)

lemma mset_list_update: "i < length xs \<Longrightarrow> mset (xs[i := x]) = {#x#} + mset (take i xs @ drop (Suc i) xs)"
  by (simp add: upd_conv_take_nth_drop)

lemma rest_filter:
  assumes "distinct (map key xs)" and "entry_index (\<lambda>x. key x = n) xs = Some i"
  shows "take i xs @ drop (Suc i) xs = filter (\<lambda>x. key x \<noteq> n) xs"
  using assms
proof (induction xs arbitrary: i)
  case (Cons x xs)
  show ?case
  proof (cases "key x = n")
    case True
    then have "filter (\<lambda>y. key y \<noteq> n) xs = xs" using Cons.prems(1) by (intro filter_True) (auto simp: image_iff)
    with True Cons.prems(2) show ?thesis by simp
  next
    case False
    with Cons.prems(2) obtain j where j: "entry_index (\<lambda>x. key x = n) xs = Some j" "i = Suc j" by auto
    with False Cons.IH [OF _ j(1)] Cons.prems(1) show ?thesis by simp
  qed
qed simp

lemma map_sum_Inr: "map_sum (\<lambda>e. e) f r = Inr y \<longleftrightarrow> (\<exists>x. r = Inr x \<and> y = f x)"
  by (cases r) auto

lemmas in_table_defs = in_apps_def in_zones_def in_providers_def in_agents_def in_targets_def

text \<open>\<open>tailLines\<close> keeps the last lines.\<close>

lemma tail_step_spec: "0 < limit \<Longrightarrow> tail_step limit line (drop (length ls - limit) ls) = drop (Suc (length ls) - limit) (ls @ [line])"
proof -
  assume l: "0 < limit"
  let ?buf = "drop (length ls - limit) ls"
  show ?thesis
  proof (cases "length ls < limit")
    case False
    then have "length ?buf = limit" by simp
    then obtain b bs where b: "?buf = b # bs" "length bs = limit - 1" using l by (cases ?buf) auto
    have t: "tl ?buf = drop (Suc (length ls) - limit) ls" using False by (metis Suc_diff_le drop_Suc not_less tl_drop)
    have "(tl ?buf @ [last ?buf])[length ?buf - 1 := line] = tl ?buf @ [line]"
      using b by (simp add: list_update_append)
    moreover have "drop (Suc (length ls) - limit) (ls @ [line]) = drop (Suc (length ls) - limit) ls @ [line]" using l by simp
    ultimately show ?thesis using t \<open>length ?buf = limit\<close> by (simp add: tail_step_def del: length_drop)
  qed (simp add: tail_step_def)
qed

lemma fold_tail_step: "0 < limit \<Longrightarrow> fold (tail_step limit) ls [] = drop (length ls - limit) ls"
proof (induction ls rule: rev_induct)
  case (snoc l ls)
  then show ?case using tail_step_spec [of limit l ls] by simp
qed simp

end
