(* ===== verification/Domux_Validate.thy ===== *)
theory Domux_Validate
  imports Domux_Api
begin

text \<open>
  The checks of a single zone and of a single deploy target against the store (\<open>validateZone\<close>,
  \<open>validateDeployTarget\<close> and \<open>zoneReferencedDeployTargets\<close> in \<open>internal/platform/api/server.go\<close>), and their
  agreement with the validation of a whole configuration, which the handlers use.
\<close>

section \<open>The checks\<close>

text \<open>The first error of a loop whose body may return.\<close>

fun loop_error :: "('a \<Rightarrow> go_error option) \<Rightarrow> 'a list \<Rightarrow> go_error option" where
  "loop_error f [] = None"
| "loop_error f (x # xs) = (case f x of Some e \<Rightarrow> Some e | None \<Rightarrow> loop_error f xs)"

lemma loop_error_None [simp]: "loop_error f xs = None \<longleftrightarrow> (\<forall>x \<in> set xs. f x = None)"
  by (induction xs) (auto split: option.splits)

definition store_zone_ref :: "registry \<Rightarrow> provider_config gomap \<Rightarrow> managed_zone \<Rightarrow> string \<Rightarrow> go_error option" where
  "store_zone_ref reg provs z ref =
     (case gm_get provs ref of
        None \<Rightarrow> Some (Errorf ''domain %q references unknown dns provider %q'' [z_Domain z, ref])
      | Some p \<Rightarrow>
          if \<not> registry_Exists reg (pc_Type p) then
            Some (Errorf ''domain %q dns provider %q uses unsupported type %q'' [z_Domain z, ref, pc_Type p])
          else if dz_IPv4 (z_DDNS z) \<and> \<not> SupportsRecordType reg (pc_Type p) RecordTypeA then
            Some (Errorf ''domain %q dns provider %q does not support IPv4 updates'' [z_Domain z, ref])
          else if dz_IPv6 (z_DDNS z) \<and> \<not> SupportsRecordType reg (pc_Type p) RecordTypeAAAA then
            Some (Errorf ''domain %q dns provider %q does not support IPv6 updates'' [z_Domain z, ref])
          else None)"

definition store_zone_certificate :: "registry \<Rightarrow> provider_config gomap \<Rightarrow> string list \<Rightarrow> managed_zone \<Rightarrow> go_error option" where
  "store_zone_certificate reg provs availableTargets z =
     (case CertificatePlans z of
        Inl e \<Rightarrow> Some e
      | Inr plans \<Rightarrow>
          (let ref = cp_DNSProvider (z_Certificate z)
           in case gm_get provs ref of
                None \<Rightarrow> Some (Errorf ''domain %q references unknown dns provider %q for certificate'' [z_Domain z, ref])
              | Some p \<Rightarrow>
                  if \<not> registry_Exists reg (pc_Type p) then
                    Some (Errorf ''domain %q certificate dns provider %q uses unsupported type %q'' [z_Domain z, ref, pc_Type p])
                  else (case ValidateChallenge reg (pc_Type p) (pc_Options p) of
                      Some e \<Rightarrow> Some (Wrapf ''domain %q certificate dns provider %q: %w'' [z_Domain z, ref] e)
                    | None \<Rightarrow> loop_error (\<lambda>plan. loop_error (\<lambda>t.
                        if t \<notin> set availableTargets then
                          Some (Errorf ''domain %q certificate bundle %q references unknown deploy target %q'' [z_Domain z, pl_Name plan, t])
                        else None) (pl_DeployTargets plan)) plans)))"

definition validateZone :: "memory_store \<Rightarrow> managed_zone \<Rightarrow> string \<Rightarrow> go_error option" where
  "validateZone store z0 existingName =
     (if existingName \<noteq> [] \<and> z_Name z0 \<noteq> existingName then Some (Errorf ''renaming domains is not supported'' [])
      else
        (case ManagedZone_Validate z0 of
           (Some e, _) \<Rightarrow> Some e
         | (None, z) \<Rightarrow>
             (case NewBuiltinRegistry of
                Inl e \<Rightarrow> Some e
              | Inr reg \<Rightarrow>
                  (let provs = gm_put_all pc_Ref (ListDDNSProviders store) []
                   in case loop_error (store_zone_ref reg provs z) (dz_ProviderRefs (z_DDNS z)) of
                        Some e \<Rightarrow> Some e
                      | None \<Rightarrow>
                          if cp_Enabled (z_Certificate z)
                          then store_zone_certificate reg provs (map dt_Name (ListDeployTargets store)) z
                          else None))))"

definition validateDeployTarget :: "memory_store \<Rightarrow> deploy_target \<Rightarrow> string \<Rightarrow> go_error option" where
  "validateDeployTarget store t existingName =
     (if existingName \<noteq> [] \<and> dt_Name t \<noteq> existingName then Some (Errorf ''renaming deploy targets is not supported'' [])
      else
        (case DeployTarget_Validate t of
           Some e \<Rightarrow> Some e
         | None \<Rightarrow>
             if dt_Transport t = DeployTransportAgent \<and> \<not> list_ex (\<lambda>a. ag_Name a = dt_AgentNode t) (ListAgents store)
             then Some (Errorf ''deploy target %q references unknown agent %q'' [dt_Name t, dt_AgentNode t])
             else None))"

definition zoneReferencedDeployTargets :: "managed_zone \<Rightarrow> string list" where
  "zoneReferencedDeployTargets z =
     compactStrings (cp_DeployTargets (z_Certificate z) @ concat (map bp_DeployTargets (cp_Bundles (z_Certificate z))))"

section \<open>Agreement with the validation of configurations\<close>

lemma store_zone_ref_None: "store_zone_ref reg provs z ref = None \<longleftrightarrow> zone_provider_errors reg provs z ref = []"
  by (auto simp: store_zone_ref_def zone_provider_errors_def split: option.splits)

lemma store_zone_certificate_None:
  assumes "cp_Enabled (z_Certificate z)" and ps: "\<forall>p \<in> set ps. provider_ok p"
  shows "store_zone_certificate builtins (providerRefs ps) ts z = None \<longleftrightarrow> zone_certificate_errors builtins (providerRefs ps) ts z = []"
proof -
  have "ValidateChallenge builtins (pc_Type p) (pc_Options p) = None" if "gm_get (providerRefs ps) r = Some p" for p r
    using ps that by (auto simp: providerRefs_def gm_put_all_get provider_ok_def split: option.splits dest!: find_Some_mem)
  note challenge = this
  show ?thesis
  proof (cases "CertificatePlans z")
    case (Inr plans)
    show ?thesis
    proof (cases "gm_get (providerRefs ps) (cp_DNSProvider (z_Certificate z))")
      case (Some p)
      show ?thesis
        by (simp add: store_zone_certificate_def zone_certificate_errors_def assms(1) Inr Some challenge [OF Some]
            concat_eq_Nil_conv map_filter_Nil_iff)
    qed (simp add: store_zone_certificate_def zone_certificate_errors_def assms(1) Inr)
  qed (simp add: store_zone_certificate_def zone_certificate_errors_def assms(1))
qed

lemma validateZone_None:
  assumes "\<forall>p \<in> set (ListDDNSProviders s). provider_ok p"
  shows "validateZone s z existing = None \<longleftrightarrow>
     (existing \<noteq> [] \<longrightarrow> z_Name z = existing) \<and> fst (ManagedZone_Validate z) = None
     \<and> zone_refs_ok (pc_Ref ` set (ListDDNSProviders s)) (dt_Name ` set (ListDeployTargets s)) (validated_zone z)"
proof -
  obtain e z' where v: "ManagedZone_Validate z = (e, z')" by fastforce
  let ?provs = "providerRefs (ListDDNSProviders s)" and ?ts = "map dt_Name (ListDeployTargets s)"
  have "zone_certificate_errors builtins ?provs ?ts z' = []" if "\<not> cp_Enabled (z_Certificate z')"
    using that by (simp add: zone_certificate_errors_def)
  then have "validateZone s z existing = None \<longleftrightarrow> (existing \<noteq> [] \<longrightarrow> z_Name z = existing) \<and> e = None
      \<and> zone_reference_errors builtins ?provs ?ts z' = []"
    using store_zone_certificate_None [OF _ assms, of z' ?ts]
    using loop_error_None [of "store_zone_ref builtins ?provs z'" "dz_ProviderRefs (z_DDNS z')"]
    by (auto simp: validateZone_def v builtin_registry_eq store_zone_ref_None zone_reference_errors_def concat_eq_Nil_conv
        providerRefs_def [symmetric] Let_def simp del: loop_error_None split: option.splits)
  with v show ?thesis by (simp add: zone_reference_errors_Nil [OF assms])
qed

lemma validateDeployTarget_None:
  "validateDeployTarget s t existing = None \<longleftrightarrow> (existing \<noteq> [] \<longrightarrow> dt_Name t = existing) \<and> DeployTarget_Validate t = None
     \<and> (dt_Transport t = DeployTransportAgent \<longrightarrow> dt_AgentNode t \<in> ag_Name ` set (ListAgents s))"
  by (auto simp: validateDeployTarget_def list_ex_iff intro: rev_image_eqI split: option.splits)

lemma config_ok_add_zone:
  assumes "config_ok os cfg"
  shows "config_ok os (cfg\<lparr>c_Zones := c_Zones cfg @ [z]\<rparr>) \<longleftrightarrow>
     fst (ManagedZone_Validate z) = None
     \<and> zone_refs_ok (pc_Ref ` set (c_DDNSProviders cfg)) (dt_Name ` set (c_DeployTargets cfg)) (validated_zone z)
     \<and> z_Domain z \<notin> z_Domain ` set (c_Zones cfg) \<and> (z_Default z \<longrightarrow> filter z_Default (c_Zones cfg) = [])"
proof -
  have "effective_server (cfg\<lparr>c_Zones := c_Zones cfg @ [z]\<rparr>) = effective_server cfg" by (simp add: effective_server_def Let_def)
  moreover have "app_ok zs ags a \<Longrightarrow> app_ok (zs @ [z]) ags a" for zs ags a by (auto simp: app_ok_def)
  ultimately show ?thesis using assms by (cases "z_Default z") (auto simp: config_ok_def)
qed

lemma config_ok_add_target:
  assumes "config_ok os cfg"
  shows "config_ok os (cfg\<lparr>c_DeployTargets := c_DeployTargets cfg @ [t]\<rparr>) \<longleftrightarrow>
     DeployTarget_Validate t = None \<and> (dt_Transport t = DeployTransportAgent \<longrightarrow> dt_AgentNode t \<in> ag_Name ` set (c_Agents cfg))
     \<and> dt_Name t \<notin> dt_Name ` set (c_DeployTargets cfg)"
proof -
  have "effective_server (cfg\<lparr>c_DeployTargets := c_DeployTargets cfg @ [t]\<rparr>) = effective_server cfg" by (simp add: effective_server_def Let_def)
  moreover have "zone_refs_ok refs ts z \<Longrightarrow> zone_refs_ok refs (insert n ts) z" for refs ts z n by (fastforce simp: zone_refs_ok_def)
  ultimately show ?thesis using assms by (auto simp: config_ok_def)
qed

lemma zoneReferencedDeployTargets_mem:
  "t \<in> set (zoneReferencedDeployTargets z) \<longleftrightarrow> t \<noteq> [] \<and> (\<exists>u \<in> set (cp_DeployTargets (z_Certificate z)) \<union>
     (\<Union>b \<in> set (cp_Bundles (z_Certificate z)). set (bp_DeployTargets b)). t = TrimSpace u)"
  by (auto simp: zoneReferencedDeployTargets_def compactStrings_def)

section \<open>Properties\<close>

text \<open>
  The checks of single parts agree with the validation of a configuration: on a store that
  was seeded with a loaded configuration, a zone passes \<open>validateZone\<close> and a target passes
  \<open>validateDeployTarget\<close> exactly when the configuration extended by it is valid, but for what they do not
  look at: the uniqueness of domains, of names and of the default zone.
\<close>

theorem part_checks_agree:
  assumes "(store_step os)\<^sup>*\<^sup>* NewMemoryStore s" and "config_loaded os cfg" and "seedConfigState os cfg s = (err, s')"
  shows "(fst (Config_Validate os (cfg\<lparr>c_Zones := c_Zones cfg @ [z]\<rparr>)) = None \<longleftrightarrow>
       validateZone s' z [] = None \<and> z_Domain z \<notin> z_Domain ` set (c_Zones cfg)
       \<and> (z_Default z \<longrightarrow> filter z_Default (c_Zones cfg) = []))
    \<and> (fst (Config_Validate os (cfg\<lparr>c_DeployTargets := c_DeployTargets cfg @ [t]\<rparr>)) = None \<longleftrightarrow>
       validateDeployTarget s' t [] = None \<and> dt_Name t \<notin> dt_Name ` set (c_DeployTargets cfg))"
proof -
  have ok: "config_ok os cfg" using assms(2) by (simp add: config_loaded_def flip: Config_Validate_accepts)
  have "mset (ListDDNSProviders s') = mset (c_DDNSProviders cfg)" "mset (ListDeployTargets s') = mset (c_DeployTargets cfg)"
    "mset (ListAgents s') = mset (c_Agents cfg)"
    using seedConfigState_spec [OF store_steps_ok [OF assms(1)] assms(2,3)] by simp_all
  note l = this [THEN mset_eq_setD]
  have "\<forall>p \<in> set (ListDDNSProviders s'). provider_ok p" using ok by (simp add: l config_ok_def)
  from validateZone_None [OF this, of z "[]"] show ?thesis
    unfolding Config_Validate_accepts config_ok_add_zone [OF ok] config_ok_add_target [OF ok] validateDeployTarget_None l
    by (intro conjI) auto
qed

definition demo_target :: deploy_target where
  "demo_target = \<lparr>dt_Name = ''web'', dt_Transport = DeployTransportLocal, dt_AgentNode = [],
     dt_SSH = \<lparr>ssh_Addr = [], ssh_User = [], ssh_Port = 0, ssh_PrivateKeyPath = []\<rparr>,
     dt_CertPath = ''/c'', dt_KeyPath = ''/k'', dt_ReloadCommand = []\<rparr>"

theorem part_checks_agree_witness:
  "fst (Config_Validate demo_env (demo_config\<lparr>c_DeployTargets := [demo_target]\<rparr>)) = None
     \<and> fst (Config_Validate demo_env (demo_config\<lparr>c_Zones := [demo_zone, demo_zone]\<rparr>)) \<noteq> None"
proof -
  obtain err s' where s: "seedConfigState demo_env demo_config NewMemoryStore = (err, s')" by fastforce
  have "config_loaded demo_env demo_config" by (simp add: config_loaded_def demo_config_fixed)
  note agree = part_checks_agree [OF rtranclp.rtrancl_refl this s, of demo_zone demo_target]
  have "validateDeployTarget s' demo_target [] = None"
    by (simp add: validateDeployTarget_def demo_target_def DeployTarget_Validate_def)
  with agree show ?thesis by (simp add: demo_config_def Default_def)
qed

end
