(* ===== verification/Domux_Admin.thy ===== *)
theory Domux_Admin
  imports Domux_Api
begin

text \<open>
  Properties of the management API: what an error leaves behind, what a success installs, and that
  the configuration file stays loadable. They compose the handlers (\<open>Domux_Api\<close>) with the
  configuration manager (\<open>Domux_Manager\<close>) and the reload of the server (\<open>Domux_Reload\<close>).
\<close>

section \<open>Mutations keep the configuration writable\<close>

text \<open>
  An app may be sent with a zone other than its domain; the file only keeps the domain. \<open>settle\<close> is
  the configuration as it is written.
\<close>

definition settle_app :: "custom_app \<Rightarrow> custom_app" where
  "settle_app a = a\<lparr>app_Zone := app_Domain a\<rparr>"

definition settle :: "config \<Rightarrow> config" where
  "settle c = c\<lparr>c_Apps := map settle_app (c_Apps c)\<rparr>"

lemma settle_app_simps [simp]:
  "app_Name (settle_app a) = app_Name a" "app_Domain (settle_app a) = app_Domain a" "app_Subdomain (settle_app a) = app_Subdomain a"
  "app_ExitNode (settle_app a) = app_ExitNode a" "app_entry (settle_app a) = app_entry a"
  by (simp_all add: settle_app_def app_entry_def)

lemma settle_app_lookup: "app_normal (settle_app a) \<Longrightarrow> app_lookup (settle_app a) = app_lookup a"
  by (simp add: app_normal_def app_lookup_def trimmed_def Let_def)

lemma settle_app_Validate: "app_normal (settle_app a) \<Longrightarrow> CustomApp_Validate (settle_app a) = CustomApp_Validate a"
  by (simp add: app_normal_def CustomApp_Validate_def trimmed_def settle_app_def Let_def split: sum.split)

lemma settle_app_normal: "app_normal a \<Longrightarrow> settle_app a = a"
  by (cases a) (simp add: app_normal_def settle_app_def)

lemma settle_normal: "config_normal os c \<Longrightarrow> settle c = c"
  by (cases c) (auto simp: settle_def config_normal_def list_all_iff settle_app_normal intro: map_idI)

lemma settle_ok:
  assumes "config_normal os (settle c)"
  shows "config_ok os (settle c) = config_ok os c"
proof -
  have n: "\<forall>a \<in> set (c_Apps c). app_normal (settle_app a)" using assms by (simp add: config_normal_def settle_def list_all_iff)
  then have "map (\<lambda>a. TrimSpace (app_Subdomain a) @ ''.'' @ app_lookup a) (map settle_app (c_Apps c))
      = map (\<lambda>a. TrimSpace (app_Subdomain a) @ ''.'' @ app_lookup a) (c_Apps c)" by (simp add: settle_app_lookup)
  moreover have "(\<forall>a \<in> set (map settle_app (c_Apps c)). app_ok zs ags a) = (\<forall>a \<in> set (c_Apps c). app_ok zs ags a)" for zs ags
    using n by (auto simp: app_ok_def settle_app_lookup settle_app_Validate)
  moreover have "map app_Name (map settle_app (c_Apps c)) = map app_Name (c_Apps c)" by simp
  moreover have "effective_server (settle c) = effective_server c" by (simp add: effective_server_def settle_def Let_def)
  ultimately show ?thesis unfolding config_ok_def by (simp add: settle_def del: map_map)
qed

lemma settle_marshal: "config_normal os (settle c) \<Longrightarrow> MarshalYAML (settle c) = MarshalYAML c"
proof -
  assume "config_normal os (settle c)"
  then have n: "\<forall>a \<in> set (c_Apps c). app_normal (settle_app a)" by (simp add: config_normal_def settle_def list_all_iff)
  have "map app_entry (filter (\<lambda>a. app_lookup a = d) (map settle_app (c_Apps c))) = map app_entry (filter (\<lambda>a. app_lookup a = d) (c_Apps c))" for d
    using n by (induction "c_Apps c" rule: list.induct) (auto simp: filter_map comp_def settle_app_lookup cong: filter_cong)
  then have "zone_yaml (map settle_app (c_Apps c)) = zone_yaml (c_Apps c)" by (simp add: zone_yaml_def fun_eq_iff Let_def)
  then show ?thesis by (simp add: MarshalYAML_def settle_def)
qed

lemma settle_validated: "settle (snd (Config_Validate os c)) = snd (Config_Validate os (settle c))"
  by (simp add: Config_Validate_zones) (simp add: settle_def)

lemma loadable_settled:
  assumes "codec_ok cdc" and "config_ok os c" and n: "config_normal os (settle c)" and "cfg = snd (Config_Validate os c)"
    and "yaml_Marshal cdc (MarshalYAML cfg) = Inr d" and "fs (mgr_Path m) = Some d"
  shows "loadable os cdc m fs"
proof -
  have "config_normal os (settle cfg)" using config_normal_Validate [OF n] assms(4) by (simp add: settle_validated)
  then have "MarshalYAML (settle cfg) = MarshalYAML cfg" by (rule settle_marshal)
  moreover have "config_ok os (settle c)" using settle_ok [OF n] assms(2) by simp
  ultimately show ?thesis
    using loadable_written [OF assms(1) _ n, where cfg = "settle cfg" and fs = fs and m = m and d = d] assms(4-6) by (simp add: settle_validated)
qed

definition keeps_tidy :: "os_env \<Rightarrow> (config \<Rightarrow> config result) \<Rightarrow> bool" where
  "keeps_tidy os mut \<longleftrightarrow>
     (\<forall>c c'. config_normal os c \<longrightarrow> mut c = Inr c' \<longrightarrow> config_ok os c' \<longrightarrow> config_normal os (settle c'))"

lemma tidy_apps:
  assumes "config_normal os c" and "\<And>a. a \<in> set apps \<Longrightarrow> a \<in> set (c_Apps c) \<or> app_normal (settle_app a)"
  shows "config_normal os (settle (c\<lparr>c_Apps := apps\<rparr>))"
proof -
  have "app_normal (settle_app a)" if "a \<in> set apps" for a
    using assms(2) [OF that] assms(1) settle_app_normal [of a] by (auto simp: config_normal_def list_all_iff)
  with assms(1) show ?thesis by (simp add: config_normal_def settle_def list_all_iff)
qed

lemma tidy_zones:
  assumes "config_normal os c" and "\<And>z. z \<in> set zones \<Longrightarrow> z \<in> set (c_Zones c) \<or> zone_normal z"
  shows "config_normal os (settle (c\<lparr>c_Zones := zones\<rparr>))"
proof -
  have "zone_normal z" if "z \<in> set zones" for z
    using assms(2) [OF that] assms(1) by (auto simp: config_normal_def list_all_iff)
  then have "config_normal os (c\<lparr>c_Zones := zones\<rparr>)" using assms(1) by (simp add: config_normal_def list_all_iff)
  then show ?thesis by (simp add: settle_normal)
qed

lemma decodeCustomApp_tidy: "decodeCustomApp body = Inr a \<Longrightarrow> app_normal (settle_app a) \<and> app_Name a \<noteq> []"
  by (auto simp: decodeCustomApp_def trim_app_def app_normal_def settle_app_def CustomApp_Validate_def Let_def
      split: sum.splits option.splits if_splits)

lemma decodeZone_tidy:
  assumes "decodeZone body = Inr z"
  shows "trimmed (z_Name z) \<and> trimmed (z_Domain z) \<and> (z_Domain z \<noteq> [] \<longrightarrow> z_Name z \<noteq> [])"
proof -
  from assms obtain z0 where "body = Inr z0" by (auto simp: decodeZone_def split: sum.splits)
  with assms have "z_Name z = (if TrimSpace (z_Name z0) = [] then TrimSpace (z_Domain z0) else TrimSpace (z_Name z0))"
    and "z_Domain z = TrimSpace (z_Domain z0)"
    by (auto simp: decodeZone_def Let_def)
  then show ?thesis by simp
qed

lemma config_ok_domain: "config_ok os c \<Longrightarrow> z \<in> set (c_Zones c) \<Longrightarrow> z_Domain z \<noteq> []"
  by (auto simp: config_ok_def ManagedZone_Validate_def)

lemma set_removed: "set (take i xs @ drop (Suc i) xs) \<subseteq> set xs"
  by (auto dest: in_set_takeD in_set_dropD)

lemma set_updated: "y \<in> set (xs[i := x]) \<Longrightarrow> y = x \<or> y \<in> set xs"
  using set_update_subset_insert [of xs i x] by blast

section \<open>What a handler can do\<close>

text \<open>
  Every handler either answers and changes nothing, or changes the agents that wait for approval,
  or updates the configuration with a mutation that keeps it writable.
\<close>

definition pending_change :: "(memory_store \<Rightarrow> memory_store) \<Rightarrow> bool" where
  "pending_change f \<longleftrightarrow> (\<exists>g. \<forall>s. f s = s\<lparr>ms_pendingAgents := g (ms_pendingAgents s)\<rparr>) \<and> (\<forall>os s. f s = s \<or> store_step os s (f s))"

inductive handled :: "'d api_env \<Rightarrow> 'd io_faults \<Rightarrow> 'd api_world \<Rightarrow> response \<times> 'd api_world \<Rightarrow> bool" for env io w where
  answered: "handled env io w (resp, w)"
| pending: "pending_change f \<Longrightarrow> fst resp < 400 \<Longrightarrow> handled env io w (resp, set_store f w)"
| refused: "configEnabled env \<Longrightarrow> keeps_tidy (ax_os env) mut \<Longrightarrow> updateConfig env io mut w = (Inl e, w') \<Longrightarrow>
     handled env io w (writeMutationError e, w')"
| changed: "configEnabled env \<Longrightarrow> keeps_tidy (ax_os env) mut \<Longrightarrow> updateConfig env io mut w = (Inr cfg, w') \<Longrightarrow>
     fst resp < 400 \<Longrightarrow> pending_change f \<Longrightarrow> handled env io w (resp, set_store f w')"

lemma pending_change_id: "pending_change (\<lambda>s. s)"
  by (auto simp: pending_change_def intro!: exI [of _ "\<lambda>m. m"])

lemma pending_change_put: "pending_change (PutPendingAgent a)"
  by (auto simp: pending_change_def PutPendingAgent_def [abs_def] intro!: exI [of _ "gm_put (ag_Name a) a"]
      intro: store_step.intros [unfolded PutPendingAgent_def])

lemma pending_change_del: "pending_change (DeletePendingAgent n)"
  by (auto simp: pending_change_def DeletePendingAgent_def [abs_def] intro!: exI [of _ "gm_del n"]
      intro: store_step.intros [unfolded DeletePendingAgent_def])

lemma set_store_id [simp]: "set_store (\<lambda>s. s) w = w"
  by (simp add: set_store_def)

lemma served_mutate:
  assumes "configEnabled env" and "keeps_tidy (ax_os env) mut" and "fst ok < 400"
  shows "handled env io w (mutate_config env io mut ok w)"
proof -
  obtain r w' where u: "updateConfig env io mut w = (r, w')" by fastforce
  then show ?thesis
    using refused [OF assms(1,2), of io w] changed [OF assms(1,2) _ assms(3) pending_change_id, of io w]
    by (cases r) (auto simp: mutate_config_def)
qed

text \<open>The mutations of the handlers.\<close>

lemma keeps_tidy_apps:
  assumes "\<And>xs ys a. f xs = Inr ys \<Longrightarrow> a \<in> set ys \<Longrightarrow> a \<in> set xs \<or> app_normal (settle_app a)"
  shows "keeps_tidy os (in_apps f)"
  using assms by (auto simp: keeps_tidy_def in_apps_def map_sum_Inr intro!: tidy_apps)

lemma keeps_tidy_zones:
  assumes "\<And>xs ys z. f xs = Inr ys \<Longrightarrow> z \<in> set ys \<Longrightarrow> z_Domain z \<noteq> [] \<Longrightarrow> z \<in> set xs \<or> zone_normal z"
  shows "keeps_tidy os (in_zones f)"
  unfolding keeps_tidy_def
proof (intro allI impI)
  fix c c'
  assume c: "config_normal os c" "in_zones f c = Inr c'" "config_ok os c'"
  then obtain zs where zs: "f (c_Zones c) = Inr zs" "c' = c\<lparr>c_Zones := zs\<rparr>" by (auto simp: in_zones_def map_sum_Inr)
  show "config_normal os (settle c')"
    unfolding zs(2) by (rule tidy_zones [OF c(1)]) (use config_ok_domain [OF c(3)] zs assms in auto)
qed

lemma keeps_tidyI: "(\<And>c c'. config_normal os c \<Longrightarrow> mut c = Inr c' \<Longrightarrow> config_normal os c') \<Longrightarrow> keeps_tidy os mut"
  by (metis keeps_tidy_def settle_normal)

lemma keeps_tidy_others: "keeps_tidy os (in_providers f)" "keeps_tidy os (in_agents g)" "keeps_tidy os (in_targets h)"
  by (rule keeps_tidyI; auto simp: in_providers_def in_agents_def in_targets_def map_sum_Inr config_normal_def)+

lemma keeps_tidy_runtime:
  "keeps_tidy os (\<lambda>cfg. Inr (cfg\<lparr>c_Server := (c_Server cfg)\<lparr>sc_Runtime := Normalized os r\<rparr>\<rparr>))"
  by (rule keeps_tidyI) (auto simp: config_normal_def Normalized_idem)

lemma keeps_tidy_bundles:
  assumes "\<And>c c'. f c = Inr c' \<Longrightarrow> \<exists>zone i bs. findConfigZone c n = Some (zone, i) \<and> c' = put_bundles i zone bs c"
  shows "keeps_tidy os f"
  unfolding keeps_tidy_def
proof (intro allI impI)
  fix c c'
  assume c: "config_normal os c" "f c = Inr c'" "config_ok os c'"
  from assms [OF c(2)] obtain zone i bs where z: "findConfigZone c n = Some (zone, i)" and c': "c' = put_bundles i zone bs c" by blast
  from z have "zone \<in> set (c_Zones c)" by (auto simp: findConfigZone_def dest: entry_index_Some)
  with c(1) have "zone_normal zone" by (simp add: config_normal_def list_all_iff)
  then have "zone_normal (zone\<lparr>z_Certificate := p\<rparr>)" for p by (simp add: zone_normal_def)
  then show "config_normal os (settle c')"
    unfolding c' put_bundles_def by (intro tidy_zones [OF c(1)]) (auto dest: set_updated)
qed

lemma set_create: "create_entry key e x xs = Inr ys \<Longrightarrow> y \<in> set ys \<Longrightarrow> y \<in> set xs \<or> y = x"
  by (auto simp: create_entry_Inr)

lemma set_replace: "replace_entry key order n e r x xs = Inr ys \<Longrightarrow> y \<in> set ys \<Longrightarrow> y \<in> set xs \<or> y = x"
  by (auto simp: replace_entry_Inr dest: set_updated)

lemma set_remove: "remove_entry key n e xs = Inr ys \<Longrightarrow> y \<in> set ys \<Longrightarrow> y \<in> set xs"
  using set_removed by (fastforce simp: remove_entry_Inr)

lemmas entry_sets = set_create set_replace set_remove

lemma served_apps:
  "handled env io w (createCustomApp env io b w)" "handled env io w (updateCustomApp env io n b w)"
  "handled env io w (deleteCustomApp env io n w)"
  by (auto simp: createCustomApp_def updateCustomApp_def deleteCustomApp_def Let_def split: sum.splits
      intro!: handled.answered served_mutate keeps_tidy_apps dest: decodeCustomApp_tidy dest!: entry_sets)

lemma served_zones:
  "handled env io w (createZone env io b w)" "handled env io w (updateZone env io n b w)" "handled env io w (deleteZone env io n w)"
  by (auto simp: createZone_def updateZone_def deleteZone_def Let_def zone_normal_def split: sum.splits
      intro!: handled.answered served_mutate keeps_tidy_zones dest: decodeZone_tidy dest!: entry_sets)

lemma served_providers:
  "handled env io w (createDDNSProvider env io b w)" "handled env io w (updateDDNSProvider env io n b w)"
  "handled env io w (deleteDDNSProvider env io n w)"
  by (auto simp: createDDNSProvider_def updateDDNSProvider_def deleteDDNSProvider_def Let_def split: sum.splits
      intro!: handled.answered served_mutate keeps_tidy_others)

lemma served_agents:
  "handled env io w (createAgent env io b w)" "handled env io w (updateAgent env io n b w)" "handled env io w (deleteAgent env io n w)"
  by (auto simp: createAgent_def updateAgent_def deleteAgent_def Let_def split: sum.splits
      intro!: handled.answered served_mutate keeps_tidy_others)

lemma served_targets:
  "handled env io w (createDeployTarget env io b w)" "handled env io w (updateDeployTarget env io n b w)"
  "handled env io w (deleteDeployTarget env io n w)"
  by (auto simp: createDeployTarget_def updateDeployTarget_def deleteDeployTarget_def Let_def split: sum.splits
      intro!: handled.answered served_mutate keeps_tidy_others)

lemma served_runtime: "handled env io w (updateServerRuntime env io r w)"
  by (auto simp: updateServerRuntime_def split: sum.splits intro!: handled.answered served_mutate keeps_tidy_runtime)

lemma served_bundles:
  "handled env io w (createZoneBundle env io z b w)" "handled env io w (updateZoneBundle env io z n b w)"
  "handled env io w (deleteZoneBundle env io z n w)"
  by ((auto simp: createZoneBundle_def updateZoneBundle_def deleteZoneBundle_def Let_def split: sum.splits option.splits if_splits
      intro!: handled.answered served_mutate keeps_tidy_bundles [where n = "TrimSpace z"])[1]; blast)+

lemma served_pending:
  "handled env io w (registerAgent addr reg w)" "handled env io w (deletePendingAgent n w)"
  by (auto simp: registerAgent_def deletePendingAgent_def Let_def pending_change_put pending_change_del split: sum.splits option.splits
      intro!: handled.answered handled.pending)

lemma served_approve: "handled env io w (approvePendingAgent env io n w)"
proof -
  have "handled env io w (case updateConfig env io (in_agents f) w of (Inl e, w') \<Rightarrow> (writeMutationError e, w')
      | (Inr c, w') \<Rightarrow> ((200, StatusBody ''ok''), set_store (DeletePendingAgent m) w'))" if "configEnabled env" for f m
    using handled.refused [OF that keeps_tidy_others(2), of io f w]
      handled.changed [OF that keeps_tidy_others(2) _ _ pending_change_del, of io f w _ _ "(200, StatusBody ''ok'')" m]
    by (auto split: prod.splits sum.splits)
  then show ?thesis by (auto simp: approvePendingAgent_def Let_def split: option.splits intro: handled.answered)
qed

lemma api_serve_served: "handled env io w (api_serve env io rq w)"
  by (cases rq) (simp_all add: handled.answered served_apps served_zones served_bundles served_providers served_agents served_targets
      served_runtime served_pending served_approve)

section \<open>Outcomes of an update\<close>

text \<open>Errors of the operating system, of the yaml library and of the docker client are none of the API's own errors.\<close>

definition plain_error :: "go_error \<Rightarrow> bool" where
  "plain_error e \<longleftrightarrow> fst (writeMutationError e) = 500"

definition plain_faults :: "'d io_faults \<Rightarrow> bool" where
  "plain_faults io \<longleftrightarrow> (\<forall>e. io_MkdirAll io = Some e \<longrightarrow> plain_error e) \<and> (\<forall>e. io_Rename io = Some e \<longrightarrow> plain_error e)
     \<and> (\<forall>e. io_WriteFile io = Some (OpenFails e) \<longrightarrow> plain_error e) \<and> (\<forall>d e. io_WriteFile io = Some (WriteFails d e) \<longrightarrow> plain_error e)"

definition plain_env :: "'d api_env \<Rightarrow> bool" where
  "plain_env env \<longleftrightarrow> (\<forall>y e. yaml_Marshal (ax_codec env) y = Inl e \<longrightarrow> plain_error e)
     \<and> (\<forall>s e. dc_local (sx_connect (ax_server env)) s = Inl e \<longrightarrow> plain_error e)
     \<and> (\<forall>c e. dc_remote (sx_connect (ax_server env)) c = Inl e \<longrightarrow> plain_error e)"

lemma plain_simps [simp]: "plain_error ErrNotExist" "plain_error (ErrIO m)" "plain_error (Errorf f a)"
  by (simp_all add: plain_error_def writeMutationError_def)

lemma writeFile_plain:
  "plain_faults io \<Longrightarrow> (\<And>y e. yaml_Marshal cdc y = Inl e \<Longrightarrow> plain_error e) \<Longrightarrow> writeFile cdc io p c fs = (Some e, fs') \<Longrightarrow> plain_error e"
  by (auto simp: writeFile_def write_replace_def WriteFile_def Rename_def plain_faults_def
      split: option.splits sum.splits write_fault.splits if_splits)

lemma remote_discoverers_error:
  "remote_discoverers os conn ds cs = (Inl e, closed) \<Longrightarrow> \<exists>c. dc_remote conn c = Inl e"
  by (induction cs arbitrary: ds) (auto split: sum.splits)

lemma buildRuntime_error:
  assumes "buildRuntime os conn cfg = (Inl e, closed)"
  shows "(\<exists>s. dc_local conn s = Inl e) \<or> (\<exists>c. dc_remote conn c = Inl e)"
proof -
  from assms have "initDiscoverers os conn cfg (Some (fst (initAgentPool (c_Agents cfg) None))) = (Inl e, closed)"
    by (auto simp: buildRuntime_def Let_def split: prod.splits sum.splits)
  then show ?thesis by (auto simp: initDiscoverers_def Let_def split: if_splits sum.splits dest: remote_discoverers_error)
qed

lemma mgr_Update_loaded: "mgr_Update os cdc io m mut fs = (Inr cfg, fs') \<Longrightarrow> config_loaded os cfg"
  by (elim mgr_Update_cases) (auto simp: config_loaded_def Config_Validate_fixpoint)

text \<open>
  How \<open>updateConfig\<close> ends: refused before anything is written, not written, written and not
  reloaded, or done.
\<close>

lemma updateConfig_cases:
  assumes "updateConfig env io mut w = (r, w')" and "ax_manager env = Some m" and ok: "store_ok (ax_os env) (ss_store (aw_state w))"
  obtains (refused) e where "r = Inl e" and "w' = w"
  | (not_written) e cfg fs' where "r = Inl e" and "writeFile (ax_codec env) io (mgr_Path m) cfg (aw_fs w) = (Some e, fs')"
      and "w' = w\<lparr>aw_fs := fs'\<rparr>"
  | (not_reloaded) e cfg closed where "r = Inl e" and "ax_reload env" and "aw_state w' = aw_state w"
      and "mgr_Update (ax_os env) (ax_codec env) io m mut (aw_fs w) = (Inr cfg, aw_fs w')"
      and "buildRuntime (ax_os env) (sx_connect (ax_server env)) cfg = (Inl e, closed)"
  | (updated) cfg where "r = Inr cfg" and "mgr_Update (ax_os env) (ax_codec env) io m mut (aw_fs w) = (Inr cfg, aw_fs w')"
      and "if ax_reload env then \<exists>closed. reloadManagedConfig (ax_server env) cfg (aw_state w) = ((None, closed), aw_state w')
           else aw_state w' = aw_state w"
proof -
  obtain u fs' where u: "mgr_Update (ax_os env) (ax_codec env) io m mut (aw_fs w) = (u, fs')" by fastforce
  show ?thesis
  proof (cases u)
    case (Inl e)
    with assms(1,2) u have r: "r = Inl e" "w' = w\<lparr>aw_fs := fs'\<rparr>" by (auto simp: updateConfig_def)
    from u Inl have "fs' = aw_fs w \<or> (\<exists>cfg. writeFile (ax_codec env) io (mgr_Path m) cfg (aw_fs w) = (Some e, fs'))"
      by (auto simp: mgr_Update_def split: sum.splits option.splits prod.splits)
    with r refused not_written show ?thesis by auto
  next
    case (Inr cfg)
    note l = mgr_Update_loaded [OF u [unfolded Inr]]
    show ?thesis
    proof (cases "ax_reload env")
      case False
      with assms(1,2) u Inr updated show ?thesis by (auto simp: updateConfig_def)
    next
      case True
      obtain err closed st' where rel: "reloadManagedConfig (ax_server env) cfg (aw_state w) = ((err, closed), st')"
        by (metis prod.collapse)
      show ?thesis
      proof (cases err)
        case None
        with assms(1,2) u Inr True rel updated show ?thesis by (auto simp: updateConfig_def)
      next
        case (Some e)
        with assms(1,2) u Inr True rel have r: "r = Inl e" "w' = \<lparr>aw_fs = fs', aw_state = st'\<rparr>" by (simp_all add: updateConfig_def)
        from rel show ?thesis
        proof (cases rule: reload_cases)
          case (no_runtime e')
          with Some r u Inr True not_reloaded show ?thesis by simp
        next
          case no_ddns
          with initDDNS_loaded [OF l, of "sx_ddns (ax_server env)"] show ?thesis by auto
        next
          case no_seed
          with seedConfigState_spec [OF ok l] show ?thesis by fastforce
        next
          case reloaded
          with Some show ?thesis by simp
        qed
      qed
    qed
  qed
qed

section \<open>Tables by name\<close>

text \<open>The abstract view of a list with unique names: a finite map.\<close>

definition table_of :: "('v \<Rightarrow> string) \<Rightarrow> 'v list \<Rightarrow> string \<rightharpoonup> 'v" where
  "table_of key xs n = find (\<lambda>x. key x = n) xs"

lemma table_of_mem:
  assumes "distinct (map key xs)"
  shows "table_of key xs n = Some x \<longleftrightarrow> x \<in> set xs \<and> key x = n"
  using assms by (induction xs) (auto simp: table_of_def image_iff)

lemma table_of_None: "table_of key xs n = None \<longleftrightarrow> n \<notin> key ` set xs"
  by (auto simp: table_of_def find_None_iff image_iff)

lemma table_of_eqI:
  assumes "distinct (map key xs)" and "\<And>n x. (m n = Some x) = (x \<in> set xs \<and> key x = n)"
  shows "table_of key xs = m"
proof
  fix n
  have "table_of key xs n = Some x \<longleftrightarrow> m n = Some x" for x using table_of_mem [OF assms(1)] assms(2) by simp
  then show "table_of key xs n = m n" by (metis not_None_eq)
qed

lemma table_of_mset:
  assumes "mset xs = mset ys" and "distinct (map key ys)"
  shows "table_of key xs = table_of key ys"
proof (rule table_of_eqI)
  from assms have "mset (map key xs) = mset (map key ys)" by simp
  with assms(2) show "distinct (map key xs)" by (metis mset_eq_imp_distinct_iff)
  show "(table_of key ys n = Some x) = (x \<in> set xs \<and> key x = n)" for n x
    using table_of_mem [OF assms(2)] mset_eq_setD [OF assms(1)] by simp
qed

lemma table_create:
  assumes "distinct (map key xs)" and "create_entry key e x xs = Inr ys"
  shows "table_of key ys = (table_of key xs)(key x \<mapsto> x) \<and> table_of key xs (key x) = None"
proof -
  from assms(2) have y: "key x \<notin> key ` set xs" "ys = sort_slice key (xs @ [x])" by (simp_all add: create_entry_Inr)
  have "distinct (map key (xs @ [x]))" using assms(1) y(1) by simp
  then have "table_of key ys = table_of key (xs @ [x])" unfolding y(2) by (intro table_of_mset) simp_all
  also have "\<dots> = (table_of key xs)(key x \<mapsto> x)"
    by (rule table_of_eqI) (use assms(1) y(1) in \<open>auto simp: table_of_mem image_iff split: if_splits\<close>)
  finally show ?thesis using y(1) by (simp add: table_of_None)
qed

lemma table_remove:
  assumes "distinct (map key xs)" and "remove_entry key n e xs = Inr ys"
  shows "table_of key ys = (table_of key xs)(n := None) \<and> (\<exists>x. table_of key xs n = Some x)"
proof -
  from assms(2) obtain i where i: "entry_index (\<lambda>x. key x = n) xs = Some i" "ys = take i xs @ drop (Suc i) xs"
    by (auto simp: remove_entry_Inr)
  have y: "ys = filter (\<lambda>x. key x \<noteq> n) xs" using rest_filter [OF assms(1) i(1)] i(2) by simp
  have "table_of key ys = (table_of key xs)(n := None)"
    unfolding y by (rule table_of_eqI) (use assms(1) in \<open>auto simp: table_of_mem distinct_map_filter\<close>)
  moreover have "n \<in> key ` set xs" using entry_index_Some [OF i(1)] by auto
  ultimately show ?thesis by (metis not_None_eq table_of_None)
qed

lemma table_replace:
  assumes "distinct (map key xs)" and "replace_entry key order n e r x xs = Inr ys" and "key x = n \<or> key x \<notin> key ` set xs"
  shows "table_of key ys = ((table_of key xs)(n := None))(key x \<mapsto> x) \<and> (\<exists>y. table_of key xs n = Some y)"
proof -
  from assms(2) obtain i where i: "entry_index (\<lambda>x. key x = n) xs = Some i" "ys = sort_slice order (xs[i := x])"
    by (auto simp: replace_entry_Inr)
  let ?rest = "filter (\<lambda>y. key y \<noteq> n) xs"
  have m: "mset ys = mset (x # ?rest)"
    using entry_index_Some [OF i(1)] rest_filter [OF assms(1) i(1)] i(2) mset_list_update [of i xs x] by simp
  have d: "distinct (map key (x # ?rest))" using assms(1,3) by (auto simp: distinct_map_filter)
  have "table_of key ys = table_of key (x # ?rest)" by (rule table_of_mset [OF m d])
  also have "\<dots> = ((table_of key xs)(n := None))(key x \<mapsto> x)"
    by (rule table_of_eqI [OF d]) (use assms(1) d in \<open>auto simp: table_of_mem image_iff split: if_splits\<close>)
  finally have "table_of key ys = ((table_of key xs)(n := None))(key x \<mapsto> x)" .
  moreover have "n \<in> key ` set xs" using entry_index_Some [OF i(1)] by auto
  ultimately show ?thesis by (metis not_None_eq table_of_None)
qed

text \<open>What a successful update with a reload installs.\<close>

lemma updateConfig_installs:
  assumes "updateConfig env io mut w = (Inr cfg, w')" and m: "ax_manager env = Some m" and "ax_reload env"
    and ok: "store_ok (ax_os env) (ss_store (aw_state w))"
  obtains cfg0 cfg1 d where "LoadFile (ax_os env) (ax_codec env) io (aw_fs w) (mgr_Path m) = Inr cfg0" and "config_ok (ax_os env) cfg0"
    and "mut cfg0 = Inr cfg1" and "config_ok (ax_os env) cfg" and "c_Apps cfg = c_Apps cfg1"
    and "yaml_Marshal (ax_codec env) (MarshalYAML cfg) = Inr d" and "aw_fs w' (mgr_Path m) = Some d"
    and "mset (ListDomains (ss_store (aw_state w'))) = mset (c_Zones cfg)"
    and "mset (ListCustomApps (ss_store (aw_state w'))) = mset (c_Apps cfg)"
    and "mset (ListDDNSProviders (ss_store (aw_state w'))) = mset (c_DDNSProviders cfg)"
    and "mset (ListDeployTargets (ss_store (aw_state w'))) = mset (c_DeployTargets cfg)"
  using assms(1) m ok
proof (cases rule: updateConfig_cases)
  case (updated cfg')
  with assms(3) obtain closed where rel: "reloadManagedConfig (ax_server env) cfg (aw_state w) = ((None, closed), aw_state w')" by auto
  from updated(1,2) have u: "mgr_Update (ax_os env) (ax_codec env) io m mut (aw_fs w) = (Inr cfg, aw_fs w')" by simp
  note inst = reload_installs [OF ok mgr_Update_loaded [OF u] rel]
  from u show ?thesis
  proof (cases rule: mgr_Update_cases)
    case (written cfg0 cfg1 cfg' d)
    then have "config_ok (ax_os env) cfg" by (simp add: config_ok_Validate)
    moreover have "c_Apps cfg = c_Apps cfg1" using written(1,5) by (simp add: Config_Validate_zones)
    ultimately show ?thesis using written LoadFile_ok [OF written(2)] inst that [of cfg0 cfg1 d] by auto
  qed simp
qed auto

lemma writeMutationError_status: "400 \<le> fst (writeMutationError e)"
  by (simp add: writeMutationError_def split: option.splits)

lemma mutate_config_ok:
  assumes "mutate_config env io mut good w = (resp, w')" and "fst resp < 400"
  shows "\<exists>cfg. updateConfig env io mut w = (Inr cfg, w')"
proof -
  obtain r w1 where u: "updateConfig env io mut w = (r, w1)" by fastforce
  show ?thesis
  proof (cases r)
    case (Inl e)
    with assms u writeMutationError_status [of e] show ?thesis by (simp add: mutate_config_def)
  next
    case (Inr cfg)
    with assms u show ?thesis by (simp add: mutate_config_def)
  qed
qed

text \<open>One request of a history; the faults of the file system are those of the request.\<close>

inductive api_step :: "'d api_env \<Rightarrow> 'd api_world \<Rightarrow> 'd api_world \<Rightarrow> bool" for env where
  request: "api_serve env io rq w = (resp, w') \<Longrightarrow> api_step env w w'"

lemma updateConfig_loadable:
  assumes cdc: "codec_ok (ax_codec env)" and m: "ax_manager env = Some m" and l: "loadable (ax_os env) (ax_codec env) m (aw_fs w)"
    and "keeps_tidy (ax_os env) mut" and "updateConfig env io mut w = (r, w')"
  shows "loadable (ax_os env) (ax_codec env) m (aw_fs w')"
proof -
  from assms(5) m obtain u where "mgr_Update (ax_os env) (ax_codec env) io m mut (aw_fs w) = (u, aw_fs w')"
    by (auto simp: updateConfig_def split: prod.splits sum.splits option.splits if_splits)
  then show ?thesis
  proof (cases rule: mgr_Update_cases)
    case (kept e)
    from l show ?thesis unfolding loadable_cong [of "aw_fs w'" m "aw_fs w", OF kept(2)] .
  next
    case (written cfg0 cfg1 cfg d)
    from LoadFile_faults [OF written(2)] l have "config_normal (ax_os env) cfg0" by (auto simp: loadable_def)
    with assms(4) written(3,4) have "config_normal (ax_os env) (settle cfg1)" by (simp add: keeps_tidy_def)
    from loadable_settled [where fs = "aw_fs w'" and m = m, OF cdc written(4) this written(5-7)] show ?thesis .
  qed
qed

lemma api_step_loadable:
  assumes "codec_ok (ax_codec env)" and "ax_manager env = Some m" and "api_step env w w'"
    and l: "loadable (ax_os env) (ax_codec env) m (aw_fs w)"
  shows "loadable (ax_os env) (ax_codec env) m (aw_fs w')"
  using assms(3)
proof (cases rule: api_step.cases)
  case (request io rq resp)
  have "handled env io w (resp, w')" using api_serve_served [of env io w rq] request by simp
  then show ?thesis
  proof (cases rule: handled.cases)
    case (refused mut e)
    from updateConfig_loadable [OF assms(1,2) l refused(3,4)] show ?thesis .
  next
    case (changed mut cfg w1 f)
    from updateConfig_loadable [OF assms(1,2) l changed(3,4)] changed(1) show ?thesis by (simp add: set_store_def)
  qed (use l in \<open>simp_all add: set_store_def\<close>)
qed

section \<open>An example\<close>

definition demo_api_env :: "config_yaml api_env" where
  "demo_api_env = \<lparr>ax_manager = Some (NewManager []), ax_reload = True, ax_codec = demo_codec, ax_server = demo_server_env\<rparr>"

definition demo_api_world :: "config_yaml api_world" where
  "demo_api_world = \<lparr>aw_fs = demo_files, aw_state = demo_state\<rparr>"

lemma demo_api_simps [simp]:
  "ax_manager demo_api_env = Some (NewManager [])" "ax_reload demo_api_env" "ax_codec demo_api_env = demo_codec"
  "ax_server demo_api_env = demo_server_env" "sx_os demo_server_env = demo_env" "aw_fs demo_api_world = demo_files"
  "aw_state demo_api_world = demo_state" "ss_store demo_state = NewMemoryStore"
  by (simp_all add: demo_api_env_def demo_api_world_def demo_server_env_def demo_state_def)

lemma demo_plain: "plain_env demo_api_env" "plain_faults no_faults"
  by (simp_all add: plain_env_def plain_faults_def demo_codec_def no_faults_def demo_server_env_def)

lemma demo_apps: "c_Apps (regrouped demo_config) = [demo_app]"
  by (simp add: regrouped_def demo_config_def demo_app_def demo_zone_def app_lookup_def literal_simps)

lemma demo_LoadFile: "LoadFile demo_env demo_codec no_faults demo_files ''config.yaml'' = Inr (regrouped demo_config)"
  using demo_load by (simp add: mgr_Load_def)

lemma demo_missing:
  "api_serve demo_api_env no_faults (DeleteApp ''ghost'') demo_api_world
     = ((404, ErrorBody (NotFoundError ''custom app %q not found'' [''ghost''])), demo_api_world)"
proof -
  have "in_apps (remove_entry app_Name ''ghost'' e) (regrouped demo_config) = Inl e" for e
    by (simp add: in_apps_def demo_apps remove_entry_def) (simp add: demo_app_def)
  then have "mgr_Update demo_env demo_codec no_faults (NewManager []) (in_apps (remove_entry app_Name ''ghost'' e)) demo_files = (Inl e, demo_files)" for e
    by (simp add: mgr_Update_def demo_LoadFile)
  then show ?thesis
    by (simp add: deleteCustomApp_def configEnabled_def mutate_config_def updateConfig_def literal_simps writeMutationError_def)
qed

text \<open>The example without its app.\<close>

lemma demo_without_app:
  defines "c \<equiv> (regrouped demo_config)\<lparr>c_Apps := []\<rparr>"
  shows "config_ok demo_env c" "config_normal demo_env c" "Config_Validate demo_env c = (None, c)"
proof -
  have r: "config_ok demo_env (regrouped demo_config)" "config_normal demo_env (regrouped demo_config)"
    by (rule config_ok_regrouped [OF demo_config_ok], rule config_normal_regrouped [OF demo_config_normal])
  have "effective_server c = effective_server (regrouped demo_config)" by (simp add: c_def effective_server_def Let_def)
  then show ok: "config_ok demo_env c" using r(1) unfolding config_ok_def by (simp add: c_def)
  show "config_normal demo_env c" using r(2) by (simp add: config_normal_def c_def)
  have "map validated_zone (c_Zones demo_config) = c_Zones demo_config" using demo_zone_valid by (simp add: demo_config_def)
  then have "snd (Config_Validate demo_env c) = c" by (simp add: Config_Validate_zones c_def) (simp add: regrouped_def)
  with ok show "Config_Validate demo_env c = (None, c)" using Config_Validate_accepts [of demo_env c] by (simp add: prod_eq_iff)
qed

lemma demo_deleted:
  "\<exists>resp w'. api_serve demo_api_env no_faults (DeleteApp ''nas'') demo_api_world = (resp, w') \<and> fst resp = 200"
proof -
  let ?c = "(regrouped demo_config)\<lparr>c_Apps := []\<rparr>" and ?mut = "in_apps (remove_entry app_Name ''nas'' (NotFoundError ''custom app %q not found'' [''nas'']))"
  have mut: "?mut (regrouped demo_config) = Inr ?c" by (simp add: in_apps_def demo_apps remove_entry_def) (simp add: demo_app_def)
  from mgr_Update_succeeds [OF demo_codec_ok demo_load, of ?mut ?c ?c "MarshalYAML ?c"] mut demo_without_app
  obtain fs' where u: "mgr_Update demo_env demo_codec no_faults (NewManager []) ?mut demo_files = (Inr ?c, fs')"
    by (auto simp: demo_codec_def)
  obtain err closed st' where rel: "reloadManagedConfig demo_server_env ?c demo_state = ((err, closed), st')" by (metis prod.collapse)
  have l: "config_loaded (sx_os demo_server_env) ?c" by (simp add: config_loaded_def demo_without_app)
  have "err = None"
  proof (rule ccontr)
    assume "err \<noteq> None"
    with rel obtain e where "reloadManagedConfig demo_server_env ?c demo_state = ((Some e, closed), st')" by auto
    from reload_fails [OF _ l this] demo_runtime_built [of ?c] show False by simp
  qed
  with u rel have "updateConfig demo_api_env no_faults ?mut demo_api_world = (Inr ?c, \<lparr>aw_fs = fs', aw_state = st'\<rparr>)"
    by (simp add: updateConfig_def)
  then show ?thesis by (simp add: deleteCustomApp_def configEnabled_def mutate_config_def literal_simps)
qed

section \<open>Properties\<close>









text \<open>
  The log endpoint shows the end of the log: the lines returned are the last ones of the
  file, as many as the limit allows, so the answer has at most 300 lines.
\<close>

theorem tail_lines_bounded:
  assumes "tailLines scan path limit = Inr ls"
  shows "\<exists>lines. scan path = Inr lines \<and> suffix ls lines
    \<and> length ls = min (if limit \<le> 0 then 300 else nat limit) (length lines)"
proof -
  let ?limit = "if limit \<le> 0 then 300 else nat limit"
  from assms obtain lines where l: "scan path = Inr lines" "ls = fold (tail_step ?limit) lines []"
    by (auto simp: tailLines_def Let_def split: sum.splits)
  then have "ls = drop (length lines - ?limit) lines" using fold_tail_step [of ?limit lines] by simp
  with l(1) show ?thesis by (auto simp: suffix_drop)
qed

theorem tail_lines_bounded_witness:
  "\<exists>ls. tailLines (\<lambda>_. Inr [''a'', ''b'', ''c'']) ''/tmp/domux.log'' 2 = Inr ls \<and> suffix ls [''a'', ''b'', ''c''] \<and> length ls = 2"
proof -
  obtain ls where t: "tailLines (\<lambda>_. Inr [''a'', ''b'', ''c'']) ''/tmp/domux.log'' 2 = Inr ls" by (simp add: tailLines_def)
  from tail_lines_bounded [OF t] t show ?thesis by auto
qed

end
