(* ===== verification/Domux_System.thy ===== *)
theory Domux_System
  imports Complex_Main Domux_Types
begin

text \<open>
  The resource snapshot of \<open>internal/system/resources.go\<close>. Counters are 64-bit words whose
  differences wrap around; floating point numbers are rational values rounded to 53 significant bits
  after every operation, and become their 64 bits in the snapshot. The contents of the files under
  \<open>/proc\<close>, the file system statistics, the clock and the end of the context are parameters.
\<close>

section \<open>Scanning\<close>

text \<open>\<open>strings.Fields\<close>\<close>

function fields_from :: "string \<Rightarrow> string \<Rightarrow> string list" where
  "fields_from cur s =
     (let flush = (if cur = [] then [] else [cur])
      in case s of
           [] \<Rightarrow> flush
         | c # t \<Rightarrow>
             (case find (\<lambda>p. p \<noteq> [] \<and> prefix p s) space_runes of
                Some p \<Rightarrow> flush @ fields_from [] (drop (length p) s)
              | None \<Rightarrow> fields_from (cur @ [c]) t))"
  by pat_completeness auto

termination
  by (relation "measure (\<lambda>(cur, s). length s)") (auto simp: find_Some_iff)

definition Fields :: "string \<Rightarrow> string list" where
  "Fields s = fields_from [] s"

text \<open>
  A file that was opened: its bytes, and the error of the read that follows them. \<open>bufio.Scanner\<close>
  yields the lines without their ends; a line of 65536 bytes or more ends the scan with an error.
\<close>

type_synonym open_file = "string \<times> go_error option"

definition ErrTooLong :: go_error where
  "ErrTooLong = Errorf ''bufio.Scanner: token too long'' []"

definition scan_lines :: "open_file \<Rightarrow> string list \<times> go_error option" where
  "scan_lines f =
     (let parts = Split (fst f) (CHR 0x0A);
          raw = (if last parts = [] then butlast parts else parts);
          short = takeWhile (\<lambda>l. length l < 65536) raw
      in (map (\<lambda>l. TrimSuffix l [CHR 0x0D]) short,
          if length short < length raw then Some ErrTooLong else snd f))"

type_synonym uint64 = "64 word"

text \<open>\<open>strconv.ParseUint(s, 10, 64)\<close>\<close>

definition ParseUint :: "string \<Rightarrow> uint64 result" where
  "ParseUint s =
     (case (if s = [] then None else digits_val 0 s) of
        None \<Rightarrow> Inl (Errorf ''strconv.ParseUint: parsing %q: invalid syntax'' [s])
      | Some n \<Rightarrow>
          if n < 2 ^ 64 then Inr (of_nat n)
          else Inl (Errorf ''strconv.ParseUint: parsing %q: value out of range'' [s]))"

section \<open>Floating point\<close>

fun bit_len :: "nat \<Rightarrow> nat" where
  "bit_len n = (if n = 0 then 0 else Suc (bit_len (n div 2)))"

declare bit_len.simps [simp del]

text \<open>The exponent of a positive rational: \<open>2 powi expo q \<le> q < 2 powi (expo q + 1)\<close>.\<close>

definition expo :: "rat \<Rightarrow> int" where
  "expo q =
     (let (a, b) = quotient_of q; k = int (bit_len (nat a)) - int (bit_len (nat b))
      in if 2 powi k \<le> q then k else k - 1)"

definition round_even :: "rat \<Rightarrow> int" where
  "round_even x =
     (let f = floor x; d = x - of_int f
      in if d < 1 / 2 then f else if 1 / 2 < d then f + 1 else if even f then f else f + 1)"

text \<open>
  Round a number that is not negative to the nearest with 53 significant bits, ties to even. All
  numbers of this theory lie far inside the range of normal doubles.
\<close>

definition fl :: "rat \<Rightarrow> rat" where
  "fl q = (if q \<le> 0 then 0 else let e = expo q - 52 in of_int (round_even (q / 2 powi e)) * 2 powi e)"

definition float64_of_uint :: "uint64 \<Rightarrow> rat" where
  "float64_of_uint w = fl (of_nat (unat w))"

definition float64_bits :: "rat \<Rightarrow> float64" where
  "float64_bits q =
     (if q \<le> 0 then 0
      else let e = expo q in word_of_int ((e + 1023) * 2 ^ 52 + (floor (q / 2 powi (e - 52)) - 2 ^ 52)))"

section \<open>The snapshot\<close>

record cpuSample =
  cpu_idle :: uint64
  cpu_total :: uint64

record statfs =
  sf_Blocks :: uint64
  sf_Bavail :: uint64
  sf_Bsize :: "64 word"

text \<open>The two readings of \<open>/proc/stat\<close> are taken at different times.\<close>

record sys_env =
  se_Stat1 :: "open_file result"
  se_Stat2 :: "open_file result"
  se_CtxErr :: "go_error option"
  se_Meminfo :: "open_file result"
  se_Statfs :: "string \<Rightarrow> statfs result"
  se_Now :: time

definition clampPercent :: "rat \<Rightarrow> rat" where
  "clampPercent v = (if v < 0 then 0 else if 100 < v then 100 else v)"

text \<open>\<open>100 * float64(used) / float64(total)\<close>\<close>

definition percent_of :: "uint64 \<Rightarrow> uint64 \<Rightarrow> rat" where
  "percent_of used tot = clampPercent (fl (fl (100 * float64_of_uint used) / float64_of_uint tot))"

fun parse_all :: "string list \<Rightarrow> uint64 list result" where
  "parse_all [] = Inr []"
| "parse_all (f # fs) =
     (case ParseUint f of
        Inl e \<Rightarrow> Inl e
      | Inr v \<Rightarrow> (case parse_all fs of Inl e \<Rightarrow> Inl e | Inr vs \<Rightarrow> Inr (v # vs)))"

definition readCPUSample :: "open_file result \<Rightarrow> cpuSample result" where
  "readCPUSample file =
     (case file of
        Inl e \<Rightarrow> Inl e
      | Inr f \<Rightarrow>
          (case fst (scan_lines f) of
             [] \<Rightarrow> Inl (Errorf ''read /proc/stat: no cpu line'' [])
           | line # _ \<Rightarrow>
               (let fields = Fields line
                in if length fields < 5 \<or> hd fields \<noteq> ''cpu'' then
                     Inl (Errorf ''read /proc/stat: invalid cpu line'' [])
                   else
                     (case parse_all (tl fields) of
                        Inl e \<Rightarrow> Inl e
                      | Inr values \<Rightarrow>
                          (let total = sum_list values;
                               idle = values ! 3 + (if 4 < length values then values ! 4 else 0)
                           in Inr \<lparr>cpu_idle = idle, cpu_total = total\<rparr>)))))"

definition cpuPercent :: "sys_env \<Rightarrow> rat result" where
  "cpuPercent env =
     (case readCPUSample (se_Stat1 env) of
        Inl e \<Rightarrow> Inl e
      | Inr first \<Rightarrow>
          (case se_CtxErr env of
             Some e \<Rightarrow> Inl e
           | None \<Rightarrow>
               (case readCPUSample (se_Stat2 env) of
                  Inl e \<Rightarrow> Inl e
                | Inr second \<Rightarrow>
                    (let total = cpu_total second - cpu_total first
                     in if total = 0 then Inr 0
                        else
                          (let idle = cpu_idle second - cpu_idle first
                           in Inr (percent_of (total - idle) total))))))"

text \<open>One line of \<open>/proc/meminfo\<close> updates the pair of total and available memory.\<close>

definition meminfo_line :: "string \<Rightarrow> uint64 \<times> uint64 \<Rightarrow> uint64 \<times> uint64" where
  "meminfo_line line ta =
     (let fields = Fields line
      in if length fields < 2 then ta
         else
           (case ParseUint (fields ! 1) of
              Inl e \<Rightarrow> ta
            | Inr value \<Rightarrow>
                (let key = TrimSuffix (hd fields) '':''
                 in if key = ''MemTotal'' then (value, snd ta)
                    else if key = ''MemAvailable'' then (fst ta, value)
                    else ta)))"

definition memoryPercent :: "sys_env \<Rightarrow> rat result" where
  "memoryPercent env =
     (case se_Meminfo env of
        Inl e \<Rightarrow> Inl e
      | Inr f \<Rightarrow>
          (let (lines, err) = scan_lines f; (total, available) = fold meminfo_line lines (0, 0)
           in case err of
                Some e \<Rightarrow> Inl e
              | None \<Rightarrow>
                  if total = 0 then Inl (Errorf ''read /proc/meminfo: MemTotal missing'' [])
                  else Inr (percent_of (total - available) total)))"

definition diskPercent :: "sys_env \<Rightarrow> string \<Rightarrow> rat result" where
  "diskPercent env path =
     (case se_Statfs env path of
        Inl e \<Rightarrow> Inl e
      | Inr stat \<Rightarrow>
          (let total = sf_Blocks stat * sf_Bsize stat; free = sf_Bavail stat * sf_Bsize stat
           in if total = 0 then Inr 0 else Inr (percent_of (total - free) total)))"

definition Snapshot :: "sys_env \<Rightarrow> system_resources result" where
  "Snapshot env =
     (case (cpuPercent env, memoryPercent env, diskPercent env ''/'') of
        (Inl e, _, _) \<Rightarrow> Inl e
      | (Inr _, Inl e, _) \<Rightarrow> Inl e
      | (Inr _, Inr _, Inl e) \<Rightarrow> Inl e
      | (Inr cpu, Inr memory, Inr disk) \<Rightarrow>
          Inr \<lparr>sr_CPUPercent = float64_bits cpu, sr_MemoryPercent = float64_bits memory,
               sr_DiskPercent = float64_bits disk, sr_CheckedAt = se_Now env\<rparr>)"

section \<open>Facts about rounding\<close>

lemma bit_len_bounds: "0 < n \<Longrightarrow> 2 ^ (bit_len n - 1) \<le> n \<and> n < 2 ^ bit_len n \<and> 0 < bit_len n"
proof (induction n rule: bit_len.induct)
  case (1 n)
  show ?case
  proof (cases "n = 1")
    case True
    then show ?thesis by (simp add: bit_len.simps)
  next
    case False
    with 1 have IH: "2 ^ (bit_len (n div 2) - 1) \<le> n div 2" "n div 2 < 2 ^ bit_len (n div 2)" "0 < bit_len (n div 2)"
      by (auto simp: div_greater_zero_iff)
    have l: "bit_len n = Suc (bit_len (n div 2))" using 1(2) by (simp add: bit_len.simps [of n])
    obtain k where k: "bit_len (n div 2) = Suc k" using IH(3) gr0_implies_Suc by blast
    from IH k have "2 ^ k \<le> n div 2" "n div 2 < 2 * 2 ^ k" by auto
    then have "2 * 2 ^ k \<le> n" "n < 4 * 2 ^ k" by linarith+
    then show ?thesis by (simp add: l k)
  qed
qed

lemma bit_len_powi:
  assumes "0 < a"
  shows "2 powi (int (bit_len (nat a)) - 1) \<le> (of_int a :: rat)" "(of_int a :: rat) < 2 powi int (bit_len (nat a))"
proof -
  obtain m where m: "bit_len (nat a) = Suc m" "2 ^ m \<le> nat a" "nat a < 2 ^ Suc m"
    using bit_len_bounds [of "nat a"] assms by (cases "bit_len (nat a)") auto
  have a: "(of_int a :: rat) = of_nat (nat a)" using assms by simp
  have "(of_nat (2 ^ m) :: rat) \<le> of_nat (nat a)" "(of_nat (nat a) :: rat) < of_nat (2 ^ Suc m)"
    using m(2,3) by (simp_all only: of_nat_le_iff of_nat_less_iff)
  then have "2 ^ m \<le> (of_int a :: rat)" "(of_int a :: rat) < 2 ^ Suc m"
    unfolding a by (simp_all only: of_nat_power of_nat_numeral)
  moreover have "2 powi (int (Suc m) - 1) = (2 ^ m :: rat)" by (simp only: power_int_of_nat of_nat_Suc add_diff_cancel_left')
  moreover have "2 powi int (Suc m) = (2 ^ Suc m :: rat)" by (rule power_int_of_nat)
  ultimately show "2 powi (int (bit_len (nat a)) - 1) \<le> (of_int a :: rat)" "(of_int a :: rat) < 2 powi int (bit_len (nat a))"
    unfolding m(1) by (simp_all only:)
qed

lemma expo_bounds:
  assumes "0 < q"
  shows "2 powi expo q \<le> q \<and> q < 2 * 2 powi expo q"
proof -
  obtain a b where ab: "quotient_of q = (a, b)" by fastforce
  then have q: "q = of_int a / of_int b" and b: "0 < b" by (simp_all add: quotient_of_div quotient_of_denom_pos)
  with assms have a: "0 < a" by (simp add: zero_less_divide_iff)
  define m n where "m = int (bit_len (nat a))" and "n = int (bit_len (nat b))"
  note A = bit_len_powi [OF a, folded m_def] and B = bit_len_powi [OF b, folded n_def]
  have half: "(2 :: rat) powi (k - 1) = 2 powi k / 2" for k by (simp add: power_int_diff)
  have "2 powi (m - n) = (2 :: rat) powi m / 2 powi n" by (simp add: power_int_diff)
  moreover have "q < 2 powi m / 2 powi (n - 1)" unfolding q using A(2) B(1) a b by (intro frac_less) auto
  moreover have "2 powi (m - 1) / 2 powi n < q" unfolding q using A(1) B(2) a b by (intro frac_less2) auto
  ultimately have "q < 2 * 2 powi (m - n)" "2 powi (m - n) / 2 < q"
    by (simp_all add: half mult.commute)
  moreover have "expo q = (if 2 powi (m - n) \<le> q then m - n else m - n - 1)"
    by (simp add: expo_def ab m_def n_def Let_def)
  ultimately show ?thesis by (simp add: half)
qed

lemma round_even_error: "\<bar>of_int (round_even x) - x\<bar> \<le> 1 / 2"
  using floor_correct [of x] by (auto simp: round_even_def Let_def abs_le_iff)

text \<open>The relative error of one rounding.\<close>

definition ulp :: rat where
  "ulp = 1 / 2 ^ 53"

lemma fl_error:
  assumes "0 \<le> q"
  shows "\<bar>fl q - q\<bar> \<le> ulp * q"
proof (cases "q = 0")
  case False
  with assms have q: "0 < q" by simp
  define e where "e = expo q - 52"
  have p: "(0 :: rat) < 2 powi e" by simp
  have "fl q - q = (of_int (round_even (q / 2 powi e)) - q / 2 powi e) * 2 powi e"
    using q p by (simp add: fl_def e_def Let_def field_simps)
  then have "\<bar>fl q - q\<bar> = \<bar>of_int (round_even (q / 2 powi e)) - q / 2 powi e\<bar> * 2 powi e" using p by (simp add: abs_mult)
  also have "\<dots> \<le> 1 / 2 * 2 powi e" by (intro mult_right_mono round_even_error) simp
  also have "\<dots> = ulp * 2 powi expo q" by (simp add: e_def ulp_def power_int_diff power_int_numeral)
  also have "\<dots> \<le> ulp * q" using expo_bounds [OF q] by (simp add: ulp_def)
  finally show ?thesis .
qed (simp add: fl_def)

lemma fl_bounds: "0 \<le> q \<Longrightarrow> (1 - ulp) * q \<le> fl q \<and> fl q \<le> (1 + ulp) * q"
  using fl_error [of q] by (auto simp: abs_le_iff algebra_simps)

lemma fl_nonneg: "0 \<le> q \<Longrightarrow> 0 \<le> fl q"
proof -
  assume q: "0 \<le> q"
  then have "0 \<le> (1 - ulp) * q" by (simp add: ulp_def)
  with fl_bounds [OF q] show ?thesis by linarith
qed

section \<open>Facts about percentages\<close>

definition close_to :: "rat \<Rightarrow> nat \<Rightarrow> nat \<Rightarrow> bool" where
  "close_to v used tot \<longleftrightarrow> \<bar>v - 100 * of_nat used / of_nat tot\<bar> \<le> 1 / 2 ^ 44"

lemma clampPercent_range: "0 \<le> clampPercent v \<and> clampPercent v \<le> 100"
  by (simp add: clampPercent_def)

lemma clampPercent_close: "0 \<le> t \<Longrightarrow> t \<le> 100 \<Longrightarrow> \<bar>clampPercent v - t\<bar> \<le> \<bar>v - t\<bar>"
  by (auto simp: clampPercent_def)

lemma ulp_growth: "(1 + ulp) * ((1 + ulp) * (1 + ulp)) \<le> (1 + 5 * ulp) * (1 - ulp)"
  "(1 - 5 * ulp) * (1 + ulp) \<le> (1 - ulp) * ((1 - ulp) * (1 - ulp))" "0 < ulp" "ulp < 1"
  by (simp_all add: ulp_def)

text \<open>Four roundings change a quotient by a relative error of at most five units.\<close>

lemma rounded_quotient:
  assumes "0 \<le> b" and "0 < t"
  shows "\<bar>fl (fl (100 * fl b) / fl t) - 100 * b / t\<bar> \<le> 5 * ulp * (100 * b / t)"
proof -
  define h where "h = fl (100 * fl b)"
  define q where "q = 100 * b / t"
  have q0: "0 \<le> q" using assms by (simp add: q_def)
  have b: "(1 - ulp) * b \<le> fl b" "fl b \<le> (1 + ulp) * b" "0 \<le> fl b" using fl_bounds [of b] fl_nonneg [of b] assms by auto
  have g: "(1 - ulp) * t \<le> fl t" "fl t \<le> (1 + ulp) * t" using fl_bounds [of t] assms by auto
  have t0: "0 < (1 - ulp) * t" using assms ulp_growth by simp
  then have g0: "0 < fl t" using g by linarith
  have h: "(1 - ulp) * (100 * fl b) \<le> h" "h \<le> (1 + ulp) * (100 * fl b)" "0 \<le> h"
    using fl_bounds [of "100 * fl b"] fl_nonneg [of "100 * fl b"] b unfolding h_def by auto
  have p: "(1 - ulp) * (h / fl t) \<le> fl (h / fl t)" "fl (h / fl t) \<le> (1 + ulp) * (h / fl t)"
    using fl_bounds [of "h / fl t"] h g0 by auto
  have hu: "h \<le> (1 + ulp) * ((1 + ulp) * (100 * b))"
  proof -
    have "(1 + ulp) * (100 * fl b) \<le> (1 + ulp) * (100 * ((1 + ulp) * b))"
      using b(2) ulp_growth(3) by (intro mult_left_mono) auto
    also have "\<dots> = (1 + ulp) * ((1 + ulp) * (100 * b))" by (simp only: mult.left_commute [of 100])
    finally show ?thesis using h(2) by (rule order_trans [rotated])
  qed
  have hl: "(1 - ulp) * ((1 - ulp) * (100 * b)) \<le> h"
  proof -
    have "(1 - ulp) * (100 * ((1 - ulp) * b)) \<le> (1 - ulp) * (100 * fl b)"
      using b(1) ulp_growth(4) by (intro mult_left_mono) auto
    also have "\<dots> \<le> h" by (rule h(1))
    finally show ?thesis by (simp only: mult.left_commute [of 100])
  qed
  have "h / fl t \<le> (1 + ulp) * ((1 + ulp) * (100 * b)) / ((1 - ulp) * t)"
    using hu g t0 assms(1) ulp_growth(3) by (intro frac_le) auto
  also have "\<dots> = (1 + ulp) * (1 + ulp) * q / (1 - ulp)" by (simp add: q_def ac_simps)
  finally have up: "fl (h / fl t) \<le> (1 + ulp) * ((1 + ulp) * (1 + ulp) * q / (1 - ulp))"
    using p(2) ulp_growth(3) mult_left_mono [of "h / fl t" _ "1 + ulp"] by fastforce
  have "(1 - ulp) * (1 - ulp) * q / (1 + ulp) = (1 - ulp) * ((1 - ulp) * (100 * b)) / ((1 + ulp) * t)" by (simp add: q_def ac_simps)
  also have "\<dots> \<le> h / fl t" using hl g g0 h(3) by (intro frac_le) auto
  finally have low: "(1 - ulp) * ((1 - ulp) * (1 - ulp) * q / (1 + ulp)) \<le> fl (h / fl t)"
    using p(1) ulp_growth(4) mult_left_mono [of _ "h / fl t" "1 - ulp"] by fastforce
  have "(1 + ulp) * ((1 + ulp) * (1 + ulp) * q / (1 - ulp)) \<le> (1 + 5 * ulp) * q"
    using ulp_growth(1,4) q0 mult_right_mono [OF ulp_growth(1) q0] by (simp add: field_simps)
  moreover have "(1 - 5 * ulp) * q \<le> (1 - ulp) * ((1 - ulp) * (1 - ulp) * q / (1 + ulp))"
    using ulp_growth(2,3) q0 mult_right_mono [OF ulp_growth(2) q0] by (simp add: field_simps)
  ultimately have "fl (h / fl t) \<le> (1 + 5 * ulp) * q" "(1 - 5 * ulp) * q \<le> fl (h / fl t)" using up low by linarith+
  then have "\<bar>fl (h / fl t) - q\<bar> \<le> 5 * ulp * q" by (simp add: abs_le_iff algebra_simps)
  then show ?thesis by (simp only: h_def q_def)
qed

lemma percent_close:
  fixes b t :: nat
  assumes "b \<le> t" and "0 < t"
  shows "close_to (clampPercent (fl (fl (100 * fl (of_nat b)) / fl (of_nat t)))) b t"
proof -
  let ?q = "100 * of_nat b / of_nat t :: rat"
  have q: "0 \<le> ?q" "?q \<le> 100" using assms by (simp_all add: divide_le_eq)
  then have "\<bar>clampPercent (fl (fl (100 * fl (of_nat b)) / fl (of_nat t))) - ?q\<bar>
      \<le> \<bar>fl (fl (100 * fl (of_nat b)) / fl (of_nat t)) - ?q\<bar>" by (rule clampPercent_close)
  also have "\<dots> \<le> 5 * ulp * ?q" using assms by (intro rounded_quotient) simp_all
  also have "\<dots> \<le> 5 * ulp * 100" using q ulp_growth by (intro mult_left_mono) simp_all
  also have "\<dots> \<le> 1 / 2 ^ 44" by (simp add: ulp_def)
  finally show ?thesis by (simp add: close_to_def)
qed

lemma percent_of_close:
  assumes "unat used \<le> unat tot" and "tot \<noteq> 0"
  shows "close_to (percent_of used tot) (unat used) (unat tot)"
  unfolding percent_of_def float64_of_uint_def
  using assms by (intro percent_close) (simp_all add: unat_gt_0)

lemma percent_of_range: "0 \<le> percent_of used tot \<and> percent_of used tot \<le> 100"
  by (simp add: percent_of_def clampPercent_range)

lemma cpuPercent_close:
  assumes "cpuPercent env = Inr v" and "readCPUSample (se_Stat1 env) = Inr a" and "readCPUSample (se_Stat2 env) = Inr b"
    and t: "cpu_total a < cpu_total b" and i: "cpu_idle a \<le> cpu_idle b"
    and le: "cpu_idle b - cpu_idle a \<le> cpu_total b - cpu_total a"
  shows "close_to v (unat (cpu_total b) - unat (cpu_total a) - (unat (cpu_idle b) - unat (cpu_idle a)))
     (unat (cpu_total b) - unat (cpu_total a))"
proof -
  let ?t = "cpu_total b - cpu_total a" and ?i = "cpu_idle b - cpu_idle a"
  have "?t \<noteq> 0" using t by auto
  then have v: "v = percent_of (?t - ?i) ?t"
    using assms(1-3) by (auto simp: cpuPercent_def Let_def split: option.splits)
  have "unat (?t - ?i) = unat ?t - unat ?i" using le by (rule unat_sub)
  moreover have "unat ?t = unat (cpu_total b) - unat (cpu_total a)" using t by (intro unat_sub) simp
  moreover have "unat ?i = unat (cpu_idle b) - unat (cpu_idle a)" using i by (rule unat_sub)
  ultimately show ?thesis
    using percent_of_close [of "?t - ?i" ?t] \<open>?t \<noteq> 0\<close> unfolding v by simp
qed

lemma memoryPercent_close:
  assumes "memoryPercent env = Inr v" and "se_Meminfo env = Inr f"
    and "fold meminfo_line (fst (scan_lines f)) (0, 0) = (t, a)" and "a \<le> t"
  shows "close_to v (unat t - unat a) (unat t)"
proof -
  have "t \<noteq> 0" "v = percent_of (t - a) t"
    using assms(1-3) by (auto simp: memoryPercent_def Let_def split: prod.splits option.splits if_splits)
  then show ?thesis using percent_of_close [of "t - a" t] unat_sub [OF assms(4)] by simp
qed

lemma scaled_ratio:
  fixes x y z :: nat
  assumes "0 < x * z"
  shows "(of_nat (x * z - y * z) :: rat) / of_nat (x * z) = of_nat (x - y) / of_nat x"
proof -
  have "x * z - y * z = (x - y) * z" by (simp add: diff_mult_distrib)
  then show ?thesis using assms by simp
qed

lemma diskPercent_close:
  assumes "diskPercent env path = Inr v" and "se_Statfs env path = Inr st"
    and "unat (sf_Blocks st) * unat (sf_Bsize st) < 2 ^ 64" and "sf_Bavail st \<le> sf_Blocks st"
    and "0 < unat (sf_Blocks st) * unat (sf_Bsize st)"
  shows "close_to v (unat (sf_Blocks st) - unat (sf_Bavail st)) (unat (sf_Blocks st))"
proof -
  let ?t = "sf_Blocks st * sf_Bsize st" and ?f = "sf_Bavail st * sf_Bsize st"
  have av: "unat (sf_Bavail st) \<le> unat (sf_Blocks st)" using assms(4) by (simp add: word_le_nat_alt)
  have ut: "unat ?t = unat (sf_Blocks st) * unat (sf_Bsize st)" using assms(3) by (simp add: unat_word_ariths)
  have "unat (sf_Bavail st) * unat (sf_Bsize st) < 2 ^ 64"
    using av assms(3) by (meson le_less_trans mult_le_mono1)
  then have uf: "unat ?f = unat (sf_Bavail st) * unat (sf_Bsize st)" by (simp add: unat_word_ariths)
  have fle: "?f \<le> ?t" unfolding word_le_nat_alt ut uf using av by simp
  have "?t \<noteq> 0" using ut assms(5) by auto
  then have v: "v = percent_of (?t - ?f) ?t" using assms(1,2) by (auto simp: diskPercent_def Let_def)
  have "close_to v (unat ?t - unat ?f) (unat ?t)"
    using percent_of_close [of "?t - ?f" ?t] unat_sub [OF fle] \<open>?t \<noteq> 0\<close> unfolding v by simp
  moreover have "(of_nat (unat ?t - unat ?f) :: rat) / of_nat (unat ?t)
      = of_nat (unat (sf_Blocks st) - unat (sf_Bavail st)) / of_nat (unat (sf_Blocks st))"
    unfolding ut uf using assms(5) by (rule scaled_ratio)
  ultimately show ?thesis by (simp add: close_to_def flip: times_divide_eq_right)
qed

section \<open>Properties\<close>

text \<open>
  Claim C29. The resource percentages an agent or the server reports lie between 0 and 100 whatever the
  kernel's counters are, wrapped differences included. With consistent counters (they do not run
  backwards, and the available part is not larger than the whole) each is within \<open>2 ^ -44\<close> of the
  exact ratio, in spite of the four roundings of its computation.
\<close>

theorem snapshot_percentages:
  assumes "Snapshot env = Inr r"
  shows "\<exists>cpu memory disk. r = \<lparr>sr_CPUPercent = float64_bits cpu, sr_MemoryPercent = float64_bits memory,
       sr_DiskPercent = float64_bits disk, sr_CheckedAt = se_Now env\<rparr>
     \<and> cpu \<in> {0..100} \<and> memory \<in> {0..100} \<and> disk \<in> {0..100}
     \<and> (\<forall>a b. readCPUSample (se_Stat1 env) = Inr a \<and> readCPUSample (se_Stat2 env) = Inr b
          \<and> cpu_total a < cpu_total b \<and> cpu_idle a \<le> cpu_idle b \<and> cpu_idle b - cpu_idle a \<le> cpu_total b - cpu_total a \<longrightarrow>
          close_to cpu (unat (cpu_total b) - unat (cpu_total a) - (unat (cpu_idle b) - unat (cpu_idle a)))
            (unat (cpu_total b) - unat (cpu_total a)))
     \<and> (\<forall>f t a. se_Meminfo env = Inr f \<and> fold meminfo_line (fst (scan_lines f)) (0, 0) = (t, a) \<and> a \<le> t \<longrightarrow>
          close_to memory (unat t - unat a) (unat t))
     \<and> (\<forall>st. se_Statfs env ''/'' = Inr st \<and> unat (sf_Blocks st) * unat (sf_Bsize st) < 2 ^ 64
          \<and> 0 < unat (sf_Blocks st) * unat (sf_Bsize st) \<and> sf_Bavail st \<le> sf_Blocks st \<longrightarrow>
          close_to disk (unat (sf_Blocks st) - unat (sf_Bavail st)) (unat (sf_Blocks st)))"
proof -
  obtain cpu memory disk where v: "cpuPercent env = Inr cpu" "memoryPercent env = Inr memory" "diskPercent env ''/'' = Inr disk"
    and r: "r = \<lparr>sr_CPUPercent = float64_bits cpu, sr_MemoryPercent = float64_bits memory,
       sr_DiskPercent = float64_bits disk, sr_CheckedAt = se_Now env\<rparr>"
    using assms by (auto simp: Snapshot_def split: sum.splits)
  have "cpu \<in> {0..100}"
    using v(1) percent_of_range by (auto simp: cpuPercent_def Let_def split: sum.splits option.splits if_splits)
  moreover have "memory \<in> {0..100}"
    using v(2) percent_of_range by (auto simp: memoryPercent_def Let_def split: sum.splits prod.splits option.splits if_splits)
  moreover have "disk \<in> {0..100}"
    using v(3) percent_of_range by (auto simp: diskPercent_def Let_def split: sum.splits if_splits)
  ultimately show ?thesis
    using r cpuPercent_close [OF v(1)] memoryPercent_close [OF v(2)] diskPercent_close [OF v(3)]
    by (intro exI [of _ cpu] exI [of _ memory] exI [of _ disk]) simp
qed

definition demo_sys :: sys_env where
  "demo_sys = \<lparr>se_Stat1 = Inr (''cpu 1 1 1 1'', None), se_Stat2 = Inr (''cpu 2 2 2 2'', None), se_CtxErr = None,
     se_Meminfo = Inr (''MemTotal: 8'', None),
     se_Statfs = (\<lambda>_. Inr \<lparr>sf_Blocks = 4, sf_Bavail = 1, sf_Bsize = 1\<rparr>), se_Now = 5\<rparr>"

lemma fields_from_graph:
  "fields_from cur [] = (if cur = [] then [] else [cur])"
  "is_graph c \<Longrightarrow> fields_from cur (c # s) = fields_from (cur @ [c]) s"
  "fields_from cur (CHR '' '' # s) = (if cur = [] then [] else [cur]) @ fields_from [] s"
proof -
  show "fields_from cur (c # s) = fields_from (cur @ [c]) s" if "is_graph c"
    using stuck_graph [of "c # s"] that by (subst fields_from.simps) (simp add: Let_def)
  have "find (\<lambda>p. p \<noteq> [] \<and> prefix p (CHR '' '' # s)) space_runes = Some [CHR '' '']"
    by (simp add: space_runes_def bytes_def char_of_eq_iff)
  then show "fields_from cur (CHR '' '' # s) = (if cur = [] then [] else [cur]) @ fields_from [] s"
    by (subst fields_from.simps) (simp add: Let_def)
qed (simp add: fields_from.simps)

lemma demo_fields:
  "Fields ''cpu 1 1 1 1'' = [''cpu'', ''1'', ''1'', ''1'', ''1'']" "Fields ''cpu 2 2 2 2'' = [''cpu'', ''2'', ''2'', ''2'', ''2'']"
  "Fields ''MemTotal: 8'' = [''MemTotal:'', ''8'']"
  by (simp_all add: Fields_def fields_from_graph is_graph_def less_eq_char_def del: fields_from.simps)

lemma demo_scan: "s \<in> {''cpu 1 1 1 1'', ''cpu 2 2 2 2'', ''MemTotal: 8''} \<Longrightarrow> scan_lines (s, None) = ([s], None)"
  by (auto simp: scan_lines_def TrimSuffix_def HasSuffix_def suffix_def Let_def)

lemma demo_digits: "ParseUint ''1'' = Inr 1" "ParseUint ''2'' = Inr 2" "ParseUint ''8'' = Inr 8"
  by (simp_all add: ParseUint_def is_digit_def digit_val_def less_eq_char_def)

lemma demo_samples:
  "readCPUSample (se_Stat1 demo_sys) = Inr \<lparr>cpu_idle = 1, cpu_total = 4\<rparr>"
  "readCPUSample (se_Stat2 demo_sys) = Inr \<lparr>cpu_idle = 2, cpu_total = 8\<rparr>"
  by (simp_all add: readCPUSample_def demo_sys_def demo_scan demo_fields demo_digits Let_def)

lemma demo_snapshot: "\<exists>r. Snapshot demo_sys = Inr r"
proof -
  have "\<exists>v. cpuPercent demo_sys = Inr v"
  proof -
    have "se_CtxErr demo_sys = None" by (simp add: demo_sys_def)
    then show ?thesis by (simp add: cpuPercent_def demo_samples Let_def)
  qed
  moreover have "fold meminfo_line (fst (scan_lines (''MemTotal: 8'', None))) (0, 0) = (8, 0)"
    by (simp add: demo_scan meminfo_line_def demo_fields demo_digits TrimSuffix_def HasSuffix_def suffix_def Let_def)
  then have "\<exists>v. memoryPercent demo_sys = Inr v" by (simp add: memoryPercent_def demo_sys_def demo_scan Let_def)
  moreover have "\<exists>v. diskPercent demo_sys ''/'' = Inr v" by (simp add: diskPercent_def demo_sys_def Let_def)
  ultimately show ?thesis by (auto simp: Snapshot_def)
qed

theorem snapshot_percentages_witness:
  "\<exists>r cpu. Snapshot demo_sys = Inr r \<and> sr_CPUPercent r = float64_bits cpu \<and> cpu \<in> {0..100} \<and> close_to cpu 3 4"
proof -
  obtain r where s: "Snapshot demo_sys = Inr r" using demo_snapshot by blast
  from snapshot_percentages [OF s] obtain cpu where "sr_CPUPercent r = float64_bits cpu" "cpu \<in> {0..100}"
    and c: "\<forall>a b. readCPUSample (se_Stat1 demo_sys) = Inr a \<and> readCPUSample (se_Stat2 demo_sys) = Inr b
          \<and> cpu_total a < cpu_total b \<and> cpu_idle a \<le> cpu_idle b \<and> cpu_idle b - cpu_idle a \<le> cpu_total b - cpu_total a \<longrightarrow>
          close_to cpu (unat (cpu_total b) - unat (cpu_total a) - (unat (cpu_idle b) - unat (cpu_idle a)))
            (unat (cpu_total b) - unat (cpu_total a))"
    by force
  moreover from c have "close_to cpu 3 4" by (simp add: demo_samples)
  ultimately show ?thesis using s by blast
qed

end
