(* ===== verification/Domux_Node.thy ===== *)
theory Domux_Node
  imports Domux_Api Domux_System
begin

text \<open>
  The agent program: the command \<open>cmd/domux-agent\<close> (flags, installation of the service files, the
  serving loop and the registration with the server) and the routing of the agent's HTTP server
  (\<open>internal/agent/server\<close>). The environment, the working directory, the outcome of serving and of
  shutting down and the answers of the server are parameters; the files written are those of an
  explicit file system whose calls may fail.
\<close>

section \<open>Flags\<close>

text \<open>\<open>strconv.ParseBool\<close> and the parser of package \<open>flag\<close>; a flag is a name and whether it is boolean.\<close>

definition ParseBool :: "string \<Rightarrow> bool option" where
  "ParseBool s =
     (if s \<in> {''1'', ''t'', ''T'', ''true'', ''TRUE'', ''True''} then Some True
      else if s \<in> {''0'', ''f'', ''F'', ''false'', ''FALSE'', ''False''} then Some False
      else None)"

definition ErrHelp :: go_error where
  "ErrHelp = Errorf ''flag: help requested'' []"

definition split_flag :: "string \<Rightarrow> string \<times> string option" where
  "split_flag s =
     (case Cut (tl s) (CHR ''='') of
        None \<Rightarrow> (s, None)
      | Some (b, a) \<Rightarrow> (hd s # b, Some a))"

fun flag_Parse :: "(string \<times> bool) list \<Rightarrow> string list \<Rightarrow> string gomap \<Rightarrow> string gomap result" where
  "flag_Parse flags [] vals = Inr vals"
| "flag_Parse flags (s # args) vals =
     (if length s < 2 \<or> hd s \<noteq> CHR ''-'' then Inr vals
      else if s = ''--'' then Inr vals
      else
        (let name0 = drop (if s ! 1 = CHR ''-'' then 2 else 1) s
         in if name0 = [] \<or> hd name0 = CHR ''-'' \<or> hd name0 = CHR ''='' then
              Inl (Errorf ''bad flag syntax: %s'' [s])
            else
              (let (name, given) = split_flag name0
               in case map_of flags name of
                    None \<Rightarrow>
                      if name = ''help'' \<or> name = ''h'' then Inl ErrHelp
                      else Inl (Errorf ''flag provided but not defined: -%s'' [name])
                  | Some True \<Rightarrow>
                      (case given of
                         None \<Rightarrow> flag_Parse flags args (gm_put name ''true'' vals)
                       | Some v \<Rightarrow>
                           (case ParseBool v of
                              None \<Rightarrow> Inl (Errorf ''invalid boolean value %q for -%s: parse error'' [v, name])
                            | Some b \<Rightarrow> flag_Parse flags args (gm_put name (if b then ''true'' else ''false'') vals)))
                  | Some False \<Rightarrow>
                      (case given of
                         Some v \<Rightarrow> flag_Parse flags args (gm_put name v vals)
                       | None \<Rightarrow>
                           (case args of
                              [] \<Rightarrow> Inl (Errorf ''flag needs an argument: -%s'' [name])
                            | v # rest \<Rightarrow> flag_Parse flags rest (gm_put name v vals))))))"

section \<open>The HTTP server of the agent\<close>

record runtime_proxy =
  rp_Target :: go_url
  rp_Socket :: string

text \<open>The URL of the target is a constant that parses.\<close>

definition NewRuntimeProxy :: "string \<Rightarrow> runtime_proxy result" where
  "NewRuntimeProxy socketPath =
     (if socketPath = [] then Inl (Errorf ''container runtime socket path is required'' [])
      else (case url_Parse ''http://docker'' of
              Inl e \<Rightarrow> Inl e
            | Inr target \<Rightarrow> Inr \<lparr>rp_Target = target, rp_Socket = socketPath\<rparr>))"

record agent_server =
  as_Name :: string
  as_Runtime :: container_runtime
  as_SocketPath :: string
  as_Version :: string
  as_Deployer :: "(string io_faults \<times> string io_faults) option"
  as_Proxy :: "runtime_proxy option"

definition NewAgentServer :: "string \<Rightarrow> container_runtime \<Rightarrow> string \<Rightarrow> (string io_faults \<times> string io_faults) option \<Rightarrow>
    runtime_proxy option \<Rightarrow> agent_server" where
  "NewAgentServer name runtime version deployer proxy =
     \<lparr>as_Name = name, as_Runtime = runtime, as_SocketPath = [], as_Version = version, as_Deployer = deployer, as_Proxy = proxy\<rparr>"

definition WithSocketPath :: "string \<Rightarrow> agent_server \<Rightarrow> agent_server" where
  "WithSocketPath socketPath s = s\<lparr>as_SocketPath := socketPath\<rparr>"

abbreviation EndpointHealth :: string where "EndpointHealth \<equiv> ''/health''"

datatype agent_reply =
    AgentHealth
  | AgentInfo info_response
  | AgentDeploy http_reply
  | AgentProxy "(go_url \<times> go_url) result"
  | AgentRuntime runtime_proxy
  | AgentMethodNotAllowed
  | AgentNotFound

text \<open>
  The routes of \<open>Handler\<close>, for requests whose path is clean (the multiplexer of the standard library
  redirects the others): the most specific pattern wins, a pattern with \<open>GET\<close> also takes \<open>HEAD\<close>, and
  a request that no pattern takes with its method falls through to the runtime proxy, if there is one.
\<close>

definition handle_info :: "sys_env \<Rightarrow> agent_server \<Rightarrow> info_response" where
  "handle_info sys s =
     \<lparr>ir_Name = as_Name s, ir_Runtime = as_Runtime s, ir_SocketPath = as_SocketPath s, ir_Version = as_Version s,
      ir_Resources = (case Snapshot sys of Inl _ \<Rightarrow> zero_resources | Inr r \<Rightarrow> r)\<rparr>"

definition agent_Handler :: "sys_env \<Rightarrow> shell \<Rightarrow> agent_server \<Rightarrow> string \<Rightarrow> go_url \<Rightarrow> deploy_request result \<Rightarrow>
    string file_system \<Rightarrow> agent_reply \<times> string file_system" where
  "agent_Handler sys sh s meth rURL body fs =
     (let path = u_Path rURL;
          known = path \<in> {APIBasePath @ EndpointHealth, APIBasePath @ EndpointInfo, APIBasePath @ EndpointCertDeploy};
          rest = (case as_Proxy s of
                    Some proxy \<Rightarrow> AgentRuntime proxy
                  | None \<Rightarrow> if known then AgentMethodNotAllowed else AgentNotFound)
      in if path = APIBasePath @ EndpointHealth \<and> meth \<in> {''GET'', ''HEAD''} then (AgentHealth, fs)
         else if path = APIBasePath @ EndpointInfo \<and> meth \<in> {''GET'', ''HEAD''} then (AgentInfo (handle_info sys s), fs)
         else if path = APIBasePath @ EndpointCertDeploy \<and> meth = ''POST'' then
           (let (reply, fs') = handleDeploy (as_Deployer s) sh body fs in (AgentDeploy reply, fs'))
         else if path = APIBasePath @ EndpointProxyHTTP \<or> HasPrefix path (APIBasePath @ EndpointProxyHTTP @ ''/'') then
           (AgentProxy (handleProxyHTTP rURL), fs)
         else (rest, fs))"

section \<open>Registration\<close>

record agent_registration =
  areg_Name :: string
  areg_Addr :: string
  areg_Runtime :: container_runtime
  areg_SocketPath :: string
  areg_Version :: string

definition guessPublicAgentAddr :: "string \<Rightarrow> string" where
  "guessPublicAgentAddr name0 =
     (let name = TrimSpace name0 in (if name = [] then ''domux-agent'' else name) @ '':8890'')"

text \<open>
  At most \<open>k\<close> attempts from number \<open>n\<close> on. \<open>post\<close> sends the registration and gives the status code;
  \<open>ctx\<close> tells whether the context ends during the wait after an attempt. The result is the number of
  the attempt that succeeded.
\<close>

fun register_attempts :: "(nat \<Rightarrow> 'w \<Rightarrow> nat result \<times> 'w) \<Rightarrow> (nat \<Rightarrow> bool) \<Rightarrow> nat \<Rightarrow> nat \<Rightarrow> 'w \<Rightarrow> nat option \<times> 'w" where
  "register_attempts post ctx n 0 w = (None, w)"
| "register_attempts post ctx n (Suc k) w =
     (case post n w of
        (Inr status, w') \<Rightarrow>
          if 200 \<le> status \<and> status < 300 then (Some n, w')
          else if ctx n then (None, w') else register_attempts post ctx (Suc n) k w'
      | (Inl e, w') \<Rightarrow> if ctx n then (None, w') else register_attempts post ctx (Suc n) k w')"

definition registerWithServer :: "(nat \<Rightarrow> go_url \<Rightarrow> agent_registration \<Rightarrow> 'w \<Rightarrow> nat result \<times> 'w) \<Rightarrow> (nat \<Rightarrow> bool) \<Rightarrow> string \<Rightarrow>
    agent_registration \<Rightarrow> 'w \<Rightarrow> nat option \<times> 'w" where
  "registerWithServer post ctx serverURL reg0 w =
     (let reg = (if TrimSpace (areg_Addr reg0) = []
                 then reg0\<lparr>areg_Addr := guessPublicAgentAddr (areg_Name reg0)\<rparr> else reg0);
          endpoint = TrimRight serverURL ''/'' @ ''/api/v1/agents/register''
      in case url_Parse endpoint of
           Inl e \<Rightarrow> (None, w)
         | Inr u \<Rightarrow> register_attempts (\<lambda>n. post n (u\<lparr>u_Host := TrimSuffix (u_Host u) '':''\<rparr>) reg) ctx 0 12 w)"

section \<open>Serving\<close>

definition defaultSocketPath :: "os_env \<Rightarrow> container_runtime \<Rightarrow> string" where
  "defaultSocketPath os runtime =
     (let path = DefaultRuntimeSocketPath os runtime
      in if TrimSpace path \<noteq> [] then path else ''/var/run/docker.sock'')"

definition version_Value :: string where
  "version_Value = ''0.1.0''"

text \<open>What \<open>runServe\<close> sets up before it serves: the address, the server, and the registration to send.\<close>

record serve_plan =
  sp_Addr :: string
  sp_Server :: agent_server
  sp_Register :: "(string \<times> agent_registration) option"

definition serve_flags :: "(string \<times> bool) list" where
  "serve_flags = map (\<lambda>n. (n, False)) [''listen'', ''socket'', ''server'', ''addr'', ''name'', ''runtime'']"

definition serve_setup :: "os_env \<Rightarrow> string io_faults \<times> string io_faults \<Rightarrow> string list \<Rightarrow> serve_plan result" where
  "serve_setup os io args =
     (let host = os_Getenv os ''HOSTNAME'';
          defaults = [(''listen'', '':8890''), (''socket'', []), (''server'', os_Getenv os ''DOMUX_SERVER_URL''),
            (''addr'', os_Getenv os ''DOMUX_AGENT_ADDR''), (''name'', if host = [] then ''domux-agent'' else host),
            (''runtime'', ContainerRuntimeDocker)]
      in case flag_Parse serve_flags args defaults of
           Inl e \<Rightarrow> Inl e
         | Inr v \<Rightarrow>
             (let runtime = gm_str v ''runtime''
              in case ContainerRuntime_Validate runtime of
                   Some e \<Rightarrow> Inl e
                 | None \<Rightarrow>
                     (let socketPath = (if TrimSpace (gm_str v ''socket'') = [] then defaultSocketPath os runtime else gm_str v ''socket'');
                          name = gm_str v ''name''
                      in case NewRuntimeProxy socketPath of
                           Inl e \<Rightarrow> Inl e
                         | Inr proxy \<Rightarrow>
                             Inr \<lparr>sp_Addr = gm_str v ''listen'',
                                  sp_Server = WithSocketPath socketPath (NewAgentServer name runtime version_Value (Some io) (Some proxy)),
                                  sp_Register =
                                    (if TrimSpace (gm_str v ''server'') = [] then None
                                     else Some (TrimSpace (gm_str v ''server''),
                                            \<lparr>areg_Name = name, areg_Addr = TrimSpace (gm_str v ''addr''), areg_Runtime = runtime,
                                             areg_SocketPath = socketPath, areg_Version = version_Value\<rparr>))\<rparr>)))"

definition ErrServerClosed :: go_error where
  "ErrServerClosed = Errorf ''http: Server closed'' []"

text \<open>
  The whole of \<open>runServe\<close>: \<open>served\<close> is the error that ends \<open>ListenAndServe\<close>, or \<open>None\<close> when a signal comes
  first, and \<open>shut\<close> the result of the shutdown. The registration runs beside it.
\<close>

definition runServe :: "os_env \<Rightarrow> string io_faults \<times> string io_faults \<Rightarrow> string list \<Rightarrow> (serve_plan \<Rightarrow> go_error option) \<Rightarrow>
    go_error option \<Rightarrow> go_error option \<times> serve_plan option" where
  "runServe os io args served shut =
     (case serve_setup os io args of
        Inl e \<Rightarrow> (Some e, None)
      | Inr plan \<Rightarrow>
          (let runErr = (case served plan of Some e \<Rightarrow> if errors_Is e ErrServerClosed then None else Some e | None \<Rightarrow> None);
               res = (case shut of
                        Some e \<Rightarrow>
                          if errors_Is e ErrServerClosed then runErr
                          else (case runErr of Some r \<Rightarrow> errors_Join [r, e] | None \<Rightarrow> Some e)
                      | None \<Rightarrow> runErr)
           in (res, Some plan)))"

section \<open>Installation\<close>

abbreviation NL :: string where "NL \<equiv> [CHR 0x0A]"

definition defaultAgentServiceTemplate :: string where
  \<open>defaultAgentServiceTemplate = Join
     [''[Unit]'', ''Description=domux agent'', ''After=network-online.target'', ''Wants=network-online.target'', [],
      ''[Service]'', ''Type=simple'', ''EnvironmentFile={{ENV_FILE}}'',
      ''ExecStart=/bin/sh -ec '/usr/local/bin/domux-agent -name "$DOMUX_AGENT_NAME" -listen "$DOMUX_AGENT_LISTEN" -runtime "$DOMUX_AGENT_RUNTIME" -socket "$DOMUX_AGENT_SOCKET" -server "$DOMUX_SERVER_URL" -addr "$DOMUX_AGENT_ADDR"'' @ [CHR 0x27],
      ''Restart=on-failure'', ''RestartSec=5'', ''NoNewPrivileges=true'', ''LimitNOFILE=65536'', [],
      ''[Install]'', ''WantedBy=multi-user.target'', []] NL\<close>

function ReplaceAll :: "string \<Rightarrow> string \<Rightarrow> string \<Rightarrow> string" where
  "ReplaceAll s old new =
     (if s = [] \<or> old = [] then s
      else if prefix old s then new @ ReplaceAll (drop (length old) s) old new
      else hd s # ReplaceAll (tl s) old new)"
  by pat_completeness auto

termination
  by (relation "measure (\<lambda>(s, old, new). length s)") auto

definition buildSystemdEnvForInstall :: "string \<Rightarrow> string \<Rightarrow> container_runtime \<Rightarrow> string \<Rightarrow> string \<Rightarrow> string \<Rightarrow> string" where
  "buildSystemdEnvForInstall name listenAddr runtime socketPath serverURL publicAddr =
     Join [''DOMUX_AGENT_NAME='' @ TrimSpace name, ''DOMUX_AGENT_LISTEN='' @ TrimSpace listenAddr,
           ''DOMUX_AGENT_RUNTIME='' @ runtime, ''DOMUX_AGENT_SOCKET='' @ TrimSpace socketPath,
           ''DOMUX_SERVER_URL='' @ TrimSpace serverURL, ''DOMUX_AGENT_ADDR='' @ TrimSpace publicAddr] NL @ NL"

definition filepath_Abs :: "string result \<Rightarrow> string \<Rightarrow> string result" where
  "filepath_Abs wd path =
     (if IsAbs path then Inr (Clean path)
      else (case wd of Inl e \<Rightarrow> Inl e | Inr d \<Rightarrow> Inr (PathJoin [d, path])))"

definition install_flags :: "(string \<times> bool) list" where
  "install_flags = map (\<lambda>n. (n, False)) [''name'', ''listen'', ''runtime'', ''socket'', ''server'', ''addr'', ''prefix'', ''env-file'',
     ''service-file'', ''service-name''] @ [(''print-only'', True)]"

text \<open>What an installation writes.\<close>

record install_plan =
  ip_Prefix :: string
  ip_ServerURL :: string
  ip_EnvPath :: string
  ip_EnvContent :: string
  ip_ServicePath :: string
  ip_ServiceContent :: string
  ip_ServiceName :: string
  ip_PrintOnly :: bool

definition install_setup :: "os_env \<Rightarrow> string result \<Rightarrow> string list \<Rightarrow> install_plan result" where
  "install_setup os wd args =
     (let host = os_Getenv os ''HOSTNAME'';
          defaults = [(''name'', if TrimSpace host = [] then ''domux-agent'' else host), (''listen'', '':8890''),
            (''runtime'', ContainerRuntimeDocker), (''socket'', []), (''server'', []), (''addr'', []), (''prefix'', ''/etc/domux''),
            (''env-file'', []), (''service-file'', []), (''service-name'', ''domux-agent''), (''print-only'', ''false'')]
      in case flag_Parse install_flags args defaults of
           Inl e \<Rightarrow> Inl e
         | Inr v \<Rightarrow>
             (if TrimSpace (gm_str v ''server'') = [] then Inl (Errorf ''-server is required'' [])
              else
                (let runtime = gm_str v ''runtime''
                 in case ContainerRuntime_Validate runtime of
                      Some e \<Rightarrow> Inl e
                    | None \<Rightarrow>
                        (let socketPath = (if TrimSpace (gm_str v ''socket'') = [] then defaultSocketPath os runtime else gm_str v ''socket'')
                         in case filepath_Abs wd (TrimSpace (gm_str v ''prefix'')) of
                              Inl e \<Rightarrow> Inl e
                            | Inr absPrefix \<Rightarrow>
                                (let serviceName = gm_str v ''service-name'';
                                     envPath = (if TrimSpace (gm_str v ''env-file'') = [] then PathJoin [absPrefix, serviceName @ ''.env'']
                                                else gm_str v ''env-file'');
                                     servicePath = (if TrimSpace (gm_str v ''service-file'') = [] then PathJoin [absPrefix, serviceName @ ''.service'']
                                                    else gm_str v ''service-file'')
                                 in Inr \<lparr>ip_Prefix = absPrefix, ip_ServerURL = gm_str v ''server'', ip_EnvPath = envPath,
                                         ip_EnvContent = buildSystemdEnvForInstall (gm_str v ''name'') (gm_str v ''listen'') runtime socketPath
                                           (gm_str v ''server'') (gm_str v ''addr''),
                                         ip_ServicePath = servicePath,
                                         ip_ServiceContent = ReplaceAll defaultAgentServiceTemplate ''{{ENV_FILE}}'' envPath,
                                         ip_ServiceName = serviceName, ip_PrintOnly = (gm_str v ''print-only'' = ''true'')\<rparr>)))))"

text \<open>The faults of the calls for the environment file and for the service file; the result is the error, the output and the files.\<close>

definition runInstall :: "os_env \<Rightarrow> string result \<Rightarrow> string io_faults \<times> string io_faults \<Rightarrow> string list \<Rightarrow> string file_system \<Rightarrow>
    (go_error option \<times> string) \<times> string file_system" where
  "runInstall os wd io args fs =
     (case install_setup os wd args of
        Inl e \<Rightarrow> ((Some e, []), fs)
      | Inr p \<Rightarrow>
          if ip_PrintOnly p then
            ((None, ''Install prefix: '' @ ip_Prefix p @ NL @ ''Server URL: '' @ ip_ServerURL p @ NL
                @ ''Environment file:'' @ NL @ ip_EnvContent p @ NL @ ''Service file:'' @ NL @ ip_ServiceContent p @ NL), fs)
          else
            (case (io_MkdirAll (fst io), io_MkdirAll (snd io)) of
               (Some e, _) \<Rightarrow> ((Some e, []), fs)
             | (None, Some e) \<Rightarrow> ((Some e, []), fs)
             | (None, None) \<Rightarrow>
                 (case WriteFile (fst io) (ip_EnvPath p) (ip_EnvContent p) fs of
                    (Some e, fs1) \<Rightarrow> ((Some e, []), fs1)
                  | (None, fs1) \<Rightarrow>
                      (case WriteFile (snd io) (ip_ServicePath p) (ip_ServiceContent p) fs1 of
                         (Some e, fs2) \<Rightarrow> ((Some e, []), fs2)
                       | (None, fs2) \<Rightarrow>
                           ((None, ''Installed agent files under '' @ ip_Prefix p @ NL
                               @ ''Environment file written to '' @ ip_EnvPath p @ NL
                               @ ''Service file written to '' @ ip_ServicePath p @ NL @ ''Next steps:'' @ NL
                               @ ''1. Copy '' @ ip_ServicePath p @ '' to /etc/systemd/system/'' @ ip_ServiceName p @ ''.service if needed'' @ NL
                               @ ''2. Run: systemctl daemon-reload'' @ NL
                               @ ''3. Run: systemctl enable --now '' @ ip_ServiceName p @ NL), fs2)))))"

datatype agent_command = Install "string list" | Serve "string list"

definition agent_run :: "string list \<Rightarrow> agent_command" where
  "agent_run args = (case args of a # rest \<Rightarrow> if a = ''install'' then Install rest else Serve args | [] \<Rightarrow> Serve [])"

section \<open>Registration with the management API\<close>

text \<open>
  The two programs together. \<open>net.Client\<close> turns the credentials of a URL into a basic authentication
  header, which the server splits at the first colon. An attempt may reach the server or not, and its
  answer may be lost.
\<close>

definition url_credentials :: "go_url \<Rightarrow> (string \<times> string) option" where
  "url_credentials u =
     (case u_User u of
        None \<Rightarrow> None
      | Some (name, pass) \<Rightarrow> Cut (name @ '':'' @ (case pass of None \<Rightarrow> [] | Some p \<Rightarrow> p)) (CHR '':''))"

definition registration_json :: "agent_registration \<Rightarrow> registration_request" where
  "registration_json reg =
     \<lparr>rg_Name = areg_Name reg, rg_Addr = areg_Addr reg, rg_Runtime = areg_Runtime reg,
      rg_SocketPath = areg_SocketPath reg, rg_Version = areg_Version reg\<rparr>"

datatype delivery = Delivered | AnswerLost | NotDelivered

definition api_register :: "auth_config \<Rightarrow> string \<Rightarrow> go_url \<Rightarrow> agent_registration \<Rightarrow> 'd api_world \<Rightarrow> nat \<times> 'd api_world" where
  "api_register auth remoteAddr u reg w =
     (case withBasicAuth (\<lambda>_. u_Path u) (\<lambda>_. url_credentials u) auth
             (\<lambda>_. registerAgent remoteAddr (Inr (registration_json reg)) w) () of
        None \<Rightarrow> (401, w)
      | Some ((status, _), w') \<Rightarrow> (status, w'))"

definition post_registration :: "auth_config \<Rightarrow> (nat \<Rightarrow> delivery) \<Rightarrow> string \<Rightarrow> nat \<Rightarrow> go_url \<Rightarrow> agent_registration \<Rightarrow>
    'd api_world \<Rightarrow> nat result \<times> 'd api_world" where
  "post_registration auth net remoteAddr n u reg w =
     (case net n of
        Delivered \<Rightarrow> apfst Inr (api_register auth remoteAddr u reg w)
      | AnswerLost \<Rightarrow> (Inl (ErrIO ''connection reset''), snd (api_register auth remoteAddr u reg w))
      | NotDelivered \<Rightarrow> (Inl (ErrIO ''connection refused''), w))"

definition effective_registration :: "agent_registration \<Rightarrow> agent_registration" where
  "effective_registration reg =
     (if TrimSpace (areg_Addr reg) = [] then reg\<lparr>areg_Addr := guessPublicAgentAddr (areg_Name reg)\<rparr> else reg)"

lemma serve_setup_runtime:
  assumes "serve_setup os io args = Inr plan" and "sp_Register plan = Some (url, reg)"
  shows "ContainerRuntime_Validate (areg_Runtime reg) = None"
  using assms by (auto simp: serve_setup_def Let_def split: sum.splits option.splits if_splits)

lemma runtime_trimmed: "ContainerRuntime_Validate r = None \<Longrightarrow> TrimSpace r = r \<and> r \<noteq> []"
  by (auto simp: ContainerRuntime_Validate_def literal_simps split: if_splits)

lemma effective_addr: "TrimSpace (areg_Addr (effective_registration reg)) \<noteq> []"
proof (cases "TrimSpace (areg_Addr reg) = []")
  case True
  have "trimmed (guessPublicAgentAddr (areg_Name reg))"
    by (auto simp: guessPublicAgentAddr_def Let_def trimmed_def literal_simps
        intro!: trimmed_join [unfolded trimmed_def])
  with True show ?thesis by (auto simp: effective_registration_def trimmed_def guessPublicAgentAddr_def Let_def)
qed (simp add: effective_registration_def)

text \<open>A request that is let in stores the agent; repeating it changes nothing.\<close>

definition admitted :: "auth_config \<Rightarrow> go_url \<Rightarrow> bool" where
  "admitted auth u \<longleftrightarrow> \<not> AuthConfig_Enabled auth \<or> url_credentials u = Some (au_Username auth, au_Password auth)"

definition store_pending :: "string \<Rightarrow> agent_registration \<Rightarrow> 'd api_world \<Rightarrow> 'd api_world" where
  "store_pending remoteAddr reg = set_store (PutPendingAgent (registered_agent remoteAddr (registration_json reg)))"

lemma store_pending_twice [simp]: "store_pending a reg (store_pending a reg w) = store_pending a reg w"
  by (simp add: store_pending_def set_store_def PutPendingAgent_def)

lemma pending_listed: "a \<in> set (ListPendingAgents (PutPendingAgent a s))"
proof -
  have "(ag_Name a, a) \<in> set (gm_put (ag_Name a) a (ms_pendingAgents s))" by (rule map_of_SomeD) simp
  then have "a \<in> set (gm_values (gm_put (ag_Name a) a (ms_pendingAgents s)))"
    unfolding gm_values_def by (auto intro: rev_image_eqI)
  then show ?thesis by (simp add: ListPendingAgents_def PutPendingAgent_def)
qed

definition registrable :: "agent_registration \<Rightarrow> bool" where
  "registrable reg \<longleftrightarrow> TrimSpace (areg_Name reg) \<noteq> [] \<and> TrimSpace (areg_Addr reg) \<noteq> []
     \<and> ContainerRuntime_Validate (areg_Runtime reg) = None"

lemma api_register_admitted:
  assumes "admitted auth u" and "registrable reg"
  shows "api_register auth remoteAddr u reg w = (202, store_pending remoteAddr reg w)"
proof -
  have "AgentNode_Validate (registered_agent remoteAddr (registration_json reg)) = None"
    using assms(2) runtime_trimmed [of "areg_Runtime reg"]
    by (auto simp: registrable_def AgentNode_Validate_def registered_agent_def registration_json_def)
  then have "registerAgent remoteAddr (Inr (registration_json reg)) w = ((202, StatusBody ''pending''), store_pending remoteAddr reg w)"
    by (simp add: registerAgent_def store_pending_def)
  then show ?thesis using assms(1) by (auto simp: api_register_def admitted_def withBasicAuth_def)
qed

lemma register_attempts_ends:
  fixes w0 w :: "'d api_world"
  assumes "admitted auth u" and "registrable reg" and "\<And>n. \<not> ctx n"
    and "net k = Delivered" and "n \<le> k" and "k < n + j" and "w \<in> {w0, store_pending remoteAddr reg w0}"
  shows "\<exists>m \<le> k. register_attempts (\<lambda>n. post_registration auth net remoteAddr n u reg) ctx n j w
     = (Some m, store_pending remoteAddr reg w0)"
  using assms(5-7)
proof (induction j arbitrary: n w)
  case (Suc j)
  note reg = api_register_admitted [OF assms(1,2), of remoteAddr w]
  have sp: "store_pending remoteAddr reg w = store_pending remoteAddr reg w0" using Suc.prems(3) by auto
  show ?case
  proof (cases "net n")
    case Delivered
    with reg sp Suc.prems(1) show ?thesis by (auto simp: post_registration_def)
  next
    case AnswerLost
    then have "n \<noteq> k" using assms(4) by auto
    with Suc.IH [of "Suc n" "store_pending remoteAddr reg w"] Suc.prems sp obtain m where "m \<le> k"
      "register_attempts (\<lambda>n. post_registration auth net remoteAddr n u reg) ctx (Suc n) j (store_pending remoteAddr reg w)
       = (Some m, store_pending remoteAddr reg w0)" by auto
    moreover have "post_registration auth net remoteAddr n u reg w = (Inl (ErrIO ''connection reset''), store_pending remoteAddr reg w)"
      using AnswerLost reg by (simp add: post_registration_def)
    ultimately show ?thesis using assms(3) [of n] by auto
  next
    case NotDelivered
    then have "n \<noteq> k" using assms(4) by auto
    with Suc.IH [of "Suc n" w] Suc.prems obtain m where "m \<le> k"
      "register_attempts (\<lambda>n. post_registration auth net remoteAddr n u reg) ctx (Suc n) j w
       = (Some m, store_pending remoteAddr reg w0)" by auto
    moreover have "post_registration auth net remoteAddr n u reg w = (Inl (ErrIO ''connection refused''), w)"
      using NotDelivered by (simp add: post_registration_def)
    ultimately show ?thesis using assms(3) [of n] by auto
  qed
qed simp

lemma admitted_host [simp]: "admitted auth (u\<lparr>u_Host := h\<rparr>) = admitted auth u"
  by (simp add: admitted_def url_credentials_def)


definition demo_node_os :: os_env where
  "demo_node_os = \<lparr>os_Getenv = (\<lambda>_. []), os_Getuid = 0, os_EvalSymlinks = (\<lambda>p. Inr p), os_Exists = (\<lambda>_. False)\<rparr>"

definition demo_registration :: agent_registration where
  "demo_registration = \<lparr>areg_Name = ''n'', areg_Addr = [], areg_Runtime = ''docker'', areg_SocketPath = ''/s'', areg_Version = ''0.1.0''\<rparr>"

lemma demo_docker_url: "url_Parse ''http://docker'' = Inr (empty_url\<lparr>u_Scheme := ''http'', u_Host := ''docker''\<rparr>)"
  by (simp add: url_simps literal_simps)

lemma demo_register_url: "url_Parse (TrimRight ''http://h'' ''/'' @ ''/api/v1/agents/register'') =
    Inr (empty_url\<lparr>u_Scheme := ''http'', u_Host := ''h'', u_Path := ''/api/v1/agents/register''\<rparr>)"
  by (simp add: url_simps literal_simps TrimRight_def)

text \<open>A flag that is given with its value, as the next argument or after an equals sign.\<close>

lemma flag_Parse_value:
  assumes "map_of flags name = Some False" and "name = c # n" and "c \<noteq> CHR ''-''" and "c \<noteq> CHR ''=''" and "CHR ''='' \<notin> set n"
  shows "flag_Parse flags ((CHR ''-'' # name) # v # rest) vals = flag_Parse flags rest (gm_put name v vals)"
    "flag_Parse flags ((CHR ''-'' # name @ CHR ''='' # v) # rest) vals = flag_Parse flags rest (gm_put name v vals)"
proof -
  have "split_flag name = (name, None)" "split_flag (name @ CHR ''='' # v) = (name, Some v)"
    using assms(2) Cut_None [THEN iffD2, OF assms(5)] assms(5) by (simp_all add: split_flag_def Cut_append)
  then show "flag_Parse flags ((CHR ''-'' # name) # v # rest) vals = flag_Parse flags rest (gm_put name v vals)"
    "flag_Parse flags ((CHR ''-'' # name @ CHR ''='' # v) # rest) vals = flag_Parse flags rest (gm_put name v vals)"
    using assms(1-4) by (simp_all add: Let_def)
qed

lemma demo_flags:
  "map_of serve_flags ''name'' = Some False" "map_of serve_flags ''socket'' = Some False" "map_of serve_flags ''server'' = Some False"
  by (simp_all add: serve_flags_def)

lemma demo_serve_setup:
  "\<exists>plan. serve_setup demo_node_os (no_faults, no_faults) [''-name'', ''n'', ''-socket'', ''/s'', ''-server=http://h''] = Inr plan
     \<and> sp_Register plan = Some (''http://h'', demo_registration)"
proof -
  have eq: "''-server=http://h'' = CHR ''-'' # ''server'' @ CHR ''='' # ''http://h''" by simp
  have "flag_Parse serve_flags [''-name'', ''n'', ''-socket'', ''/s'', ''-server=http://h''] vals
      = flag_Parse serve_flags [''-socket'', ''/s'', ''-server=http://h''] (gm_put ''name'' ''n'' vals)" for vals
    by (rule flag_Parse_value(1) [OF demo_flags(1) refl]) simp_all
  also have "flag_Parse serve_flags [''-socket'', ''/s'', ''-server=http://h''] vals
      = flag_Parse serve_flags [''-server=http://h''] (gm_put ''socket'' ''/s'' vals)" for vals
    by (rule flag_Parse_value(1) [OF demo_flags(2) refl]) simp_all
  also have "flag_Parse serve_flags [''-server=http://h''] vals = flag_Parse serve_flags [] (gm_put ''server'' ''http://h'' vals)" for vals
    unfolding eq by (rule flag_Parse_value(2) [OF demo_flags(3) refl]) simp_all
  finally have "flag_Parse serve_flags [''-name'', ''n'', ''-socket'', ''/s'', ''-server=http://h'']
      [(''listen'', '':8890''), (''socket'', []), (''server'', []), (''addr'', []), (''name'', ''domux-agent''), (''runtime'', ''docker'')]
    = Inr [(''listen'', '':8890''), (''socket'', ''/s''), (''server'', ''http://h''), (''addr'', []), (''name'', ''n''), (''runtime'', ''docker'')]"
    by (simp del: flag_Parse.simps(2))
  then show ?thesis
    by (simp add: serve_setup_def demo_node_os_def ContainerRuntime_Validate_def NewRuntimeProxy_def demo_docker_url
        demo_registration_def version_Value_def literal_simps gm_str_def WithSocketPath_def Let_def del: flag_Parse.simps(2))
qed


text \<open>
  With basic authentication switched on, an agent whose server URL carries no credentials
  never registers: all twelve attempts are refused and the server is left unchanged.
\<close>

theorem registration_needs_credentials:
  assumes "url_Parse (TrimRight url ''/'' @ ''/api/v1/agents/register'') = Inr u" and "u_User u = None"
    and "u_Path u = ''/api/v1/agents/register''" and "AuthConfig_Enabled auth"
  shows "registerWithServer (post_registration auth net remoteAddr) ctx url reg w = (None, w)"
proof -
  have refuse: "api_register auth remoteAddr (u\<lparr>u_Host := h\<rparr>) r w = (401, w)" for h r and w :: "'a api_world"
    using assms by (simp add: api_register_def withBasicAuth_def url_credentials_def)
  have "register_attempts (\<lambda>n. post_registration auth net remoteAddr n (u\<lparr>u_Host := h\<rparr>) r) ctx n j w = (None, w)" for h r n j
    by (induction j arbitrary: n) (auto simp: post_registration_def refuse split: delivery.splits)
  then show ?thesis using assms(1) by (simp add: registerWithServer_def Let_def)
qed

theorem registration_needs_credentials_witness:
  "\<forall>w :: nat api_world. registerWithServer (post_registration \<lparr>au_Username = ''u'', au_Password = ''p''\<rparr> (\<lambda>_. Delivered) ''r'')
     (\<lambda>_. False) ''http://h'' demo_registration w = (None, w)"
  by (intro allI registration_needs_credentials [OF demo_register_url]) (simp_all add: AuthConfig_Enabled_def literal_simps empty_url_def)

end
