(* ===== verification/Domux_Run.thy ===== *)
theory Domux_Run
  imports Domux_Reload Domux_Node
begin

text \<open>
  The server process of \<open>cmd/domux/main.go\<close> around its state: the goroutines that
  \<open>startRouteWatchers\<close> starts, coupled to the \<open>Watch\<close> loop of a discoverer, the background tasks, the
  three HTTP servers with the channel of their errors, and the end of \<open>runServerWithContext\<close>.
\<close>

section \<open>Route watchers\<close>

datatype watcher_pc = WSelecting | WRefreshing | WReturned

datatype watcher_log =
    RefreshCall string string
  | RefreshWarning string go_error
  | WatchWarning string go_error

text \<open>
  A watcher with the goroutine of \<open>Watch\<close> that feeds it. When that goroutine returns, its deferred
  calls close the error channel first and the refresh channel after it.
\<close>

record watcher =
  wt_name :: string
  wt_source :: watch_state
  wt_errClosed :: bool
  wt_refreshClosed :: bool
  wt_cancelled :: bool
  wt_pc :: watcher_pc
  wt_log :: "watcher_log list"

datatype watcher_event =
    Cancel
  | Source watch_input
  | CloseErr
  | CloseRefresh
  | SelectDone
  | SelectRefresh
  | SelectErr
  | RefreshReturns "go_error option"

definition watcher_start :: "string \<Rightarrow> watcher" where
  "watcher_start name = \<lparr>wt_name = name, wt_source = watch_start, wt_errClosed = False, wt_refreshClosed = False,
     wt_cancelled = False, wt_pc = WSelecting, wt_log = []\<rparr>"

definition startRouteWatchers :: "os_env \<Rightarrow> route_discoverer list \<Rightarrow> watcher list" where
  "startRouteWatchers os ds = map (\<lambda>d. watcher_start (disc_Name os d)) ds"

text \<open>\<open>None\<close>: the event cannot happen in this state.\<close>

fun watcher_step :: "watcher_event \<Rightarrow> watcher \<Rightarrow> watcher option" where
  "watcher_step Cancel w = Some (w\<lparr>wt_cancelled := True\<rparr>)"
| "watcher_step (Source i) w =
     (if i = TakeRefresh \<or> i = TakeErr \<or> (i = CtxDone \<and> \<not> wt_cancelled w) then None
      else Some (w\<lparr>wt_source := watch_step i (wt_source w)\<rparr>))"
| "watcher_step CloseErr w =
     (if w_phase (wt_source w) = Returned \<and> \<not> wt_errClosed w then Some (w\<lparr>wt_errClosed := True\<rparr>) else None)"
| "watcher_step CloseRefresh w =
     (if wt_errClosed w \<and> \<not> wt_refreshClosed w then Some (w\<lparr>wt_refreshClosed := True\<rparr>) else None)"
| "watcher_step SelectDone w =
     (if wt_pc w = WSelecting \<and> wt_cancelled w then Some (w\<lparr>wt_pc := WReturned\<rparr>) else None)"
| "watcher_step SelectRefresh w =
     (if wt_pc w \<noteq> WSelecting then None
      else if w_refreshCh (wt_source w) then
        Some (w\<lparr>wt_source := watch_step TakeRefresh (wt_source w), wt_pc := WRefreshing,
                wt_log := wt_log w @ [RefreshCall (''event:'' @ wt_name w) (wt_name w)]\<rparr>)
      else if wt_refreshClosed w then Some (w\<lparr>wt_pc := WReturned\<rparr>)
      else None)"
| "watcher_step SelectErr w =
     (if wt_pc w \<noteq> WSelecting then None
      else
        (case w_errCh (wt_source w) of
           Some e \<Rightarrow>
             Some (w\<lparr>wt_source := watch_step TakeErr (wt_source w),
                     wt_log := wt_log w @ (if errors_Is e ErrCanceled then [] else [WatchWarning (wt_name w) e])\<rparr>)
         | None \<Rightarrow> if wt_errClosed w then Some w else None))"
| "watcher_step (RefreshReturns err) w =
     (if wt_pc w = WRefreshing then
        Some (w\<lparr>wt_pc := WSelecting,
                wt_log := wt_log w @ (case err of None \<Rightarrow> [] | Some e \<Rightarrow> [RefreshWarning (''event:'' @ wt_name w) e])\<rparr>)
      else None)"

fun watcher_run :: "watcher_event list \<Rightarrow> watcher \<Rightarrow> watcher option" where
  "watcher_run [] w = Some w"
| "watcher_run (ev # evs) w = (case watcher_step ev w of None \<Rightarrow> None | Some w' \<Rightarrow> watcher_run evs w')"

section \<open>Facts about watchers\<close>

fun is_refresh_call :: "watcher_log \<Rightarrow> bool" where
  "is_refresh_call (RefreshCall _ _) = True"
| "is_refresh_call _ = False"

definition refresh_calls :: "watcher \<Rightarrow> nat" where
  "refresh_calls w = length (filter is_refresh_call (wt_log w))"

fun relevant_event :: "watcher_event \<Rightarrow> bool" where
  "relevant_event (Source (Msg m)) = shouldRefreshOnEvent m"
| "relevant_event _ = False"

text \<open>A watcher and its feeder end only when the context was cancelled.\<close>

definition watcher_ok :: "watcher \<Rightarrow> bool" where
  "watcher_ok w \<longleftrightarrow>
     (wt_pc w = WReturned \<or> wt_errClosed w \<or> wt_refreshClosed w \<or> w_phase (wt_source w) = Returned \<longrightarrow> wt_cancelled w)"

lemma watch_step_phase: "w_phase (watch_step i s) = Returned \<Longrightarrow> w_phase s = Returned \<or> i = CtxDone"
  by (cases i) (auto simp: send_err_def split: watch_phase.splits option.splits if_splits)

lemma watcher_step_ok:
  assumes "watcher_step ev w = Some w'" and "watcher_ok w"
  shows "watcher_ok w'"
proof (cases ev)
  case (Source i)
  with assms show ?thesis by (auto simp: watcher_ok_def dest!: watch_step_phase split: if_splits)
qed (use assms in \<open>auto simp: watcher_ok_def split: if_splits option.splits\<close>)

lemma watcher_start_ok [simp]: "watcher_ok (watcher_start name)"
  by (simp add: watcher_ok_def watcher_start_def watch_start_def)

lemma watcher_run_ok: "watcher_run evs w = Some w' \<Longrightarrow> watcher_ok w \<Longrightarrow> watcher_ok w'"
  by (induction evs arbitrary: w) (auto dest: watcher_step_ok split: option.splits)

lemma watcher_run_append:
  "watcher_run (evs @ evs') w = (case watcher_run evs w of None \<Rightarrow> None | Some w' \<Rightarrow> watcher_run evs' w')"
  by (induction evs arbitrary: w) (auto split: option.splits)

text \<open>What is pending stays so until it is taken, and taking it is a call of the refresh.\<close>

definition owed :: "watcher \<Rightarrow> nat" where
  "owed w = refresh_calls w + (if w_refreshCh (wt_source w) then 1 else 0)"

lemma watcher_step_calls:
  assumes "watcher_step ev w = Some w'"
  shows "refresh_calls w \<le> refresh_calls w'" and "owed w \<le> owed w'" and "owed w' \<le> owed w + (if relevant_event ev then 1 else 0)"
    and "relevant_event ev \<Longrightarrow> w_phase (wt_source w) = Streaming \<Longrightarrow> w_refreshCh (wt_source w')"
    and "wt_name w' = wt_name w"
proof -
  have src: "refresh_calls w \<le> refresh_calls w' \<and> owed w \<le> owed w' \<and> owed w' \<le> owed w + (if relevant_event ev then 1 else 0)
    \<and> (relevant_event ev \<longrightarrow> w_phase (wt_source w) = Streaming \<longrightarrow> w_refreshCh (wt_source w')) \<and> wt_name w' = wt_name w"
  proof (cases ev)
    case (Source i)
    with assms show ?thesis
      by (cases i) (auto simp: owed_def refresh_calls_def send_err_def split: watch_phase.splits option.splits if_splits)
  qed (use assms in \<open>auto simp: owed_def refresh_calls_def split: if_splits option.splits\<close>)
  then show "refresh_calls w \<le> refresh_calls w'" "owed w \<le> owed w'" "owed w' \<le> owed w + (if relevant_event ev then 1 else 0)"
    "relevant_event ev \<Longrightarrow> w_phase (wt_source w) = Streaming \<Longrightarrow> w_refreshCh (wt_source w')" "wt_name w' = wt_name w"
    by blast+
qed

lemma watcher_run_owed: "watcher_run evs w = Some w' \<Longrightarrow> owed w \<le> owed w'"
  by (induction evs arbitrary: w) (auto dest: watcher_step_calls(2) split: option.splits intro: order_trans)

lemma watcher_run_bound: "watcher_run evs w = Some w' \<Longrightarrow> owed w' \<le> owed w + length (filter relevant_event evs)"
proof (induction evs arbitrary: w)
  case (Cons ev evs)
  then obtain w1 where w1: "watcher_step ev w = Some w1" "watcher_run evs w1 = Some w'" by (auto split: option.splits)
  from Cons.IH [OF w1(2)] watcher_step_calls(3) [OF w1(1)] show ?case by (auto split: if_splits)
qed simp

lemma watcher_progress:
  assumes "w_refreshCh (wt_source w)" and "wt_pc w \<noteq> WReturned"
  shows "\<exists>evs w'. length evs \<le> 2 \<and> watcher_run evs w = Some w' \<and> refresh_calls w' = Suc (refresh_calls w)"
proof (cases "wt_pc w")
  case WSelecting
  with assms show ?thesis by (intro exI [of _ "[SelectRefresh]"]) (simp add: refresh_calls_def)
next
  case WRefreshing
  with assms show ?thesis by (intro exI [of _ "[RefreshReturns None, SelectRefresh]"]) (simp add: refresh_calls_def)
qed (use assms in simp)

lemma watcher_calls_own_source:
  "watcher_run evs w = Some w' \<Longrightarrow> \<forall>l \<in> set (wt_log w). is_refresh_call l \<longrightarrow> l = RefreshCall (''event:'' @ wt_name w) (wt_name w) \<Longrightarrow>
     \<forall>l \<in> set (wt_log w'). is_refresh_call l \<longrightarrow> l = RefreshCall (''event:'' @ wt_name w) (wt_name w)"
proof (induction evs arbitrary: w)
  case (Cons ev evs)
  then obtain w1 where w1: "watcher_step ev w = Some w1" "watcher_run evs w1 = Some w'" by (auto split: option.splits)
  have "\<forall>l \<in> set (wt_log w1). is_refresh_call l \<longrightarrow> l = RefreshCall (''event:'' @ wt_name w) (wt_name w)"
    using w1(1) Cons.prems(2) by (cases ev) (auto split: if_splits option.splits)
  with Cons.IH [OF w1(2)] watcher_step_calls(5) [OF w1(1)] show ?case by simp
qed simp

text \<open>A cancelled watcher can leave its loop at once, and a watcher that has left it does nothing more.\<close>

lemma watcher_stops:
  assumes "wt_cancelled w"
  shows "\<exists>evs w'. length evs \<le> 2 \<and> watcher_run evs w = Some w' \<and> wt_pc w' = WReturned"
proof (cases "wt_pc w")
  case WSelecting
  with assms show ?thesis by (intro exI [of _ "[SelectDone]"]) simp
next
  case WRefreshing
  with assms show ?thesis by (intro exI [of _ "[RefreshReturns None, SelectDone]"]) simp
next
  case WReturned
  then show ?thesis by (intro exI [of _ "[]"]) simp
qed

lemma watcher_returned: "watcher_run evs w = Some w' \<Longrightarrow> wt_pc w = WReturned \<Longrightarrow> wt_pc w' = WReturned \<and> wt_log w' = wt_log w"
proof (induction evs arbitrary: w)
  case (Cons ev evs)
  then obtain w1 where w1: "watcher_step ev w = Some w1" "watcher_run evs w1 = Some w'" by (auto split: option.splits)
  with Cons.prems(2) have "wt_pc w1 = WReturned \<and> wt_log w1 = wt_log w" by (cases ev) (auto split: if_splits option.splits)
  with Cons.IH [OF w1(2)] show ?case by simp
qed simp

section \<open>Background tasks\<close>

text \<open>
  The tasks of the startup and of a reload. Their deadline of fifteen seconds shows in what the network
  answers and in the error that the refresh returns.
\<close>

definition startAsyncAgentRefresh :: "(go_error \<Rightarrow> string) \<Rightarrow> agent_net \<Rightarrow> time \<times> time \<Rightarrow> pool option \<Rightarrow> string \<Rightarrow>
    memory_store \<Rightarrow> pool option \<times> memory_store" where
  "startAsyncAgentRefresh err_text net tm p reason store =
     (if p = None then (p, store)
      else
        (let (p', store') = refreshAgentStore err_text net (fst tm) p (Some store)
         in (p', startAsyncTask reason tm (\<lambda>s. (None, case store' of Some s' \<Rightarrow> s' | None \<Rightarrow> s)) store)))"

definition startAsyncRouteRefresh :: "string \<Rightarrow> time \<times> time \<Rightarrow>
    (string \<Rightarrow> memory_store \<times> route_table \<Rightarrow> go_error option \<times> memory_store \<times> route_table) \<Rightarrow>
    memory_store \<times> route_table \<Rightarrow> memory_store \<times> route_table" where
  "startAsyncRouteRefresh reason tm refresh st =
     (let (err, store', table') = refresh reason st
      in (startAsyncTask reason tm (\<lambda>_. (err, store')) (fst st), table'))"

text \<open>
  \<open>recordActionJob\<close> on a world that contains the store; \<open>upd\<close> applies an operation to the store in it.
\<close>

definition recordActionJob :: "((memory_store \<Rightarrow> memory_store) \<Rightarrow> 'w \<Rightarrow> 'w) \<Rightarrow> string \<Rightarrow> time \<times> time \<Rightarrow>
    (action_request \<Rightarrow> 'w \<Rightarrow> go_error option \<times> 'w) \<Rightarrow> action_request \<Rightarrow> 'w \<Rightarrow> go_error option \<times> 'w" where
  "recordActionJob upd name tm action req w =
     (let (err, w') = action req w
      in (errors_Join (opt_to_list err), upd (AppendJobRun (job_record name tm err)) w'))"

definition closeDiscoverers :: "os_env \<Rightarrow> (route_discoverer \<Rightarrow> go_error option) \<Rightarrow> route_discoverer list \<Rightarrow>
    (string \<times> go_error) list" where
  "closeDiscoverers os close ds =
     List.map_filter (\<lambda>d. map_option (Pair (disc_Name os d)) (close d)) ds"

section \<open>The HTTP servers\<close>

datatype main_pc =
    Serving
  | ShuttingDown "go_error option"
  | MainExited "go_error option"

text \<open>
  The addresses of the servers with the mark of those whose \<open>serve\<close> function still runs, the channel
  of their errors, and the main goroutine. \<open>rn_failures\<close> records the errors that ended a server.
\<close>

record run_state =
  rn_ctxDone :: bool
  rn_servers :: "(string \<times> bool) list"
  rn_errCh :: "go_error list"
  rn_failures :: "go_error list"
  rn_pc :: main_pc

definition server_addrs :: "config \<Rightarrow> string list" where
  "server_addrs cfg =
     sc_APIAddr (c_Server cfg) # (if sc_HTTPAddr (c_Server cfg) \<noteq> [] then [sc_HTTPAddr (c_Server cfg)] else [])
       @ (if sc_HTTPSAddr (c_Server cfg) \<noteq> [] then [sc_HTTPSAddr (c_Server cfg)] else [])"

definition run_start :: "config \<Rightarrow> run_state" where
  "run_start cfg = \<lparr>rn_ctxDone = False, rn_servers = map (\<lambda>a. (a, True)) (server_addrs cfg), rn_errCh = [], rn_failures = [],
     rn_pc = Serving\<rparr>"

definition serverErrCap :: nat where
  "serverErrCap = 3"

text \<open>The goroutine of \<open>serveServer\<close> when its server ends: a send that would block is dropped.\<close>

definition serveServer :: "go_error option \<Rightarrow> run_state \<Rightarrow> run_state" where
  "serveServer served st =
     (case served of
        None \<Rightarrow> st
      | Some e \<Rightarrow>
          if errors_Is e ErrServerClosed then st
          else st\<lparr>rn_errCh := (if length (rn_errCh st) < serverErrCap then rn_errCh st @ [e] else rn_errCh st),
                  rn_failures := rn_failures st @ [e]\<rparr>)"

fun shutdown_errors :: "(string \<times> go_error option) list \<Rightarrow> go_error list" where
  "shutdown_errors [] = []"
| "shutdown_errors ((addr, res) # rest) =
     (if addr = [] then shutdown_errors rest
      else
        (case res of
           None \<Rightarrow> shutdown_errors rest
         | Some e \<Rightarrow> if errors_Is e ErrServerClosed then shutdown_errors rest else e # shutdown_errors rest))"

definition shutdownServers :: "(string \<times> go_error option) list \<Rightarrow> go_error option" where
  "shutdownServers results = errors_Join (shutdown_errors results)"

text \<open>The value that \<open>runServerWithContext\<close> returns.\<close>

definition run_result :: "go_error option \<Rightarrow> go_error option \<Rightarrow> go_error option" where
  "run_result runErr shut =
     (case shut of
        Some e \<Rightarrow> (case runErr of Some r \<Rightarrow> errors_Join [r, e] | None \<Rightarrow> Some e)
      | None \<Rightarrow> runErr)"

datatype run_event =
    Interrupt
  | ServerEnds nat "go_error option"
  | TakeDone
  | TakeServerErr
  | ShutdownEnds "go_error option list"

fun run_step :: "run_event \<Rightarrow> run_state \<Rightarrow> run_state option" where
  "run_step Interrupt st = Some (st\<lparr>rn_ctxDone := True\<rparr>)"
| "run_step (ServerEnds i served) st =
     (if i < length (rn_servers st) \<and> snd (rn_servers st ! i)
      then Some (serveServer served (st\<lparr>rn_servers := (rn_servers st)[i := (fst (rn_servers st ! i), False)]\<rparr>))
      else None)"
| "run_step TakeDone st = (if rn_pc st = Serving \<and> rn_ctxDone st then Some (st\<lparr>rn_pc := ShuttingDown None\<rparr>) else None)"
| "run_step TakeServerErr st =
     (if rn_pc st = Serving then
        (case rn_errCh st of
           [] \<Rightarrow> None
         | e # rest \<Rightarrow> Some (st\<lparr>rn_errCh := rest, rn_pc := ShuttingDown (Some e)\<rparr>))
      else None)"
| "run_step (ShutdownEnds res) st =
     (case rn_pc st of
        ShuttingDown runErr \<Rightarrow>
          if length res = length (rn_servers st)
          then Some (st\<lparr>rn_pc := MainExited (run_result runErr (shutdownServers (zip (map fst (rn_servers st)) res)))\<rparr>)
          else None
      | _ \<Rightarrow> None)"

fun run_events :: "run_event list \<Rightarrow> run_state \<Rightarrow> run_state option" where
  "run_events [] st = Some st"
| "run_events (ev # evs) st = (case run_step ev st of None \<Rightarrow> None | Some st' \<Rightarrow> run_events evs st')"

text \<open>
  Every failure of a server is in the channel until the main goroutine has taken one; there is never
  more than one failure for each server.
\<close>

definition run_exit :: "run_state \<Rightarrow> go_error option \<Rightarrow> bool" where
  "run_exit st r \<longleftrightarrow>
     (\<exists>first res. ((first = None \<and> rn_ctxDone st) \<or> (rn_failures st \<noteq> [] \<and> first = Some (hd (rn_failures st))))
        \<and> length res = length (rn_servers st) \<and> r = run_result first (shutdownServers (zip (map fst (rn_servers st)) res)))"

definition run_ok :: "run_state \<Rightarrow> bool" where
  "run_ok st \<longleftrightarrow>
     length (rn_servers st) \<le> serverErrCap
     \<and> length (rn_failures st) + length (filter snd (rn_servers st)) \<le> length (rn_servers st)
     \<and> (case rn_pc st of
          Serving \<Rightarrow> rn_errCh st = rn_failures st
        | ShuttingDown None \<Rightarrow> rn_ctxDone st
        | ShuttingDown (Some e) \<Rightarrow> rn_failures st \<noteq> [] \<and> e = hd (rn_failures st)
        | MainExited r \<Rightarrow> run_exit st r)"

lemma length_filter_stopped:
  "i < length xs \<Longrightarrow> snd (xs ! i) \<Longrightarrow> length (filter snd xs) = Suc (length (filter snd (xs[i := (a, False)])))"
  by (subst (1) id_take_nth_drop [of i xs]) (simp_all add: upd_conv_take_nth_drop)

lemma map_fst_stopped [simp]: "i < length xs \<Longrightarrow> map fst (xs[i := (fst (xs ! i), b)]) = map fst xs"
  by (simp add: map_update list_update_same_conv)

lemma run_start_ok [simp]: "run_ok (run_start cfg)"
  by (simp add: run_ok_def run_start_def server_addrs_def serverErrCap_def)

lemma run_exit_mono:
  assumes "run_exit st r" and "rn_ctxDone st \<Longrightarrow> rn_ctxDone st'" and "map fst (rn_servers st') = map fst (rn_servers st)"
    and "rn_failures st' = rn_failures st @ es"
  shows "run_exit st' r"
proof -
  from assms(1) obtain first res where r: "(first = None \<and> rn_ctxDone st) \<or> (rn_failures st \<noteq> [] \<and> first = Some (hd (rn_failures st)))"
    "length res = length (rn_servers st)" "r = run_result first (shutdownServers (zip (map fst (rn_servers st)) res))"
    by (auto simp: run_exit_def)
  have "length (rn_servers st') = length (rn_servers st)" using map_eq_imp_length_eq [OF assms(3)] .
  with r assms(2-4) show ?thesis unfolding run_exit_def by (intro exI [of _ first] exI [of _ res]) auto
qed

lemma run_ok_ServerEnds:
  assumes "run_ok st" and i: "i < length (rn_servers st)" "snd (rn_servers st ! i)"
  shows "run_ok (serveServer served (st\<lparr>rn_servers := (rn_servers st)[i := (fst (rn_servers st ! i), False)]\<rparr>))"
    (is "run_ok ?st")
proof -
  let ?n = "length (filter snd (rn_servers st))" and ?n' = "length (filter snd ((rn_servers st)[i := (fst (rn_servers st ! i), False)]))"
  have n: "?n = Suc ?n'" by (rule length_filter_stopped [OF i])
  have b: "length (rn_servers st) \<le> serverErrCap" "length (rn_failures st) + ?n \<le> length (rn_servers st)"
    using assms(1) by (simp_all add: run_ok_def)
  with n have cap: "length (rn_failures st) < serverErrCap" by linarith
  let ?es = "case served of Some e \<Rightarrow> if errors_Is e ErrServerClosed then [] else [e] | None \<Rightarrow> []"
  have f: "rn_failures ?st = rn_failures st @ ?es" "length ?es \<le> 1" "rn_errCh st = rn_failures st \<Longrightarrow> rn_errCh ?st = rn_failures ?st"
    using cap by (simp_all add: serveServer_def split: option.splits)
  have same: "rn_pc ?st = rn_pc st" "rn_ctxDone ?st = rn_ctxDone st"
    "rn_servers ?st = (rn_servers st)[i := (fst (rn_servers st ! i), False)]"
    by (auto simp: serveServer_def split: option.splits)
  have "run_exit st r \<Longrightarrow> run_exit ?st r" for r
    by (rule run_exit_mono [OF _ _ _ f(1)]) (use same i(1) in simp_all)
  with assms(1) n b f same show ?thesis
    unfolding run_ok_def by (auto split: main_pc.splits option.splits)
qed

lemma run_step_ok:
  assumes "run_step ev st = Some st'" and "run_ok st"
  shows "run_ok st'"
proof (cases ev)
  case Interrupt
  with assms(1) have st': "st' = st\<lparr>rn_ctxDone := True\<rparr>" by simp
  have "run_exit st r \<Longrightarrow> run_exit st' r" for r by (rule run_exit_mono [where es = "[]"]) (simp_all add: st')
  with assms(2) st' show ?thesis by (auto simp: run_ok_def split: main_pc.splits option.splits)
next
  case (ServerEnds i served)
  with assms show ?thesis by (auto simp: run_ok_ServerEnds split: if_splits)
next
  case (ShutdownEnds res)
  with assms obtain r where r: "rn_pc st = ShuttingDown r" "length res = length (rn_servers st)"
    "st' = st\<lparr>rn_pc := MainExited (run_result r (shutdownServers (zip (map fst (rn_servers st)) res)))\<rparr>"
    by (auto split: main_pc.splits if_splits)
  have "run_exit st' (run_result r (shutdownServers (zip (map fst (rn_servers st)) res)))"
    using assms(2) r unfolding run_exit_def run_ok_def by (intro exI [of _ r] exI [of _ res]) (auto split: option.splits)
  with assms(2) r show ?thesis by (simp add: run_ok_def)
qed (use assms in \<open>auto simp: run_ok_def split: if_splits list.splits\<close>)

lemma run_events_ok: "run_events evs st = Some st' \<Longrightarrow> run_ok st \<Longrightarrow> run_ok st'"
  by (induction evs arbitrary: st) (auto dest: run_step_ok split: option.splits)

section \<open>The whole process\<close>

text \<open>
  \<open>runServer\<close> and \<open>runServerWithContext\<close> up to the point where the servers listen: the data directory,
  the configuration manager, the state, the first certificate requests, the scheduler and the
  servers. A parse error of the flags ends the process.
\<close>

record server_process =
  proc_DataDir :: string
  proc_Manager :: manager
  proc_State :: server_state
  proc_Requests :: "issue_request list"
  proc_Scheduler :: scheduler
  proc_Run :: run_state

definition runServerWithContext :: "server_env \<Rightarrow> 'd yaml_codec \<Rightarrow> 'd io_faults \<Rightarrow> 'd file_system \<Rightarrow> string \<Rightarrow> server_process result" where
  "runServerWithContext env cdc io fs configPath =
     (case LoadFile (sx_os env) cdc io fs configPath of
        Inl e \<Rightarrow> Inl e
      | Inr cfg \<Rightarrow>
          (let baseDir = (if configPath \<noteq> [] then Dir configPath else ''.'')
           in case startServer env cfg of
                Inl e \<Rightarrow> Inl e
              | Inr (st, requests, sched) \<Rightarrow>
                  Inr \<lparr>proc_DataDir = AbsDataDir cfg baseDir, proc_Manager = NewManager configPath, proc_State = st,
                       proc_Requests = requests, proc_Scheduler = sched, proc_Run = run_start cfg\<rparr>))"

definition runServer :: "server_env \<Rightarrow> 'd yaml_codec \<Rightarrow> 'd io_faults \<Rightarrow> 'd file_system \<Rightarrow> string list \<Rightarrow> server_process result" where
  "runServer env cdc io fs args =
     (case flag_Parse [(''config'', False)] args [(''config'', [])] of
        Inl e \<Rightarrow> Inl e
      | Inr v \<Rightarrow> runServerWithContext env cdc io fs (gm_str v ''config''))"

text \<open>The deferred calls, in the order in which they run.\<close>

definition server_exit :: "server_process \<Rightarrow> server_process" where
  "server_exit p =
     (let p1 = p\<lparr>proc_Scheduler := Stop (proc_Scheduler p)\<rparr>
      in p1\<lparr>proc_State := (proc_State p1)\<lparr>ss_manager := rm_Close (ss_manager (proc_State p1))\<rparr>\<rparr>)"

lemma LoadFile_loaded: "LoadFile os cdc io fs path = Inr cfg \<Longrightarrow> config_loaded os cfg"
  using Config_Validate_fixpoint
  by (auto simp: LoadFile_def config_loaded_def Let_def validated_Inr split: sum.splits option.splits if_splits)

lemma config_flag: "flag_Parse [(''config'', False)] [''-config'', path] [(''config'', [])] = Inr [(''config'', path)]"
proof -
  have "flag_Parse [(''config'', False)] [''-config'', path] [(''config'', [])]
      = flag_Parse [(''config'', False)] [] (gm_put ''config'' path [(''config'', [])])"
    by (rule flag_Parse_value(1) [OF _ refl]) simp_all
  then show ?thesis by simp
qed

lemma startServer_parts:
  assumes "startServer env cfg = Inr (st, reqs, sched)"
  shows "manager_step\<^sup>*\<^sup>* newRuntimeManager (ss_manager st)" and "sched_step\<^sup>*\<^sup>* NewScheduler sched"
proof -
  from assms obtain new sv refs where m: "ss_manager st = rm_Replace new (rm_SetDDNS sv refs newRuntimeManager)"
    and s: "sched = Start (registerJobs NewScheduler)"
    by (auto simp: startServer_def Let_def split: prod.splits option.splits sum.splits)
  show "manager_step\<^sup>*\<^sup>* newRuntimeManager (ss_manager st)"
    unfolding m by (meson manager_step.replace manager_step.set_ddns rtranclp.rtrancl_into_rtrancl rtranclp.rtrancl_refl)
  have e: "sched_step\<^sup>*\<^sup>* NewScheduler t \<Longrightarrow> sched_step\<^sup>*\<^sup>* NewScheduler (snd (Every n i t))" for n i t
    by (erule rtranclp.rtrancl_into_rtrancl) (rule sched_step.every [OF prod.collapse [symmetric]])
  have start: "sched_step\<^sup>*\<^sup>* NewScheduler t \<Longrightarrow> sched_step\<^sup>*\<^sup>* NewScheduler (Start t)" for t
    by (erule rtranclp.rtrancl_into_rtrancl) (rule sched_step.start)
  show "sched_step\<^sup>*\<^sup>* NewScheduler sched"
    unfolding s registerJobs_def Let_def by (intro start e rtranclp.rtrancl_refl)
qed

lemma stopped_threads:
  assumes "sched_ok s" and "t \<in> set (sc_threads (Stop s))"
  shows "go_cancelled t"
proof (cases "sc_started s")
  case True
  with assms(2) show ?thesis by (auto simp: Stop_def cancel_all_def)
next
  case False
  with assms(2) have t: "t \<in> set (sc_threads s)" by (simp add: Stop_def)
  then obtain j where "gm_get (sc_jobs s) (go_job t) = Some j"
    using sched_okD(2) [OF assms(1)] by (metis image_subset_iff map_of_eq_None_iff not_None_eq set_map)
  from sched_okD(3) [OF assms(1) this] False have "filter (\<lambda>x. go_job x = go_job t \<and> \<not> go_cancelled x) (sc_threads s) = []"
    by (simp add: job_ok_def live_def)
  with t show ?thesis by (auto simp: filter_empty_conv)
qed

section \<open>Properties\<close>

text \<open>
  Claim C27. A change of a container reaches the routes: when a relevant event arrives while the
  stream is open, then at every later moment either the context of the watcher has been cancelled,
  or a refresh has been called since, or one is pending and at most two steps of the watcher away.
  Every refresh that it calls is one of its own source, and there are never more of them than
  relevant events.
\<close>

theorem container_event_refreshes:
  assumes "watcher_run before (watcher_start name) = Some w0" and "w_phase (wt_source w0) = Streaming"
    and "shouldRefreshOnEvent m" and "watcher_run (Source (Msg m) # after) w0 = Some w"
  shows "(wt_cancelled w \<or> refresh_calls w0 < refresh_calls w
      \<or> (\<exists>evs w'. length evs \<le> 2 \<and> watcher_run evs w = Some w' \<and> refresh_calls w' = Suc (refresh_calls w)))
    \<and> (\<forall>l \<in> set (wt_log w). is_refresh_call l \<longrightarrow> l = RefreshCall (''event:'' @ name) name)
    \<and> refresh_calls w \<le> length (filter relevant_event (before @ Source (Msg m) # after))"
proof -
  from assms(4) obtain w1 where w1: "watcher_step (Source (Msg m)) w0 = Some w1" and a: "watcher_run after w1 = Some w"
    by (auto split: option.splits)
  have all: "watcher_run (before @ Source (Msg m) # after) (watcher_start name) = Some w"
    using assms(1,4) by (simp add: watcher_run_append del: watcher_run.simps(2))
  have "w_refreshCh (wt_source w1)" by (rule watcher_step_calls(4) [OF w1]) (simp_all add: assms(2,3))
  then have "refresh_calls w0 < owed w" using watcher_step_calls(1) [OF w1] watcher_run_owed [OF a] by (simp add: owed_def)
  then consider "refresh_calls w0 < refresh_calls w" | "w_refreshCh (wt_source w)" by (auto simp: owed_def split: if_splits)
  then have "wt_cancelled w \<or> refresh_calls w0 < refresh_calls w
      \<or> (\<exists>evs w'. length evs \<le> 2 \<and> watcher_run evs w = Some w' \<and> refresh_calls w' = Suc (refresh_calls w))"
  proof cases
    case 2
    have "watcher_ok w" by (rule watcher_run_ok [OF all]) simp
    with watcher_progress [OF 2] show ?thesis by (auto simp: watcher_ok_def)
  qed simp
  moreover have "\<forall>l \<in> set (wt_log w). is_refresh_call l \<longrightarrow> l = RefreshCall (''event:'' @ name) name"
    using watcher_calls_own_source [OF all] by (simp add: watcher_start_def)
  moreover have "refresh_calls w \<le> length (filter relevant_event (before @ Source (Msg m) # after))"
    using watcher_run_bound [OF all] by (simp add: owed_def watcher_start_def watch_start_def refresh_calls_def)
  ultimately show ?thesis by blast
qed

definition start_message :: docker_message where
  "start_message = \<lparr>dm_Type = ''container'', dm_Action = ''start''\<rparr>"

theorem container_event_refreshes_witness:
  "\<exists>w. watcher_run [Source (Msg start_message), SelectRefresh, RefreshReturns None, Source MsgClosed, SelectErr]
       (watcher_start ''docker'') = Some w
     \<and> wt_log w = [RefreshCall ''event:docker'' ''docker''] \<and> refresh_calls w \<le> 1"
proof -
  have m: "shouldRefreshOnEvent start_message" by (simp add: start_message_def shouldRefreshOnEvent_def)
  obtain w where w: "watcher_run [Source (Msg start_message), SelectRefresh, RefreshReturns None, Source MsgClosed, SelectErr]
      (watcher_start ''docker'') = Some w" "wt_log w = [RefreshCall ''event:docker'' ''docker'']"
    by (simp add: watcher_start_def watch_start_def m send_err_def)
  have "watcher_run [] (watcher_start ''docker'') = Some (watcher_start ''docker'')"
    "w_phase (wt_source (watcher_start ''docker'')) = Streaming" by (simp_all add: watcher_start_def watch_start_def)
  from container_event_refreshes [OF this m w(1)] w m show ?thesis by simp
qed

text \<open>
  Claim C25. No failure of an HTTP server is lost and none goes unnoticed: while the process serves,
  the channel holds every failure so far, and after a failure or a signal the main goroutine can go
  on. When the process ends it returns the first failure, or was interrupted, joined with the
  errors of the shutdown; it returns no error only when it was interrupted.
\<close>

theorem server_failures_reported:
  assumes "run_events evs (run_start cfg) = Some st"
  shows "(rn_pc st = Serving \<longrightarrow> rn_errCh st = rn_failures st
        \<and> (rn_ctxDone st \<or> rn_failures st \<noteq> [] \<longrightarrow> (\<exists>ev r st'. run_step ev st = Some st' \<and> rn_pc st' = ShuttingDown r)))
    \<and> (\<forall>r. rn_pc st = MainExited r \<longrightarrow>
        (\<exists>first res. (first = None \<and> rn_ctxDone st \<or> rn_failures st \<noteq> [] \<and> first = Some (hd (rn_failures st)))
           \<and> length res = length (rn_servers st) \<and> r = run_result first (shutdownServers (zip (map fst (rn_servers st)) res))))
    \<and> (rn_pc st = MainExited None \<longrightarrow> rn_ctxDone st)"
proof -
  have ok: "run_ok st" by (rule run_events_ok [OF assms]) simp
  have "\<exists>ev r st'. run_step ev st = Some st' \<and> rn_pc st' = ShuttingDown r"
    if "rn_pc st = Serving" "rn_ctxDone st \<or> rn_failures st \<noteq> []"
  proof (cases "rn_ctxDone st")
    case True
    with that show ?thesis by (intro exI [of _ TakeDone]) simp
  next
    case False
    with that ok obtain e rest where "rn_errCh st = e # rest" by (cases "rn_errCh st") (auto simp: run_ok_def)
    with that(1) show ?thesis by (intro exI [of _ TakeServerErr]) simp
  qed
  moreover have "rn_pc st = MainExited None \<Longrightarrow> rn_ctxDone st"
    using ok by (auto simp: run_ok_def run_exit_def run_result_def errors_Join_def split: option.splits)
  ultimately show ?thesis using ok by (auto simp: run_ok_def run_exit_def)
qed

theorem server_failures_reported_witness:
  "\<exists>st. run_events [ServerEnds 1 (Some (ErrIO ''bind'')), TakeServerErr, ServerEnds 0 (Some ErrServerClosed), ShutdownEnds [None, None]]
       (run_start (demo_config\<lparr>c_Server := (c_Server demo_config)\<lparr>sc_APIAddr := '':1'', sc_HTTPAddr := '':2'', sc_HTTPSAddr := []\<rparr>\<rparr>)) = Some st
     \<and> rn_pc st = MainExited (Some (ErrIO ''bind'')) \<and> rn_failures st = [ErrIO ''bind'']
     \<and> (\<exists>first res. (first = None \<and> rn_ctxDone st \<or> rn_failures st \<noteq> [] \<and> first = Some (hd (rn_failures st))) \<and> length (res :: go_error option list) = 2)"
proof -
  let ?cfg = "demo_config\<lparr>c_Server := (c_Server demo_config)\<lparr>sc_APIAddr := '':1'', sc_HTTPAddr := '':2'', sc_HTTPSAddr := []\<rparr>\<rparr>"
  let ?evs = "[ServerEnds 1 (Some (ErrIO ''bind'')), TakeServerErr, ServerEnds 0 (Some ErrServerClosed), ShutdownEnds [None, None]]"
  obtain st where st: "run_events ?evs (run_start ?cfg) = Some st" "rn_pc st = MainExited (Some (ErrIO ''bind''))"
      "rn_failures st = [ErrIO ''bind'']" "length (rn_servers st) = 2"
    by (simp add: run_start_def server_addrs_def serveServer_def serverErrCap_def ErrServerClosed_def shutdownServers_def run_result_def)
  from server_failures_reported [OF st(1), THEN conjunct2, THEN conjunct1, rule_format, OF st(2)]
  have "\<exists>first res. (first = None \<and> rn_ctxDone st \<or> rn_failures st \<noteq> [] \<and> first = Some (hd (rn_failures st))) \<and> length (res :: go_error option list) = 2"
    using st(4) by auto
  with st(1-3) show ?thesis by (intro exI [of _ st] conjI)
qed

text \<open>
  Claim C24. The command starts on every configuration file that loads, provided a connection to the
  container runtimes can be set up, and it stops completely: after any history of reloads and of
  the scheduler, the deferred calls at its end close every discoverer that was ever watched, cancel
  every watch context and leave no goroutine of the scheduler with a live context.
\<close>

theorem process_starts_and_stops:
  assumes "LoadFile (sx_os env) cdc io fs path = Inr cfg" and "fst (buildRuntime (sx_os env) (sx_connect env) cfg) = Inr new"
  shows "\<exists>p. runServer env cdc io fs [''-config'', path] = Inr p \<and>
     (\<forall>m s. manager_step\<^sup>*\<^sup>* (ss_manager (proc_State p)) m \<longrightarrow> sched_step\<^sup>*\<^sup>* (proc_Scheduler p) s \<longrightarrow>
        (let p' = server_exit (p\<lparr>proc_State := (proc_State p)\<lparr>ss_manager := m\<rparr>, proc_Scheduler := s\<rparr>);
             m' = ss_manager (proc_State p')
         in rm_closed m' = map snd (rm_watching m') \<and> fst ` set (rm_watching m') \<subseteq> set (rm_cancelled m')
            \<and> (\<forall>t \<in> set (sc_threads (proc_Scheduler p')). go_cancelled t)))"
proof -
  from startServer_loaded [OF LoadFile_loaded [OF assms(1)]] assms(2) obtain st reqs sched
    where s: "startServer env cfg = Inr (st, reqs, sched)" by auto
  then obtain p where p: "runServer env cdc io fs [''-config'', path] = Inr p" "proc_State p = st" "proc_Scheduler p = sched"
    by (simp add: runServer_def config_flag gm_str_def runServerWithContext_def assms(1) Let_def del: flag_Parse.simps(2))
  have closed: "rm_closed (rm_Close m) = map snd (rm_watching (rm_Close m)) \<and> fst ` set (rm_watching (rm_Close m)) \<subseteq> set (rm_cancelled (rm_Close m))"
    if "manager_step\<^sup>*\<^sup>* st' m" "manager_step\<^sup>*\<^sup>* newRuntimeManager st'" for st' m
  proof -
    from that have "manager_step\<^sup>*\<^sup>* newRuntimeManager (rm_Close m)"
      by (meson manager_step.close rtranclp.rtrancl_into_rtrancl rtranclp_trans)
    from manager_steps_ok [OF this] show ?thesis by (simp add: manager_ok_def) (simp add: rm_Close_def)
  qed
  have stopped: "\<forall>t \<in> set (sc_threads (Stop s)). go_cancelled t" if "sched_step\<^sup>*\<^sup>* sched s" for s
    using stopped_threads sched_steps_ok [OF rtranclp_trans [OF startServer_parts(2) [OF s] that] NewScheduler_ok] by blast
  show ?thesis
    using p closed [OF _ startServer_parts(1) [OF s]] stopped
    by (intro exI [of _ p] conjI allI impI) (simp_all add: server_exit_def Let_def)
qed

theorem process_starts_and_stops_witness:
  "\<exists>p. runServer demo_server_env demo_codec no_faults demo_files [''-config'', ''config.yaml''] = Inr p
     \<and> (\<forall>t \<in> set (sc_threads (proc_Scheduler (server_exit p))). go_cancelled t)"
proof -
  have l: "LoadFile (sx_os demo_server_env) demo_codec no_faults demo_files ''config.yaml'' = Inr (regrouped demo_config)"
    using demo_load by (simp add: mgr_Load_def demo_server_env_def)
  obtain new where "fst (buildRuntime (sx_os demo_server_env) (sx_connect demo_server_env) (regrouped demo_config)) = Inr new"
    using demo_runtime_built by blast
  from process_starts_and_stops [OF l this] obtain p
    where p: "runServer demo_server_env demo_codec no_faults demo_files [''-config'', ''config.yaml''] = Inr p"
      "\<And>m s. manager_step\<^sup>*\<^sup>* (ss_manager (proc_State p)) m \<Longrightarrow> sched_step\<^sup>*\<^sup>* (proc_Scheduler p) s \<Longrightarrow>
        \<forall>t \<in> set (sc_threads (proc_Scheduler (server_exit (p\<lparr>proc_State := (proc_State p)\<lparr>ss_manager := m\<rparr>, proc_Scheduler := s\<rparr>)))).
          go_cancelled t" by (auto simp: Let_def)
  from p(2) [OF rtranclp.rtrancl_refl rtranclp.rtrancl_refl] p(1) show ?thesis by (simp add: server_exit_def Let_def)
qed

end
