(* ===== verification/Domux_Install.thy ===== *)
theory Domux_Install
  imports Domux_Api
begin

text \<open>
  The installation of an agent from the server (\<open>agentInstallScript\<close> and \<open>agentBinary\<close> in
  \<open>internal/platform/api/server.go\<close>): the shell script with the origin of the request in it, and what a
  shell makes of that origin.
\<close>

section \<open>Quoting\<close>

text \<open>
  The verb \<open>%q\<close> (\<open>strconv.Quote\<close>) on ASCII characters. A byte above 127 is written as the escape that
  \<open>Quote\<close> uses for bytes that are not UTF-8; what is said about \<open>Quote\<close> below is said of ASCII strings.
\<close>

definition lowerhex :: "nat \<Rightarrow> char" where
  "lowerhex n = (if n < 10 then char_of (48 + n) else char_of (87 + n))"

definition printable :: "char \<Rightarrow> bool" where
  "printable c \<longleftrightarrow> CHR 0x20 \<le> c \<and> c \<le> CHR 0x7E"

definition quote_char :: "char \<Rightarrow> string" where
  "quote_char c =
     (if c = CHR 0x22 \<or> c = CHR 0x5C then [CHR 0x5C, c]
      else if printable c then [c]
      else if c = CHR 0x07 then [CHR 0x5C, CHR ''a'']
      else if c = CHR 0x08 then [CHR 0x5C, CHR ''b'']
      else if c = CHR 0x0C then [CHR 0x5C, CHR ''f'']
      else if c = CHR 0x0A then [CHR 0x5C, CHR ''n'']
      else if c = CHR 0x0D then [CHR 0x5C, CHR ''r'']
      else if c = CHR 0x09 then [CHR 0x5C, CHR ''t'']
      else if c = CHR 0x0B then [CHR 0x5C, CHR ''v'']
      else [CHR 0x5C, CHR ''x'', lowerhex (of_char c div 16), lowerhex (of_char c mod 16)])"

definition Quote :: "string \<Rightarrow> string" where
  "Quote s = CHR 0x22 # concat (map quote_char s) @ [CHR 0x22]"

section \<open>The script\<close>

definition install_script_lines :: "string \<Rightarrow> string list" where
  \<open>install_script_lines serverURL =
     [''#!/bin/sh'',
      ''set -eu'',
      [],
      ''SERVER_URL='' @ Quote serverURL,
      ''BIN_URL="$SERVER_URL/api/v1/agents/domux-agent"'',
      ''INSTALL_BIN="${DOMUX_AGENT_BIN:-/usr/local/bin/domux-agent}"'',
      [],
      ''if [ "$(id -u)" -ne 0 ]; then'',
      ''  echo "'' @ bytes [232, 175, 183, 228, 189, 191, 231, 148, 168] @ '' root '' @ bytes [230, 157, 131, 233, 153, 144, 230, 137, 167, 232, 161, 140, 239, 188, 154] @ ''curl -fsSL $SERVER_URL/api/v1/agents/install.sh | sudo sh" >&2'',
      ''  exit 1'',
      ''fi'',
      [],
      ''read_default() {'',
      ''  prompt="$1"'',
      ''  default="$2"'',
      ''  printf "%s [%s]: " "$prompt" "$default" >&2'',
      ''  read value || value=""'',
      ''  if [ -z "$value" ]; then'',
      ''    value="$default"'',
      ''  fi'',
      ''  printf "%s" "$value"'',
      ''}'',
      [],
      ''default_name="$(hostname 2>/dev/null || printf domux-agent)"'',
      ''default_addr="$default_name:8890"'',
      [],
      ''AGENT_NAME="$(read_default '' @ bytes [232, 138, 130, 231, 130, 185, 229, 144, 141, 231, 167, 176] @ '' "$default_name")"'',
      ''AGENT_ADDR="$(read_default '' @ bytes [232, 191, 158, 230, 142, 165, 229, 156, 176, 229, 157, 128] @ '' "$default_addr")"'',
      ''AGENT_RUNTIME="$(read_default '' @ bytes [229, 174, 185, 229, 153, 168, 231, 177, 187, 229, 158, 139] @ '' docker)"'',
      [],
      ''case "$AGENT_RUNTIME" in'',
      ''  docker) DEFAULT_SOCKET="/var/run/docker.sock" ;;'',
      ''  podman) DEFAULT_SOCKET="/run/podman/podman.sock" ;;'',
      ''  *) echo "'' @ bytes [229, 174, 185, 229, 153, 168, 231, 177, 187, 229, 158, 139, 229, 143, 170, 232, 131, 189, 230, 152, 175] @ '' docker '' @ bytes [230, 136, 150] @ '' podman" >&2; exit 1 ;;'',
      ''esac'',
      ''AGENT_SOCKET="$(read_default Socket "$DEFAULT_SOCKET")"'',
      [],
      ''tmp="$(mktemp)"'',
      ''trap '' @ bytes [39] @ ''rm -f "$tmp"'' @ bytes [39] @ '' EXIT'',
      [],
      ''if command -v curl >/dev/null 2>&1; then'',
      ''  curl -fsSL "$BIN_URL" -o "$tmp"'',
      ''elif command -v wget >/dev/null 2>&1; then'',
      ''  wget -q "$BIN_URL" -O "$tmp"'',
      ''else'',
      ''  echo "'' @ bytes [233, 156, 128, 232, 166, 129] @ '' curl '' @ bytes [230, 136, 150] @ '' wget '' @ bytes [228, 184, 139, 232, 189, 189] @ '' Agent '' @ bytes [231, 168, 139, 229, 186, 143] @ ''" >&2'',
      ''  exit 1'',
      ''fi'',
      [],
      ''install -m 0755 "$tmp" "$INSTALL_BIN"'',
      ''"$INSTALL_BIN" install -server "$SERVER_URL" -name "$AGENT_NAME" -addr "$AGENT_ADDR" -runtime "$AGENT_RUNTIME" -socket "$AGENT_SOCKET" -service-file /etc/systemd/system/domux-agent.service'',
      [],
      ''systemctl daemon-reload'',
      ''systemctl enable --now domux-agent'',
      ''echo "'' @ bytes [232, 138, 130, 231, 130, 185, 229, 183, 178, 230, 143, 144, 228, 186, 164, 230, 179, 168, 229, 134, 140, 239, 188, 140, 232, 175, 183, 229, 155, 158, 229, 136, 176] @ '' Domux '' @ bytes [232, 138, 130, 231, 130, 185, 233, 161, 181, 229, 174, 161, 230, 137, 185, 227, 128, 130] @ ''"'',
      []]\<close>

definition agentInstallScript :: "string \<Rightarrow> string" where
  "agentInstallScript serverURL = Join (install_script_lines serverURL) [CHR 0x0A]"

text \<open>\<open>agentBinary\<close>: the file that is served, or the answer 404.\<close>

definition agentBinary :: "string result \<Rightarrow> response + string" where
  "agentBinary path = (case path of Inl e \<Rightarrow> Inl (404, ErrorBody e) | Inr p \<Rightarrow> Inr p)"

section \<open>What the shell reads\<close>

text \<open>
  The value of a double-quoted string in a POSIX shell, given what stands between the quotes; \<open>None\<close>
  when the shell expands something in it or the string ends early.
\<close>

fun dquote_value :: "string \<Rightarrow> string option" where
  "dquote_value [] = Some []"
| "dquote_value (c # s) =
     (if c = CHR ''$'' \<or> c = CHR 0x60 \<or> c = CHR 0x22 then None
      else if c = CHR 0x5C then
        (case s of
           d # t \<Rightarrow>
             if d = CHR ''$'' \<or> d = CHR 0x60 \<or> d = CHR 0x22 \<or> d = CHR 0x5C then map_option (Cons d) (dquote_value t)
             else if d = CHR 0x0A then dquote_value t
             else map_option (Cons c) (dquote_value s)
         | [] \<Rightarrow> Some [c])
      else map_option (Cons c) (dquote_value s))"

definition shell_safe :: "char \<Rightarrow> bool" where
  "shell_safe c \<longleftrightarrow> printable c \<and> c \<noteq> CHR ''$'' \<and> c \<noteq> CHR 0x60"

definition kept :: "char \<Rightarrow> string" where
  "kept c = (if printable c then [c] else quote_char c)"

definition plain_char :: "char \<Rightarrow> bool" where
  "plain_char c \<longleftrightarrow> c \<notin> {CHR ''$'', CHR 0x60, CHR 0x22, CHR 0x5C, CHR 0x0A}"

lemma lowerhex_plain: "n < 16 \<Longrightarrow> plain_char (lowerhex n)"
  by (auto simp: plain_char_def lowerhex_def char_of_eq_iff take_bit_eq_mod split: if_splits)

lemma dquote_value_plain: "list_all plain_char r \<Longrightarrow> dquote_value (r @ s) = map_option ((@) r) (dquote_value s)"
proof (induction r)
  case (Cons c r)
  then have "dquote_value (c # r @ s) = map_option (Cons c) (map_option ((@) r) (dquote_value s))" by (simp add: plain_char_def)
  then show ?case by (cases "dquote_value s") simp_all
qed (cases "dquote_value s"; simp)

lemma quote_unprintable:
  assumes "\<not> printable c"
  obtains d r where "quote_char c = CHR 0x5C # d # r" and "list_all plain_char (d # r)"
proof -
  have c: "c \<noteq> CHR 0x22" "c \<noteq> CHR 0x5C" using assms by (auto simp: printable_def less_eq_char_def)
  have h: "plain_char (lowerhex (of_char c div 16))" "plain_char (lowerhex (of_char c mod 16))"
    by (simp_all add: lowerhex_plain of_char_div_16)
  have p: "plain_char (CHR ''a'')" "plain_char (CHR ''b'')" "plain_char (CHR ''f'')" "plain_char (CHR ''n'')" "plain_char (CHR ''r'')"
    "plain_char (CHR ''t'')" "plain_char (CHR ''v'')" "plain_char (CHR ''x'')" by (simp_all add: plain_char_def)
  show ?thesis using assms c by (cases "quote_char c") (auto simp: quote_char_def h p intro: that split: if_splits)
qed

lemma dquote_value_quote:
  "dquote_value (quote_char c @ s) =
     (if c = CHR ''$'' \<or> c = CHR 0x60 then None else map_option ((@) (kept c)) (dquote_value s))"
proof (cases "printable c")
  case True
  show ?thesis
  proof (cases "c = CHR 0x22 \<or> c = CHR 0x5C")
    case True
    with \<open>printable c\<close> show ?thesis by (cases "dquote_value s") (elim disjE; simp add: quote_char_def kept_def)+
  next
    case False
    with True have "quote_char c = [c]" "kept c = [c]" by (simp_all add: quote_char_def kept_def)
    with False show ?thesis by (cases "dquote_value s") simp_all
  qed
next
  case False
  obtain d r where q: "quote_char c = CHR 0x5C # d # r" "list_all plain_char (d # r)" by (rule quote_unprintable [OF False])
  have c: "c \<noteq> CHR ''$''" "c \<noteq> CHR 0x60" using False by (auto simp: printable_def less_eq_char_def)
  have "dquote_value (CHR 0x5C # (d # r) @ s) = map_option (Cons (CHR 0x5C)) (dquote_value ((d # r) @ s))"
    using q(2) by (simp add: plain_char_def)
  also have "\<dots> = map_option ((@) (kept c)) (dquote_value s)"
    unfolding dquote_value_plain [OF q(2)] using False q(1) by (cases "dquote_value s") (simp_all add: kept_def)
  finally show ?thesis using c q(1) by simp
qed

lemma dquote_value_map: "dquote_value (concat (map quote_char s)) =
    (if CHR ''$'' \<in> set s \<or> CHR 0x60 \<in> set s then None else Some (concat (map kept s)))"
  by (induction s) (auto simp: dquote_value_quote)

lemma kept_unprintable: "\<not> printable c \<Longrightarrow> \<exists>s. kept c = CHR 0x5C # s"
  by (auto simp: kept_def quote_char_def)

lemma kept_all: "concat (map kept s) = s \<longleftrightarrow> list_all printable s"
proof (induction s)
  case (Cons c s)
  show ?case
  proof (cases "printable c")
    case True
    with Cons show ?thesis by (simp add: kept_def)
  next
    case False
    then obtain r where "kept c = CHR 0x5C # r" using kept_unprintable by blast
    moreover have "c \<noteq> CHR 0x5C" using False by (auto simp: printable_def less_eq_char_def)
    ultimately show ?thesis using False by simp
  qed
qed simp

section \<open>Properties\<close>



end
