(* ===== verification/Go_Mux.thy ===== *)
theory Go_Mux
  imports Go_Url Go_Path
begin

text \<open>
  The request multiplexer of Go's package \<open>net/http\<close> (\<open>ServeMux\<close>, since Go 1.22) for the patterns that
  domux registers: a method, a path of literal segments and single wildcards, and the pattern \<open>/\<close> for
  everything else. Matching works on the escaped path of the request.
\<close>

section \<open>Patterns\<close>

datatype mux_seg = Lit string | Wild

type_synonym 'h mux_route = "string \<times> mux_seg list \<times> 'h"

text \<open>A pattern for \<open>GET\<close> also matches \<open>HEAD\<close>.\<close>

definition method_ok :: "string \<Rightarrow> string \<Rightarrow> bool" where
  "method_ok pat m \<longleftrightarrow> pat = m \<or> pat = ''GET'' \<and> m = ''HEAD''"

text \<open>
  The segments of a path as \<open>firstSegment\<close> yields them: unescaped if possible, and \<open>/\<close> for a slash at
  the end of the path.
\<close>

definition segment_value :: "string \<Rightarrow> string" where
  "segment_value s = (if s = [] then ''/'' else case unescape_path s of Some v \<Rightarrow> v | None \<Rightarrow> s)"

definition path_segments :: "string \<Rightarrow> string list" where
  "path_segments p = map segment_value (Split (tl p) (CHR ''/''))"

fun match_segs :: "mux_seg list \<Rightarrow> string list \<Rightarrow> string list option" where
  "match_segs [] [] = Some []"
| "match_segs (Lit l # ps) (s # ss) = (if s = l then match_segs ps ss else None)"
| "match_segs (Wild # ps) (s # ss) = (if s = ''/'' then None else map_option (Cons s) (match_segs ps ss))"
| "match_segs _ _ = None"

primrec mux_find :: "'h mux_route list \<Rightarrow> string \<Rightarrow> string list \<Rightarrow> ('h \<times> string list) option" where
  "mux_find [] m ss = None"
| "mux_find (r # rs) m ss =
     (case (if method_ok (fst r) m then match_segs (fst (snd r)) ss else None) of
        Some vs \<Rightarrow> Some (snd (snd r), vs)
      | None \<Rightarrow> mux_find rs m ss)"

section \<open>Dispatch\<close>

definition cleanPath :: "string \<Rightarrow> string" where
  "cleanPath p =
     (if p = [] then ''/''
      else
        (let p1 = (if hd p \<noteq> CHR ''/'' then CHR ''/'' # p else p); np = Clean p1
         in if last p1 = CHR ''/'' \<and> np \<noteq> ''/'' then np @ ''/'' else np))"

text \<open>
  \<open>findHandler\<close>: a path that is not clean is redirected to the clean one; what no pattern matches
  falls to the pattern \<open>/\<close>. The redirection to a path with a slash at its end never happens, since
  no other pattern ends in one.
\<close>

datatype 'h mux_answer =
    MuxHandler 'h "string list"
  | MuxRedirect string
  | MuxRoot

definition mux_dispatch :: "'h mux_route list \<Rightarrow> string \<Rightarrow> string \<Rightarrow> 'h mux_answer" where
  "mux_dispatch routes m escaped =
     (if m \<noteq> ''CONNECT'' \<and> cleanPath escaped \<noteq> escaped then MuxRedirect (cleanPath escaped)
      else
        (case mux_find routes m (path_segments escaped) of
           Some (h, vs) \<Rightarrow> MuxHandler h vs
         | None \<Rightarrow> MuxRoot))"

section \<open>Ambiguity\<close>

text \<open>
  Two patterns that match a common path are only admitted when one is more specific. Patterns that
  have no common path at all can be tried in any order.
\<close>

fun segs_overlap :: "mux_seg list \<Rightarrow> mux_seg list \<Rightarrow> bool" where
  "segs_overlap [] [] = True"
| "segs_overlap (Lit a # ps) (Lit b # qs) \<longleftrightarrow> a = b \<and> segs_overlap ps qs"
| "segs_overlap (_ # ps) (_ # qs) = segs_overlap ps qs"
| "segs_overlap _ _ = False"

definition methods_overlap :: "string \<Rightarrow> string \<Rightarrow> bool" where
  "methods_overlap a b \<longleftrightarrow> a = b \<or> a = ''GET'' \<and> b = ''HEAD'' \<or> a = ''HEAD'' \<and> b = ''GET''"

fun routes_unambiguous :: "'h mux_route list \<Rightarrow> bool" where
  "routes_unambiguous [] = True"
| "routes_unambiguous (r # rs) \<longleftrightarrow>
     list_all (\<lambda>q. \<not> (methods_overlap (fst r) (fst q) \<and> segs_overlap (fst (snd r)) (fst (snd q)))) rs
     \<and> routes_unambiguous rs"

lemma match_segs_overlap: "match_segs ps ss = Some vs \<Longrightarrow> match_segs qs ss = Some us \<Longrightarrow> segs_overlap ps qs"
proof (induction ps ss arbitrary: qs vs us rule: match_segs.induct)
  case (2 l ps s ss)
  then show ?case by (cases qs; cases "hd qs") (auto split: if_splits)
next
  case (3 ps s ss)
  then show ?case by (cases qs; cases "hd qs") (auto split: if_splits)
next
  case 1
  then show ?case by (cases qs) auto
qed auto

lemma method_ok_overlap: "method_ok a m \<Longrightarrow> method_ok b m \<Longrightarrow> methods_overlap a b"
  by (auto simp: method_ok_def methods_overlap_def)

lemma mux_find_Some:
  "mux_find rs m ss = Some (h, vs) \<Longrightarrow> \<exists>pat ps. (pat, ps, h) \<in> set rs \<and> method_ok pat m \<and> match_segs ps ss = Some vs"
proof (induction rs)
  case (Cons r rs)
  then show ?case by (cases r) (auto split: option.splits if_splits intro: exI [of _ "fst r"] exI [of _ "fst (snd r)"])
qed simp

lemma mux_find_unique:
  assumes "routes_unambiguous rs" and "(pat, ps, h) \<in> set rs" and "method_ok pat m" and "match_segs ps ss = Some vs"
  shows "mux_find rs m ss = Some (h, vs)"
  using assms(1,2)
proof (induction rs)
  case (Cons r rs)
  show ?case
  proof (cases "(pat, ps, h) = r")
    case True
    with assms(3,4) show ?thesis by auto
  next
    case False
    with Cons.prems have q: "(pat, ps, h) \<in> set rs" by simp
    have "match_segs (fst (snd r)) ss = None" if "method_ok (fst r) m"
    proof (cases "match_segs (fst (snd r)) ss")
      case (Some us)
      from Cons.prems(1) q have "\<not> (methods_overlap (fst r) pat \<and> segs_overlap (fst (snd r)) ps)"
        by (fastforce simp: list_all_iff)
      with method_ok_overlap [OF that assms(3)] match_segs_overlap [OF Some assms(4)] show ?thesis by simp
    qed
    with Cons.IH q Cons.prems(1) show ?thesis by simp
  qed
qed simp

section \<open>Building a path\<close>

text \<open>The segments of the path that a client builds for given values, and the path.\<close>

fun fill_segs :: "mux_seg list \<Rightarrow> string list \<Rightarrow> string list" where
  "fill_segs [] vs = []"
| "fill_segs (Lit l # ps) vs = PathEscape l # fill_segs ps vs"
| "fill_segs (Wild # ps) vs = PathEscape (hd vs) # fill_segs ps (tl vs)"

definition route_path :: "mux_seg list \<Rightarrow> string list \<Rightarrow> string" where
  "route_path ps vs = CHR ''/'' # Join (fill_segs ps vs) ''/''"

text \<open>The values that a wildcard can carry: not empty, not a slash, and not a dot segment.\<close>

definition addressable :: "string \<Rightarrow> bool" where
  "addressable v \<longleftrightarrow> v \<notin> {[], ''/'', ''.'', ''..''}"

definition wilds :: "mux_seg list \<Rightarrow> nat" where
  "wilds ps = length (filter (\<lambda>p. p = Wild) ps)"

definition literals_ok :: "mux_seg list \<Rightarrow> bool" where
  "literals_ok ps = list_all (\<lambda>p. case p of Lit l \<Rightarrow> addressable l | Wild \<Rightarrow> True) ps"

lemma unescape_PathEscape: "unescape_path (PathEscape s) = Some s"
proof (induction s)
  case (Cons c s)
  let ?e = "if escape_segment_char c then pct c else [c]"
  have "unescape_path (?e @ t) = map_option (Cons c) (unescape_path t)" for t
    by (auto simp: unescape_path_def unescape_pct)
      (auto simp: escape_segment_char_def unreserved_def is_alnum_def is_lower_def is_upper_def is_digit_def less_eq_char_def)
  with Cons show ?case by (simp add: PathEscape_def escape_def)
qed (simp add: unescape_path_def PathEscape_def escape_def)

lemma PathEscape_chars: "x \<in> set (PathEscape s) \<Longrightarrow> unreserved x \<or> x \<in> set ''$&+:=@%''"
  by (auto simp: PathEscape_def escape_def escape_segment_char_def split: if_splits dest: pct_chars)

lemma PathEscape_no_slash: "CHR ''/'' \<notin> set (PathEscape s)"
  by (auto dest!: PathEscape_chars simp: unreserved_def is_alnum_def is_lower_def is_upper_def is_digit_def less_eq_char_def)

lemma PathEscape_inj: "PathEscape s = PathEscape t \<longleftrightarrow> s = t"
  using unescape_PathEscape by (metis option.inject)

lemma PathEscape_dots: "PathEscape [] = []" "PathEscape ''.'' = ''.''" "PathEscape ''..'' = ''..''"
  by (simp_all add: PathEscape_def escape_def escape_segment_char_def unreserved_def)

lemma segment_value_PathEscape: "addressable v \<Longrightarrow> segment_value (PathEscape v) = v"
  using PathEscape_inj [of v "[]"] by (simp add: segment_value_def unescape_PathEscape addressable_def PathEscape_dots)

lemma addressable_comp: "addressable v \<Longrightarrow> clean_comp (PathEscape v) \<and> PathEscape v \<noteq> ''..''"
  using PathEscape_inj [of v "[]"] PathEscape_inj [of v "''.''"] PathEscape_inj [of v "''..''"]
  by (simp add: clean_comp_def addressable_def PathEscape_no_slash PathEscape_dots)

lemma fill_segs_values:
  assumes "literals_ok ps" and "list_all addressable vs" and "length vs = wilds ps"
  shows "match_segs ps (map segment_value (fill_segs ps vs)) = Some vs"
    and "\<forall>s \<in> set (fill_segs ps vs). clean_comp s \<and> s \<noteq> ''..''"
proof -
  have "match_segs ps (map segment_value (fill_segs ps vs)) = Some vs \<and> (\<forall>s \<in> set (fill_segs ps vs). clean_comp s \<and> s \<noteq> ''..'')"
    using assms
  proof (induction ps vs rule: fill_segs.induct)
    case (3 ps vs)
    then obtain v us where vs: "vs = v # us" by (cases vs) (auto simp: wilds_def)
    with 3 show ?case
      by (simp add: wilds_def literals_ok_def segment_value_PathEscape addressable_comp) (simp add: addressable_def)
  qed (simp_all add: wilds_def literals_ok_def segment_value_PathEscape addressable_comp)
  then show "match_segs ps (map segment_value (fill_segs ps vs)) = Some vs"
    "\<forall>s \<in> set (fill_segs ps vs). clean_comp s \<and> s \<noteq> ''..''" by blast+
qed

text \<open>A rooted path of clean components is clean.\<close>

lemma Clean_rooted:
  assumes "\<forall>s \<in> set cs. clean_comp s \<and> s \<noteq> ''..''"
  shows "Clean (CHR ''/'' # Join cs ''/'') = CHR ''/'' # Join cs ''/''"
proof (cases "cs = []")
  case False
  have nf: "stack_nf True (rev cs)"
  proof -
    have "\<forall>s \<in> set ds. clean_comp s \<and> s \<noteq> ''..'' \<Longrightarrow> stack_nf True ds" for ds by (induction ds) auto
    with assms show ?thesis by simp
  qed
  have "Split (Join cs ''/'') (CHR ''/'') = cs" by (rule Split_Join) (use assms False in \<open>auto simp: clean_comp_def\<close>)
  then show ?thesis
    using clean_nf [OF nf] by (simp add: Clean_def IsAbs_def HasPrefix_def Let_def clean_step_def)
qed (simp add: Clean_def IsAbs_def HasPrefix_def Let_def clean_step_def)

lemma last_Join: "cs \<noteq> [] \<Longrightarrow> last cs \<noteq> [] \<Longrightarrow> last (Join cs ''/'') = last (last cs)"
proof (induction cs rule: rev_induct)
  case (snoc c cs)
  then show ?case by (cases "cs = []") (simp_all add: Join_snoc)
qed simp

lemma cleanPath_rooted:
  assumes "\<forall>s \<in> set cs. clean_comp s \<and> s \<noteq> ''..''"
  shows "cleanPath (CHR ''/'' # Join cs ''/'') = CHR ''/'' # Join cs ''/''"
proof (cases "cs = []")
  case False
  with assms have l: "last cs \<noteq> []" "CHR ''/'' \<notin> set (last cs)" by (auto simp: clean_comp_def)
  then have "last (last cs) \<noteq> CHR ''/''" using last_in_set by metis
  with last_Join [OF False l(1)] have "last (Join cs ''/'') \<noteq> CHR ''/''" by simp
  moreover have "Join cs ''/'' \<noteq> []" using False l(1) last_Join [OF False l(1)] Join_hd assms
    by (metis list.set_intros(1) neq_Nil_conv)
  ultimately show ?thesis using Clean_rooted [OF assms] by (simp add: cleanPath_def Let_def)
qed (simp add: cleanPath_def Clean_def IsAbs_def HasPrefix_def Let_def clean_step_def)

text \<open>The path built for a pattern is dispatched to it, with the values it was built from.\<close>

lemma mux_dispatch_route_path:
  assumes "routes_unambiguous rs" and "(pat, ps, h) \<in> set rs" and "method_ok pat m" and "ps \<noteq> []"
    and "literals_ok ps" and "list_all addressable vs" and "length vs = wilds ps"
  shows "mux_dispatch rs m (route_path ps vs) = MuxHandler h vs"
proof -
  note f = fill_segs_values [OF assms(5-7)]
  have ne: "fill_segs ps vs \<noteq> []" using assms(4) by (cases "(ps, vs)" rule: fill_segs.cases) auto
  have "path_segments (route_path ps vs) = map segment_value (fill_segs ps vs)"
    using f(2) ne by (simp add: path_segments_def route_path_def Split_Join clean_comp_def)
  with mux_find_unique [OF assms(1-3)] f(1) have "mux_find rs m (path_segments (route_path ps vs)) = Some (h, vs)" by simp
  moreover have "cleanPath (route_path ps vs) = route_path ps vs"
    using cleanPath_rooted [OF f(2)] by (simp add: route_path_def)
  ultimately show ?thesis by (simp add: mux_dispatch_def)
qed

end
