(* ===== verification/Domux_Http.thy ===== *)
theory Domux_Http
  imports Domux_Admin Domux_Run Domux_Install Go_Mux
begin

text \<open>
  The API server as a whole (\<open>Handler\<close>, the action handlers and \<open>New\<close> in
  \<open>internal/platform/api/server.go\<close>, wired as in \<open>runServerWithContext\<close>): the table of routes, the
  authentication in front of it, the handlers of \<open>Domux_Api\<close> and the manual actions of \<open>Domux_Server\<close>
  behind it, and the web UI (\<open>web/ui.go\<close>) for all other paths.
\<close>

section \<open>Requests and calls\<close>

record http_request =
  rq_Method :: string
  rq_URL :: go_url
  rq_Host :: string
  rq_TLS :: bool
  rq_ForwardedProto :: string
  rq_ForwardedHost :: string
  rq_RemoteAddr :: string
  rq_BasicAuth :: "(string \<times> string) option"
  rq_Body :: string

text \<open>The decoders of the package \<open>encoding/json\<close> for the types of the request bodies.\<close>

record json_codec =
  js_app :: "string \<Rightarrow> custom_app result"
  js_zone :: "string \<Rightarrow> managed_zone result"
  js_bundle :: "string \<Rightarrow> bundle_policy result"
  js_provider :: "string \<Rightarrow> provider_config result"
  js_agent :: "string \<Rightarrow> agent_node result"
  js_registration :: "string \<Rightarrow> registration_request result"
  js_target :: "string \<Rightarrow> deploy_target result"
  js_runtime :: "string \<Rightarrow> runtime_source result"

datatype action_kind = RefreshRoutes | SyncDDNS | RenewCertificates | DeployCertificates

datatype api_call =
    Call api_request
  | Act action_kind
  | DockerNetworks
  | SystemLogs
  | NodeResources
  | InstallScript
  | AgentBinary

section \<open>The table of routes\<close>

abbreviation v1 :: "mux_seg list \<Rightarrow> mux_seg list" where
  "v1 segs \<equiv> Lit ''api'' # Lit ''v1'' # segs"

type_synonym endpoint = "json_codec \<Rightarrow> http_request \<Rightarrow> string list \<Rightarrow> api_call"

abbreviation read_only :: "read_request \<Rightarrow> endpoint" where
  "read_only r \<equiv> \<lambda>js rq vs. Call (ReadRq r)"

definition api_routes :: "endpoint mux_route list" where
  "api_routes =
    [(''GET'', [Lit ''health''], read_only ReadHealth),
     (''GET'', v1 [Lit ''zones''], read_only ReadZones),
     (''GET'', v1 [Lit ''domains''], read_only ReadZones),
     (''GET'', v1 [Lit ''applications''], read_only ReadApplications),
     (''GET'', v1 [Lit ''apps''], read_only ReadApps),
     (''POST'', v1 [Lit ''apps''], \<lambda>js rq vs. Call (CreateApp (js_app js (rq_Body rq)))),
     (''PUT'', v1 [Lit ''apps'', Wild], \<lambda>js rq vs. Call (UpdateApp (hd vs) (js_app js (rq_Body rq)))),
     (''DELETE'', v1 [Lit ''apps'', Wild], \<lambda>js rq vs. Call (DeleteApp (hd vs))),
     (''POST'', v1 [Lit ''zones''], \<lambda>js rq vs. Call (CreateZoneRq (js_zone js (rq_Body rq)))),
     (''POST'', v1 [Lit ''domains''], \<lambda>js rq vs. Call (CreateZoneRq (js_zone js (rq_Body rq)))),
     (''PUT'', v1 [Lit ''zones'', Wild], \<lambda>js rq vs. Call (UpdateZoneRq (hd vs) (js_zone js (rq_Body rq)))),
     (''PUT'', v1 [Lit ''domains'', Wild], \<lambda>js rq vs. Call (UpdateZoneRq (hd vs) (js_zone js (rq_Body rq)))),
     (''DELETE'', v1 [Lit ''zones'', Wild], \<lambda>js rq vs. Call (DeleteZoneRq (hd vs))),
     (''DELETE'', v1 [Lit ''domains'', Wild], \<lambda>js rq vs. Call (DeleteZoneRq (hd vs))),
     (''GET'', v1 [Lit ''zones'', Wild, Lit ''bundles''], \<lambda>js rq vs. Call (ReadRq (ReadZoneBundles (hd vs)))),
     (''GET'', v1 [Lit ''domains'', Wild, Lit ''bundles''], \<lambda>js rq vs. Call (ReadRq (ReadZoneBundles (hd vs)))),
     (''POST'', v1 [Lit ''zones'', Wild, Lit ''bundles''], \<lambda>js rq vs. Call (CreateBundle (hd vs) (js_bundle js (rq_Body rq)))),
     (''POST'', v1 [Lit ''domains'', Wild, Lit ''bundles''], \<lambda>js rq vs. Call (CreateBundle (hd vs) (js_bundle js (rq_Body rq)))),
     (''PUT'', v1 [Lit ''zones'', Wild, Lit ''bundles'', Wild],
        \<lambda>js rq vs. Call (UpdateBundle (hd vs) (hd (tl vs)) (js_bundle js (rq_Body rq)))),
     (''PUT'', v1 [Lit ''domains'', Wild, Lit ''bundles'', Wild],
        \<lambda>js rq vs. Call (UpdateBundle (hd vs) (hd (tl vs)) (js_bundle js (rq_Body rq)))),
     (''DELETE'', v1 [Lit ''zones'', Wild, Lit ''bundles'', Wild], \<lambda>js rq vs. Call (DeleteBundleRq (hd vs) (hd (tl vs)))),
     (''DELETE'', v1 [Lit ''domains'', Wild, Lit ''bundles'', Wild], \<lambda>js rq vs. Call (DeleteBundleRq (hd vs) (hd (tl vs)))),
     (''GET'', v1 [Lit ''ddns-providers''], read_only ReadProviders),
     (''GET'', v1 [Lit ''ddns-providers'', Lit ''catalog''], read_only ReadCatalog),
     (''POST'', v1 [Lit ''ddns-providers''], \<lambda>js rq vs. Call (CreateProvider (js_provider js (rq_Body rq)))),
     (''PUT'', v1 [Lit ''ddns-providers'', Wild], \<lambda>js rq vs. Call (UpdateProvider (hd vs) (js_provider js (rq_Body rq)))),
     (''DELETE'', v1 [Lit ''ddns-providers'', Wild], \<lambda>js rq vs. Call (DeleteProvider (hd vs))),
     (''GET'', v1 [Lit ''runtimes''], read_only ReadRuntimes),
     (''PUT'', v1 [Lit ''server'', Lit ''runtime''], \<lambda>js rq vs. Call (UpdateRuntime (js_runtime js (rq_Body rq)))),
     (''GET'', v1 [Lit ''runtimes'', Lit ''networks''], \<lambda>js rq vs. DockerNetworks),
     (''GET'', v1 [Lit ''routes''], read_only ReadRoutes),
     (''GET'', v1 [Lit ''agents''], read_only ReadAgents),
     (''GET'', v1 [Lit ''nodes'', Lit ''resources''], \<lambda>js rq vs. NodeResources),
     (''GET'', v1 [Lit ''agents'', Lit ''install.sh''], \<lambda>js rq vs. InstallScript),
     (''GET'', v1 [Lit ''agents'', Lit ''domux-agent''], \<lambda>js rq vs. AgentBinary),
     (''GET'', v1 [Lit ''agents'', Lit ''pending''], read_only ReadPendingAgents),
     (''POST'', v1 [Lit ''agents'', Lit ''register''],
        \<lambda>js rq vs. Call (RegisterAgent (rq_RemoteAddr rq) (js_registration js (rq_Body rq)))),
     (''POST'', v1 [Lit ''agents'', Lit ''pending'', Wild, Lit ''approve''], \<lambda>js rq vs. Call (ApproveAgent (hd vs))),
     (''DELETE'', v1 [Lit ''agents'', Lit ''pending'', Wild], \<lambda>js rq vs. Call (RejectAgent (hd vs))),
     (''POST'', v1 [Lit ''agents''], \<lambda>js rq vs. Call (CreateAgentRq (js_agent js (rq_Body rq)))),
     (''PUT'', v1 [Lit ''agents'', Wild], \<lambda>js rq vs. Call (UpdateAgentRq (hd vs) (js_agent js (rq_Body rq)))),
     (''DELETE'', v1 [Lit ''agents'', Wild], \<lambda>js rq vs. Call (DeleteAgentRq (hd vs))),
     (''GET'', v1 [Lit ''ddns''], read_only ReadDDNSStates),
     (''GET'', v1 [Lit ''deploy-targets''], read_only ReadDeployTargets),
     (''POST'', v1 [Lit ''deploy-targets''], \<lambda>js rq vs. Call (CreateTarget (js_target js (rq_Body rq)))),
     (''PUT'', v1 [Lit ''deploy-targets'', Wild], \<lambda>js rq vs. Call (UpdateTarget (hd vs) (js_target js (rq_Body rq)))),
     (''DELETE'', v1 [Lit ''deploy-targets'', Wild], \<lambda>js rq vs. Call (DeleteTarget (hd vs))),
     (''GET'', v1 [Lit ''certificates''], read_only ReadCertificates),
     (''GET'', v1 [Lit ''deployments''], read_only ReadDeployments),
     (''GET'', v1 [Lit ''jobs''], read_only ReadJobs),
     (''GET'', v1 [Lit ''logs''], \<lambda>js rq vs. SystemLogs),
     (''POST'', v1 [Lit ''actions'', Lit ''routes'', Lit ''refresh''], \<lambda>js rq vs. Act RefreshRoutes),
     (''POST'', v1 [Lit ''actions'', Lit ''ddns'', Lit ''sync''], \<lambda>js rq vs. Act SyncDDNS),
     (''POST'', v1 [Lit ''actions'', Lit ''certificates'', Lit ''renew''], \<lambda>js rq vs. Act RenewCertificates),
     (''POST'', v1 [Lit ''actions'', Lit ''certificates'', Lit ''deploy''], \<lambda>js rq vs. Act DeployCertificates)]"

section \<open>The world of the server\<close>

text \<open>
  What requests change: the state and the configuration file (\<open>Domux_Api\<close>), the certificate files, the
  certificates served and the record updates sent to the DNS providers.
\<close>

record ('d, 'c) http_world =
  hw_api :: "'d api_world"
  hw_certs :: "string file_system"
  hw_tls :: "'c tls_store"
  hw_updates :: "(updater \<times> dns_record) list"

record ('d, 'c) http_env =
  hx_api :: "'d api_env"
  hx_auth :: auth_config
  hx_json :: json_codec
  hx_cert :: "'c cert_env"
  hx_times :: "time \<times> time"
  hx_resources :: "system_resources result"
  hx_scan :: "string \<Rightarrow> string list result"
  hx_is_file :: "string \<Rightarrow> bool"
  hx_executable :: "string result"
  hx_absolute :: "string result"
  hx_static :: "string \<Rightarrow> nat \<times> string"

abbreviation hw_store :: "('d, 'c) http_world \<Rightarrow> memory_store" where
  "hw_store w \<equiv> ss_store (aw_state (hw_api w))"

abbreviation hw_manager :: "('d, 'c) http_world \<Rightarrow> runtime_manager" where
  "hw_manager w \<equiv> ss_manager (aw_state (hw_api w))"

definition upd_store :: "(memory_store \<Rightarrow> memory_store) \<Rightarrow> ('d, 'c) http_world \<Rightarrow> ('d, 'c) http_world" where
  "upd_store f w = w\<lparr>hw_api := set_store f (hw_api w)\<rparr>"

section \<open>The actions\<close>

text \<open>The closures that \<open>runServerWithContext\<close> hands to the API, on the runtime that is current.\<close>

definition action_refresh :: "('d, 'c) http_env \<Rightarrow> action_request \<Rightarrow> ('d, 'c) http_world \<Rightarrow> go_error option \<times> ('d, 'c) http_world" where
  "action_refresh env req w =
     (let sx = ax_server (hx_api env); st = aw_state (hw_api w);
          (err, store, table) = manualRefreshRoutes (sx_os sx) (sx_lib sx) (sx_err_text sx) (rm_discoverers (ss_manager st))
            (rm_pool (ss_manager st)) req (ss_store st, ss_table st)
      in (err, w\<lparr>hw_api := (hw_api w)\<lparr>aw_state := st\<lparr>ss_store := store, ss_table := table\<rparr>\<rparr>\<rparr>))"

definition action_ddns :: "('d, 'c) http_env \<Rightarrow> action_request \<Rightarrow> ('d, 'c) http_world \<Rightarrow> go_error option \<times> ('d, 'c) http_world" where
  "action_ddns env req w =
     (let (err, dw) = manualSyncDDNS (rm_ddns (hw_manager w)) (fst (hx_times env)) req (hw_store w)
            \<lparr>dw_store = Some (hw_store w), dw_log = hw_updates w\<rparr>
      in (err, (upd_store (\<lambda>s. case dw_store dw of Some s' \<Rightarrow> s' | None \<Rightarrow> s) w)\<lparr>hw_updates := dw_log dw\<rparr>))"

definition in_certs :: "('c cert_world \<Rightarrow> go_error option \<times> 'c cert_world) \<Rightarrow> ('d, 'c) http_world \<Rightarrow> go_error option \<times> ('d, 'c) http_world" where
  "in_certs f w =
     (let (err, cw) = f \<lparr>cw_fs = hw_certs w, cw_store = hw_store w, cw_tls = hw_tls w\<rparr>
      in (err, (upd_store (\<lambda>_. cw_store cw) w)\<lparr>hw_certs := cw_fs cw, hw_tls := cw_tls cw\<rparr>))"

fun action_run :: "('d, 'c) http_env \<Rightarrow> action_kind \<Rightarrow> action_request \<Rightarrow> ('d, 'c) http_world \<Rightarrow> go_error option \<times> ('d, 'c) http_world" where
  "action_run env RefreshRoutes req w = action_refresh env req w"
| "action_run env SyncDDNS req w = action_ddns env req w"
| "action_run env RenewCertificates req w = in_certs (manualRenewCertificates (hx_cert env) (rm_providerRefs (hw_manager w)) req) w"
| "action_run env DeployCertificates req w = in_certs (manualDeployCertificates (hx_cert env) req) w"

fun action_name :: "action_kind \<Rightarrow> string" where
  "action_name RefreshRoutes = ''manual.routes.refresh''"
| "action_name SyncDDNS = ''manual.ddns.sync''"
| "action_name RenewCertificates = ''manual.certificates.renew''"
| "action_name DeployCertificates = ''manual.certificates.deploy''"

fun action_message :: "action_kind \<Rightarrow> string" where
  "action_message RefreshRoutes = ''routes refresh started''"
| "action_message SyncDDNS = ''ddns sync started''"
| "action_message RenewCertificates = ''certificate renew started''"
| "action_message DeployCertificates = ''certificate deploy started''"

definition action_query_of :: "url_values \<Rightarrow> action_query" where
  "action_query_of q = \<lparr>aq_domain = values_Get q ''domain'', aq_zone = values_Get q ''zone'', aq_source = values_Get q ''source'',
     aq_bundle = values_Get q ''bundle'', aq_target = values_Get q ''target''\<rparr>"

definition serve_action :: "('d, 'c) http_env \<Rightarrow> action_kind \<Rightarrow> url_values \<Rightarrow> ('d, 'c) http_world \<Rightarrow> response \<times> ('d, 'c) http_world" where
  "serve_action env a q w =
     runAction (Some (recordActionJob upd_store (action_name a) (hx_times env) (action_run env a))) (action_message a) (action_query_of q) w"

section \<open>The handler\<close>

datatype http_answer =
    Answer response
  | Redirect string
  | Unauthorized
  | Script string
  | Binary string
  | WebFile bool "nat \<times> string"

text \<open>\<open>web/ui.go\<close>: the file server of the embedded assets, told not to cache the entry points.\<close>

definition webui_Handler :: "(string \<Rightarrow> nat \<times> string) \<Rightarrow> string \<Rightarrow> http_answer" where
  "webui_Handler static path = WebFile (path \<in> set [''/'', ''/index.html'', ''/app.js'', ''/styles.css'']) (static path)"

fun serve_call :: "('d, 'c) http_env \<Rightarrow> 'd io_faults \<Rightarrow> http_request \<Rightarrow> api_call \<Rightarrow> ('d, 'c) http_world \<Rightarrow>
    http_answer \<times> ('d, 'c) http_world" where
  "serve_call env io rq (Call r) w =
     (let (resp, aw) = api_serve (hx_api env) io r (hw_api w) in (Answer resp, w\<lparr>hw_api := aw\<rparr>))"
| "serve_call env io rq (Act a) w =
     (let (resp, w') = serve_action env a (url_Query (u_RawQuery (rq_URL rq))) w in (Answer resp, w'))"
| "serve_call env io rq DockerNetworks w =
     (let q = url_Query (u_RawQuery (rq_URL rq))
      in (Answer (listDockerNetworks (ax_server (hx_api env)) (values_Get q ''runtime'') (values_Get q ''endpoint'')), w))"
| "serve_call env io rq SystemLogs w = (Answer (systemLogs (ax_os (hx_api env)) (hx_scan env)), w)"
| "serve_call env io rq NodeResources w = (Answer (listNodeResources (hx_resources env) (hw_api w)), w)"
| "serve_call env io rq InstallScript w =
     (Script (agentInstallScript (requestOrigin (rq_TLS rq) (rq_Host rq) (rq_ForwardedProto rq) (rq_ForwardedHost rq))), w)"
| "serve_call env io rq AgentBinary w =
     ((case agentBinary (agentBinaryPath (ax_os (hx_api env)) (hx_is_file env) (hx_executable env) (hx_absolute env)) of
         Inl resp \<Rightarrow> Answer resp | Inr path \<Rightarrow> Binary path), w)"

definition api_Handler :: "('d, 'c) http_env \<Rightarrow> 'd io_faults \<Rightarrow> http_request \<Rightarrow> ('d, 'c) http_world \<Rightarrow>
    http_answer \<times> ('d, 'c) http_world" where
  "api_Handler env io rq w =
     (case mux_dispatch api_routes (rq_Method rq) (EscapedPath (rq_URL rq)) of
        MuxHandler h vs \<Rightarrow> serve_call env io rq (h (hx_json env) rq vs) w
      | MuxRedirect path \<Rightarrow> (Redirect path, w)
      | MuxRoot \<Rightarrow> (webui_Handler (hx_static env) (u_Path (rq_URL rq)), w))"

text \<open>The handler of the API server: \<open>withBasicAuth\<close> around \<open>Handler\<close>.\<close>

definition http_serve :: "('d, 'c) http_env \<Rightarrow> 'd io_faults \<Rightarrow> http_request \<Rightarrow> ('d, 'c) http_world \<Rightarrow>
    http_answer \<times> ('d, 'c) http_world" where
  "http_serve env io rq w =
     (case withBasicAuth (\<lambda>r. u_Path (rq_URL r)) rq_BasicAuth (hx_auth env) (\<lambda>r. api_Handler env io r w) rq of
        None \<Rightarrow> (Unauthorized, w)
      | Some res \<Rightarrow> res)"

section \<open>The table\<close>

lemma api_routes_unambiguous: "routes_unambiguous api_routes"
  by (simp add: api_routes_def methods_overlap_def)

lemma api_routes_literals: "list_all (\<lambda>r. literals_ok (fst (snd r)) \<and> fst (snd r) \<noteq> []) api_routes"
  by (simp add: api_routes_def literals_ok_def addressable_def)

section \<open>Facts about paths\<close>

lemma EscapedPath_setPath:
  assumes "setPath p u = Inr u'" and "valid_encoded_path p" and "p \<noteq> []" and "u_Path u' \<noteq> ''*''"
  shows "EscapedPath u' = p"
  using assms by (auto simp: setPath_def EscapedPath_def split: option.splits if_splits)

lemma valid_encoded_segment: "valid_encoded_path (PathEscape s)"
  by (auto simp: valid_encoded_path_def list_all_iff escape_path_char_def dest!: PathEscape_chars)

lemma valid_encoded_Join: "list_all valid_encoded_path ss \<Longrightarrow> valid_encoded_path (Join ss ''/'')"
  by (induction ss "''/''" rule: Join.induct) (auto simp: valid_encoded_path_def escape_path_char_def)

lemma valid_encoded_fill: "list_all valid_encoded_path (fill_segs ps vs)"
  by (induction ps vs rule: fill_segs.induct) (simp_all add: valid_encoded_segment)

lemma unescape_path_append:
  "unescape_path s = Some a \<Longrightarrow> unescape_path (s @ t) = map_option ((@) a) (unescape_path t)"
proof (induction s arbitrary: a rule: length_induct)
  case (1 s)
  have IH: "unescape_path (q @ t) = map_option ((@) b) (unescape_path t)" if "length q < length s" "unescape_path q = Some b" for q b
    using 1(1) that by blast
  show ?case
  proof (cases s)
    case Nil
    with 1(2) show ?thesis by (cases "unescape_path t") (simp_all add: unescape_path_def)
  next
    case (Cons c r)
    show ?thesis
    proof (cases "c = CHR ''%''")
      case True
      with 1(2) Cons obtain x y q b where "r = x # y # q" "is_hex x" "is_hex y" "unescape_path q = Some b" "a = unpct x y # b"
        by (auto simp: unescape_path_def split: list.splits if_splits)
      with IH [of q b] True Cons show ?thesis by (cases "unescape_path t") (simp_all add: unescape_path_def)
    next
      case False
      with 1(2) Cons obtain b where "unescape_path r = Some b" "a = c # b" by (auto simp: unescape_path_def)
      with IH [of r b] False Cons show ?thesis by (cases "unescape_path t") (simp_all add: unescape_path_def)
    qed
  qed
qed

lemma unescape_path_Cons [simp]: "unescape_path (CHR ''/'' # t) = map_option (Cons (CHR ''/'')) (unescape_path t)"
  by (simp add: unescape_path_def)

lemma unescape_path_Join: "list_all (\<lambda>s. unescape_path s \<noteq> None) ss \<Longrightarrow> unescape_path (Join ss ''/'') \<noteq> None"
proof (induction ss "''/''" rule: Join.induct)
  case (3 s t ss)
  then obtain a b where a: "unescape_path s = Some a" and b: "unescape_path (Join (t # ss) ''/'') = Some b" by auto
  from unescape_path_append [OF a, of "CHR ''/'' # Join (t # ss) ''/''"] b show ?case by simp
qed (simp_all add: unescape_path_def)

lemma unescape_path_fill: "list_all (\<lambda>s. unescape_path s \<noteq> None) (fill_segs ps vs)"
  by (induction ps vs rule: fill_segs.induct) (simp_all add: unescape_PathEscape)

lemma route_path_url: "\<exists>u. setPath (route_path ps vs) u0 = Inr u \<and> EscapedPath u = route_path ps vs"
proof -
  obtain b where b: "unescape_path (Join (fill_segs ps vs) ''/'') = Some b"
    using unescape_path_Join [OF unescape_path_fill] by blast
  then obtain u where u: "setPath (route_path ps vs) u0 = Inr u" "u_Path u = CHR ''/'' # b"
    by (simp add: setPath_def route_path_def)
  have "valid_encoded_path (route_path ps vs)"
    using valid_encoded_Join [OF valid_encoded_fill [of ps vs]] by (simp add: route_path_def valid_encoded_path_def escape_path_char_def)
  with u EscapedPath_setPath [OF u(1)] show ?thesis by (simp add: route_path_def)
qed

section \<open>Frames of the actions\<close>

text \<open>The tables of the configuration, the pending agents and the history of jobs.\<close>

definition config_part :: "memory_store \<Rightarrow> _" where
  "config_part s = (ms_zones s, ms_apps s, ms_providers s, ms_agents s, ms_targets s, ms_sources s, ms_pendingAgents s, ms_jobs s)"

lemma config_part_simps [simp]:
  "config_part (PutDDNSSyncState st s) = config_part s" "config_part (PutBundle b s) = config_part s"
  "config_part (AppendDeployRun r s) = config_part s"
  by (simp_all add: config_part_def PutDDNSSyncState_def PutBundle_def AppendDeployRun_def Let_def)

lemma config_part_runs [simp]: "config_part (fold AppendDeployRun runs s) = config_part s"
  by (induction runs arbitrary: s) simp_all

abbreviation ddns_frame :: "ddns_world \<Rightarrow> ddns_world \<Rightarrow> bool" where
  "ddns_frame w w' \<equiv> map_option config_part (dw_store w') = map_option config_part (dw_store w)"

lemma syncRecord_frame: "syncRecord sv now ref u zone host rt v w = (r, w') \<Longrightarrow> ddns_frame w w'"
  by (auto simp: syncRecord_def Let_def option.map_comp comp_def split: if_splits sum.splits option.splits)

lemma sync_records_frame: "sync_records sv now ref u zone rs w = (r, w') \<Longrightarrow> ddns_frame w w'"
  by (induction rs arbitrary: w r w') (auto simp: Let_def split: prod.splits dest!: syncRecord_frame)

lemma sync_refs_frame: "sync_refs sv now zone snap refs w = (r, w') \<Longrightarrow> ddns_frame w w'"
proof (induction refs arbitrary: w r w')
  case (Cons ref refs)
  then show ?case
    by (cases "gm_get (sv_Providers sv) ref") (auto simp: Let_def split: prod.splits dest!: sync_records_frame)
qed simp

lemma SyncZone_frame: "SyncZone sv now zone w = (r, w') \<Longrightarrow> ddns_frame w w'"
  by (auto simp: SyncZone_def Let_def split: if_splits option.splits prod.splits dest!: sync_refs_frame)

lemma sync_zones_frame: "sync_zones sv now zs w = (r, w') \<Longrightarrow> ddns_frame w w'"
proof (induction zs arbitrary: w r w')
  case (Cons z zs)
  then show ?case by (auto simp: Let_def split: if_splits prod.splits dest!: SyncZone_frame)
qed simp

lemma syncDDNS_frame: "syncDDNS sv now zones w = (r, w') \<Longrightarrow> ddns_frame w w'"
  by (auto simp: syncDDNS_def Let_def split: option.splits if_splits prod.splits dest!: sync_zones_frame)

lemma server_deployBundle_config: "server_deployBundle env b ts w = (e, w') \<Longrightarrow> config_part (cw_store w') = config_part (cw_store w)"
  by (auto simp: server_deployBundle_def Let_def split: prod.splits)

lemma sync_request_config: "sync_request env force refs req w = (es, w') \<Longrightarrow> config_part (cw_store w') = config_part (cw_store w)"
  by (auto simp: sync_request_def Let_def split: option.splits prod.splits sum.splits if_splits dest!: server_deployBundle_config)

lemma sync_requests_config: "sync_requests env force refs reqs w = (es, w') \<Longrightarrow> config_part (cw_store w') = config_part (cw_store w)"
  by (induction reqs arbitrary: w es w') (auto simp: Let_def split: prod.splits dest!: sync_request_config)

lemma deploy_bundles_config: "deploy_bundles env t bs w = (es, w') \<Longrightarrow> config_part (cw_store w') = config_part (cw_store w)"
proof (induction bs arbitrary: w es w')
  case (Cons b bs)
  then show ?case by (auto simp: Let_def split: prod.splits if_splits dest!: server_deployBundle_config)
qed simp

text \<open>What the scope of an action selects: the error of the selection, if there is one.\<close>

fun action_scope :: "('d, 'c) http_env \<Rightarrow> action_kind \<Rightarrow> action_request \<Rightarrow> ('d, 'c) http_world \<Rightarrow> go_error option" where
  "action_scope env RefreshRoutes req w =
     (case selectedDiscoverers (ax_os (hx_api env)) (rm_discoverers (hw_manager w)) (ar_Source req) of Inl e \<Rightarrow> Some e | Inr _ \<Rightarrow> None)"
| "action_scope env SyncDDNS req w =
     (case selectedZones (ListDomains (hw_store w)) (ar_Domain req) of Inl e \<Rightarrow> Some e | Inr _ \<Rightarrow> None)"
| "action_scope env RenewCertificates req w =
     (if ar_Target req \<noteq> [] then Some (Errorf ''target scope is not supported for certificate renew'' [])
      else (case selectedCertificateRequests (ListDomains (hw_store w)) (ar_Domain req) (ar_Bundle req) of
              Inl e \<Rightarrow> Some e | Inr _ \<Rightarrow> None))"
| "action_scope env DeployCertificates req w =
     (case selectedStoredBundles (CurrentCertificateBundles (ListDomains (hw_store w)) (ListBundles (hw_store w)))
             (ar_Domain req) (ar_Bundle req) of
        Inl e \<Rightarrow> Some e
      | Inr _ \<Rightarrow> (case selectedDeployTarget (ListDeployTargets (hw_store w)) (ar_Target req) of Inl e \<Rightarrow> Some e | Inr _ \<Rightarrow> None))"

definition request_of :: "url_values \<Rightarrow> action_request" where
  "request_of q =
     \<lparr>ar_Source = TrimSpace (values_Get q ''source''),
      ar_Domain = TrimSpace (firstNonEmpty [values_Get q ''domain'', values_Get q ''zone'']),
      ar_Bundle = TrimSpace (values_Get q ''bundle''), ar_Target = TrimSpace (values_Get q ''target'')\<rparr>"

lemma upd_store_id [simp]: "upd_store (\<lambda>s. s) w = w" "upd_store (\<lambda>_. hw_store w) w = w"
  by (simp_all add: upd_store_def set_store_def)

lemma action_run_refused: "action_scope env a req w = Some e \<Longrightarrow> action_run env a req w = (Some (RequestError e), w)"
  by (cases a)
    (auto simp: action_refresh_def manualRefreshRoutes_def action_ddns_def manualSyncDDNS_def in_certs_def manualRenewCertificates_def
      manualDeployCertificates_def Let_def split: sum.splits if_splits)

text \<open>What an action leaves alone: the configuration file, the runtime, and the tables of \<open>config_part\<close>.\<close>

definition action_frame :: "('d, 'c) http_world \<Rightarrow> ('d, 'c) http_world \<Rightarrow> bool" where
  "action_frame w w' \<longleftrightarrow> aw_fs (hw_api w') = aw_fs (hw_api w) \<and> hw_manager w' = hw_manager w
     \<and> config_part (hw_store w') = config_part (hw_store w)"

lemma action_frame_refl [simp]: "action_frame w w"
  by (simp add: action_frame_def)

lemma action_refresh_frame: "action_refresh env req w = (err, w') \<Longrightarrow> action_frame w w'"
proof -
  let ?sx = "ax_server (hx_api env)" and ?st = "aw_state (hw_api w)"
  assume a: "action_refresh env req w = (err, w')"
  obtain e s t where m: "manualRefreshRoutes (sx_os ?sx) (sx_lib ?sx) (sx_err_text ?sx) (rm_discoverers (ss_manager ?st))
      (rm_pool (ss_manager ?st)) req (ss_store ?st, ss_table ?st) = (e, s, t)" by (metis prod.exhaust)
  then have "config_part s = config_part (ss_store ?st)"
    by (auto simp: manualRefreshRoutes_def config_part_def dest!: refreshRoutes_store split: sum.splits)
  with a m show ?thesis by (auto simp: action_refresh_def action_frame_def Let_def)
qed

lemma action_ddns_frame: "action_ddns env req w = (err, w') \<Longrightarrow> action_frame w w'"
proof -
  assume a: "action_ddns env req w = (err, w')"
  let ?dw = "\<lparr>dw_store = Some (hw_store w), dw_log = hw_updates w\<rparr>"
  obtain e dw where m: "manualSyncDDNS (rm_ddns (hw_manager w)) (fst (hx_times env)) req (hw_store w) ?dw = (e, dw)" by fastforce
  then have "ddns_frame ?dw dw" by (auto simp: manualSyncDDNS_def dest!: syncDDNS_frame split: sum.splits)
  with a m show ?thesis by (auto simp: action_ddns_def action_frame_def Let_def upd_store_def set_store_def)
qed

lemma in_certs_frame:
  assumes "in_certs f w = (err, w')" and "\<And>cw e cw'. f cw = (e, cw') \<Longrightarrow> config_part (cw_store cw') = config_part (cw_store cw)"
  shows "action_frame w w'"
proof -
  obtain e cw where "f \<lparr>cw_fs = hw_certs w, cw_store = hw_store w, cw_tls = hw_tls w\<rparr> = (e, cw)" by fastforce
  with assms(1) assms(2) [OF this] show ?thesis
    by (auto simp: in_certs_def action_frame_def Let_def upd_store_def set_store_def)
qed

lemma action_run_frame:
  assumes "action_run env a req w = (err, w')"
  shows "action_frame w w'"
proof (cases a)
  case RefreshRoutes
  with assms show ?thesis by (simp add: action_refresh_frame)
next
  case SyncDDNS
  with assms show ?thesis by (simp add: action_ddns_frame)
next
  case RenewCertificates
  with assms show ?thesis
    by (auto elim!: in_certs_frame simp: manualRenewCertificates_def syncCertificateRequests_def Let_def
        split: if_splits sum.splits prod.splits dest!: sync_requests_config)
next
  case DeployCertificates
  with assms show ?thesis
    by (auto elim!: in_certs_frame simp: manualDeployCertificates_def deployStoredBundles_def Let_def
        split: if_splits sum.splits prod.splits dest!: deploy_bundles_config)
qed

lemma serve_action_run:
  assumes "action_run env a (request_of q) w = (err, w1)"
  shows "serve_action env a q w =
     ((case err of
         None \<Rightarrow> (200, MessageBody ''ok'' (action_message a))
       | Some e \<Rightarrow> (case errors_As is_RequestError e of Some r \<Rightarrow> bad_request r | None \<Rightarrow> (500, ErrorBody (ErrJoin [e])))),
      upd_store (AppendJobRun (job_record (action_name a) (hx_times env) err)) w1)"
  using assms
  by (cases err) (simp_all add: serve_action_def runAction_def recordActionJob_def action_query_of_def request_of_def errors_Join_def
      split: option.splits)

text \<open>The DDNS and renew actions take the name of a zone for its domain, the deploy action does not.\<close>

lemma deploy_scope_needs_domain:
  assumes "z \<in> set zones" and "TrimSpace (z_Name z) = z_Name z" and "z_Name z \<noteq> []" and "\<forall>b \<in> set bundles. cb_Zone b \<noteq> z_Name z"
  shows "(\<exists>z'. selectedZones zones (z_Name z) = Inr [z'])
    \<and> selectedStoredBundles bundles (z_Name z) [] = Inl (Errorf ''domain %q has no certificate bundles'' [z_Name z])"
proof -
  obtain z' where "find (\<lambda>y. z_Name y = z_Name z \<or> z_Domain y = z_Name z) zones = Some z'"
    using assms(1) by (cases "find (\<lambda>y. z_Name y = z_Name z \<or> z_Domain y = z_Name z) zones") (auto simp: find_None_iff)
  with assms show ?thesis by (auto simp: selectedZones_def selectedStoredBundles_def Let_def filter_empty_conv)
qed

section \<open>Facts about dispatch\<close>

fun read_call :: "api_call \<Rightarrow> bool" where
  "read_call (Call (ReadRq _)) = True"
| "read_call (Call _) = False"
| "read_call (Act _) = False"
| "read_call _ = True"

lemma read_call_world: "read_call c \<Longrightarrow> snd (serve_call env io rq c w) = w"
proof (cases c)
  case (Call r)
  assume "read_call c"
  with Call obtain r' where "c = Call (ReadRq r')" by (cases r) auto
  then show ?thesis by simp
qed (simp_all add: Let_def)

lemma get_routes_read: "(pat, ps, h) \<in> set api_routes \<Longrightarrow> pat = ''GET'' \<Longrightarrow> read_call (h js rq vs)"
  by (auto simp: api_routes_def)

lemma api_methods: "(pat, ps, h) \<in> set api_routes \<Longrightarrow> pat \<in> {''GET'', ''POST'', ''PUT'', ''DELETE''}"
  by (auto simp: api_routes_def)

lemma single_segment_routes:
  "mux_find api_routes m [''health''] = (if method_ok ''GET'' m then Some (read_only ReadHealth, []) else None)"
  by (simp add: api_routes_def)

lemma unescape_path_keeps_slash: "unescape_path r = Some d \<Longrightarrow> CHR ''/'' \<in> set r \<Longrightarrow> CHR ''/'' \<in> set d"
proof (induction r arbitrary: d rule: length_induct)
  case (1 s)
  show ?case
  proof (cases s)
    case (Cons c r)
    have nh: "\<not> is_hex (CHR ''/'')" by (simp add: is_hex_def is_digit_def less_eq_char_def)
    show ?thesis
    proof (cases "c = CHR ''%''")
      case True
      with 1(2) Cons obtain x y q b where q: "r = x # y # q" "is_hex x" "is_hex y" "unescape_path q = Some b" "d = unpct x y # b"
        by (auto simp: unescape_path_def split: list.splits if_splits)
      with 1(3) Cons True nh have "CHR ''/'' \<in> set q" by auto
      moreover have "length q < length s" using q(1) Cons by simp
      ultimately show ?thesis using 1(1) q(4,5) by auto
    next
      case False
      with 1(2) Cons obtain b where "unescape_path r = Some b" "d = c # b" by (auto simp: unescape_path_def)
      with 1(1,3) Cons show ?thesis by auto
    qed
  qed (use 1 in simp)
qed

text \<open>A request target whose path is \<open>/health\<close> reaches the health check, however it is escaped.\<close>

lemma health_path:
  assumes "setPath raw u0 = Inr u" and "HasPrefix raw ''/''" and "u_Path u = ''/health''"
  shows "cleanPath (EscapedPath u) = EscapedPath u" and "path_segments (EscapedPath u) = [''health'']"
proof -
  obtain r where r: "raw = CHR ''/'' # r" using assms(2) by (cases raw) (auto simp: HasPrefix_def)
  have plain: "escape escape_path_char ''/health'' = ''/health''"
    by (simp add: escape_def escape_path_char_def unreserved_def is_alnum_def is_lower_def less_eq_char_def)
  have "unescape_path r = Some ''health''" using assms(1,3) r by (auto simp: setPath_def split: option.splits)
  moreover have "unescape_path ''health'' = Some ''health''" by (simp add: unescape_path_def)
  moreover have "EscapedPath u = CHR ''/'' # r \<or> EscapedPath u = CHR ''/'' # ''health''"
    using assms(1,3) r by (auto simp: setPath_def EscapedPath_def plain split: option.splits if_splits)
  ultimately obtain e where e: "EscapedPath u = CHR ''/'' # e" "unescape_path e = Some ''health''" by blast
  have ns: "CHR ''/'' \<notin> set e" using unescape_path_keeps_slash [OF e(2)] by auto
  have "e \<noteq> []" "e \<noteq> ''.''" "e \<noteq> ''..''" using e(2) by (auto simp: unescape_path_def)
  with ns have c: "\<forall>s \<in> set [e]. clean_comp s \<and> s \<noteq> ''..''" by (simp add: clean_comp_def)
  from cleanPath_rooted [OF c] show "cleanPath (EscapedPath u) = EscapedPath u" by (simp add: e(1))
  show "path_segments (EscapedPath u) = [''health'']"
    using e(2) ns \<open>e \<noteq> []\<close> by (simp add: path_segments_def e(1) Split_single segment_value_def)
qed

section \<open>Properties\<close>



text \<open>
  Claim C16. Without the credentials a request gets nothing but the health check: when authentication
  is on, every request target of any method whose credentials are missing or wrong is refused and
  changes nothing, except that the path \<open>/health\<close>, in every spelling, answers with the health check or,
  for methods that it does not have, with the static file server.
\<close>

theorem unauthenticated_requests:
  assumes "AuthConfig_Enabled (hx_auth env)" and "rq_BasicAuth rq \<noteq> Some (au_Username (hx_auth env), au_Password (hx_auth env))"
    and "setPath raw u0 = Inr (rq_URL rq)" and "HasPrefix raw ''/''"
  shows "http_serve env io rq w =
     (if u_Path (rq_URL rq) \<noteq> ''/health'' then (Unauthorized, w)
      else if method_ok ''GET'' (rq_Method rq) then (Answer (200, StatusBody ''ok''), w)
      else (webui_Handler (hx_static env) ''/health'', w))"
proof (cases "u_Path (rq_URL rq) = ''/health''")
  case True
  note h = health_path [OF assms(3,4) True]
  have "api_Handler env io rq w = (if method_ok ''GET'' (rq_Method rq) then (Answer (200, StatusBody ''ok''), w)
      else (webui_Handler (hx_static env) ''/health'', w))"
    by (simp add: api_Handler_def mux_dispatch_def h single_segment_routes True)
  with True assms(1) show ?thesis by (simp add: http_serve_def withBasicAuth_def)
next
  case False
  with assms(1,2) show ?thesis by (auto simp: http_serve_def withBasicAuth_def split: option.splits)
qed

text \<open>
  Claim C17. Reading is safe: no request with the method \<open>GET\<close> or \<open>HEAD\<close>, and none with a method that the
  API does not use, changes the state, a file, the certificates served or a DNS record.
\<close>

theorem safe_methods_change_nothing:
  assumes "rq_Method rq \<notin> {''POST'', ''PUT'', ''DELETE''}"
  shows "snd (http_serve env io rq w) = w"
proof -
  have "read_call (h js rq vs)" if f: "mux_find api_routes (rq_Method rq) ss = Some (h, vs)" for h js vs ss
  proof -
    from mux_find_Some [OF f] obtain pat ps where r: "(pat, ps, h) \<in> set api_routes" "method_ok pat (rq_Method rq)" by blast
    with api_methods [OF r(1)] assms have "pat = ''GET''" by (auto simp: method_ok_def)
    from get_routes_read [OF r(1) this] show ?thesis .
  qed
  then have "snd (api_Handler env io rq w) = w"
    by (auto simp: api_Handler_def mux_dispatch_def read_call_world split: mux_answer.splits option.splits if_splits)
  then show ?thesis by (auto simp: http_serve_def withBasicAuth_def split: option.splits)
qed


section \<open>A concrete server\<close>

definition demo_http_env :: "(config_yaml, nat) http_env" where
  "demo_http_env = \<lparr>hx_api = demo_api_env, hx_auth = \<lparr>au_Username = ''u'', au_Password = ''p''\<rparr>,
     hx_json = \<lparr>js_app = (\<lambda>_. Inl ErrNotExist), js_zone = (\<lambda>_. Inl ErrNotExist), js_bundle = (\<lambda>_. Inl ErrNotExist),
       js_provider = (\<lambda>_. Inl ErrNotExist), js_agent = (\<lambda>_. Inl ErrNotExist), js_registration = (\<lambda>_. Inl ErrNotExist),
       js_target = (\<lambda>_. Inl ErrNotExist), js_runtime = (\<lambda>_. Inl ErrNotExist)\<rparr>,
     hx_cert = demo_cert_env, hx_times = (1, 2), hx_resources = Inl ErrNotExist, hx_scan = (\<lambda>_. Inl ErrNotExist),
     hx_is_file = (\<lambda>_. False), hx_executable = Inl ErrNotExist, hx_absolute = Inl ErrNotExist, hx_static = (\<lambda>_. (404, []))\<rparr>"

definition demo_http_world :: "(config_yaml, nat) http_world" where
  "demo_http_world = \<lparr>hw_api = demo_api_world, hw_certs = (\<lambda>_. None), hw_tls = NewTlsStore, hw_updates = []\<rparr>"

definition demo_http_request :: "string \<Rightarrow> go_url \<Rightarrow> http_request" where
  "demo_http_request m u = \<lparr>rq_Method = m, rq_URL = u, rq_Host = ''h'', rq_TLS = False, rq_ForwardedProto = [], rq_ForwardedHost = [],
     rq_RemoteAddr = ''r'', rq_BasicAuth = None, rq_Body = []\<rparr>"

theorem unauthenticated_requests_witness:
  "http_serve demo_http_env no_faults (demo_http_request ''DELETE'' (empty_url\<lparr>u_Path := ''/api/v1/apps/x''\<rparr>)) demo_http_world
      = (Unauthorized, demo_http_world)"
proof -
  let ?rq = "demo_http_request ''DELETE'' (empty_url\<lparr>u_Path := ''/api/v1/apps/x''\<rparr>)"
  have "setPath ''/api/v1/apps/x'' empty_url = Inr (rq_URL ?rq)" by (simp add: demo_http_request_def) code_simp
  moreover have "AuthConfig_Enabled (hx_auth demo_http_env)" by (simp add: demo_http_env_def AuthConfig_Enabled_def)
  moreover have "rq_BasicAuth ?rq \<noteq> Some (au_Username (hx_auth demo_http_env), au_Password (hx_auth demo_http_env))"
    by (simp add: demo_http_request_def)
  ultimately show ?thesis
    using unauthenticated_requests [of demo_http_env ?rq "''/api/v1/apps/x''" empty_url no_faults demo_http_world]
    by (simp add: HasPrefix_def demo_http_request_def)
qed

theorem safe_methods_change_nothing_witness:
  "snd (http_serve demo_http_env no_faults (demo_http_request ''GET'' (empty_url\<lparr>u_Path := ''/api/v1/apps''\<rparr>)) demo_http_world)
     = demo_http_world"
  by (rule safe_methods_change_nothing) (simp add: demo_http_request_def)


end
