(* ===== verification/Spec2Isabelle.thy ===== *)
theory Spec2Isabelle
  imports Domux_Upsert Domux_Account Domux_Refresh Domux_Validate Domux_Http
begin

text \<open>
  A verification library for domux, a server that discovers containers, serves them under the
  names of managed zones, keeps the DNS records of these zones up to date and obtains and deploys
  their certificates.

  \<^bold>\<open>The program.\<close> The server (\<open>cmd/domux\<close>) loads a YAML configuration, seeds an in-memory store
  with it and connects to container runtimes, locally and through agents on other hosts
  (\<open>cmd/domux-agent\<close>). A refresh turns containers and configured apps into routes; the HTTP proxy
  looks a request up in the table of routes. Jobs refresh routes and agents, synchronise dynamic
  DNS and renew certificates; the TLS store chooses the certificate of a connection. The
  management API changes the configuration file and reloads the server.

  \<^bold>\<open>Theories and sources\<close> (paths below \<open>src/\<close>; a definition has the name of the function, type or
  method it translates where Isabelle allows it):
  \<^item> \<open>Domux_Prelude\<close>: Go errors as values, \<open>errors.Is\<close>, \<open>errors.As\<close>, \<open>errors.Join\<close>, Go maps as
    association lists, \<open>sort.Slice\<close>. \<open>Go_Strings\<close>, \<open>Go_Path\<close>, \<open>Go_Url\<close>, \<open>Go_Files\<close>, \<open>Go_Mux\<close>: the parts of the
    standard library the program uses, on byte strings, lexical paths, URLs, a file system whose
    calls may fail, and the patterns of the request multiplexer.
  \<^item> \<open>Domux_Types\<close>, \<open>Domux_Core\<close>: \<open>internal/core/types.go\<close>.
  \<^item> \<open>Domux_Providers\<close>: \<open>internal/ddns/provider\<close>, the registry, the validation and the constructors.
    \<open>Domux_Upsert\<close>: the \<open>Upsert\<close> methods of the providers and the request signer.
  \<^item> \<open>Domux_Config\<close>, \<open>Domux_Manager\<close>: \<open>internal/platform/config\<close>, the document, its validation, and
    the manager that updates the file.
  \<^item> \<open>Domux_Store\<close>: \<open>internal/platform/store/store.go\<close>.
  \<^item> \<open>Domux_Discovery\<close>: \<open>internal/discovery/docker\<close>. \<open>Domux_Agent\<close>: \<open>internal/agent\<close> (client, pool,
    server) and \<open>internal/discovery/remote\<close>.
  \<^item> \<open>Domux_Ddns\<close>: \<open>internal/ddns/ipdetect\<close>, \<open>internal/dns/authzone\<close>, \<open>internal/ddns/service\<close>.
  \<^item> \<open>Domux_Certs\<close>: \<open>internal/certs\<close> (ACME manager, file store, deployers) and \<open>internal/proxy/tls\<close>.
    \<open>Domux_Account\<close>: the account key and the request to the ACME client in \<open>internal/certs/acme\<close>.
  \<^item> \<open>Domux_Proxy\<close>: \<open>internal/proxy/http/server.go\<close>. \<open>Domux_Scheduler\<close>:
    \<open>internal/platform/job/scheduler.go\<close>.
  \<^item> \<open>Domux_Routes\<close>, \<open>Domux_Server\<close>, \<open>Domux_Reload\<close>: \<open>cmd/domux/main.go\<close>, first routes and
    applications, then the jobs, the seeding of the store and the runtime manager, then start and
    reload, where the components become one state. \<open>Domux_Refresh\<close>: route refreshes as threads that
    share the store, the route table and a mutex. \<open>Domux_Run\<close>: the watchers, the HTTP servers with their
    error channel, the command line and the end of the process.
  \<^item> \<open>Domux_Api\<close>, \<open>Domux_Admin\<close>: \<open>internal/platform/api/server.go\<close>, the handlers and their properties.
    \<open>Domux_Install\<close>: the script that installs an agent. \<open>Domux_Validate\<close>: the checks of a single zone or
    target. \<open>Domux_Http\<close>: the table of routes, authentication, handlers, manual actions and \<open>web/ui.go\<close> as the
    one handler that the API server runs.
  \<^item> \<open>Domux_System\<close>: \<open>internal/system/resources.go\<close>. \<open>Domux_Node\<close>: \<open>cmd/domux-agent/main.go\<close> and the routing of
    \<open>internal/agent/server\<close>, with the registration of an agent at the management API.

  \<^bold>\<open>State and effects.\<close> A structure is a record, a function that mutates one returns it updated, and
  an error is a value of a sum or option type, so every early return is a branch. Locks make the
  operations of a component single steps; where goroutines interleave (the scheduler, the watchers,
  the refreshes, the HTTP servers, the runtime manager) the steps form a relation and the theorems
  hold in every reachable state. The file system, the network, the clock, the docker client, the yaml and
  json packages, the ACME client and the vendors' APIs are parameters. What the code relies on is a
  named hypothesis: \<open>codec_ok\<close> (yaml decodes the fields it encoded) and \<open>plain_env\<close>, \<open>plain_faults\<close>
  (errors of foreign packages are not errors of the API), \<open>key_codec_ok\<close> (a private key is parsed back from
  its encoding), and a bound on the number of records a DNS vendor reports. Every hypothesis is discharged at a
  concrete instance in a witness.

  \<^bold>\<open>Interfaces.\<close> The laws that clients use are locales, interpreted on the model: the tables of the
  store (\<open>Domux_Store\<close>), the contract of a discoverer (\<open>route_source\<close> in \<open>Domux_Routes\<close>), that of an
  updater (\<open>dns_updater\<close> in \<open>Domux_Upsert\<close>), that of a critical section (\<open>critical_section\<close> in
  \<open>Domux_Refresh\<close>, interpreted for agreement and for serialisability) and those in the component theories.

  \<^bold>\<open>What the theorems show.\<close>
  \<^item> Configuration: validation accepts exactly the well-formed configurations and is idempotent; a
    document is read back as it was written; an update is atomic under every I/O fault; no history
    of updates, interrupted writes or API requests makes the file unloadable.
  \<^item> Store: after any history every listing has unique names, and each operation acts on a listing
    as on a set.
  \<^item> Discovery and routes: every container that asks for a route gives one route or one error; the
    proxy only serves hosts inside the zones; custom apps win; the list of applications accounts
    for every container; a relevant event leads to a refresh of its source; refreshes under the mutex
    are serialisable and keep the store and the proxy in agreement, the two that skip it do not.
  \<^item> DDNS: only records of the zone itself are updated, a second synchronisation asks for nothing,
    the authoritative zone is the closest parent that answers; the requests of every provider read, then
    delete at most once, then set the record at most once, success means that the vendor has it, and they
    are bounded in number; the AliDNS signature is the documented one when no parameter has a space.
  \<^item> Certificates: an issued certificate is kept until it is due, a successful job serves every
    requested name, challenges stay inside the managed domain, deployment writes a pair completely,
    the TLS store picks exact, then closest wildcard, then default; the account key is created once and
    kept.
  \<^item> Scheduler and server: a job never runs twice at once and every run ends; a reload is all or
    nothing and equal to a restart; replaced discoverers are closed exactly once; the process starts on
    every file that loads, reports the first failure of a server and leaves nothing running.
  \<^item> API: an error changes nothing in the server, a success acts on the apps as on a map, and a
    change whose reload fails stays on disk. Every endpoint can be reached with every name that fits in a
    path, reading changes nothing, without credentials there is only the health check, a manual action is
    always recorded and leaves the configuration alone, the checks of single parts agree with that of the
    whole configuration, and the install script hands on the origin unless the shell expands it.
  \<^item> Agent: it registers itself when one attempt gets through and the server lets it in, and never when
    authentication is on and its URL has no credentials; the resource percentages are accurate.

  \<^bold>\<open>Bounds.\<close> No definition uses fuel: loops recurse over their lists or are step relations, and the paging
  loop of the Spaceship provider is a partial function that is proved to return. Counters of the kernel
  are 64-bit words; a \<open>float64\<close> computation is a rational rounded to 53 bits after every operation.
  Go's \<open>int\<close> is unbounded here where the program only compares and stores it (ports, TTLs,
  durations and times in nanoseconds, within 64 bits); \<open>strconv.Atoi\<close> rejects what does not fit.
  Upper and lower case are those of ASCII.

  \<^bold>\<open>Not modelled.\<close> What lies behind a parameter: the vendors, the ACME server and the lego client, HMAC
  and the encodings of keys and certificates, the reverse proxies and the file
  server of the standard library, the systemd unit and the shell commands that the install script runs.
  Signals and listening sockets are events of the model only. Accessors that return a field (for example
  \<open>Pool\<close>, \<open>BaseURL\<close>, \<open>RouteOrigin\<close>) are the fields of the records, and most of the logging is left out. Host
  names and escapes beyond ASCII are bytes.
\<close>

end
